(* ===== verification/Prelude.thy ===== *)
theory Prelude
  imports "HOL-Library.Word" "HOL-Library.Signed_Division" "HOL-Library.Monad_Syntax"
begin

unbundle bit_operations_syntax

section \<open>Shared types, collections and word lemmas\<close>

text \<open>
  The machine integers of the C sources and the lemmas on them that every component uses.
  \<open>u8\<close>, \<open>u32\<close> and \<open>u64\<close> are the fixed-width C types; a signed C type is the same word
  read with \<^const>\<open>sint\<close>. Abnormal ends (a failed \<open>assert\<close>, \<open>g_assert\<close> or
  \<open>tcg_debug_assert\<close>, \<open>g_assert_not_reached\<close>, a NULL dereference, a trap) are \<open>None\<close> of an
  option result throughout the development; \<open>do\<close> notation is that of the option monad.
\<close>

type_synonym u8 = "8 word"
type_synonym u16 = "16 word"
type_synonym u32 = "32 word"
type_synonym u64 = "64 word"

named_theorems rep_intros \<open>how an expression built by the backend represents a word\<close>
named_theorems vcg \<open>rules that compute what emitted code does\<close>
named_theorems opsem \<open>what one opcode does to the machine\<close>

subsection \<open>Assertions\<close>

definition c_assert :: "bool \<Rightarrow> unit option" where
  "c_assert b = (if b then Some () else None)"

lemma c_assert_simps [simp]:
  "c_assert True = Some ()" "c_assert False = None"
  "(c_assert b = Some u) = b" "(c_assert b = None) = (\<not> b)"
  by (simp_all add: c_assert_def)

lemma c_assert_bind_eq [simp]: "b \<Longrightarrow> Option.bind (c_assert b) f = f ()"
  by simp

subsection \<open>C shifts\<close>

text \<open>A shift by the width or more is undefined in C; it is an abnormal end here.\<close>

definition c_shl :: "'a::len word \<Rightarrow> u64 \<Rightarrow> 'a word option" where
  "c_shl x n = (if unat n < LENGTH('a) then Some (push_bit (unat n) x) else None)"

definition c_shr :: "'a::len word \<Rightarrow> u64 \<Rightarrow> 'a word option" where
  "c_shr x n = (if unat n < LENGTH('a) then Some (drop_bit (unat n) x) else None)"

lemma c_shift_simps [simp]:
  "unat n < LENGTH('a) \<Longrightarrow> c_shl (x :: 'a::len word) n = Some (push_bit (unat n) x)"
  "unat n < LENGTH('a) \<Longrightarrow> c_shr (x :: 'a::len word) n = Some (drop_bit (unat n) x)"
  by (simp_all add: c_shl_def c_shr_def)

subsection \<open>Words and the integers they stand for\<close>

lemma uint_of_int_range:
  "0 \<le> k \<Longrightarrow> k < 2 ^ LENGTH('a::len) \<Longrightarrow> uint (word_of_int k :: 'a word) = k"
  by (simp add: uint_word_of_int take_bit_int_eq_self)

lemma uint_not: "uint (NOT x) = take_bit LENGTH('a) (NOT (uint (x :: 'a::len word)))"
  by (simp add: uint_word_of_int unsigned_not_eq)

lemma uint_push_bit:
  "uint (push_bit n x) = take_bit LENGTH('a) (push_bit n (uint (x :: 'a::len word)))"
  by (rule unsigned_push_bit_eq)

lemma uint_drop_bit: "uint (drop_bit n x) = drop_bit n (uint (x :: 'a::len word))"
  by (simp add: unsigned_drop_bit_eq take_bit_int_eq_self)

lemma uint_signed_drop_bit:
  "uint (signed_drop_bit n x) = take_bit LENGTH('a) (drop_bit n (sint (x :: 'a::len word)))"
  by transfer simp

lemma uint_scast: "uint (scast (x :: 'a::len word) :: 'b::len word) = take_bit LENGTH('b) (sint x)"
  by transfer simp

lemma sint_if:
  "sint (x :: 'a::len word) = (if 2 ^ (LENGTH('a) - 1) \<le> uint x then uint x - 2 ^ LENGTH('a) else uint x)"
proof -
  have "sint x = uint x - 2 ^ LENGTH('a) * of_bool (bit (uint x) (LENGTH('a) - 1))"
    by (simp add: sint_uint signed_take_bit_eq_take_bit_minus take_bit_int_eq_self)
  moreover have "- (2 ^ (LENGTH('a) - 1)) \<le> sint x" "sint x < 2 ^ (LENGTH('a) - 1)"
    using sint_greater_eq [of x] sint_less [of x] by simp_all
  moreover have "(2::int) ^ LENGTH('a) = 2 * 2 ^ (LENGTH('a) - 1)"
    by (metis len_gt_0 power_Suc Suc_diff_1)
  ultimately show ?thesis
    using uint_ge_0 [of x] by (cases "bit (uint x) (LENGTH('a) - 1)") auto
qed

lemma sint_eq_iff: "sint x = sint y \<longleftrightarrow> x = (y :: 'a::len word)"
  by (auto intro: signed_word_eqI)

lemma lex_less:
  assumes "0 \<le> b" "b < k" "0 \<le> d" "d < (k::int)"
  shows "a * k + b < c * k + d \<longleftrightarrow> a < c \<or> a = c \<and> b < d"
proof (cases a c rule: linorder_cases)
  case less
  then have "(a + 1) * k \<le> c * k" using assms by (intro mult_right_mono) auto
  with less assms show ?thesis by (simp add: algebra_simps)
next
  case greater
  then have "(c + 1) * k \<le> a * k" using assms by (intro mult_right_mono) auto
  with greater assms show ?thesis by (simp add: algebra_simps)
qed simp

lemma ucast_up_down:
  "LENGTH('a) \<le> LENGTH('b) \<Longrightarrow> ucast (ucast (x :: 'a::len word) :: 'b::len word) = x"
  by (simp add: word_uint_eq_iff unsigned_ucast_eq take_bit_word_eq_self)

lemma uint_signed_take_bit:
  "uint (signed_take_bit m (x :: 'a::len word)) = take_bit LENGTH('a) (signed_take_bit m (uint x))"
proof (rule bit_eqI)
  fix n
  show "bit (uint (signed_take_bit m x)) n = bit (take_bit LENGTH('a) (signed_take_bit m (uint x))) n"
    by (auto simp: bit_simps dest: bit_imp_le_length)
qed

lemma ucast_of_nat_down:
  "LENGTH('b) \<le> LENGTH('a) \<Longrightarrow> ucast (of_nat m :: 'a::len word) = (of_nat m :: 'b::len word)"
  by (intro bit_word_eqI) (simp add: bit_simps)

lemma unat_ucast_up:
  "LENGTH('a) \<le> LENGTH('b) \<Longrightarrow> unat (ucast (x :: 'a::len word) :: 'b::len word) = unat x"
  by (simp add: unsigned_ucast_eq take_bit_nat_eq_self less_le_trans [OF unsigned_less])

lemma word_of_int_take_bit: "word_of_int (take_bit n k) = (take_bit n (word_of_int k) :: 'a::len word)"
  by (intro bit_word_eqI) (simp add: bit_simps)

end
