(* ===== verification/Backend.thy ===== *)
theory Backend
  imports Prelude
begin

unbundle bit_operations_syntax

section \<open>The interface to the symbolic backend\<close>

text \<open>
  SymQEMU delegates every symbolic computation to the SymCC runtime, a git submodule declared by
  \<open>RuntimeCommon.h\<close>. Its functions are parameters here: the record \<open>backend\<close> holds one field
  (or one family of fields) per function the sources call, and the locale \<open>sym_backend\<close> states
  what the callers rely on, the SMT-LIB bit-vector meaning of every constructor. An expression is
  a value of the type variable \<open>'e\<close> (the sources' \<open>void *\<close>); NULL is \<open>None\<close>. Sizes are passed
  as the 64-bit integers the callers compute.
\<close>

datatype symcc_binop =
    build_add | build_sub | build_mul
  | build_signed_div | build_unsigned_div | build_signed_rem | build_unsigned_rem
  | build_and | build_or | build_xor
  | build_shift_left | build_logical_shift_right | build_arithmetic_shift_right
  | build_sadd_sat | build_ssub_sat | build_uadd_sat | build_usub_sat

datatype symcc_cmp =
    build_equal | build_not_equal
  | build_signed_less_than | build_signed_greater_equal
  | build_signed_greater_than | build_signed_less_equal
  | build_unsigned_less_than | build_unsigned_greater_equal
  | build_unsigned_greater_than | build_unsigned_less_equal

record ('e, 'm) backend =
  sym_build_integer :: "u64 \<Rightarrow> u64 \<Rightarrow> 'e"
  sym_build_integer_from_buffer :: "u8 list \<Rightarrow> u64 \<Rightarrow> 'e"
  sym_bits_helper :: "'e \<Rightarrow> u64"
  sym_build :: "symcc_binop \<Rightarrow> 'e \<Rightarrow> 'e \<Rightarrow> 'e"
  sym_build_cmp :: "symcc_cmp \<Rightarrow> 'e \<Rightarrow> 'e \<Rightarrow> 'e"
  sym_build_neg :: "'e \<Rightarrow> 'e"
  sym_build_not :: "'e \<Rightarrow> 'e"
  sym_build_bool_to_bit :: "'e \<Rightarrow> 'e"
  sym_build_sext :: "'e \<Rightarrow> u64 \<Rightarrow> 'e"
  sym_build_zext :: "'e \<Rightarrow> u64 \<Rightarrow> 'e"
  sym_build_trunc :: "'e \<Rightarrow> u64 \<Rightarrow> 'e"
  sym_extract_helper :: "'e \<Rightarrow> u64 \<Rightarrow> u64 \<Rightarrow> 'e"
  sym_concat_helper :: "'e \<Rightarrow> 'e \<Rightarrow> 'e"
  sym_read_memory :: "'m \<Rightarrow> (u64 \<Rightarrow> u8) \<Rightarrow> u64 \<Rightarrow> u64 \<Rightarrow> bool \<Rightarrow> 'e option"
  sym_write_memory :: "'m \<Rightarrow> u64 \<Rightarrow> u64 \<Rightarrow> 'e option \<Rightarrow> bool \<Rightarrow> 'm"

definition sym_width :: "('e, 'm) backend \<Rightarrow> 'e \<Rightarrow> nat" where
  "sym_width B e = unat (sym_bits_helper B e)"

subsection \<open>Bit-vector operations on integers\<close>

text \<open>
  A bit vector of \<open>n\<close> bits is an integer between 0 and \<open>2 ^ n\<close>. The width is a number, not a type,
  because the vector helpers and the field helpers compute widths at run time.
\<close>

definition clamp :: "int \<Rightarrow> int \<Rightarrow> int \<Rightarrow> int" where
  "clamp lo hi x = max lo (min hi x)"

abbreviation bv_signed :: "nat \<Rightarrow> int \<Rightarrow> int" where
  "bv_signed n a \<equiv> signed_take_bit (n - 1) a"

fun bv_binop :: "nat \<Rightarrow> symcc_binop \<Rightarrow> int \<Rightarrow> int \<Rightarrow> int" where
  "bv_binop n build_add a b = take_bit n (a + b)"
| "bv_binop n build_sub a b = take_bit n (a - b)"
| "bv_binop n build_mul a b = take_bit n (a * b)"
| "bv_binop n build_signed_div a b = take_bit n (bv_signed n a sdiv bv_signed n b)"
| "bv_binop n build_unsigned_div a b = a div b"
| "bv_binop n build_signed_rem a b = take_bit n (bv_signed n a smod bv_signed n b)"
| "bv_binop n build_unsigned_rem a b = a mod b"
| "bv_binop n build_and a b = a AND b"
| "bv_binop n build_or a b = a OR b"
| "bv_binop n build_xor a b = a XOR b"
| "bv_binop n build_shift_left a b = take_bit n (push_bit (nat b) a)"
| "bv_binop n build_logical_shift_right a b = drop_bit (nat b) a"
| "bv_binop n build_arithmetic_shift_right a b = take_bit n (drop_bit (nat b) (bv_signed n a))"
| "bv_binop n build_sadd_sat a b =
     take_bit n (clamp (- (2 ^ (n - 1))) (2 ^ (n - 1) - 1) (bv_signed n a + bv_signed n b))"
| "bv_binop n build_ssub_sat a b =
     take_bit n (clamp (- (2 ^ (n - 1))) (2 ^ (n - 1) - 1) (bv_signed n a - bv_signed n b))"
| "bv_binop n build_uadd_sat a b = min (2 ^ n - 1) (a + b)"
| "bv_binop n build_usub_sat a b = max 0 (a - b)"

fun bv_defined :: "symcc_binop \<Rightarrow> int \<Rightarrow> bool" where
  "bv_defined build_signed_div b = (b \<noteq> 0)"
| "bv_defined build_unsigned_div b = (b \<noteq> 0)"
| "bv_defined build_signed_rem b = (b \<noteq> 0)"
| "bv_defined build_unsigned_rem b = (b \<noteq> 0)"
| "bv_defined _ b = True"

fun bv_cmp :: "nat \<Rightarrow> symcc_cmp \<Rightarrow> int \<Rightarrow> int \<Rightarrow> bool" where
  "bv_cmp n build_equal a b = (a = b)"
| "bv_cmp n build_not_equal a b = (a \<noteq> b)"
| "bv_cmp n build_signed_less_than a b = (bv_signed n a < bv_signed n b)"
| "bv_cmp n build_signed_greater_equal a b = (bv_signed n a \<ge> bv_signed n b)"
| "bv_cmp n build_signed_greater_than a b = (bv_signed n a > bv_signed n b)"
| "bv_cmp n build_signed_less_equal a b = (bv_signed n a \<le> bv_signed n b)"
| "bv_cmp n build_unsigned_less_than a b = (a < b)"
| "bv_cmp n build_unsigned_greater_equal a b = (a \<ge> b)"
| "bv_cmp n build_unsigned_greater_than a b = (a > b)"
| "bv_cmp n build_unsigned_less_equal a b = (a \<le> b)"

text \<open>Little-endian value of a byte string.\<close>

primrec bytes_val :: "u8 list \<Rightarrow> int" where
  "bytes_val [] = 0"
| "bytes_val (b # bs) = uint b + 256 * bytes_val bs"

subsection \<open>The contract\<close>

locale sym_backend =
  fixes B :: "('e, 'm) backend"
    and ev :: "'i \<Rightarrow> 'e \<Rightarrow> int"
    and evb :: "'i \<Rightarrow> 'e \<Rightarrow> bool"
  assumes ev_range: "0 \<le> ev \<sigma> e \<and> ev \<sigma> e < 2 ^ sym_width B e"
    and integer_width: "0 < unat n \<Longrightarrow> unat n \<le> 64 \<Longrightarrow> sym_width B (sym_build_integer B v n) = unat n"
    and integer_ev: "0 < unat n \<Longrightarrow> unat n \<le> 64 \<Longrightarrow>
      ev \<sigma> (sym_build_integer B v n) = take_bit (unat n) (uint v)"
    and buffer_width: "unat n = 8 * length bs \<Longrightarrow>
      sym_width B (sym_build_integer_from_buffer B bs n) = unat n"
    and buffer_ev: "unat n = 8 * length bs \<Longrightarrow>
      ev \<sigma> (sym_build_integer_from_buffer B bs n) = bytes_val bs"
    and binop_width: "sym_width B a = sym_width B b \<Longrightarrow>
      sym_width B (sym_build B op a b) = sym_width B a"
    and binop_ev: "sym_width B a = sym_width B b \<Longrightarrow> bv_defined op (ev \<sigma> b) \<Longrightarrow>
      ev \<sigma> (sym_build B op a b) = bv_binop (sym_width B a) op (ev \<sigma> a) (ev \<sigma> b)"
    and cmp_evb: "sym_width B a = sym_width B b \<Longrightarrow>
      evb \<sigma> (sym_build_cmp B c a b) = bv_cmp (sym_width B a) c (ev \<sigma> a) (ev \<sigma> b)"
    and neg_width: "sym_width B (sym_build_neg B a) = sym_width B a"
    and neg_ev: "ev \<sigma> (sym_build_neg B a) = take_bit (sym_width B a) (- ev \<sigma> a)"
    and not_width: "sym_width B (sym_build_not B a) = sym_width B a"
    and not_ev: "ev \<sigma> (sym_build_not B a) = take_bit (sym_width B a) (NOT (ev \<sigma> a))"
    and bit_width: "sym_width B (sym_build_bool_to_bit B a) = 1"
    and bit_ev: "ev \<sigma> (sym_build_bool_to_bit B a) = of_bool (evb \<sigma> a)"
    and zext_width: "unat k < 256 \<Longrightarrow> sym_width B a + unat k < 2 ^ 32 \<Longrightarrow>
      sym_width B (sym_build_zext B a k) = sym_width B a + unat k"
    and zext_ev: "unat k < 256 \<Longrightarrow> sym_width B a + unat k < 2 ^ 32 \<Longrightarrow>
      ev \<sigma> (sym_build_zext B a k) = ev \<sigma> a"
    and sext_width: "unat k < 256 \<Longrightarrow> sym_width B a + unat k < 2 ^ 32 \<Longrightarrow>
      sym_width B (sym_build_sext B a k) = sym_width B a + unat k"
    and sext_ev: "unat k < 256 \<Longrightarrow> sym_width B a + unat k < 2 ^ 32 \<Longrightarrow>
      ev \<sigma> (sym_build_sext B a k) = take_bit (sym_width B a + unat k) (bv_signed (sym_width B a) (ev \<sigma> a))"
    and trunc_width: "0 < unat k \<Longrightarrow> unat k \<le> sym_width B a \<Longrightarrow>
      sym_width B (sym_build_trunc B a k) = unat k"
    and trunc_ev: "0 < unat k \<Longrightarrow> unat k \<le> sym_width B a \<Longrightarrow>
      ev \<sigma> (sym_build_trunc B a k) = take_bit (unat k) (ev \<sigma> a)"
    and extract_width: "unat lo \<le> unat hi \<Longrightarrow> unat hi < sym_width B a \<Longrightarrow>
      sym_width B (sym_extract_helper B a hi lo) = unat hi - unat lo + 1"
    and extract_ev: "unat lo \<le> unat hi \<Longrightarrow> unat hi < sym_width B a \<Longrightarrow>
      ev \<sigma> (sym_extract_helper B a hi lo) = take_bit (unat hi - unat lo + 1) (drop_bit (unat lo) (ev \<sigma> a))"
    and concat_width: "sym_width B a + sym_width B b < 2 ^ 32 \<Longrightarrow>
      sym_width B (sym_concat_helper B a b) = sym_width B a + sym_width B b"
    and concat_ev: "sym_width B a + sym_width B b < 2 ^ 32 \<Longrightarrow>
      ev \<sigma> (sym_concat_helper B a b) = push_bit (sym_width B b) (ev \<sigma> a) + ev \<sigma> b"

text \<open>
  The backend also keeps the shadow memory: which bytes of host memory hold symbolic data
  (\<open>msym\<close>) and what they evaluate to (\<open>mev\<close>). Reading a range with a symbolic byte gives an
  expression over all its bytes, the concrete ones taken from memory; a range with none gives NULL.
\<close>

definition shadow_byte ::
  "('m \<Rightarrow> u64 \<Rightarrow> bool) \<Rightarrow> ('m \<Rightarrow> 'i \<Rightarrow> u64 \<Rightarrow> u8) \<Rightarrow> 'm \<Rightarrow> (u64 \<Rightarrow> u8) \<Rightarrow> 'i \<Rightarrow> u64 \<Rightarrow> u8" where
  "shadow_byte msym mev sm mem \<sigma> a = (if msym sm a then mev sm \<sigma> a else mem a)"

definition in_range :: "u64 \<Rightarrow> u64 \<Rightarrow> u64 \<Rightarrow> bool" where
  "in_range addr len a \<longleftrightarrow> unat (a - addr) < unat len"

locale sym_memory = sym_backend B ev evb
  for B :: "('e, 'm) backend" and ev :: "'i \<Rightarrow> 'e \<Rightarrow> int" and evb :: "'i \<Rightarrow> 'e \<Rightarrow> bool" +
  fixes msym :: "'m \<Rightarrow> u64 \<Rightarrow> bool" and mev :: "'m \<Rightarrow> 'i \<Rightarrow> u64 \<Rightarrow> u8"
  assumes read_concrete: "(\<forall>i < unat len. \<not> msym sm (addr + of_nat i)) \<Longrightarrow>
      sym_read_memory B sm mem addr len True = None"
    and read_symbolic: "unat len \<le> 32 \<Longrightarrow> i < unat len \<Longrightarrow> msym sm (addr + of_nat i) \<Longrightarrow>
      \<exists>e. sym_read_memory B sm mem addr len True = Some e \<and> sym_width B e = 8 * unat len \<and>
        (\<forall>\<sigma>. ev \<sigma> e = bytes_val (map (\<lambda>i. shadow_byte msym mev sm mem \<sigma> (addr + of_nat i)) [0..<unat len]))"
    and write_null_msym: "msym (sym_write_memory B sm addr len None True) a \<longleftrightarrow>
      \<not> in_range addr len a \<and> msym sm a"
    and write_null_mev: "\<not> in_range addr len a \<Longrightarrow>
      mev (sym_write_memory B sm addr len None True) \<sigma> a = mev sm \<sigma> a"
    and write_expr_msym: "8 * unat len \<le> sym_width B e \<Longrightarrow> unat len \<le> 32 \<Longrightarrow>
      msym (sym_write_memory B sm addr len (Some e) True) a \<longleftrightarrow> in_range addr len a \<or> msym sm a"
    and write_expr_mev: "8 * unat len \<le> sym_width B e \<Longrightarrow> unat len \<le> 32 \<Longrightarrow>
      mev (sym_write_memory B sm addr len (Some e) True) \<sigma> a =
        (if in_range addr len a then word_of_int (drop_bit (8 * unat (a - addr)) (ev \<sigma> e)) else mev sm \<sigma> a)"

subsection \<open>Expressions that represent words\<close>

text \<open>
  \<open>represents B ev \<sigma> e x\<close>: the expression has the width of the word \<open>x\<close> and evaluates to it on
  the input \<open>\<sigma>\<close>. The lemmas are the backend's contract at the widths that are types.
\<close>

definition represents ::
  "('e, 'm) backend \<Rightarrow> ('i \<Rightarrow> 'e \<Rightarrow> int) \<Rightarrow> 'i \<Rightarrow> 'e \<Rightarrow> 'a::len word \<Rightarrow> bool" where
  "represents B ev \<sigma> e x \<longleftrightarrow> sym_width B e = LENGTH('a) \<and> ev \<sigma> e = uint x"

context sym_backend
begin

lemma rep_of_ev:
  assumes "sym_width B e = LENGTH('a::len)"
  shows "represents B ev \<sigma> e (word_of_int (ev \<sigma> e) :: 'a word)"
  using assms ev_range [of \<sigma> e] by (simp add: represents_def uint_of_int_range)

lemma rep_unique:
  "represents B ev \<sigma> e x \<Longrightarrow> represents B ev \<sigma> e y \<Longrightarrow> x = y"
  by (simp add: represents_def word_uint_eq_iff)

lemma rep_integer [rep_intros]:
  "n = of_nat LENGTH('a::len) \<Longrightarrow> LENGTH('a) \<le> 64 \<Longrightarrow>
    represents B ev \<sigma> (sym_build_integer B v n) (ucast v :: 'a word)"
  by (simp add: represents_def integer_width integer_ev unsigned_ucast_eq unat_of_nat take_bit_nat_eq_self less_le_trans)

lemma rep_binop:
  assumes "represents B ev \<sigma> a (x :: 'a::len word)" "represents B ev \<sigma> b (y :: 'a word)"
    and "bv_defined op (uint y)" "bv_binop LENGTH('a) op (uint x) (uint y) = uint z"
  shows "represents B ev \<sigma> (sym_build B op a b) (z :: 'a word)"
  using assms by (simp add: represents_def binop_width binop_ev)

lemma rep_arith [rep_intros]:
  assumes "represents B ev \<sigma> a (x :: 'a::len word)" "represents B ev \<sigma> b (y :: 'a word)"
  shows "represents B ev \<sigma> (sym_build B build_add a b) (x + y)"
    and "represents B ev \<sigma> (sym_build B build_sub a b) (x - y)"
    and "represents B ev \<sigma> (sym_build B build_mul a b) (x * y)"
    and "represents B ev \<sigma> (sym_build B build_and a b) (x AND y)"
    and "represents B ev \<sigma> (sym_build B build_or a b) (x OR y)"
    and "represents B ev \<sigma> (sym_build B build_xor a b) (x XOR y)"
  by (rule rep_binop [OF assms]; simp add: uint_word_ariths take_bit_eq_mod unsigned_and_eq
        unsigned_or_eq unsigned_xor_eq)+

lemma rep_unsigned_division [rep_intros]:
  assumes "represents B ev \<sigma> a (x :: 'a::len word)" "represents B ev \<sigma> b (y :: 'a word)" "y \<noteq> 0"
  shows "represents B ev \<sigma> (sym_build B build_unsigned_div a b) (x div y)"
    and "represents B ev \<sigma> (sym_build B build_unsigned_rem a b) (x mod y)"
  by (rule rep_binop [OF assms(1,2)]; use assms(3) in \<open>simp add: uint_div_distrib uint_mod_distrib
        uint_0_iff\<close>)+

lemma rep_signed_division [rep_intros]:
  assumes "represents B ev \<sigma> a (x :: 'a::len word)" "represents B ev \<sigma> b (y :: 'a word)" "y \<noteq> 0"
  shows "represents B ev \<sigma> (sym_build B build_signed_div a b) (word_of_int (sint x sdiv sint y) :: 'a word)"
    and "represents B ev \<sigma> (sym_build B build_signed_rem a b) (word_of_int (sint x smod sint y) :: 'a word)"
  by (rule rep_binop [OF assms(1,2)]; use assms(3) in \<open>simp add: unsigned_of_int sint_uint uint_0_iff\<close>)+

lemma rep_shift [rep_intros]:
  assumes "represents B ev \<sigma> a (x :: 'a::len word)" "represents B ev \<sigma> b (y :: 'a word)"
  shows "represents B ev \<sigma> (sym_build B build_shift_left a b) (push_bit (unat y) x)"
    and "represents B ev \<sigma> (sym_build B build_logical_shift_right a b) (drop_bit (unat y) x)"
    and "represents B ev \<sigma> (sym_build B build_arithmetic_shift_right a b) (signed_drop_bit (unat y) x)"
  by (rule rep_binop [OF assms]; simp add: uint_push_bit uint_drop_bit uint_signed_drop_bit sint_uint)+

lemma rep_unary [rep_intros]:
  assumes "represents B ev \<sigma> a (x :: 'a::len word)"
  shows "represents B ev \<sigma> (sym_build_neg B a) (- x)"
    and "represents B ev \<sigma> (sym_build_not B a) (NOT x)"
  using assms by (simp_all add: represents_def neg_width neg_ev not_width not_ev uint_not
      uint_word_ariths take_bit_eq_mod)

lemma rep_zext [rep_intros]:
  assumes "represents B ev \<sigma> a (x :: 'a::len word)"
    and "unat k < 256" "LENGTH('b::len) = LENGTH('a) + unat k" "LENGTH('b) < 2 ^ 32"
  shows "represents B ev \<sigma> (sym_build_zext B a k) (ucast x :: 'b word)"
  using assms by (simp add: represents_def zext_width zext_ev unsigned_ucast_eq take_bit_int_eq_self
      less_le_trans [OF uint_lt2p])

lemma rep_sext [rep_intros]:
  assumes "represents B ev \<sigma> a (x :: 'a::len word)"
    and "unat k < 256" "LENGTH('b::len) = LENGTH('a) + unat k" "LENGTH('b) < 2 ^ 32"
  shows "represents B ev \<sigma> (sym_build_sext B a k) (scast x :: 'b word)"
  using assms by (simp add: represents_def sext_width sext_ev uint_scast sint_uint)

lemma rep_trunc [rep_intros]:
  assumes "represents B ev \<sigma> a (x :: 'a::len word)" "unat k = LENGTH('b::len)" "LENGTH('b) \<le> LENGTH('a)"
  shows "represents B ev \<sigma> (sym_build_trunc B a k) (ucast x :: 'b word)"
  using assms by (simp add: represents_def trunc_width trunc_ev unsigned_ucast_eq)

lemma rep_extract [rep_intros]:
  assumes "represents B ev \<sigma> a (x :: 'a::len word)"
    and "unat lo \<le> unat hi" "unat hi < LENGTH('a)" "LENGTH('b::len) = unat hi - unat lo + 1"
  shows "represents B ev \<sigma> (sym_extract_helper B a hi lo) (ucast (drop_bit (unat lo) x) :: 'b word)"
  using assms by (simp add: represents_def extract_width extract_ev unsigned_ucast_eq uint_drop_bit)

end

end
