(* ===== verification/Term_Backend.thy ===== *)
theory Term_Backend
  imports Backend
begin

unbundle bit_operations_syntax

section \<open>A backend that builds terms\<close>

text \<open>
  A concrete instance of the backend interface: expressions are terms over numbered inputs, the
  shadow memory maps an address to the 8-bit term stored there. It shows that the contract
  \<open>sym_backend\<close> and its extension \<open>sym_memory\<close> can be met, and it is what the witnesses of the
  development run the modelled code on.
\<close>

datatype sexpr =
    SInput nat u64
  | SInt u64 u64
  | SBuf "u8 list" u64
  | SBin symcc_binop sexpr sexpr
  | SCmp symcc_cmp sexpr sexpr
  | SNeg sexpr
  | SNot sexpr
  | SBit sexpr
  | SSext sexpr u64
  | SZext sexpr u64
  | STrunc sexpr u64
  | SExtract sexpr u64 u64
  | SConcat sexpr sexpr

primrec sbits :: "sexpr \<Rightarrow> u64" where
  "sbits (SInput i n) = n"
| "sbits (SInt v n) = n"
| "sbits (SBuf bs n) = n"
| "sbits (SBin op a b) = sbits a"
| "sbits (SCmp c a b) = 1"
| "sbits (SNeg a) = sbits a"
| "sbits (SNot a) = sbits a"
| "sbits (SBit a) = 1"
| "sbits (SSext a k) = sbits a + k"
| "sbits (SZext a k) = sbits a + k"
| "sbits (STrunc a k) = k"
| "sbits (SExtract a hi lo) = hi - lo + 1"
| "sbits (SConcat a b) = sbits a + sbits b"

primrec sval :: "(nat \<Rightarrow> int) \<Rightarrow> sexpr \<Rightarrow> int" where
  "sval \<sigma> (SInput i n) = take_bit (unat n) (\<sigma> i)"
| "sval \<sigma> (SInt v n) = take_bit (unat n) (uint v)"
| "sval \<sigma> (SBuf bs n) = take_bit (unat n) (bytes_val bs)"
| "sval \<sigma> (SBin op a b) = take_bit (unat (sbits a)) (bv_binop (unat (sbits a)) op (sval \<sigma> a) (sval \<sigma> b))"
| "sval \<sigma> (SCmp c a b) = of_bool (bv_cmp (unat (sbits a)) c (sval \<sigma> a) (sval \<sigma> b))"
| "sval \<sigma> (SNeg a) = take_bit (unat (sbits a)) (- sval \<sigma> a)"
| "sval \<sigma> (SNot a) = take_bit (unat (sbits a)) (NOT (sval \<sigma> a))"
| "sval \<sigma> (SBit a) = of_bool (sval \<sigma> a \<noteq> 0)"
| "sval \<sigma> (SSext a k) = take_bit (unat (sbits a + k)) (bv_signed (unat (sbits a)) (sval \<sigma> a))"
| "sval \<sigma> (SZext a k) = take_bit (unat (sbits a + k)) (sval \<sigma> a)"
| "sval \<sigma> (STrunc a k) = take_bit (unat k) (sval \<sigma> a)"
| "sval \<sigma> (SExtract a hi lo) = take_bit (unat (hi - lo + 1)) (drop_bit (unat lo) (sval \<sigma> a))"
| "sval \<sigma> (SConcat a b) = take_bit (unat (sbits a + sbits b)) (push_bit (unat (sbits b)) (sval \<sigma> a) + sval \<sigma> b)"

definition strue :: "(nat \<Rightarrow> int) \<Rightarrow> sexpr \<Rightarrow> bool" where
  "strue \<sigma> e = (sval \<sigma> e \<noteq> 0)"

type_synonym smem = "u64 \<Rightarrow> sexpr option"

fun concat_bytes :: "sexpr list \<Rightarrow> sexpr" where
  "concat_bytes [] = SInt 0 0"
| "concat_bytes [x] = x"
| "concat_bytes (x # y # xs) = SConcat (concat_bytes (y # xs)) x"

definition term_read :: "smem \<Rightarrow> (u64 \<Rightarrow> u8) \<Rightarrow> u64 \<Rightarrow> u64 \<Rightarrow> bool \<Rightarrow> sexpr option" where
  "term_read sm mem addr len le =
     (let as = map (\<lambda>i. addr + of_nat i) [0..<unat len];
          es = map (\<lambda>a. case sm a of Some e \<Rightarrow> SExtract e 7 0 | None \<Rightarrow> SInt (ucast (mem a)) 8) as
      in if list_all (\<lambda>a. sm a = None) as then None
         else Some (concat_bytes (if le then es else rev es)))"

definition term_write :: "smem \<Rightarrow> u64 \<Rightarrow> u64 \<Rightarrow> sexpr option \<Rightarrow> bool \<Rightarrow> smem" where
  "term_write sm addr len oe le = (\<lambda>a.
     if in_range addr len a then
       (case oe of None \<Rightarrow> None
        | Some e \<Rightarrow>
            (let i = 8 * (if le then a - addr else len - 1 - (a - addr)) in Some (SExtract e (i + 7) i)))
     else sm a)"

definition term_backend :: "(sexpr, smem) backend" where
  "term_backend = \<lparr>
     sym_build_integer = SInt,
     sym_build_integer_from_buffer = SBuf,
     sym_bits_helper = sbits,
     sym_build = SBin,
     sym_build_cmp = SCmp,
     sym_build_neg = SNeg,
     sym_build_not = SNot,
     sym_build_bool_to_bit = SBit,
     sym_build_sext = SSext,
     sym_build_zext = SZext,
     sym_build_trunc = STrunc,
     sym_extract_helper = SExtract,
     sym_concat_helper = SConcat,
     sym_read_memory = term_read,
     sym_write_memory = term_write\<rparr>"

lemma term_backend_simps [simp]:
  "sym_build_integer term_backend = SInt"
  "sym_build_integer_from_buffer term_backend = SBuf"
  "sym_bits_helper term_backend = sbits"
  "sym_build term_backend = SBin"
  "sym_build_cmp term_backend = SCmp"
  "sym_build_neg term_backend = SNeg"
  "sym_build_not term_backend = SNot"
  "sym_build_bool_to_bit term_backend = SBit"
  "sym_build_sext term_backend = SSext"
  "sym_build_zext term_backend = SZext"
  "sym_build_trunc term_backend = STrunc"
  "sym_extract_helper term_backend = SExtract"
  "sym_concat_helper term_backend = SConcat"
  "sym_read_memory term_backend = term_read"
  "sym_write_memory term_backend = term_write"
  by (simp_all add: term_backend_def)

subsection \<open>It meets the contract\<close>

lemma take_bit_bounds: "0 \<le> take_bit n (k::int) \<and> take_bit n k < 2 ^ n"
  by simp

lemma sval_range: "0 \<le> sval \<sigma> e \<and> sval \<sigma> e < 2 ^ unat (sbits e)"
  by (cases e) (simp_all add: of_bool_def)

lemma sval_take_bit: "take_bit (unat (sbits e)) (sval \<sigma> e) = sval \<sigma> e"
  using sval_range [of \<sigma> e] by (simp add: take_bit_int_eq_self)

lemma bytes_val_range: "0 \<le> bytes_val bs \<and> bytes_val bs < 2 ^ (8 * length bs)"
proof (induction bs)
  case (Cons b bs)
  then have "bytes_val bs + 1 \<le> 2 ^ (8 * length bs)" by simp
  then have "256 * (bytes_val bs + 1) \<le> 256 * 2 ^ (8 * length bs)"
    by (intro mult_left_mono) simp_all
  then show ?case
    using Cons uint_lt2p [of b] by (simp add: power_add)
qed simp

lemma unat_add_small: "unat (a::u64) + unat b < 2 ^ 32 \<Longrightarrow> unat (a + b) = unat a + unat b"
  by (simp add: unat_plus_if_size word_size)

lemma extract_bits:
  assumes "unat lo \<le> unat (hi::u64)" "unat hi < unat (n::u64)"
  shows "unat (hi - lo + 1) = Suc (unat hi - unat lo)"
proof -
  have "unat (hi - lo) = unat hi - unat lo" using assms by (simp add: unat_sub_if_size)
  moreover have "unat n < 2 ^ 64" using unsigned_less [of n] by simp
  ultimately show ?thesis using assms by (simp add: unat_plus_if_size word_size)
qed

lemma div_le_self: "0 \<le> a \<Longrightarrow> 0 \<le> b \<Longrightarrow> a div b \<le> (a::int)"
  using zdiv_mono2 [of a 1 b] by (cases "b = 0") simp_all

lemma bv_binop_range:
  assumes "0 \<le> a" "a < 2 ^ n" "0 \<le> b" "b < 2 ^ n" "bv_defined op b"
  shows "take_bit n (bv_binop n op a b) = bv_binop n op a b"
proof -
  have "0 \<le> bv_binop n op a b \<and> bv_binop n op a b < 2 ^ n"
  proof (cases op)
    case build_unsigned_div
    have "a div b \<le> a" using assms by (simp add: div_le_self)
    with assms build_unsigned_div show ?thesis by (auto simp: pos_imp_zdiv_nonneg_iff)
  next
    case build_unsigned_rem
    with assms have "0 < b" by simp
    then have "0 \<le> a mod b" "a mod b < b" by simp_all
    with assms build_unsigned_rem show ?thesis by simp
  next
    case build_logical_shift_right
    have "drop_bit (nat b) a \<le> a" using assms
      by (simp add: drop_bit_eq_div div_le_self)
    with assms build_logical_shift_right show ?thesis by simp
  next
    case build_and with assms show ?thesis by (simp add: AND_upper1')
  next
    case build_or with assms show ?thesis by (simp add: OR_upper)
  next
    case build_xor with assms show ?thesis by (simp add: XOR_upper)
  qed (use assms in \<open>auto simp: min_def max_def\<close>)
  then show ?thesis by (simp add: take_bit_int_eq_self)
qed

interpretation tb: sym_backend term_backend sval strue
proof unfold_locales
  show "sval \<sigma> (sym_build term_backend op a b) =
      bv_binop (sym_width term_backend a) op (sval \<sigma> a) (sval \<sigma> b)"
    if "sym_width term_backend a = sym_width term_backend b" "bv_defined op (sval \<sigma> b)" for \<sigma> op a b
    using that sval_range [of \<sigma> a] sval_range [of \<sigma> b] by (simp add: sym_width_def bv_binop_range)
next
  show "sval \<sigma> (sym_concat_helper term_backend a b) = push_bit (sym_width term_backend b) (sval \<sigma> a) + sval \<sigma> b"
    if "sym_width term_backend a + sym_width term_backend b < 2 ^ 32" for \<sigma> a b
  proof -
    let ?n = "unat (sbits a)" and ?m = "unat (sbits b)"
    have "(sval \<sigma> a + 1) * 2 ^ ?m \<le> 2 ^ ?n * 2 ^ ?m"
      using sval_range [of \<sigma> a] by (intro mult_right_mono) simp_all
    then have "push_bit ?m (sval \<sigma> a) + sval \<sigma> b < 2 ^ (?n + ?m)"
      using sval_range [of \<sigma> b] by (simp add: push_bit_eq_mult power_add algebra_simps)
    with that show ?thesis
      using sval_range [of \<sigma> b] sval_range [of \<sigma> a]
      by (simp add: sym_width_def unat_add_small take_bit_int_eq_self)
  qed
next
  show "sval \<sigma> (sym_build_zext term_backend a k) = sval \<sigma> a"
    if "unat k < 256" "sym_width term_backend a + unat k < 2 ^ 32" for \<sigma> a k
  proof -
    have "(2::int) ^ unat (sbits a) \<le> 2 ^ (unat (sbits a) + unat k)" by simp
    with sval_range [of \<sigma> a] have "sval \<sigma> a < 2 ^ (unat (sbits a) + unat k)" by linarith
    with that show ?thesis
      using sval_range [of \<sigma> a] by (simp add: sym_width_def unat_add_small take_bit_int_eq_self)
  qed
next
  show "sval \<sigma> (sym_build_integer_from_buffer term_backend bs n) = bytes_val bs"
    if "unat n = 8 * length bs" for \<sigma> n bs
    using that bytes_val_range [of bs] by (simp add: take_bit_int_eq_self)
next
  show "sym_width term_backend (sym_extract_helper term_backend a hi lo) = unat hi - unat lo + 1"
    if "unat lo \<le> unat hi" "unat hi < sym_width term_backend a" for a hi lo
    using that by (simp add: sym_width_def extract_bits)
  show "sval \<sigma> (sym_extract_helper term_backend a hi lo) =
      take_bit (unat hi - unat lo + 1) (drop_bit (unat lo) (sval \<sigma> a))"
    if "unat lo \<le> unat hi" "unat hi < sym_width term_backend a" for \<sigma> a hi lo
    using that by (simp add: sym_width_def extract_bits)
qed (simp_all add: sym_width_def strue_def unat_add_small sval_range)

subsection \<open>Its shadow memory\<close>

definition term_msym :: "smem \<Rightarrow> u64 \<Rightarrow> bool" where
  "term_msym sm a = (sm a \<noteq> None)"

definition term_mev :: "smem \<Rightarrow> (nat \<Rightarrow> int) \<Rightarrow> u64 \<Rightarrow> u8" where
  "term_mev sm \<sigma> a = (case sm a of None \<Rightarrow> 0 | Some e \<Rightarrow> word_of_int (sval \<sigma> e))"

lemma concat_bytes_correct:
  assumes "\<And>e. e \<in> set es \<Longrightarrow> sbits e = 8" "es \<noteq> []" "length es \<le> 32"
  shows "unat (sbits (concat_bytes es)) = 8 * length es \<and>
    sval \<sigma> (concat_bytes es) = bytes_val (map (\<lambda>e. word_of_int (sval \<sigma> e)) es)"
  using assms
proof (induction es rule: concat_bytes.induct)
  case (2 x)
  then show ?case using sval_range [of \<sigma> x] by (simp add: unsigned_of_int take_bit_int_eq_self)
next
  case (3 x y xs)
  let ?c = "concat_bytes (y # xs)"
  have c: "unat (sbits ?c) = 8 * length (y # xs)"
    "sval \<sigma> ?c = bytes_val (map (\<lambda>e. word_of_int (sval \<sigma> e)) (y # xs))"
    using 3 by simp_all
  have x: "sbits x = 8" "0 \<le> sval \<sigma> x" "sval \<sigma> x < 256"
    using 3 sval_range [of \<sigma> x] by simp_all
  have w: "unat (sbits (concat_bytes (x # y # xs))) = 8 * length (x # y # xs)"
    using c(1) x(1) 3(4) by (simp add: unat_add_small)
  have "sval \<sigma> (concat_bytes (x # y # xs)) = push_bit 8 (sval \<sigma> ?c) + sval \<sigma> x"
    using tb.concat_ev [of ?c x \<sigma>] c(1) x(1) 3(4) by (simp add: sym_width_def)
  then show ?case
    using w c(2) x by (simp add: unsigned_of_int take_bit_int_eq_self push_bit_eq_mult)
qed simp

lemma byte_term_value:
  "uint (word_of_int (sval \<sigma> (case sm a of Some e \<Rightarrow> SExtract e 7 0 | None \<Rightarrow> SInt (ucast (mem a :: u8)) 8)) :: u8)
   = uint (shadow_byte term_msym term_mev sm mem \<sigma> a)"
  using uint_lt2p [of "mem a"]
  by (cases "sm a") (simp_all add: shadow_byte_def term_msym_def term_mev_def unsigned_of_int
      unsigned_ucast_eq take_bit_int_eq_self)

interpretation tm: sym_memory term_backend sval strue term_msym term_mev
proof unfold_locales
  show "\<exists>e. sym_read_memory term_backend sm mem addr len True = Some e \<and>
        sym_width term_backend e = 8 * unat len \<and>
        (\<forall>\<sigma>. sval \<sigma> e = bytes_val (map (\<lambda>i. shadow_byte term_msym term_mev sm mem \<sigma> (addr + of_nat i)) [0..<unat len]))"
    if "unat len \<le> 32" "i < unat len" "term_msym sm (addr + of_nat i)" for len i sm addr mem
  proof -
    define es where "es = map (\<lambda>a. case sm a of Some e \<Rightarrow> SExtract e 7 0 | None \<Rightarrow> SInt (ucast (mem a)) 8)
      (map (\<lambda>i. addr + of_nat i) [0..<unat len])"
    have read: "sym_read_memory term_backend sm mem addr len True = Some (concat_bytes es)"
      using that by (auto simp: term_read_def es_def list_all_iff Let_def term_msym_def)
    have b: "sbits e = 8" if "e \<in> set es" for e
      using that by (auto simp: es_def split: option.splits)
    have es: "es \<noteq> []" "length es = unat len" "length es \<le> 32" using that by (auto simp: es_def)
    have "map (\<lambda>e. word_of_int (sval \<sigma> e)) es =
        map (\<lambda>i. shadow_byte term_msym term_mev sm mem \<sigma> (addr + of_nat i)) [0..<unat len]" for \<sigma>
      using byte_term_value [where \<sigma> = \<sigma> and sm = sm and mem = mem] by (simp add: es_def word_uint_eq_iff)
    with read show ?thesis
      using concat_bytes_correct [OF b es(1) es(3)] es(2) by (simp add: sym_width_def)
  qed
next
  show "term_mev (sym_write_memory term_backend sm addr len (Some e) True) \<sigma> a =
        (if in_range addr len a then word_of_int (drop_bit (8 * unat (a - addr)) (sval \<sigma> e))
         else term_mev sm \<sigma> a)"
    if "8 * unat len \<le> sym_width term_backend e" "unat len \<le> 32" for sm addr len e \<sigma> a
  proof (cases "in_range addr len a")
    case True
    have "unat (8 * d) = 8 * unat d" if "unat d < 32" for d :: u64
      using that by (simp add: unat_word_ariths)
    from this [of "a - addr"] True that(2) have "unat (8 * (a - addr)) = 8 * unat (a - addr)"
      by (simp add: in_range_def)
    then show ?thesis using True
      by (simp add: term_mev_def term_write_def Let_def word_uint_eq_iff unsigned_of_int)
  qed (simp add: term_mev_def term_write_def)
qed (auto simp: term_msym_def term_mev_def term_read_def term_write_def list_all_iff Let_def
    split: option.splits)

end
