(* ===== verification/Bitops.thy ===== *)
theory Bitops
  imports Prelude
begin

unbundle bit_operations_syntax

section \<open>Bit manipulation\<close>

text \<open>
  The bit-field functions of \<open>include/qemu/bitops.h\<close> and the counting and power-of-two functions of
  \<open>include/qemu/host-utils.h\<close> that the generators, the interpreter and the runtime use. The C
  functions are inline expressions over shifts and masks; the lemmas give their value in terms of
  \<open>take_bit\<close>, \<open>drop_bit\<close>, \<open>signed_take_bit\<close> and the library's rotations, which is the form the other
  theories reason with. A failed \<open>assert\<close> is \<open>None\<close>. The compiler's builtins
  (\<open>__builtin_clz\<close>, \<open>__builtin_bswap64\<close>, \<dots>) are written out bit by bit.
\<close>

subsection \<open>Rotations\<close>

definition rol32 :: "u32 \<Rightarrow> u32 \<Rightarrow> u32" where
  "rol32 word shift = push_bit (unat (shift AND 31)) word OR drop_bit (unat (- shift AND 31)) word"

definition ror32 :: "u32 \<Rightarrow> u32 \<Rightarrow> u32" where
  "ror32 word shift = drop_bit (unat (shift AND 31)) word OR push_bit (unat (- shift AND 31)) word"

definition rol64 :: "u64 \<Rightarrow> u32 \<Rightarrow> u64" where
  "rol64 word shift = push_bit (unat (shift AND 63)) word OR drop_bit (unat (- shift AND 63)) word"

definition ror64 :: "u64 \<Rightarrow> u32 \<Rightarrow> u64" where
  "ror64 word shift = drop_bit (unat (shift AND 63)) word OR push_bit (unat (- shift AND 63)) word"

definition hswap32 :: "u32 \<Rightarrow> u32" where
  "hswap32 h = rol32 h 16"

definition hswap64 :: "u64 \<Rightarrow> u64" where
  "hswap64 h0 =
     (let m = 0x0000ffff0000ffff; h = rol64 h0 32
      in push_bit 16 (h AND m) OR (drop_bit 16 h AND m))"

definition wswap64 :: "u64 \<Rightarrow> u64" where
  "wswap64 h = rol64 h 32"

subsection \<open>Bit fields\<close>

definition extract32 :: "u32 \<Rightarrow> int \<Rightarrow> int \<Rightarrow> u32 option" where
  "extract32 value start len = do {
     c_assert (start \<ge> 0 \<and> len > 0 \<and> len \<le> 32 - start);
     Some (drop_bit (nat start) value AND drop_bit (nat (32 - len)) (NOT 0)) }"

definition extract64 :: "u64 \<Rightarrow> int \<Rightarrow> int \<Rightarrow> u64 option" where
  "extract64 value start len = do {
     c_assert (start \<ge> 0 \<and> len > 0 \<and> len \<le> 64 - start);
     Some (drop_bit (nat start) value AND drop_bit (nat (64 - len)) (NOT 0)) }"

definition sextract32 :: "u32 \<Rightarrow> int \<Rightarrow> int \<Rightarrow> u32 option" where
  "sextract32 value start len = do {
     c_assert (start \<ge> 0 \<and> len > 0 \<and> len \<le> 32 - start);
     Some (signed_drop_bit (nat (32 - len)) (push_bit (nat (32 - len - start)) value)) }"

definition sextract64 :: "u64 \<Rightarrow> int \<Rightarrow> int \<Rightarrow> u64 option" where
  "sextract64 value start len = do {
     c_assert (start \<ge> 0 \<and> len > 0 \<and> len \<le> 64 - start);
     Some (signed_drop_bit (nat (64 - len)) (push_bit (nat (64 - len - start)) value)) }"

definition deposit32 :: "u32 \<Rightarrow> int \<Rightarrow> int \<Rightarrow> u32 \<Rightarrow> u32 option" where
  "deposit32 value start len fieldval = do {
     c_assert (start \<ge> 0 \<and> len > 0 \<and> len \<le> 32 - start);
     let mask = push_bit (nat start) (drop_bit (nat (32 - len)) (NOT 0));
     Some ((value AND NOT mask) OR (push_bit (nat start) fieldval AND mask)) }"

definition deposit64 :: "u64 \<Rightarrow> int \<Rightarrow> int \<Rightarrow> u64 \<Rightarrow> u64 option" where
  "deposit64 value start len fieldval = do {
     c_assert (start \<ge> 0 \<and> len > 0 \<and> len \<le> 64 - start);
     let mask = push_bit (nat start) (drop_bit (nat (64 - len)) (NOT 0));
     Some ((value AND NOT mask) OR (push_bit (nat start) fieldval AND mask)) }"

subsection \<open>Byte order\<close>

definition bswap16 :: "u16 \<Rightarrow> u16" where
  "bswap16 x = push_bit 8 (x AND 0xff) OR (drop_bit 8 x AND 0xff)"

definition bswap32 :: "u32 \<Rightarrow> u32" where
  "bswap32 x = push_bit 24 (x AND 0xff) OR push_bit 16 (drop_bit 8 x AND 0xff)
     OR push_bit 8 (drop_bit 16 x AND 0xff) OR (drop_bit 24 x AND 0xff)"

definition bswap64 :: "u64 \<Rightarrow> u64" where
  "bswap64 x = push_bit 56 (x AND 0xff) OR push_bit 48 (drop_bit 8 x AND 0xff)
     OR push_bit 40 (drop_bit 16 x AND 0xff) OR push_bit 32 (drop_bit 24 x AND 0xff)
     OR push_bit 24 (drop_bit 32 x AND 0xff) OR push_bit 16 (drop_bit 40 x AND 0xff)
     OR push_bit 8 (drop_bit 48 x AND 0xff) OR (drop_bit 56 x AND 0xff)"

subsection \<open>Counting bits\<close>

definition builtin_clz :: "'a::len word \<Rightarrow> nat" where
  "builtin_clz x = length (takeWhile (\<lambda>i. \<not> bit x i) (rev [0..<LENGTH('a)]))"

definition builtin_ctz :: "'a::len word \<Rightarrow> nat" where
  "builtin_ctz x = length (takeWhile (\<lambda>i. \<not> bit x i) [0..<LENGTH('a)])"

definition builtin_popcount :: "'a::len word \<Rightarrow> nat" where
  "builtin_popcount x = length (filter (bit x) [0..<LENGTH('a)])"

definition clz32 :: "u32 \<Rightarrow> nat" where
  "clz32 val = (if val \<noteq> 0 then builtin_clz val else 32)"

definition clz64 :: "u64 \<Rightarrow> nat" where
  "clz64 val = (if val \<noteq> 0 then builtin_clz val else 64)"

definition ctz32 :: "u32 \<Rightarrow> nat" where
  "ctz32 val = (if val \<noteq> 0 then builtin_ctz val else 32)"

definition ctz64 :: "u64 \<Rightarrow> nat" where
  "ctz64 val = (if val \<noteq> 0 then builtin_ctz val else 64)"

definition clrsb32 :: "u32 \<Rightarrow> int" where
  "clrsb32 val = int (clz32 (val XOR signed_drop_bit 1 val)) - 1"

definition clrsb64 :: "u64 \<Rightarrow> int" where
  "clrsb64 val = int (clz64 (val XOR signed_drop_bit 1 val)) - 1"

definition ctpop32 :: "u32 \<Rightarrow> nat" where
  "ctpop32 val = builtin_popcount val"

definition ctpop64 :: "u64 \<Rightarrow> nat" where
  "ctpop64 val = builtin_popcount val"

definition is_power_of_2 :: "u64 \<Rightarrow> bool" where
  "is_power_of_2 value = (if value = 0 then False else value AND (value - 1) = 0)"

subsection \<open>Rotations are rotations\<close>

lemma rotl_shifts:
  fixes x :: "'a::len word"
  assumes "k < LENGTH('a)"
  shows "push_bit k x OR drop_bit (LENGTH('a) - k) x = word_rotl k x"
proof (rule bit_word_eqI)
  fix n assume n: "n < LENGTH('a)"
  show "bit (push_bit k x OR drop_bit (LENGTH('a) - k) x) n = bit (word_rotl k x) n"
  proof (cases "k \<le> n")
    case True
    then have "n + (LENGTH('a) - k) = LENGTH('a) + (n - k)" using assms by simp
    then have "(n + (LENGTH('a) - k)) mod LENGTH('a) = n - k" using n
      by (simp only: mod_add_self1) simp
    with True n assms show ?thesis by (auto simp: bit_simps dest: bit_imp_le_length)
  next
    case False
    then have "(n + (LENGTH('a) - k)) mod LENGTH('a) = n + (LENGTH('a) - k)" using assms by simp
    with False n assms show ?thesis by (simp add: bit_simps add.commute)
  qed
qed

lemma rotr_shifts:
  fixes x :: "'a::len word"
  assumes "k < LENGTH('a)"
  shows "drop_bit k x OR push_bit (LENGTH('a) - k) x = word_rotr k x"
proof (rule bit_word_eqI)
  fix n assume n: "n < LENGTH('a)"
  show "bit (drop_bit k x OR push_bit (LENGTH('a) - k) x) n = bit (word_rotr k x) n"
  proof (cases "n + k < LENGTH('a)")
    case True
    with n assms show ?thesis by (auto simp: bit_simps add.commute)
  next
    case False
    then have "n + k = LENGTH('a) + (n + k - LENGTH('a))" "n + k - LENGTH('a) < LENGTH('a)"
      using assms n by simp_all
    then have "(n + k) mod LENGTH('a) = n - (LENGTH('a) - k)" using assms
      by (metis mod_add_self1 mod_less diff_diff_right less_imp_le)
    with False n assms show ?thesis by (auto simp: bit_simps dest: bit_imp_le_length)
  qed
qed

lemma and_mask_mod:
  "x AND 31 = (x :: u32) mod 32" "x AND 63 = x mod 64"
  using take_bit_eq_mask [of 5 x] take_bit_eq_mask [of 6 x]
  by (simp_all add: mask_eq_exp_minus_1 and.commute take_bit_eq_mod)

lemma uint_neg_mod:
  "uint (- x mod 32 :: u32) = (if x mod 32 = 0 then 0 else 32 - uint (x mod 32))"
  "uint (- x mod 64 :: u32) = (if x mod 64 = 0 then 0 else 64 - uint (x mod 64))"
proof -
  have "uint (- x mod 32) = (- uint x) mod 32" "uint (- x mod 64) = (- uint x) mod 64"
    by (simp_all add: uint_mod_distrib uint_word_ariths mod_mod_cancel)
  then show "uint (- x mod 32 :: u32) = (if x mod 32 = 0 then 0 else 32 - uint (x mod 32))"
    "uint (- x mod 64 :: u32) = (if x mod 64 = 0 then 0 else 64 - uint (x mod 64))"
    by (simp_all add: zmod_zminus1_eq_if word_uint_eq_iff uint_mod_distrib)
qed

lemma neg_mod_32: "unat (- x mod 32 :: u32) = (if x mod 32 = 0 then 0 else 32 - unat (x mod 32))"
  and neg_mod_64: "unat (- x mod 64 :: u32) = (if x mod 64 = 0 then 0 else 64 - unat (x mod 64))"
proof -
  have conv: "int a = (if c then 0 else 32 - int b) \<Longrightarrow> a = (if c then 0 else 32 - b)"
    "int a = (if c then 0 else 64 - int b) \<Longrightarrow> a = (if c then 0 else 64 - b)" for a b c
    by (simp_all split: if_splits)
  show "unat (- x mod 32 :: u32) = (if x mod 32 = 0 then 0 else 32 - unat (x mod 32))"
    by (rule conv) (use uint_neg_mod [of x] in simp)
  show "unat (- x mod 64 :: u32) = (if x mod 64 = 0 then 0 else 64 - unat (x mod 64))"
    by (rule conv) (use uint_neg_mod [of x] in simp)
qed

lemma rot32_eq:
  "rol32 x s = word_rotl (unat (s mod 32)) x" "ror32 x s = word_rotr (unat (s mod 32)) x"
proof -
  have "unat (s mod 32) < 32" by (simp add: unat_mod_distrib)
  then show "rol32 x s = word_rotl (unat (s mod 32)) x" "ror32 x s = word_rotr (unat (s mod 32)) x"
    using rotl_shifts [of "unat (s mod 32)" x] rotr_shifts [of "unat (s mod 32)" x]
    by (cases "s mod 32 = 0"; simp add: rol32_def ror32_def and_mask_mod neg_mod_32)+
qed

lemma rot64_eq:
  "rol64 x s = word_rotl (unat (s mod 64)) x" "ror64 x s = word_rotr (unat (s mod 64)) x"
proof -
  have "unat (s mod 64) < 64" by (simp add: unat_mod_distrib)
  then show "rol64 x s = word_rotl (unat (s mod 64)) x" "ror64 x s = word_rotr (unat (s mod 64)) x"
    using rotl_shifts [of "unat (s mod 64)" x] rotr_shifts [of "unat (s mod 64)" x]
    by (cases "s mod 64 = 0"; simp add: rol64_def ror64_def and_mask_mod neg_mod_64)+
qed

subsection \<open>Bit fields are bit fields\<close>

definition field_ok :: "nat \<Rightarrow> int \<Rightarrow> int \<Rightarrow> bool" where
  "field_ok w start len \<longleftrightarrow> start \<ge> 0 \<and> len > 0 \<and> len \<le> int w - start"

lemma field_okE:
  assumes "field_ok w start len"
  obtains s l where "start = int s" "len = int l" "0 < l" "s + l \<le> w"
proof -
  from assms have "start = int (nat start)" "len = int (nat len)" "0 < nat len" "nat start + nat len \<le> w"
    by (simp_all add: field_ok_def) linarith
  then show thesis by (rule that)
qed

lemma nat_diff_int [simp]:
  "nat (32 - int l) = 32 - l" "nat (32 - int l - int s) = 32 - l - s"
  "nat (64 - int l) = 64 - l" "nat (64 - int l - int s) = 64 - l - s"
  by linarith+

lemma extract_shifts:
  fixes x :: "'a::len word"
  assumes "s + l \<le> LENGTH('a)"
  shows "drop_bit s x AND drop_bit (LENGTH('a) - l) (NOT 0) = take_bit l (drop_bit s x)"
  using assms by (intro bit_word_eqI) (auto simp: bit_simps dest: bit_imp_le_length)

lemma extract_eq:
  "field_ok 32 s l \<Longrightarrow> extract32 x s l = Some (take_bit (nat l) (drop_bit (nat s) x))"
  "field_ok 64 s l \<Longrightarrow> extract64 y s l = Some (take_bit (nat l) (drop_bit (nat s) y))"
  using extract_shifts [of _ _ x] extract_shifts [of _ _ y]
  by (elim field_okE, simp add: extract32_def extract64_def)+

lemma sextract_shifts:
  fixes x :: "'a::len word"
  assumes "0 < l" "s + l \<le> LENGTH('a)"
  shows "signed_drop_bit (LENGTH('a) - l) (push_bit (LENGTH('a) - l - s) x)
    = signed_take_bit (l - 1) (drop_bit s x)"
proof (rule bit_word_eqI)
  fix n assume n: "n < LENGTH('a)"
  show "bit (signed_drop_bit (LENGTH('a) - l) (push_bit (LENGTH('a) - l - s) x)) n =
      bit (signed_take_bit (l - 1) (drop_bit s x)) n"
  proof (cases "l \<le> n")
    case True
    then have "LENGTH('a) - 1 - (LENGTH('a) - l - s) = s + min (l - 1) n" using assms n by simp
    with True assms n show ?thesis by (simp add: bit_simps)
  next
    case False
    then have "LENGTH('a) - l + n - (LENGTH('a) - l - s) = s + min (l - 1) n" using assms by simp
    with False assms n show ?thesis by (auto simp add: bit_simps add.commute)
  qed
qed

lemma sextract_eq:
  "field_ok 32 s l \<Longrightarrow> sextract32 x s l = Some (signed_take_bit (nat l - 1) (drop_bit (nat s) x))"
  "field_ok 64 s l \<Longrightarrow> sextract64 y s l = Some (signed_take_bit (nat l - 1) (drop_bit (nat s) y))"
  using sextract_shifts [of _ _ x] sextract_shifts [of _ _ y]
  by (elim field_okE, simp add: sextract32_def sextract64_def)+

definition deposit_word :: "'a::len word \<Rightarrow> nat \<Rightarrow> nat \<Rightarrow> 'a word \<Rightarrow> 'a word" where
  "deposit_word x s l y = (x AND NOT (push_bit s (mask l))) OR push_bit s (take_bit l y)"

lemma bit_deposit_word:
  "bit (deposit_word x s l (y :: 'a::len word)) n \<longleftrightarrow>
    (if s \<le> n \<and> n < s + l then n < LENGTH('a) \<and> bit y (n - s) else bit x n)"
  by (auto simp: deposit_word_def bit_simps less_diff_conv2 dest: bit_imp_le_length)

lemma deposit_shifts:
  fixes x y :: "'a::len word"
  assumes "s + l \<le> LENGTH('a)"
  defines "m \<equiv> push_bit s (drop_bit (LENGTH('a) - l) (NOT 0 :: 'a word))"
  shows "(x AND NOT m) OR (push_bit s y AND m) = deposit_word x s l y"
  unfolding m_def using assms(1)
  by (intro bit_word_eqI) (auto simp: bit_deposit_word bit_simps dest: bit_imp_le_length)

lemma deposit_eq:
  "field_ok 32 s l \<Longrightarrow> deposit32 x s l y = Some (deposit_word x (nat s) (nat l) y)"
  "field_ok 64 s l \<Longrightarrow> deposit64 v s l w = Some (deposit_word v (nat s) (nat l) w)"
  using deposit_shifts [of _ _ x y] deposit_shifts [of _ _ v w]
  by (elim field_okE, simp add: deposit32_def deposit64_def)+

lemma extract_deposit_word:
  "s + l \<le> LENGTH('a) \<Longrightarrow>
    take_bit l (drop_bit s (deposit_word x s l (y :: 'a::len word))) = take_bit l y"
  by (intro bit_word_eqI) (auto simp: bit_simps bit_deposit_word)

lemma sextract_deposit_word:
  assumes "0 < l" "s + l \<le> LENGTH('a)"
  shows "signed_take_bit (l - Suc 0) (drop_bit s (deposit_word x s l (y :: 'a::len word)))
    = signed_take_bit (l - Suc 0) y"
  using assms by (intro bit_word_eqI) (auto simp: bit_simps bit_deposit_word)

text \<open>C36: Round trip of the bit-field functions of \<open>bitops.h\<close>: on a field inside the word,
  \<open>deposit32\<close>/\<open>deposit64\<close> succeed, reading the field back with \<open>extract32\<close>/\<open>extract64\<close> gives the low
  bits of the deposited value, \<open>sextract32\<close>/\<open>sextract64\<close> gives them sign-extended, and every bit
  outside the field keeps its value.\<close>

theorem deposit_extract_roundtrip:
  assumes "field_ok 32 s l" "field_ok 64 t k"
  shows "(\<exists>r. deposit32 x s l y = Some r \<and> extract32 r s l = Some (take_bit (nat l) y)
      \<and> sextract32 r s l = Some (signed_take_bit (nat l - 1) y)
      \<and> (\<forall>n. int n < s \<or> s + l \<le> int n \<longrightarrow> bit r n = bit x n))
    \<and> (\<exists>r. deposit64 v t k w = Some r \<and> extract64 r t k = Some (take_bit (nat k) w)
      \<and> sextract64 r t k = Some (signed_take_bit (nat k - 1) w)
      \<and> (\<forall>n. int n < t \<or> t + k \<le> int n \<longrightarrow> bit r n = bit v n))"
  using assms
  by (auto simp: deposit_eq extract_eq sextract_eq extract_deposit_word sextract_deposit_word
      bit_deposit_word elim!: field_okE)

theorem deposit_extract_witness:
  "\<exists>r. deposit32 0xffffffff 8 16 0xABCD = Some r \<and> extract32 r 8 16 = Some 0xABCD"
  using deposit_extract_roundtrip [of 8 16 0 64 "0xffffffff" "0xABCD" 0 0]
  by (auto simp: field_ok_def)

text \<open>The rotations of \<open>bitops.h\<close> rotate by the shift count modulo the width, for every count,
  and \<open>ror\<close> undoes \<open>rol\<close>.\<close>

theorem rotations_correct:
  "rol32 x s = word_rotl (unat s mod 32) x \<and> ror32 x s = word_rotr (unat s mod 32) x
   \<and> rol64 y s = word_rotl (unat s mod 64) y \<and> ror64 y s = word_rotr (unat s mod 64) y
   \<and> ror32 (rol32 x s) s = x \<and> ror64 (rol64 y s) s = y"
  by (simp add: rot32_eq rot64_eq unat_mod_distrib word_rot_gal)

subsection \<open>Byte swaps by blocks\<close>

text \<open>The mask-and-shift sequences that the generators emit, and that the runtime follows for
  expressions, compute the builtins.\<close>

lemma bswap32_blocks:
  fixes x :: u32
  defines "f \<equiv> (drop_bit 8 x AND 0x00ff00ff) OR push_bit 8 (x AND 0x00ff00ff)"
  shows "drop_bit 16 f OR push_bit 16 f = bswap32 x"
proof (rule bit_word_eqI)
  fix n assume "n < LENGTH(32)"
  then have "n \<in> set [0..<32]" by simp
  then show "bit (drop_bit 16 f OR push_bit 16 f) n = bit (bswap32 x) n"
    unfolding f_def bswap32_def
    by (simp add: upt_rec; elim disjE; simp add: bit_simps)
qed

lemma bswap64_blocks:
  fixes x :: u64
  defines "f \<equiv> (drop_bit 8 x AND 0x00ff00ff00ff00ff) OR push_bit 8 (x AND 0x00ff00ff00ff00ff)"
  defines "s \<equiv> (drop_bit 16 f AND 0x0000ffff0000ffff) OR push_bit 16 (f AND 0x0000ffff0000ffff)"
  shows "drop_bit 32 s OR push_bit 32 s = bswap64 x"
proof (rule bit_word_eqI)
  fix n assume "n < LENGTH(64)"
  then have "n \<in> set [0..<64]" by simp
  then show "bit (drop_bit 32 s OR push_bit 32 s) n = bit (bswap64 x) n"
    unfolding f_def s_def bswap64_def
    by (simp add: upt_rec; elim disjE; simp add: bit_simps)
qed

text \<open>Swapping the low half of a 64-bit word into a zero-extended result.\<close>

lemma bswap32_blocks_i64:
  fixes x :: u64
  defines "f \<equiv> (drop_bit 8 x AND 0x00ff00ff) OR push_bit 8 (x AND 0x00ff00ff)"
  shows "drop_bit 16 f OR drop_bit 32 (push_bit 48 f) = ucast (bswap32 (ucast x))"
proof (rule bit_word_eqI)
  fix n assume "n < LENGTH(64)"
  then have "n \<in> set [0..<64]" by simp
  then show "bit (drop_bit 16 f OR drop_bit 32 (push_bit 48 f)) n = bit (ucast (bswap32 (ucast x)) :: u64) n"
    unfolding f_def bswap32_def
    by (simp add: upt_rec; elim disjE; simp add: bit_simps; (simp add: eval_nat_numeral)?)
qed

end
