(* ===== verification/TCG_Cond.thy ===== *)
theory TCG_Cond
  imports Prelude
begin

unbundle bit_operations_syntax

section \<open>Conditions\<close>

text \<open>
  The condition codes of \<open>include/tcg/tcg-cond.h\<close> with the bit operations on them, and the
  comparison of the interpreter (\<open>tci_compare32\<close>, \<open>tci_compare64\<close> of \<open>tcg/tci.c\<close>), one definition
  at every width. A C enum holds any integer, so a condition is a 32-bit word and
  \<open>is_cond\<close> says which words the enum declares. The lemmas say what each operation on codes does
  to the comparison.
\<close>

type_synonym TCGCond = u32

abbreviation "TCG_COND_NEVER \<equiv> (0 :: TCGCond)"
abbreviation "TCG_COND_ALWAYS \<equiv> (1 :: TCGCond)"
abbreviation "TCG_COND_EQ \<equiv> (8 :: TCGCond)"
abbreviation "TCG_COND_NE \<equiv> (9 :: TCGCond)"
abbreviation "TCG_COND_TSTEQ \<equiv> (12 :: TCGCond)"
abbreviation "TCG_COND_TSTNE \<equiv> (13 :: TCGCond)"
abbreviation "TCG_COND_LT \<equiv> (2 :: TCGCond)"
abbreviation "TCG_COND_GE \<equiv> (3 :: TCGCond)"
abbreviation "TCG_COND_GT \<equiv> (6 :: TCGCond)"
abbreviation "TCG_COND_LE \<equiv> (7 :: TCGCond)"
abbreviation "TCG_COND_LTU \<equiv> (10 :: TCGCond)"
abbreviation "TCG_COND_GEU \<equiv> (11 :: TCGCond)"
abbreviation "TCG_COND_GTU \<equiv> (14 :: TCGCond)"
abbreviation "TCG_COND_LEU \<equiv> (15 :: TCGCond)"

definition tcg_conds :: "TCGCond list" where
  "tcg_conds = [TCG_COND_NEVER, TCG_COND_ALWAYS, TCG_COND_EQ, TCG_COND_NE, TCG_COND_TSTEQ,
     TCG_COND_TSTNE, TCG_COND_LT, TCG_COND_GE, TCG_COND_GT, TCG_COND_LE, TCG_COND_LTU,
     TCG_COND_GEU, TCG_COND_GTU, TCG_COND_LEU]"

definition is_cond :: "TCGCond \<Rightarrow> bool" where
  "is_cond c \<longleftrightarrow> c \<in> set tcg_conds"

definition is_compare :: "TCGCond \<Rightarrow> bool" where
  "is_compare c \<longleftrightarrow> is_cond c \<and> c \<noteq> TCG_COND_NEVER \<and> c \<noteq> TCG_COND_ALWAYS"

definition tcg_invert_cond :: "TCGCond \<Rightarrow> TCGCond" where
  "tcg_invert_cond c = c XOR 1"

definition tcg_swap_cond :: "TCGCond \<Rightarrow> TCGCond" where
  "tcg_swap_cond c = c XOR push_bit 1 (c AND 2)"

definition is_signed_cond :: "TCGCond \<Rightarrow> bool" where
  "is_signed_cond c \<longleftrightarrow> c AND (8 OR 2) = 2"

definition is_unsigned_cond :: "TCGCond \<Rightarrow> bool" where
  "is_unsigned_cond c \<longleftrightarrow> c AND (8 OR 2) = 8 OR 2"

definition is_tst_cond :: "TCGCond \<Rightarrow> bool" where
  "is_tst_cond c \<longleftrightarrow> c OR 1 = TCG_COND_TSTNE"

definition tcg_unsigned_cond :: "TCGCond \<Rightarrow> TCGCond" where
  "tcg_unsigned_cond c = (if is_signed_cond c then c + 8 else c)"

definition tcg_signed_cond :: "TCGCond \<Rightarrow> TCGCond" where
  "tcg_signed_cond c = (if is_unsigned_cond c then c - 8 else c)"

definition tcg_tst_eqne_cond :: "TCGCond \<Rightarrow> TCGCond" where
  "tcg_tst_eqne_cond c = (if is_tst_cond c then c - 4 else c)"

definition tcg_tst_ltge_cond :: "TCGCond \<Rightarrow> TCGCond" where
  "tcg_tst_ltge_cond c = (if is_tst_cond c then c XOR 0xf else c)"

definition tcg_high_cond :: "TCGCond \<Rightarrow> TCGCond" where
  "tcg_high_cond c =
     (if c = TCG_COND_GE \<or> c = TCG_COND_LE \<or> c = TCG_COND_GEU \<or> c = TCG_COND_LEU
      then c XOR (4 OR 1) else c)"

text \<open>The comparison; the default case of the C \<open>switch\<close> is \<open>g_assert_not_reached\<close>.\<close>

definition tci_compare :: "'a::len word \<Rightarrow> 'a word \<Rightarrow> TCGCond \<Rightarrow> bool option" where
  "tci_compare u0 u1 condition =
     (let i0 = sint u0; i1 = sint u1 in
      if condition = TCG_COND_EQ then Some (u0 = u1)
      else if condition = TCG_COND_NE then Some (u0 \<noteq> u1)
      else if condition = TCG_COND_LT then Some (i0 < i1)
      else if condition = TCG_COND_GE then Some (i0 \<ge> i1)
      else if condition = TCG_COND_LE then Some (i0 \<le> i1)
      else if condition = TCG_COND_GT then Some (i0 > i1)
      else if condition = TCG_COND_LTU then Some (u0 < u1)
      else if condition = TCG_COND_GEU then Some (u0 \<ge> u1)
      else if condition = TCG_COND_LEU then Some (u0 \<le> u1)
      else if condition = TCG_COND_GTU then Some (u0 > u1)
      else if condition = TCG_COND_TSTEQ then Some (u0 AND u1 = 0)
      else if condition = TCG_COND_TSTNE then Some (u0 AND u1 \<noteq> 0)
      else None)"

subsection \<open>What the operations do to the comparison\<close>

lemmas cond_defs = tcg_invert_cond_def tcg_swap_cond_def is_signed_cond_def is_unsigned_cond_def
  is_tst_cond_def tcg_unsigned_cond_def tcg_signed_cond_def tcg_tst_eqne_cond_def
  tcg_tst_ltge_cond_def tcg_high_cond_def

lemma is_compare_cases [consumes 1]:
  assumes "is_compare c"
  obtains "c = TCG_COND_EQ" | "c = TCG_COND_NE" | "c = TCG_COND_TSTEQ" | "c = TCG_COND_TSTNE"
  | "c = TCG_COND_LT" | "c = TCG_COND_GE" | "c = TCG_COND_GT" | "c = TCG_COND_LE"
  | "c = TCG_COND_LTU" | "c = TCG_COND_GEU" | "c = TCG_COND_GTU" | "c = TCG_COND_LEU"
  using assms unfolding is_compare_def is_cond_def tcg_conds_def by auto

lemma tci_compare_defined: "tci_compare x y c \<noteq> None \<longleftrightarrow> is_compare c"
  by (auto simp: tci_compare_def Let_def is_compare_def is_cond_def tcg_conds_def)

lemma is_compare_code: "is_compare c \<longleftrightarrow> c \<in> {8, 9, 12, 13, 2, 3, 6, 7, 10, 11, 14, 15}"
  by (auto simp: is_compare_def is_cond_def tcg_conds_def)

text \<open>C34: Inverting a condition (\<open>tcg_invert_cond\<close>) negates the comparison, swapping it
  (\<open>tcg_swap_cond\<close>) gives the comparison of the exchanged operands, and both are involutions on
  codes: for every width, every pair of operands and every comparison code.\<close>

theorem invert_swap_cond_correct:
  assumes "is_compare c"
  shows "tci_compare x y (tcg_invert_cond c) = map_option Not (tci_compare x y c)
    \<and> tci_compare y x (tcg_swap_cond c) = tci_compare x y c
    \<and> tcg_invert_cond (tcg_invert_cond c) = c \<and> tcg_swap_cond (tcg_swap_cond c) = c"
  using assms
  by (cases rule: is_compare_cases)
     (auto simp: tci_compare_def tcg_invert_cond_def tcg_swap_cond_def and.commute not_le not_less)

theorem invert_swap_cond_witness:
  "tci_compare (5 :: u32) 7 (tcg_invert_cond TCG_COND_LT) = Some False
   \<and> tci_compare (7 :: u32) 5 (tcg_swap_cond TCG_COND_LT) = Some True"
  using invert_swap_cond_correct [of TCG_COND_LT "5 :: u32" 7]
  by (simp add: is_compare_code tci_compare_def)

lemma or_1_eq_13: "c OR 1 = (13 :: u32) \<Longrightarrow> c = 12 \<or> c = 13"
proof -
  assume c: "c OR 1 = 13"
  have "c AND NOT 1 = (c OR 1) AND NOT 1" by (simp add: bit.conj_disj_distrib2)
  with c have "c AND NOT 1 = 12" by simp
  moreover have "c = (c AND NOT 1) OR (c AND 1)" by (simp flip: bit.conj_disj_distrib)
  moreover have "c AND 1 = 0 \<or> c AND 1 = 1" by (simp add: and_one_eq mod_2_eq_odd)
  ultimately show ?thesis by auto
qed

text \<open>C35: The test conditions reduce to plain ones: a test of two operands is the equality
  comparison of their conjunction with zero (\<open>tcg_tst_eqne_cond\<close>), and a test against the sign bit
  is a signed comparison with zero (\<open>tcg_tst_ltge_cond\<close>).\<close>

theorem tst_cond_correct:
  fixes x y :: "'a::len word"
  assumes "is_tst_cond c"
  shows "tci_compare x y c = tci_compare (x AND y) 0 (tcg_tst_eqne_cond c)
    \<and> tci_compare x (push_bit (LENGTH('a) - 1) 1) c = tci_compare x 0 (tcg_tst_ltge_cond c)"
proof -
  have sgn: "x AND 2 ^ (LENGTH('a) - Suc 0) = 0 \<longleftrightarrow> \<not> sint x < 0"
    by (simp add: and_exp_eq_0_iff_not_bit bit_last_iff)
  from assms have "c OR 1 = 13" by (simp add: is_tst_cond_def)
  then have "c = 12 \<or> c = 13" by (rule or_1_eq_13)
  then show ?thesis
    by (elim disjE) (simp_all add: tci_compare_def tcg_tst_eqne_cond_def tcg_tst_ltge_cond_def
        is_tst_cond_def sgn not_less not_le)
qed

theorem tst_cond_witness:
  "tci_compare (0x80000001 :: u32) 0x80000000 TCG_COND_TSTNE = tci_compare (0x80000001 :: u32) 0 TCG_COND_LT"
  using tst_cond_correct [of TCG_COND_TSTNE "0x80000001 :: u32" 0]
  by (simp add: is_tst_cond_def tcg_tst_ltge_cond_def)

lemma uint_word_cat32:
  "uint (word_cat (xh :: u32) (xl :: u32) :: u64) = uint xh * 2 ^ 32 + uint xl"
  using uint_lt2p [of xl] uint_lt2p [of xh]
  by (simp add: word_cat_eq uint_word_ariths unsigned_ucast_eq push_bit_eq_mult take_bit_int_eq_self)

lemma sint_word_cat32:
  "sint (word_cat (xh :: u32) (xl :: u32) :: u64) = sint xh * 2 ^ 32 + uint xl"
proof -
  have "0 \<le> uint xl" "uint xl < 4294967296" using uint_lt2p [of xl] by simp_all
  then have "9223372036854775808 \<le> uint xh * 4294967296 + uint xl \<longleftrightarrow> 2147483648 \<le> uint xh"
    by (intro iffI) linarith+
  then show ?thesis by (simp add: sint_if uint_word_cat32)
qed

lemma word_cat32_less:
  "(word_cat xh xl :: u64) < word_cat yh yl \<longleftrightarrow> xh < yh \<or> xh = yh \<and> xl < (yl :: u32)"
  for xh yh :: u32
  using lex_less [of "uint xl" "2 ^ 32" "uint yl" "uint xh" "uint yh"] uint_lt2p [of xl] uint_lt2p [of yl]
  by (simp add: word_less_def uint_word_cat32 word_uint_eq_iff)

lemma sint_word_cat32_less:
  "sint (word_cat xh xl :: u64) < sint (word_cat yh yl :: u64) \<longleftrightarrow>
    sint xh < sint yh \<or> xh = yh \<and> xl < (yl :: u32)"
  for xh yh :: u32
  using lex_less [of "uint xl" "2 ^ 32" "uint yl" "sint xh" "sint yh"] uint_lt2p [of xl] uint_lt2p [of yl]
  by (simp add: sint_word_cat32 word_less_def sint_eq_iff)

text \<open>C33: A double-word ordering is decided by the high halves alone when they differ, under the
  strict condition \<open>tcg_high_cond\<close>, and by the unsigned comparison (\<open>tcg_unsigned_cond\<close>) of the
  low halves when they are equal; this is how the generators split 64-bit comparisons.\<close>

theorem high_cond_correct:
  assumes "is_signed_cond c \<or> is_unsigned_cond c" "is_cond c"
  shows "tci_compare (word_cat (xh :: u32) (xl :: u32) :: u64) (word_cat (yh :: u32) (yl :: u32)) c =
    (if xh = yh then tci_compare xl yl (tcg_unsigned_cond c)
     else tci_compare xh yh (tcg_high_cond c))"
proof -
  have less: "\<not> sint a < sint b \<longleftrightarrow> sint b < sint a" if "a \<noteq> b" for a b :: u32
    using that by (metis less_le not_less sint_eq_iff)
  have "is_compare c" using assms
    by (auto simp: is_compare_def is_signed_cond_def is_unsigned_cond_def)
  then show ?thesis using assms(1)
    by (cases rule: is_compare_cases) (auto simp: tci_compare_def is_signed_cond_def
      is_unsigned_cond_def tcg_unsigned_cond_def tcg_high_cond_def word_cat32_less
      sint_word_cat32_less less simp flip: not_less)
qed

theorem high_cond_witness:
  "tci_compare (word_cat (1 :: u32) (2 :: u32) :: u64) (word_cat (1 :: u32) (9 :: u32)) TCG_COND_LE
   = Some True"
  using high_cond_correct [of TCG_COND_LE 1 2 1 9]
  by (simp add: is_signed_cond_def is_cond_def tcg_conds_def tcg_unsigned_cond_def tci_compare_def)

end
