(* ===== verification/Sym_Runtime.thy ===== *)
theory Sym_Runtime
  imports Backend Term_Backend Bitops TCG_Cond
begin

unbundle bit_operations_syntax

section \<open>The symbolic runtime\<close>

text \<open>
  The helpers of \<open>accel/tcg/tcg-runtime-sym.c\<close> and \<open>accel/tcg/tcg-runtime-sym-common.c\<close>: what the
  instrumented code calls at run time to build the expression of a result from the concrete values
  and the expressions of its operands. An expression pointer is an \<open>'e option\<close>, \<open>None\<close> being NULL
  (the operand is concrete). A helper's result is an option again: \<open>None\<close> when an \<open>assert\<close> fails,
  a NULL expression is inspected or a shift is undefined.

  The helpers that push path constraints or touch the shadow memory pass a state \<open>rt\<close> along. The
  guest has 64-bit addresses (\<open>target_ulong\<close> is \<open>uint64_t\<close>). What depends on the target or the
  memory subsystem is read from the environment: the program counter that
  \<open>cpu_get_tb_cpu_state\<close> returns and the host address that \<open>tlb_vaddr_to_host\<close> returns.
\<close>

datatype MMUAccessType = MMU_DATA_LOAD | MMU_DATA_STORE | MMU_INST_FETCH

record CPUArchState =
  cpu_get_tb_cpu_state :: "u64 \<times> u64 \<times> u32"
  tlb_vaddr_to_host :: "u64 \<Rightarrow> MMUAccessType \<Rightarrow> u64 \<Rightarrow> u64"

datatype rt_event = Notify_call u64 | Notify_ret u64 | Notify_block u64 | Collect_garbage

text \<open>The state of the runtime: the path constraints pushed so far (expression, taken, location),
  the shadow memory, the host memory, and the notifications sent.\<close>

record ('e, 'm) rt =
  rt_path :: "('e \<times> bool \<times> u64) list"
  rt_shadow :: 'm
  rt_mem :: "u64 \<Rightarrow> u8"
  rt_events :: "rt_event list"

definition sym_push_path_constraint :: "'e \<Rightarrow> bool \<Rightarrow> u64 \<Rightarrow> ('e, 'm) rt \<Rightarrow> ('e, 'm) rt" where
  "sym_push_path_constraint c taken loc rt = rt\<lparr>rt_path := rt_path rt @ [(c, taken, loc)]\<rparr>"

definition get_pc :: "CPUArchState \<Rightarrow> u64" where
  "get_pc env = (case cpu_get_tb_cpu_state env of (pc, cs_base, flags) \<Rightarrow> pc)"

subsection \<open>Binary operations\<close>

text \<open>
  \<open>BINARY_HELPER_ENSURE_EXPRESSIONS\<close>: \<open>Some None\<close> is the early return of NULL, \<open>Some (Some (a, b))\<close>
  goes on with both expressions present.
\<close>

definition BINARY_HELPER_ENSURE_EXPRESSIONS ::
  "('e, 'm) backend \<Rightarrow> u64 \<Rightarrow> 'e option \<Rightarrow> u64 \<Rightarrow> 'e option \<Rightarrow> ('e \<times> 'e) option option" where
  "BINARY_HELPER_ENSURE_EXPRESSIONS B arg1 arg1_expr arg2 arg2_expr =
     (let check = (\<lambda>a b. do {
         c_assert (sym_bits_helper B a = 32 \<or> sym_bits_helper B a = 64);
         c_assert (sym_bits_helper B b = 32 \<or> sym_bits_helper B b = 64);
         c_assert (sym_bits_helper B a = sym_bits_helper B b);
         Some (Some (a, b)) }) in
      case (arg1_expr, arg2_expr) of
        (None, None) \<Rightarrow> Some None
      | (None, Some b) \<Rightarrow> check (sym_build_integer B arg1 (sym_bits_helper B b)) b
      | (Some a, None) \<Rightarrow> check a (sym_build_integer B arg2 (sym_bits_helper B a))
      | (Some a, Some b) \<Rightarrow> check a b)"

text \<open>The binary helpers \<open>helper_sym_<name>_i32\<close> and \<open>helper_sym_<name>_i64\<close>, by name.\<close>

datatype sym_helper =
    sym_add | sym_sub | sym_mul | sym_div | sym_divu | sym_rem | sym_remu
  | sym_and | sym_or | sym_xor | sym_shift_right | sym_arithmetic_shift_right | sym_shift_left
  | sym_andc | sym_eqv | sym_nand | sym_nor | sym_orc | sym_rotate_left | sym_rotate_right

definition sym_rotate_left_expr :: "('e, 'm) backend \<Rightarrow> 'e \<Rightarrow> 'e \<Rightarrow> 'e" where
  "sym_rotate_left_expr B arg1_expr arg2_expr =
     (let bits = ucast (ucast (sym_bits_helper B arg1_expr) :: u8) in
      sym_build B build_or
        (sym_build B build_shift_left arg1_expr arg2_expr)
        (sym_build B build_logical_shift_right arg1_expr
          (sym_build B build_sub (sym_build_integer B bits bits) arg2_expr)))"

definition sym_rotate_right_expr :: "('e, 'm) backend \<Rightarrow> 'e \<Rightarrow> 'e \<Rightarrow> 'e" where
  "sym_rotate_right_expr B arg1_expr arg2_expr =
     (let bits = ucast (ucast (sym_bits_helper B arg1_expr) :: u8) in
      sym_build B build_or
        (sym_build B build_logical_shift_right arg1_expr arg2_expr)
        (sym_build B build_shift_left arg1_expr
          (sym_build B build_sub (sym_build_integer B bits bits) arg2_expr)))"

fun sym_helper_expr :: "('e, 'm) backend \<Rightarrow> sym_helper \<Rightarrow> 'e \<Rightarrow> 'e \<Rightarrow> 'e" where
  "sym_helper_expr B sym_add a b = sym_build B build_add a b"
| "sym_helper_expr B sym_sub a b = sym_build B build_sub a b"
| "sym_helper_expr B sym_mul a b = sym_build B build_mul a b"
| "sym_helper_expr B sym_div a b = sym_build B build_signed_div a b"
| "sym_helper_expr B sym_divu a b = sym_build B build_unsigned_div a b"
| "sym_helper_expr B sym_rem a b = sym_build B build_signed_rem a b"
| "sym_helper_expr B sym_remu a b = sym_build B build_unsigned_rem a b"
| "sym_helper_expr B sym_and a b = sym_build B build_and a b"
| "sym_helper_expr B sym_or a b = sym_build B build_or a b"
| "sym_helper_expr B sym_xor a b = sym_build B build_xor a b"
| "sym_helper_expr B sym_shift_right a b = sym_build B build_logical_shift_right a b"
| "sym_helper_expr B sym_arithmetic_shift_right a b = sym_build B build_arithmetic_shift_right a b"
| "sym_helper_expr B sym_shift_left a b = sym_build B build_shift_left a b"
| "sym_helper_expr B sym_andc a b = sym_build B build_and a (sym_build_not B b)"
| "sym_helper_expr B sym_eqv a b = sym_build_not B (sym_build B build_xor a b)"
| "sym_helper_expr B sym_nand a b = sym_build_not B (sym_build B build_and a b)"
| "sym_helper_expr B sym_nor a b = sym_build_not B (sym_build B build_or a b)"
| "sym_helper_expr B sym_orc a b = sym_build B build_or a (sym_build_not B b)"
| "sym_helper_expr B sym_rotate_left a b = sym_rotate_left_expr B a b"
| "sym_helper_expr B sym_rotate_right a b = sym_rotate_right_expr B a b"

definition sym_binary_i64 ::
  "('e, 'm) backend \<Rightarrow> sym_helper \<Rightarrow> u64 \<Rightarrow> 'e option \<Rightarrow> u64 \<Rightarrow> 'e option \<Rightarrow> 'e option option" where
  "sym_binary_i64 B h arg1 arg1_expr arg2 arg2_expr = do {
     es \<leftarrow> BINARY_HELPER_ENSURE_EXPRESSIONS B arg1 arg1_expr arg2 arg2_expr;
     Some (map_option (\<lambda>(a, b). sym_helper_expr B h a b) es) }"

definition sym_binary_i32 ::
  "('e, 'm) backend \<Rightarrow> sym_helper \<Rightarrow> u32 \<Rightarrow> 'e option \<Rightarrow> u32 \<Rightarrow> 'e option \<Rightarrow> 'e option option" where
  "sym_binary_i32 B h arg1 arg1_expr arg2 arg2_expr =
     sym_binary_i64 B h (ucast arg1) arg1_expr (ucast arg2) arg2_expr"

definition sym_muluh_i64 ::
  "('e, 'm) backend \<Rightarrow> u64 \<Rightarrow> 'e option \<Rightarrow> u64 \<Rightarrow> 'e option \<Rightarrow> 'e option option" where
  "sym_muluh_i64 B arg1 arg1_expr arg2 arg2_expr = do {
     es \<leftarrow> BINARY_HELPER_ENSURE_EXPRESSIONS B arg1 arg1_expr arg2 arg2_expr;
     (case es of
       None \<Rightarrow> Some None
     | Some (a, b) \<Rightarrow> do {
         c_assert (sym_bits_helper B a = 64 \<and> sym_bits_helper B b = 64);
         let full_result = sym_build B build_mul (sym_build_zext B a 64) (sym_build_zext B b 64);
         Some (Some (sym_extract_helper B full_result 127 64)) }) }"

subsection \<open>Unary operations and width changes\<close>

definition sym_neg :: "('e, 'm) backend \<Rightarrow> 'e option \<Rightarrow> 'e option option" where
  "sym_neg B expr = Some (map_option (sym_build_neg B) expr)"

definition sym_not :: "('e, 'm) backend \<Rightarrow> 'e option \<Rightarrow> 'e option option" where
  "sym_not B expr = Some (map_option (sym_build_not B) expr)"

definition sym_sext :: "('e, 'm) backend \<Rightarrow> 'e option \<Rightarrow> u64 \<Rightarrow> 'e option option" where
  "sym_sext B expr target_length =
     (case expr of
       None \<Rightarrow> Some None
     | Some e \<Rightarrow>
         let current_bits = sym_bits_helper B e;
             bits_to_keep = target_length * 8;
             shift_distance_expr = sym_build_integer B (current_bits - bits_to_keep) current_bits
         in Some (Some (sym_build B build_arithmetic_shift_right
              (sym_build B build_shift_left e shift_distance_expr) shift_distance_expr)))"

definition sym_zext :: "('e, 'm) backend \<Rightarrow> 'e option \<Rightarrow> u64 \<Rightarrow> 'e option option" where
  "sym_zext B expr target_length =
     (case expr of
       None \<Rightarrow> Some None
     | Some e \<Rightarrow> do {
         let current_bits = sym_bits_helper B e;
         let desired_bits = target_length * 8;
         m \<leftarrow> c_shl 1 desired_bits;
         Some (Some (sym_build B build_and e (sym_build_integer B (m - 1) current_bits))) })"

definition sym_sext_i32_i64 :: "('e, 'm) backend \<Rightarrow> 'e option \<Rightarrow> 'e option option" where
  "sym_sext_i32_i64 B expr =
     (case expr of
       None \<Rightarrow> Some None
     | Some e \<Rightarrow> do { c_assert (sym_bits_helper B e = 32); Some (Some (sym_build_sext B e 32)) })"

definition sym_zext_i32_i64 :: "('e, 'm) backend \<Rightarrow> 'e option \<Rightarrow> 'e option option" where
  "sym_zext_i32_i64 B expr =
     (case expr of
       None \<Rightarrow> Some None
     | Some e \<Rightarrow> do { c_assert (sym_bits_helper B e = 32); Some (Some (sym_build_zext B e 32)) })"

definition sym_trunc_i64_i32 :: "('e, 'm) backend \<Rightarrow> 'e option \<Rightarrow> 'e option option" where
  "sym_trunc_i64_i32 B expr =
     (case expr of
       None \<Rightarrow> Some None
     | Some e \<Rightarrow> do { c_assert (sym_bits_helper B e = 64); Some (Some (sym_build_trunc B e 32)) })"

text \<open>\<open>sym_bswap\<close> hands the result of \<open>sym_zext\<close> to the backend, where a NULL would end abnormally.\<close>

definition sym_bswap :: "('e, 'm) backend \<Rightarrow> 'e option \<Rightarrow> u64 \<Rightarrow> 'e option option" where
  "sym_bswap B expr len =
     (case expr of
       None \<Rightarrow> Some None
     | Some e \<Rightarrow>
         let bits = sym_bits_helper B e;
             eight = sym_build_integer B 8 bits;
             sixteen = sym_build_integer B 16 bits;
             thirty_two = sym_build_integer B 32 bits;
             forty_eight = sym_build_integer B 48 bits;
             sand = sym_build B build_and;
             sor = sym_build B build_or;
             shl = sym_build B build_shift_left;
             shr = sym_build B build_logical_shift_right
         in
         if len = 2 then do {
           z \<leftarrow> sym_zext B (Some e) 1;
           low \<leftarrow> z;
           Some (Some (sor (shl low eight) (shr e eight))) }
         else if len = 4 then
           let mask = sym_build_integer B 0x00ff00ff bits;
               first_block = sor (sand (shr e eight) mask) (shl (sand e mask) eight)
           in if bits = 32 then Some (Some (sor (shr first_block sixteen) (shl first_block sixteen)))
              else Some (Some (sor (shr first_block sixteen)
                (shr (shl first_block forty_eight) thirty_two)))
         else if len = 8 then
           let mask1 = sym_build_integer B 0x00ff00ff00ff00ff 64;
               mask2 = sym_build_integer B 0x0000ffff0000ffff 64;
               first_block = sor (sand (shr e eight) mask1) (shl (sand e mask1) eight);
               second_block = sor (sand (shr first_block sixteen) mask2)
                 (shl (sand first_block mask2) sixteen)
           in Some (Some (sor (shr second_block thirty_two) (shl second_block thirty_two)))
         else None)"

subsection \<open>Memory\<close>

definition sym_load_guest_internal ::
  "('e, 'm) backend \<Rightarrow> CPUArchState \<Rightarrow> u64 \<Rightarrow> 'e option \<Rightarrow> u64 \<Rightarrow> u8 \<Rightarrow> u64 \<Rightarrow>
   ('e, 'm) rt \<Rightarrow> 'e option \<times> ('e, 'm) rt" where
  "sym_load_guest_internal B env addr addr_expr load_length result_length mmu_idx rt =
     (let rt = (case addr_expr of
            None \<Rightarrow> rt
          | Some e \<Rightarrow> sym_push_path_constraint
              (sym_build_cmp B build_equal e (sym_build_integer B addr 64)) True (get_pc env) rt);
          host_addr = tlb_vaddr_to_host env addr MMU_DATA_LOAD mmu_idx;
          memory_expr = sym_read_memory B (rt_shadow rt) (rt_mem rt) host_addr load_length True
      in if load_length = ucast result_length \<or> memory_expr = None then (memory_expr, rt)
         else (map_option (\<lambda>e. sym_build_zext B e ((ucast result_length - load_length) * 8)) memory_expr, rt))"

definition sym_load_guest_i32 ::
  "('e, 'm) backend \<Rightarrow> CPUArchState \<Rightarrow> u64 \<Rightarrow> 'e option \<Rightarrow> u64 \<Rightarrow> u64 \<Rightarrow>
   ('e, 'm) rt \<Rightarrow> 'e option \<times> ('e, 'm) rt" where
  "sym_load_guest_i32 B env addr addr_expr len mmu_idx =
     sym_load_guest_internal B env addr addr_expr len 4 mmu_idx"

definition sym_load_guest_i64 ::
  "('e, 'm) backend \<Rightarrow> CPUArchState \<Rightarrow> u64 \<Rightarrow> 'e option \<Rightarrow> u64 \<Rightarrow> u64 \<Rightarrow>
   ('e, 'm) rt \<Rightarrow> 'e option \<times> ('e, 'm) rt" where
  "sym_load_guest_i64 B env addr addr_expr len mmu_idx =
     sym_load_guest_internal B env addr addr_expr len 8 mmu_idx"

definition sym_store_guest_internal ::
  "('e, 'm) backend \<Rightarrow> CPUArchState \<Rightarrow> u64 \<Rightarrow> 'e option \<Rightarrow> u64 \<Rightarrow> 'e option \<Rightarrow> u64 \<Rightarrow> u64 \<Rightarrow>
   ('e, 'm) rt \<Rightarrow> ('e, 'm) rt" where
  "sym_store_guest_internal B env value value_expr addr addr_expr len mmu_idx rt =
     (let rt = (case addr_expr of
            None \<Rightarrow> rt
          | Some e \<Rightarrow> sym_push_path_constraint
              (sym_build_cmp B build_equal e (sym_build_integer B addr 64)) True (get_pc env) rt);
          host_addr = tlb_vaddr_to_host env addr MMU_DATA_STORE mmu_idx
      in rt\<lparr>rt_shadow := sym_write_memory B (rt_shadow rt) host_addr len value_expr True\<rparr>)"

definition sym_store_guest_i32 ::
  "('e, 'm) backend \<Rightarrow> CPUArchState \<Rightarrow> u32 \<Rightarrow> 'e option \<Rightarrow> u64 \<Rightarrow> 'e option \<Rightarrow> u64 \<Rightarrow> u64 \<Rightarrow>
   ('e, 'm) rt \<Rightarrow> ('e, 'm) rt" where
  "sym_store_guest_i32 B env value value_expr addr addr_expr len mmu_idx =
     sym_store_guest_internal B env (ucast value) value_expr addr addr_expr len mmu_idx"

definition sym_store_guest_i64 ::
  "('e, 'm) backend \<Rightarrow> CPUArchState \<Rightarrow> u64 \<Rightarrow> 'e option \<Rightarrow> u64 \<Rightarrow> 'e option \<Rightarrow> u64 \<Rightarrow> u64 \<Rightarrow>
   ('e, 'm) rt \<Rightarrow> ('e, 'm) rt" where
  "sym_store_guest_i64 B env value value_expr addr addr_expr len mmu_idx =
     sym_store_guest_internal B env value value_expr addr addr_expr len mmu_idx"

definition sym_load_host_internal ::
  "('e, 'm) backend \<Rightarrow> u64 \<Rightarrow> u64 \<Rightarrow> u64 \<Rightarrow> u64 \<Rightarrow> ('e, 'm) rt \<Rightarrow> 'e option" where
  "sym_load_host_internal B addr offset load_length result_length rt =
     (let memory_expr = sym_read_memory B (rt_shadow rt) (rt_mem rt) (addr + offset) load_length True
      in if load_length = result_length \<or> memory_expr = None then memory_expr
         else map_option (\<lambda>e. sym_build_zext B e ((result_length - load_length) * 8)) memory_expr)"

definition sym_load_host_i32 ::
  "('e, 'm) backend \<Rightarrow> u64 \<Rightarrow> u64 \<Rightarrow> u64 \<Rightarrow> ('e, 'm) rt \<Rightarrow> 'e option" where
  "sym_load_host_i32 B addr offset len = sym_load_host_internal B addr offset len 4"

definition sym_load_host_i64 ::
  "('e, 'm) backend \<Rightarrow> u64 \<Rightarrow> u64 \<Rightarrow> u64 \<Rightarrow> ('e, 'm) rt \<Rightarrow> 'e option" where
  "sym_load_host_i64 B addr offset len = sym_load_host_internal B addr offset len 8"

definition sym_load_host_vec ::
  "('e, 'm) backend \<Rightarrow> u64 \<Rightarrow> u64 \<Rightarrow> u64 \<Rightarrow> ('e, 'm) rt \<Rightarrow> 'e option" where
  "sym_load_host_vec B addr offset len = sym_load_host_internal B addr offset len len"

definition sym_store_host ::
  "('e, 'm) backend \<Rightarrow> 'e option \<Rightarrow> u64 \<Rightarrow> u64 \<Rightarrow> u64 \<Rightarrow> ('e, 'm) rt \<Rightarrow> ('e, 'm) rt" where
  "sym_store_host B value_expr addr offset len rt =
     rt\<lparr>rt_shadow := sym_write_memory B (rt_shadow rt) (addr + offset) len value_expr True\<rparr>"

subsection \<open>Bit fields\<close>

definition sym_extract_i64 :: "('e, 'm) backend \<Rightarrow> 'e option \<Rightarrow> u64 \<Rightarrow> u64 \<Rightarrow> 'e option option" where
  "sym_extract_i64 B expr ofs len =
     Some (map_option (\<lambda>e. sym_build_zext B (sym_extract_helper B e (ofs + len - 1) ofs)
       (sym_bits_helper B e - len)) expr)"

definition sym_extract_i32 :: "('e, 'm) backend \<Rightarrow> 'e option \<Rightarrow> u32 \<Rightarrow> u32 \<Rightarrow> 'e option option" where
  "sym_extract_i32 B expr ofs len = sym_extract_i64 B expr (ucast ofs) (ucast len)"

definition sym_sextract_i64 :: "('e, 'm) backend \<Rightarrow> 'e option \<Rightarrow> u64 \<Rightarrow> u64 \<Rightarrow> 'e option option" where
  "sym_sextract_i64 B expr ofs len =
     Some (map_option (\<lambda>e. sym_build_sext B (sym_extract_helper B e (ofs + len - 1) ofs)
       (sym_bits_helper B e - len)) expr)"

definition sym_sextract_i32 :: "('e, 'm) backend \<Rightarrow> 'e option \<Rightarrow> u32 \<Rightarrow> u32 \<Rightarrow> 'e option option" where
  "sym_sextract_i32 B expr ofs len = sym_sextract_i64 B expr (ucast ofs) (ucast len)"

definition sym_deposit_i32 ::
  "('e, 'm) backend \<Rightarrow> u32 \<Rightarrow> 'e option \<Rightarrow> u32 \<Rightarrow> 'e option \<Rightarrow> u32 \<Rightarrow> u32 \<Rightarrow> 'e option option" where
  "sym_deposit_i32 B arg1 arg1_expr arg2 arg2_expr ofs len = do {
     es \<leftarrow> BINARY_HELPER_ENSURE_EXPRESSIONS B (ucast arg1) arg1_expr (ucast arg2) arg2_expr;
     (case es of
       None \<Rightarrow> Some None
     | Some (a, b) \<Rightarrow> do {
         bit_len \<leftarrow> c_shl (1 :: u32) (ucast len);
         let mask = bit_len - 1;
         field \<leftarrow> c_shl mask (ucast ofs);
         Some (Some (sym_build B build_or
           (sym_build B build_and a (sym_build_integer B (ucast (NOT field)) 32))
           (sym_build B build_shift_left
             (sym_build B build_and b (sym_build_integer B (ucast mask) 32))
             (sym_build_integer B (ucast ofs) 32)))) }) }"

definition sym_deposit_i64 ::
  "('e, 'm) backend \<Rightarrow> u64 \<Rightarrow> 'e option \<Rightarrow> u64 \<Rightarrow> 'e option \<Rightarrow> u64 \<Rightarrow> u64 \<Rightarrow> 'e option option" where
  "sym_deposit_i64 B arg1 arg1_expr arg2 arg2_expr ofs len = do {
     es \<leftarrow> BINARY_HELPER_ENSURE_EXPRESSIONS B arg1 arg1_expr arg2 arg2_expr;
     (case es of
       None \<Rightarrow> Some None
     | Some (a, b) \<Rightarrow> do {
         bit_len \<leftarrow> c_shl (1 :: u64) len;
         let mask = bit_len - 1;
         field \<leftarrow> c_shl mask ofs;
         Some (Some (sym_build B build_or
           (sym_build B build_and a (sym_build_integer B (NOT field) 64))
           (sym_build B build_shift_left
             (sym_build B build_and b (sym_build_integer B mask 64))
             (sym_build_integer B ofs 64)))) }) }"

definition sym_extract2_i32 ::
  "('e, 'm) backend \<Rightarrow> u32 \<Rightarrow> 'e option \<Rightarrow> u32 \<Rightarrow> 'e option \<Rightarrow> u64 \<Rightarrow> 'e option option" where
  "sym_extract2_i32 B ah ah_expr al al_expr ofs =
     (if ah_expr = None \<and> al_expr = None then Some None
      else
        let h = (case ah_expr of None \<Rightarrow> sym_build_integer B (ucast ah) 32 | Some e \<Rightarrow> e);
            l = (case al_expr of None \<Rightarrow> sym_build_integer B (ucast al) 32 | Some e \<Rightarrow> e)
        in if ofs = 0 then Some (Some l)
           else if ofs = 32 then Some (Some h)
           else do {
             al_shifted \<leftarrow> c_shr al ofs;
             sym_deposit_i32 B al_shifted
               (Some (sym_build B build_logical_shift_right l (sym_build_integer B ofs 32)))
               ah (Some h) (ucast (32 - ofs)) (ucast ofs) })"

definition sym_extract2_i64 ::
  "('e, 'm) backend \<Rightarrow> u64 \<Rightarrow> 'e option \<Rightarrow> u64 \<Rightarrow> 'e option \<Rightarrow> u64 \<Rightarrow> 'e option option" where
  "sym_extract2_i64 B ah ah_expr al al_expr ofs =
     (if ah_expr = None \<and> al_expr = None then Some None
      else
        let h = (case ah_expr of None \<Rightarrow> sym_build_integer B ah 64 | Some e \<Rightarrow> e);
            l = (case al_expr of None \<Rightarrow> sym_build_integer B al 64 | Some e \<Rightarrow> e)
        in if ofs = 0 then Some (Some l)
           else if ofs = 64 then Some (Some h)
           else do {
             al_shifted \<leftarrow> c_shr al ofs;
             sym_deposit_i64 B al_shifted
               (Some (sym_build B build_logical_shift_right l (sym_build_integer B ofs 64)))
               ah (Some h) (64 - ofs) ofs })"

subsection \<open>Conditions and path constraints\<close>

definition sym_build_tsteq :: "('e, 'm) backend \<Rightarrow> 'e \<Rightarrow> 'e \<Rightarrow> 'e option" where
  "sym_build_tsteq B a b = do {
     let bits_a = sym_bits_helper B a;
     let bits_b = sym_bits_helper B a;
     c_assert (bits_a = bits_b);
     Some (sym_build_cmp B build_equal (sym_build B build_and a b) (sym_build_integer B 0 bits_a)) }"

definition sym_build_tstne :: "('e, 'm) backend \<Rightarrow> 'e \<Rightarrow> 'e \<Rightarrow> 'e option" where
  "sym_build_tstne B a b = do {
     let bits_a = sym_bits_helper B a;
     let bits_b = sym_bits_helper B a;
     c_assert (bits_a = bits_b);
     Some (sym_build_cmp B build_not_equal (sym_build B build_and a b) (sym_build_integer B 0 bits_a)) }"

definition condition_handler :: "('e, 'm) backend \<Rightarrow> u32 \<Rightarrow> 'e \<Rightarrow> 'e \<Rightarrow> 'e option" where
  "condition_handler B comparison_operator a b =
     (let cmp = (\<lambda>c. Some (sym_build_cmp B c a b)) in
      if comparison_operator = TCG_COND_EQ then cmp build_equal
      else if comparison_operator = TCG_COND_NE then cmp build_not_equal
      else if comparison_operator = TCG_COND_TSTEQ then sym_build_tsteq B a b
      else if comparison_operator = TCG_COND_TSTNE then sym_build_tstne B a b
      else if comparison_operator = TCG_COND_LT then cmp build_signed_less_than
      else if comparison_operator = TCG_COND_GE then cmp build_signed_greater_equal
      else if comparison_operator = TCG_COND_GT then cmp build_signed_greater_than
      else if comparison_operator = TCG_COND_LE then cmp build_signed_less_equal
      else if comparison_operator = TCG_COND_LTU then cmp build_unsigned_less_than
      else if comparison_operator = TCG_COND_GEU then cmp build_unsigned_greater_equal
      else if comparison_operator = TCG_COND_GTU then cmp build_unsigned_greater_than
      else if comparison_operator = TCG_COND_LEU then cmp build_unsigned_less_equal
      else None)"

definition build_and_push_path_constraint ::
  "('e, 'm) backend \<Rightarrow> CPUArchState \<Rightarrow> 'e \<Rightarrow> 'e \<Rightarrow> u32 \<Rightarrow> u8 \<Rightarrow> ('e, 'm) rt \<Rightarrow> ('e \<times> ('e, 'm) rt) option" where
  "build_and_push_path_constraint B env arg1_expr arg2_expr comparison_operator is_taken rt = do {
     condition_symbol \<leftarrow> condition_handler B comparison_operator arg1_expr arg2_expr;
     Some (condition_symbol, sym_push_path_constraint condition_symbol (is_taken \<noteq> 0) (get_pc env) rt) }"

definition sym_setcond_internal ::
  "('e, 'm) backend \<Rightarrow> CPUArchState \<Rightarrow> u64 \<Rightarrow> 'e option \<Rightarrow> u64 \<Rightarrow> 'e option \<Rightarrow> u32 \<Rightarrow> u64 \<Rightarrow> u8 \<Rightarrow>
   ('e, 'm) rt \<Rightarrow> ('e option \<times> ('e, 'm) rt) option" where
  "sym_setcond_internal B env arg1 arg1_expr arg2 arg2_expr comparison_operator is_taken result_bits rt = do {
     es \<leftarrow> BINARY_HELPER_ENSURE_EXPRESSIONS B arg1 arg1_expr arg2 arg2_expr;
     (case es of
       None \<Rightarrow> Some (None, rt)
     | Some (a, b) \<Rightarrow> do {
         (condition_symbol, rt) \<leftarrow>
           build_and_push_path_constraint B env a b comparison_operator (ucast is_taken) rt;
         c_assert (result_bits > 1);
         Some (Some (sym_build_zext B (sym_build_bool_to_bit B condition_symbol)
           (ucast (result_bits - 1))), rt) }) }"

definition sym_setcond_i32 ::
  "('e, 'm) backend \<Rightarrow> CPUArchState \<Rightarrow> u32 \<Rightarrow> 'e option \<Rightarrow> u32 \<Rightarrow> 'e option \<Rightarrow> u32 \<Rightarrow> u32 \<Rightarrow>
   ('e, 'm) rt \<Rightarrow> ('e option \<times> ('e, 'm) rt) option" where
  "sym_setcond_i32 B env arg1 arg1_expr arg2 arg2_expr comparison_operator is_taken =
     sym_setcond_internal B env (ucast arg1) arg1_expr (ucast arg2) arg2_expr comparison_operator
       (ucast is_taken) 32"

definition sym_setcond_i64 ::
  "('e, 'm) backend \<Rightarrow> CPUArchState \<Rightarrow> u64 \<Rightarrow> 'e option \<Rightarrow> u64 \<Rightarrow> 'e option \<Rightarrow> u32 \<Rightarrow> u64 \<Rightarrow>
   ('e, 'm) rt \<Rightarrow> ('e option \<times> ('e, 'm) rt) option" where
  "sym_setcond_i64 B env arg1 arg1_expr arg2 arg2_expr comparison_operator is_taken =
     sym_setcond_internal B env arg1 arg1_expr arg2 arg2_expr comparison_operator is_taken 64"

text \<open>\<open>opt_bits\<close> is \<open>_sym_bits_helper\<close> applied to a pointer that may be NULL.\<close>

definition opt_bits :: "('e, 'm) backend \<Rightarrow> 'e option \<Rightarrow> u64 option" where
  "opt_bits B oe = map_option (sym_bits_helper B) oe"

definition sym_movcond_internal ::
  "('e, 'm) backend \<Rightarrow> CPUArchState \<Rightarrow> u64 \<Rightarrow> 'e option \<Rightarrow> u64 \<Rightarrow> 'e option \<Rightarrow>
   u64 \<Rightarrow> 'e option \<Rightarrow> u64 \<Rightarrow> 'e option \<Rightarrow> u32 \<Rightarrow> u64 \<Rightarrow> u8 \<Rightarrow>
   ('e, 'm) rt \<Rightarrow> ('e option \<times> ('e, 'm) rt) option" where
  "sym_movcond_internal B env c1 c1_expr c2 c2_expr v1 v1_expr v2 v2_expr comparison_operator is_taken
     result_bits rt =
     (if c1_expr = None \<and> c2_expr = None \<and> v1_expr = None \<and> v2_expr = None then Some (None, rt)
      else do {
        c1e \<leftarrow> (case c1_expr of Some e \<Rightarrow> Some e
                | None \<Rightarrow> do { n \<leftarrow> opt_bits B c2_expr; Some (sym_build_integer B c1 n) });
        c2e \<leftarrow> (case c2_expr of Some e \<Rightarrow> Some e
                | None \<Rightarrow> Some (sym_build_integer B c2 (sym_bits_helper B c1e)));
        v1e \<leftarrow> (case v1_expr of Some e \<Rightarrow> Some e
                | None \<Rightarrow> Some (sym_build_integer B v1 (sym_bits_helper B c1e)));
        v2e \<leftarrow> (case v2_expr of Some e \<Rightarrow> Some e
                | None \<Rightarrow> Some (sym_build_integer B v2 (sym_bits_helper B c1e)));
        c_assert (sym_bits_helper B c1e = ucast result_bits);
        c_assert (sym_bits_helper B c2e = ucast result_bits);
        c_assert (sym_bits_helper B v1e = ucast result_bits);
        c_assert (sym_bits_helper B v2e = ucast result_bits);
        (condition_symbol, rt) \<leftarrow>
          build_and_push_path_constraint B env c1e c2e comparison_operator (ucast is_taken) rt;
        let condition_ext = sym_build_sext B (sym_build_bool_to_bit B condition_symbol)
          (ucast (result_bits - 1));
        c_assert (sym_bits_helper B condition_ext = ucast result_bits);
        let v1_masked = sym_build B build_and v1e condition_ext;
        let v2_masked = sym_build B build_and v2e condition_ext;
        Some (Some (sym_build B build_xor v1_masked v2_masked), rt) })"

definition sym_movcond_i32 ::
  "('e, 'm) backend \<Rightarrow> CPUArchState \<Rightarrow> u32 \<Rightarrow> 'e option \<Rightarrow> u32 \<Rightarrow> 'e option \<Rightarrow>
   u32 \<Rightarrow> 'e option \<Rightarrow> u32 \<Rightarrow> 'e option \<Rightarrow> u32 \<Rightarrow> u32 \<Rightarrow>
   ('e, 'm) rt \<Rightarrow> ('e option \<times> ('e, 'm) rt) option" where
  "sym_movcond_i32 B env c1 c1_expr c2 c2_expr v1 v1_expr v2 v2_expr comparison_operator is_taken =
     sym_movcond_internal B env (ucast c1) c1_expr (ucast c2) c2_expr (ucast v1) v1_expr
       (ucast v2) v2_expr comparison_operator (ucast is_taken) 32"

definition sym_movcond_i64 ::
  "('e, 'm) backend \<Rightarrow> CPUArchState \<Rightarrow> u64 \<Rightarrow> 'e option \<Rightarrow> u64 \<Rightarrow> 'e option \<Rightarrow>
   u64 \<Rightarrow> 'e option \<Rightarrow> u64 \<Rightarrow> 'e option \<Rightarrow> u32 \<Rightarrow> u64 \<Rightarrow>
   ('e, 'm) rt \<Rightarrow> ('e option \<times> ('e, 'm) rt) option" where
  "sym_movcond_i64 B env c1 c1_expr c2 c2_expr v1 v1_expr v2 v2_expr comparison_operator is_taken =
     sym_movcond_internal B env c1 c1_expr c2 c2_expr v1 v1_expr v2 v2_expr comparison_operator is_taken 64"

subsection \<open>Notifications\<close>

definition sym_notify_call :: "u64 \<Rightarrow> ('e, 'm) rt \<Rightarrow> ('e, 'm) rt" where
  "sym_notify_call return_address rt = rt\<lparr>rt_events := rt_events rt @ [Notify_call return_address]\<rparr>"

definition sym_notify_return :: "u64 \<Rightarrow> ('e, 'm) rt \<Rightarrow> ('e, 'm) rt" where
  "sym_notify_return return_address rt = rt\<lparr>rt_events := rt_events rt @ [Notify_ret return_address]\<rparr>"

definition sym_notify_block :: "u64 \<Rightarrow> ('e, 'm) rt \<Rightarrow> ('e, 'm) rt" where
  "sym_notify_block block_id rt = rt\<lparr>rt_events := rt_events rt @ [Notify_block block_id]\<rparr>"

definition sym_collect_garbage :: "('e, 'm) rt \<Rightarrow> ('e, 'm) rt" where
  "sym_collect_garbage rt = rt\<lparr>rt_events := rt_events rt @ [Collect_garbage]\<rparr>"

end
