(* ===== verification/Runtime_Correct.thy ===== *)
theory Runtime_Correct
  imports Sym_Runtime
begin

unbundle bit_operations_syntax

section \<open>The runtime's helpers build the right expressions\<close>

text \<open>
  What the helpers of \<open>Sym_Runtime\<close> return, on any backend that meets the contract \<open>sym_backend\<close>:
  for each helper, that it succeeds on well-typed operands and that the operand it returns stands,
  on every input, for the operation applied to what its arguments stand for. The lemmas are proved
  once inside the locale; the properties restate them with the contract as a hypothesis.
\<close>

subsection \<open>What an operand stands for\<close>

text \<open>
  On an input \<open>\<sigma>\<close>, an operand with concrete value \<open>c\<close> and expression \<open>oe\<close> stands for the value of
  its expression, or for \<open>c\<close> when it has none. A helper is right when the operand it returns stands
  for the operation applied to what its arguments stand for, on every input.
\<close>

definition shadow_word :: "('i \<Rightarrow> 'e \<Rightarrow> int) \<Rightarrow> 'i \<Rightarrow> 'a::len word \<Rightarrow> 'e option \<Rightarrow> 'a word" where
  "shadow_word ev \<sigma> c oe = (case oe of None \<Rightarrow> c | Some e \<Rightarrow> word_of_int (ev \<sigma> e))"

definition shadow_typed :: "('e, 'm) backend \<Rightarrow> nat \<Rightarrow> 'e option \<Rightarrow> bool" where
  "shadow_typed B n oe = (case oe of None \<Rightarrow> True | Some e \<Rightarrow> sym_width B e = n)"

fun sym_helper_sem :: "sym_helper \<Rightarrow> 'a::len word \<Rightarrow> 'a word \<Rightarrow> 'a word" where
  "sym_helper_sem sym_add x y = x + y"
| "sym_helper_sem sym_sub x y = x - y"
| "sym_helper_sem sym_mul x y = x * y"
| "sym_helper_sem sym_div x y = word_of_int (sint x sdiv sint y)"
| "sym_helper_sem sym_divu x y = x div y"
| "sym_helper_sem sym_rem x y = word_of_int (sint x smod sint y)"
| "sym_helper_sem sym_remu x y = x mod y"
| "sym_helper_sem sym_and x y = x AND y"
| "sym_helper_sem sym_or x y = x OR y"
| "sym_helper_sem sym_xor x y = x XOR y"
| "sym_helper_sem sym_shift_right x y = drop_bit (unat y) x"
| "sym_helper_sem sym_arithmetic_shift_right x y = signed_drop_bit (unat y) x"
| "sym_helper_sem sym_shift_left x y = push_bit (unat y) x"
| "sym_helper_sem sym_andc x y = x AND NOT y"
| "sym_helper_sem sym_eqv x y = NOT (x XOR y)"
| "sym_helper_sem sym_nand x y = NOT (x AND y)"
| "sym_helper_sem sym_nor x y = NOT (x OR y)"
| "sym_helper_sem sym_orc x y = x OR NOT y"
| "sym_helper_sem sym_rotate_left x y = word_rotl (unat y) x"
| "sym_helper_sem sym_rotate_right x y = word_rotr (unat y) x"

fun sym_helper_defined :: "sym_helper \<Rightarrow> 'a::len word \<Rightarrow> bool" where
  "sym_helper_defined sym_div y = (y \<noteq> 0)"
| "sym_helper_defined sym_divu y = (y \<noteq> 0)"
| "sym_helper_defined sym_rem y = (y \<noteq> 0)"
| "sym_helper_defined sym_remu y = (y \<noteq> 0)"
| "sym_helper_defined sym_rotate_left y = (unat y < LENGTH('a))"
| "sym_helper_defined sym_rotate_right y = (unat y < LENGTH('a))"
| "sym_helper_defined _ (y :: 'a::len word) = True"

lemma bits_of_width: "sym_width B e = n \<Longrightarrow> sym_bits_helper B e = of_nat n"
  by (auto simp: sym_width_def)

lemma shadow_typed_simps [simp]:
  "shadow_typed B n None" "shadow_typed B n (Some e) \<longleftrightarrow> sym_width B e = n"
  by (simp_all add: shadow_typed_def)

lemma shadow_word_simps [simp]:
  "shadow_word ev \<sigma> c None = c" "shadow_word ev \<sigma> c (Some e) = word_of_int (ev \<sigma> e)"
  by (simp_all add: shadow_word_def)

context sym_backend
begin

lemma rep_shadow_word:
  "sym_width B e = LENGTH('a::len) \<Longrightarrow> represents B ev \<sigma> e (word_of_int (ev \<sigma> e) :: 'a word)"
  by (rule rep_of_ev)

lemma rep_shadow: "represents B ev \<sigma> e (x :: 'a::len word) \<Longrightarrow> shadow_word ev \<sigma> c (Some e) = x"
  by (simp add: represents_def)

lemma rep_bits: "represents B ev \<sigma> e (x :: 'a::len word) \<Longrightarrow> sym_bits_helper B e = of_nat LENGTH('a)"
  by (simp add: represents_def bits_of_width)

lemma rep_const [rep_intros]:
  "n = of_nat LENGTH('a::len) \<Longrightarrow> LENGTH('a) \<le> 64 \<Longrightarrow> ucast v = x \<Longrightarrow>
    represents B ev \<sigma> (sym_build_integer B v n) (x :: 'a word)"
  using rep_integer by blast

lemma ensure_correct:
  fixes a b :: "'a::len word"
  assumes len: "LENGTH('a) = 32 \<or> LENGTH('a) = 64"
    and "shadow_typed B LENGTH('a) ea" "shadow_typed B LENGTH('a) eb"
  obtains "ea = None" "eb = None" "BINARY_HELPER_ENSURE_EXPRESSIONS B (ucast a) ea (ucast b) eb = Some None"
  | e1 e2 where "ea \<noteq> None \<or> eb \<noteq> None"
      "BINARY_HELPER_ENSURE_EXPRESSIONS B (ucast a) ea (ucast b) eb = Some (Some (e1, e2))"
      "\<And>\<sigma>. represents B ev \<sigma> e1 (shadow_word ev \<sigma> a ea)"
      "\<And>\<sigma>. represents B ev \<sigma> e2 (shadow_word ev \<sigma> b eb)"
proof -
  have int: "represents B ev \<sigma> (sym_build_integer B (ucast c) (of_nat LENGTH('a))) (c :: 'a word)" for \<sigma> c
    using len by (intro rep_const) (auto simp: ucast_up_down)
  note bits = bits_of_width [of B _ "LENGTH('a)"]
  have len': "(of_nat LENGTH('a) :: u64) = 32 \<or> (of_nat LENGTH('a) :: u64) = 64" using len by auto
  show thesis
  proof (cases ea; cases eb)
    assume "ea = None" "eb = None"
    then show thesis by (intro that(1)) (simp_all add: BINARY_HELPER_ENSURE_EXPRESSIONS_def)
  next
    fix e assume "ea = None" "eb = Some e"
    then show thesis using assms int len' rep_bits [OF int]
      by (intro that(2)) (auto simp: BINARY_HELPER_ENSURE_EXPRESSIONS_def bits rep_of_ev)
  next
    fix e assume "ea = Some e" "eb = None"
    then show thesis using assms int len' rep_bits [OF int]
      by (intro that(2)) (auto simp: BINARY_HELPER_ENSURE_EXPRESSIONS_def bits rep_of_ev)
  next
    fix e e' assume "ea = Some e" "eb = Some e'"
    then show thesis using assms len'
      by (intro that(2)) (auto simp: BINARY_HELPER_ENSURE_EXPRESSIONS_def bits rep_of_ev)
  qed
qed

lemma helper_expr_rep:
  assumes "represents B ev \<sigma> e1 (x :: 'a::len word)" "represents B ev \<sigma> e2 (y :: 'a word)"
    and "LENGTH('a) = 32 \<or> LENGTH('a) = 64" "sym_helper_defined h y"
  shows "represents B ev \<sigma> (sym_helper_expr B h e1 e2) (sym_helper_sem h x y)"
proof -
  have int: "represents B ev \<sigma> (sym_build_integer B (of_nat LENGTH('a)) (of_nat LENGTH('a))) (of_nat LENGTH('a) :: 'a word)"
    using assms(3) by (intro rep_const) auto
  have bits: "ucast (ucast (sym_bits_helper B e1) :: u8) = (of_nat LENGTH('a) :: u64)"
    using rep_bits [OF assms(1)] assms(3) by auto
  have sub: "unat (of_nat LENGTH('a) - y) = LENGTH('a) - unat y" if "unat y < LENGTH('a)"
    using that assms(3) by (auto simp: unat_sub_if_size)
  show ?thesis
  proof (cases h)
    case sym_rotate_left
    then show ?thesis using assms int
      by (simp add: sym_rotate_left_expr_def bits sub rep_intros flip: rotl_shifts)
        (metis rep_intros sub)
  next
    case sym_rotate_right
    then show ?thesis using assms int
      by (simp add: sym_rotate_right_expr_def bits sub rep_intros flip: rotr_shifts)
        (metis rep_intros sub)
  qed (use assms in \<open>simp_all add: rep_intros del: bit.de_Morgan_conj bit.de_Morgan_disj\<close>)
qed

lemma helper_expr_width:
  assumes "sym_width B e1 = n" "sym_width B e2 = n" "n = 32 \<or> n = 64"
  shows "sym_width B (sym_helper_expr B h e1 e2) = n"
proof -
  have "sym_width B (sym_build_integer B (of_nat n) (of_nat n)) = n"
    using assms(3) by (auto simp: integer_width)
  moreover have "ucast (ucast (sym_bits_helper B e1) :: u8) = (of_nat n :: u64)"
    using bits_of_width [OF assms(1)] assms(3) by auto
  ultimately show ?thesis
    using assms by (cases h)
      (simp_all add: binop_width not_width Let_def sym_rotate_left_expr_def sym_rotate_right_expr_def)
qed

lemma binary_correct:
  fixes a b :: "'a::len word"
  assumes len: "LENGTH('a) = 32 \<or> LENGTH('a) = 64"
    and typed: "shadow_typed B LENGTH('a) ea" "shadow_typed B LENGTH('a) eb"
  shows "\<exists>r. sym_binary_i64 B h (ucast a) ea (ucast b) eb = Some r \<and> shadow_typed B LENGTH('a) r
    \<and> (r = None \<longleftrightarrow> ea = None \<and> eb = None)
    \<and> (\<forall>\<sigma>. sym_helper_defined h (shadow_word ev \<sigma> b eb) \<longrightarrow>
        shadow_word ev \<sigma> (sym_helper_sem h a b) r =
          sym_helper_sem h (shadow_word ev \<sigma> a ea) (shadow_word ev \<sigma> b eb))"
  using len typed
proof (cases rule: ensure_correct [of ea eb a b])
  case (2 e1 e2)
  have "sym_width B e1 = LENGTH('a)" "sym_width B e2 = LENGTH('a)"
    using 2(3,4) by (simp_all add: represents_def)
  then have "shadow_typed B LENGTH('a) (Some (sym_helper_expr B h e1 e2))"
    using len by (simp add: helper_expr_width)
  moreover have "shadow_word ev \<sigma> (sym_helper_sem h a b) (Some (sym_helper_expr B h e1 e2))
      = sym_helper_sem h (shadow_word ev \<sigma> a ea) (shadow_word ev \<sigma> b eb)"
    if "sym_helper_defined h (shadow_word ev \<sigma> b eb)" for \<sigma>
    by (rule rep_shadow [OF helper_expr_rep [OF 2(3,4) len that]])
  ultimately show ?thesis using 2(1,2)
    by (intro exI [of _ "Some (sym_helper_expr B h e1 e2)"]) (auto simp: sym_binary_i64_def)
qed (simp_all add: sym_binary_i64_def)

end

text \<open>C3: Every binary helper of the runtime (\<open>sym_add\<close>, \<open>sym_div\<close>, \<dots>, \<open>sym_rotate_right\<close>), in its 32-bit and
  its 64-bit version, succeeds on well-typed operands, returns NULL exactly when both operands are
  concrete, and otherwise builds an expression of the operand width which, on every input on which the
  operation is defined (no division by zero, rotation counts below the width), has the value of the
  operation on what the operands stand for.\<close>

theorem sym_binary_correct:
  fixes a b :: u64 and c d :: u32
  assumes "sym_backend B ev evb"
    and "shadow_typed B 64 ea" "shadow_typed B 64 eb" "shadow_typed B 32 ec" "shadow_typed B 32 ed"
  shows "(\<exists>r. sym_binary_i64 B h a ea b eb = Some r \<and> shadow_typed B 64 r
      \<and> (r = None \<longleftrightarrow> ea = None \<and> eb = None)
      \<and> (\<forall>\<sigma>. sym_helper_defined h (shadow_word ev \<sigma> b eb) \<longrightarrow>
          shadow_word ev \<sigma> (sym_helper_sem h a b) r =
            sym_helper_sem h (shadow_word ev \<sigma> a ea) (shadow_word ev \<sigma> b eb)))
    \<and> (\<exists>r. sym_binary_i32 B h c ec d ed = Some r \<and> shadow_typed B 32 r
      \<and> (r = None \<longleftrightarrow> ec = None \<and> ed = None)
      \<and> (\<forall>\<sigma>. sym_helper_defined h (shadow_word ev \<sigma> d ed) \<longrightarrow>
          shadow_word ev \<sigma> (sym_helper_sem h c d) r =
            sym_helper_sem h (shadow_word ev \<sigma> c ec) (shadow_word ev \<sigma> d ed)))"
  using sym_backend.binary_correct [OF assms(1), of ea eb h a b]
    sym_backend.binary_correct [OF assms(1), of ec ed h c d] assms(2-)
  by (simp add: sym_binary_i32_def)

theorem sym_binary_witness:
  "\<exists>r. sym_binary_i64 term_backend sym_sub 7 (Some (SInput 0 64)) 3 None = Some r
    \<and> shadow_word sval (\<lambda>_. 10) (4 :: u64) r = 7"
  using sym_binary_correct [of term_backend sval strue "Some (SInput 0 64)" None None None sym_sub 7 3 0 0]
  by (auto simp: tb.sym_backend_axioms sym_width_def)

subsection \<open>The other helpers\<close>

text \<open>\<open>shadow_result B ev r c f\<close>: the operand with value \<open>c\<close> and expression \<open>r\<close> stands for \<open>f \<sigma>\<close> on
  every input \<open>\<sigma>\<close>.\<close>

definition shadow_result ::
  "('e, 'm) backend \<Rightarrow> ('i \<Rightarrow> 'e \<Rightarrow> int) \<Rightarrow> 'e option \<Rightarrow> 'a::len word \<Rightarrow> ('i \<Rightarrow> 'a word) \<Rightarrow> bool" where
  "shadow_result B ev r c f \<longleftrightarrow> shadow_typed B LENGTH('a) r \<and> (\<forall>\<sigma>. shadow_word ev \<sigma> c r = f \<sigma>)"

definition extract2_word :: "'a::len word \<Rightarrow> 'a word \<Rightarrow> nat \<Rightarrow> 'a word" where
  "extract2_word ah al ofs = drop_bit ofs al OR push_bit (LENGTH('a) - ofs) ah"

lemma shadow_result_None [simp]: "shadow_result B ev None c f \<longleftrightarrow> (\<forall>\<sigma>. f \<sigma> = c)"
  by (auto simp: shadow_result_def)

lemma deposit_shifted:
  assumes "0 < n" "n < LENGTH('a)"
  shows "deposit_word (drop_bit n al) (LENGTH('a) - n) n (ah :: 'a::len word) = extract2_word ah al n"
  using assms by (intro bit_word_eqI)
    (auto simp: bit_deposit_word extract2_word_def bit_simps dest: bit_imp_le_length)

context sym_backend
begin

lemma shadow_resultI:
  fixes f :: "'i \<Rightarrow> 'a::len word"
  assumes "\<And>\<sigma>. represents B ev \<sigma> e (f \<sigma>)"
  shows "shadow_result B ev (Some e) c f"
  using assms [THEN rep_shadow] assms by (simp add: shadow_result_def represents_def)

lemma shadow_resultD: "shadow_result B ev (Some e) c f \<Longrightarrow> represents B ev \<sigma> e (f \<sigma>)"
  by (metis rep_of_ev shadow_result_def shadow_typed_simps(2) shadow_word_simps(2))

lemma sext_correct:
  fixes c :: "'a::len word"
  assumes "LENGTH('a) = 32 \<or> LENGTH('a) = 64" "shadow_typed B LENGTH('a) oe"
    and "0 < unat n" "8 * unat n \<le> LENGTH('a)"
  shows "\<exists>r. sym_sext B oe n = Some r \<and>
    shadow_result B ev r (signed_take_bit (8 * unat n - 1) c)
      (\<lambda>\<sigma>. signed_take_bit (8 * unat n - 1) (shadow_word ev \<sigma> c oe))"
proof (cases oe)
  case (Some e)
  define d :: "'a word" where "d = of_nat (LENGTH('a) - 8 * unat n)"
  have w: "sym_bits_helper B e = of_nat LENGTH('a)" using assms(2) Some by (simp add: bits_of_width)
  have "unat (n * 8) = 8 * unat n" using assms(1,4) by (auto simp: unat_word_ariths)
  then have "unat (of_nat LENGTH('a) - n * 8 :: u64) = LENGTH('a) - 8 * unat n"
    using assms(1,4) by (auto simp: unat_sub_if_size)
  then have "of_nat LENGTH('a) - n * 8 = (of_nat (LENGTH('a) - 8 * unat n) :: u64)"
    using assms(1) by (auto simp: word_unat_eq_iff unat_of_nat)
  moreover have "unat d = LENGTH('a) - 8 * unat n"
    using assms(1) by (auto simp: d_def unat_of_nat)
  moreover have "represents B ev \<sigma> (sym_build_integer B (of_nat (LENGTH('a) - 8 * unat n)) (of_nat LENGTH('a))) d" for \<sigma>
    unfolding d_def using assms(1) by (intro rep_const) (auto intro: ucast_of_nat_down)
  moreover have "represents B ev \<sigma> e (word_of_int (ev \<sigma> e) :: 'a word)" for \<sigma>
    using assms(2) Some by (simp add: rep_of_ev)
  moreover have "signed_drop_bit (LENGTH('a) - 8 * unat n) (push_bit (LENGTH('a) - 8 * unat n) x)
      = signed_take_bit (8 * unat n - 1) x" for x :: "'a word"
    using sextract_shifts [of "8 * unat n" 0 x] assms(3,4) by simp
  ultimately show ?thesis
    unfolding Some by (auto simp: sym_sext_def w Let_def intro!: shadow_resultI) (metis rep_shift(1,3))
qed (simp add: sym_sext_def)

lemma zext_correct:
  fixes c :: "'a::len word"
  assumes "LENGTH('a) = 32 \<or> LENGTH('a) = 64" "shadow_typed B LENGTH('a) oe"
    and "8 * unat n < 64"
  shows "\<exists>r. sym_zext B oe n = Some r \<and>
    shadow_result B ev r (take_bit (8 * unat n) c) (\<lambda>\<sigma>. take_bit (8 * unat n) (shadow_word ev \<sigma> c oe))"
proof (cases oe)
  case (Some e)
  have w: "sym_bits_helper B e = of_nat LENGTH('a)" using assms(2) Some by (simp add: bits_of_width)
  have n: "unat (n * 8) = 8 * unat n" using assms(3) by (auto simp: unat_word_ariths)
  have "push_bit (8 * unat n) 1 - 1 = (mask (8 * unat n) :: u64)"
    by (simp add: mask_eq_exp_minus_1)
  moreover have "ucast (mask (8 * unat n) :: u64) = (mask (8 * unat n) :: 'a word)"
    by (intro bit_word_eqI) (use assms(1) in \<open>auto simp: bit_simps\<close>)
  ultimately have "represents B ev \<sigma> (sym_build_integer B (push_bit (8 * unat n) 1 - 1) (of_nat LENGTH('a)))
      (mask (8 * unat n) :: 'a word)" for \<sigma>
    using assms(1) by (intro rep_const) auto
  moreover have "represents B ev \<sigma> e (word_of_int (ev \<sigma> e) :: 'a word)" for \<sigma>
    using assms(2) Some by (simp add: rep_of_ev)
  ultimately show ?thesis
    using assms(1,3) unfolding Some
    by (auto simp: sym_zext_def w n c_shl_def take_bit_eq_mask and.commute intro!: shadow_resultI rep_arith)
qed (simp add: sym_zext_def)

lemma unary_correct:
  assumes "shadow_typed B LENGTH('a) oe"
  shows "\<exists>r. sym_neg B oe = Some r \<and> shadow_result B ev r (- c) (\<lambda>\<sigma>. - shadow_word ev \<sigma> (c :: 'a::len word) oe)"
    and "\<exists>r. sym_not B oe = Some r \<and> shadow_result B ev r (NOT c) (\<lambda>\<sigma>. NOT (shadow_word ev \<sigma> (c :: 'a::len word) oe))"
  using assms by (cases oe; auto simp: sym_neg_def sym_not_def intro!: shadow_resultI rep_unary rep_of_ev)+

lemma widen_correct:
  assumes "shadow_typed B 32 oe"
  shows "\<exists>r. sym_sext_i32_i64 B oe = Some r \<and>
      shadow_result B ev r (scast c :: u64) (\<lambda>\<sigma>. scast (shadow_word ev \<sigma> (c :: u32) oe))"
    and "\<exists>r. sym_zext_i32_i64 B oe = Some r \<and>
      shadow_result B ev r (ucast c :: u64) (\<lambda>\<sigma>. ucast (shadow_word ev \<sigma> (c :: u32) oe))"
  using assms bits_of_width [of B _ 32]
  by (cases oe; auto simp: sym_sext_i32_i64_def sym_zext_i32_i64_def
      intro!: shadow_resultI rep_sext rep_zext rep_of_ev)+

lemma trunc_correct:
  assumes "shadow_typed B 64 oe"
  shows "\<exists>r. sym_trunc_i64_i32 B oe = Some r \<and>
      shadow_result B ev r (ucast c :: u32) (\<lambda>\<sigma>. ucast (shadow_word ev \<sigma> (c :: u64) oe))"
  using assms bits_of_width [of B _ 64]
  by (cases oe; auto simp: sym_trunc_i64_i32_def intro!: shadow_resultI rep_trunc rep_of_ev)

lemmas ensure64 = ensure_correct [where 'a = 64, simplified, consumes 2]

lemma muluh_correct:
  fixes a b :: u64
  assumes "shadow_typed B 64 ea" "shadow_typed B 64 eb"
  shows "\<exists>r. sym_muluh_i64 B a ea b eb = Some r \<and>
    shadow_result B ev r (ucast (drop_bit 64 (ucast a * ucast b :: 128 word)) :: u64)
      (\<lambda>\<sigma>. ucast (drop_bit 64 (ucast (shadow_word ev \<sigma> a ea) * ucast (shadow_word ev \<sigma> b eb) :: 128 word)))"
  using assms
proof (cases rule: ensure64 [of ea eb a b])
  case (2 e1 e2)
  have "represents B ev \<sigma> (sym_extract_helper B (sym_build B build_mul (sym_build_zext B e1 64) (sym_build_zext B e2 64)) 127 64)
     (ucast (drop_bit (unat (64 :: u64)) (ucast (shadow_word ev \<sigma> a ea) * ucast (shadow_word ev \<sigma> b eb) :: 128 word)) :: u64)" for \<sigma>
    by (intro rep_extract rep_arith rep_zext 2) simp_all
  then show ?thesis
    using 2(2) rep_bits [OF 2(3)] rep_bits [OF 2(4)]
    by (auto simp: sym_muluh_i64_def intro!: shadow_resultI)
qed (simp_all add: sym_muluh_i64_def)

lemma extract_expr_rep:
  fixes x :: "'a::len word"
  assumes len: "LENGTH('a) = 32 \<or> LENGTH('a) = 64" and e: "represents B ev \<sigma> e x"
    and n: "0 < unat n" "unat ofs + unat n \<le> LENGTH('a)"
  defines "f \<equiv> sym_extract_helper B e (ofs + n - 1) ofs"
  shows "represents B ev \<sigma> (sym_build_zext B f (sym_bits_helper B e - n)) (take_bit (unat n) (drop_bit (unat ofs) x))"
    and "represents B ev \<sigma> (sym_build_sext B f (sym_bits_helper B e - n))
      (signed_take_bit (unat n - 1) (drop_bit (unat ofs) x))"
proof -
  have hi: "unat (ofs + n - 1) = unat ofs + unat n - 1"
  proof -
    have "unat (ofs + n) = unat ofs + unat n" using len n(2) by (auto simp: unat_plus_if_size word_size)
    with n(1) show ?thesis by (simp add: unat_sub_if_size)
  qed
  have k: "unat (sym_bits_helper B e - n) = LENGTH('a) - unat n"
    using rep_bits [OF e] len n(2) by (auto simp: unat_sub_if_size)
  have small: "LENGTH('a) - unat n < 256" "LENGTH('a) < 4294967296" "unat n \<le> LENGTH('a)"
    "unat n - Suc 0 < unat n"
    using len n by auto
  have f: "sym_width B f = unat n" "ev \<sigma> f = take_bit (unat n) (drop_bit (unat ofs) (uint x))"
    using n e by (simp_all add: f_def represents_def extract_width extract_ev hi)
  show "represents B ev \<sigma> (sym_build_zext B f (sym_bits_helper B e - n)) (take_bit (unat n) (drop_bit (unat ofs) x))"
    using small n by (simp add: represents_def zext_width zext_ev f k unsigned_take_bit_eq uint_drop_bit)
  show "represents B ev \<sigma> (sym_build_sext B f (sym_bits_helper B e - n))
      (signed_take_bit (unat n - 1) (drop_bit (unat ofs) x))"
    using small n by (auto simp: represents_def sext_width sext_ev f k uint_signed_take_bit uint_drop_bit
        signed_take_bit_take_bit min_def)
qed

lemma extract_correct:
  fixes c :: "'a::len word"
  assumes "LENGTH('a) = 32 \<or> LENGTH('a) = 64" "shadow_typed B LENGTH('a) oe"
    and "0 < unat n" "unat ofs + unat n \<le> LENGTH('a)"
  shows "\<exists>r. sym_extract_i64 B oe ofs n = Some r \<and>
      shadow_result B ev r (take_bit (unat n) (drop_bit (unat ofs) c))
        (\<lambda>\<sigma>. take_bit (unat n) (drop_bit (unat ofs) (shadow_word ev \<sigma> c oe)))"
    and "\<exists>r. sym_sextract_i64 B oe ofs n = Some r \<and>
      shadow_result B ev r (signed_take_bit (unat n - 1) (drop_bit (unat ofs) c))
        (\<lambda>\<sigma>. signed_take_bit (unat n - 1) (drop_bit (unat ofs) (shadow_word ev \<sigma> c oe)))"
  using assms
  by (cases oe; auto simp: sym_extract_i64_def sym_sextract_i64_def
      intro!: shadow_resultI extract_expr_rep [simplified] rep_of_ev)+

lemma deposit64_correct:
  assumes "shadow_typed B 64 ea" "shadow_typed B 64 eb" "unat ofs < 64" "unat n < 64"
  shows "\<exists>r. sym_deposit_i64 B a ea b eb ofs n = Some r \<and>
    shadow_result B ev r (deposit_word a (unat ofs) (unat n) b)
      (\<lambda>\<sigma>. deposit_word (shadow_word ev \<sigma> a ea) (unat ofs) (unat n) (shadow_word ev \<sigma> b eb))"
  using assms(1,2)
proof (cases rule: ensure64 [of ea eb a b])
  case (2 e1 e2)
  have m: "2 ^ unat n - 1 = (mask (unat n) :: u64)" by (simp add: mask_eq_exp_minus_1)
  have "represents B ev \<sigma> (sym_build B build_or
      (sym_build B build_and e1 (sym_build_integer B (NOT (push_bit (unat ofs) (mask (unat n)))) 64))
      (sym_build B build_shift_left (sym_build B build_and e2 (sym_build_integer B (mask (unat n)) 64))
        (sym_build_integer B ofs 64)))
     ((shadow_word ev \<sigma> a ea AND NOT (push_bit (unat ofs) (mask (unat n)))) OR
      push_bit (unat ofs) (shadow_word ev \<sigma> b eb AND mask (unat n)))" for \<sigma>
    by (intro rep_arith rep_shift rep_const 2) simp_all
  then show ?thesis using 2(2) assms(3,4)
    by (auto simp: sym_deposit_i64_def deposit_word_def take_bit_eq_mask m Let_def intro!: shadow_resultI)
qed (simp_all add: sym_deposit_i64_def)

lemmas ensure32 = ensure_correct [where 'a = 32, simplified, consumes 2]

lemma deposit32_correct:
  assumes "shadow_typed B 32 ea" "shadow_typed B 32 eb" "unat ofs < 32" "unat n < 32"
  shows "\<exists>r. sym_deposit_i32 B a ea b eb ofs n = Some r \<and>
    shadow_result B ev r (deposit_word a (unat ofs) (unat n) b)
      (\<lambda>\<sigma>. deposit_word (shadow_word ev \<sigma> a ea) (unat ofs) (unat n) (shadow_word ev \<sigma> b eb))"
  using assms(1,2)
proof (cases rule: ensure32 [of ea eb a b])
  case (2 e1 e2)
  have m: "2 ^ unat n - 1 = (mask (unat n) :: u32)" by (simp add: mask_eq_exp_minus_1)
  have "represents B ev \<sigma> (sym_build B build_or
      (sym_build B build_and e1 (sym_build_integer B (ucast (NOT (push_bit (unat ofs) (mask (unat n) :: u32)))) 32))
      (sym_build B build_shift_left (sym_build B build_and e2 (sym_build_integer B (ucast (mask (unat n) :: u32)) 32))
        (sym_build_integer B (ucast ofs) 32)))
     ((shadow_word ev \<sigma> a ea AND NOT (push_bit (unat ofs) (mask (unat n)))) OR
      push_bit (unat ofs) (shadow_word ev \<sigma> b eb AND mask (unat n)))" for \<sigma>
    by (intro rep_arith rep_shift rep_const 2) (simp_all add: ucast_up_down)
  then show ?thesis using 2(2) assms(3,4)
    by (auto simp: sym_deposit_i32_def deposit_word_def take_bit_eq_mask m Let_def unat_ucast_up intro!: shadow_resultI)
qed (simp_all add: sym_deposit_i32_def)

lemma or_integer_typed:
  assumes "shadow_typed B n oe" "n = 32 \<or> n = 64"
  shows "sym_width B (case oe of None \<Rightarrow> sym_build_integer B c (of_nat n) | Some e \<Rightarrow> e) = n"
  using assms by (auto simp: integer_width split: option.splits)

end

context sym_backend
begin

lemma or_integer_rep:
  fixes c :: "'a::len word"
  assumes "shadow_typed B LENGTH('a) oe" "LENGTH('a) = 32 \<or> LENGTH('a) = 64"
    and "n = of_nat LENGTH('a)" "u = ucast c"
  shows "represents B ev \<sigma> (case oe of None \<Rightarrow> sym_build_integer B u n | Some e \<Rightarrow> e) (shadow_word ev \<sigma> c oe)"
proof (cases oe)
  case None
  then show ?thesis using assms(2-) by (auto simp: ucast_up_down intro!: rep_const)
qed (use assms in \<open>simp add: rep_of_ev\<close>)

lemma rep_shift_const:
  assumes "represents B ev \<sigma> e (x :: 'a::len word)" "n = of_nat LENGTH('a)" "LENGTH('a) \<le> 64"
    and "unat (ucast k :: 'a word) = m"
  shows "represents B ev \<sigma> (sym_build B build_shift_left e (sym_build_integer B k n)) (push_bit m x)"
    and "represents B ev \<sigma> (sym_build B build_logical_shift_right e (sym_build_integer B k n)) (drop_bit m x)"
  using rep_shift [OF assms(1) rep_integer [OF assms(2,3)], of k] assms(4) by auto

lemma extract2_i64_correct:
  assumes "shadow_typed B 64 eh" "shadow_typed B 64 el" "unat ofs \<le> 64"
  shows "\<exists>r. sym_extract2_i64 B ah eh al el ofs = Some r \<and>
    shadow_result B ev r (extract2_word ah al (unat ofs))
      (\<lambda>\<sigma>. extract2_word (shadow_word ev \<sigma> ah eh) (shadow_word ev \<sigma> al el) (unat ofs))"
proof (cases "eh = None \<and> el = None")
  case False
  define h where "h = (case eh of None \<Rightarrow> sym_build_integer B ah 64 | Some e \<Rightarrow> e)"
  define l where "l = (case el of None \<Rightarrow> sym_build_integer B al 64 | Some e \<Rightarrow> e)"
  have h: "\<And>\<sigma>. represents B ev \<sigma> h (shadow_word ev \<sigma> ah eh)"
    and l: "\<And>\<sigma>. represents B ev \<sigma> l (shadow_word ev \<sigma> al el)"
    using assms(1,2) by (simp_all add: h_def l_def or_integer_rep)
  define sh where "sh = sym_build B build_logical_shift_right l (sym_build_integer B ofs 64)"
  have sh: "represents B ev \<sigma> sh (drop_bit (unat ofs) (shadow_word ev \<sigma> al el))" for \<sigma>
    unfolding sh_def by (intro rep_shift l rep_const) simp_all
  have eq: "sym_extract2_i64 B ah eh al el ofs =
      (if ofs = 0 then Some (Some l) else if ofs = 64 then Some (Some h)
       else Option.bind (c_shr al ofs) (\<lambda>s. sym_deposit_i64 B s (Some sh) ah (Some h) (64 - ofs) ofs))"
    using False by (auto simp: sym_extract2_i64_def h_def l_def sh_def Let_def)
  have "ofs = 0 \<longleftrightarrow> unat ofs = 0" "ofs = 64 \<longleftrightarrow> unat ofs = 64" by (simp_all add: word_unat_eq_iff)
  then consider "ofs = 0" | "ofs = 64" | "0 < unat ofs" "unat ofs < 64" "ofs \<noteq> 0" "ofs \<noteq> 64"
    using assms(3) by linarith
  then show ?thesis
  proof cases
    case 1
    then show ?thesis using eq shadow_resultI [OF l, of al] by (simp add: extract2_word_def)
  next
    case 2
    then show ?thesis using eq shadow_resultI [OF h, of ah] by (simp add: extract2_word_def)
  next
    case 3
    then have d: "unat (64 - ofs) = 64 - unat ofs" by (simp add: unat_sub_if_size)
    have "sym_width B sh = 64" "sym_width B h = 64" using sh h by (simp_all add: represents_def)
    with 3 d deposit64_correct [of "Some sh" "Some h" "64 - ofs" ofs "drop_bit (unat ofs) al" ah]
    obtain r where "sym_deposit_i64 B (drop_bit (unat ofs) al) (Some sh) ah (Some h) (64 - ofs) ofs = Some r"
      "shadow_result B ev r (deposit_word (drop_bit (unat ofs) al) (64 - unat ofs) (unat ofs) ah)
        (\<lambda>\<sigma>. deposit_word (word_of_int (ev \<sigma> sh)) (64 - unat ofs) (unat ofs) (word_of_int (ev \<sigma> h)))"
      by auto
    moreover have "word_of_int (ev \<sigma> sh) = drop_bit (unat ofs) (shadow_word ev \<sigma> al el)"
      "word_of_int (ev \<sigma> h) = shadow_word ev \<sigma> ah eh" for \<sigma>
      using sh h by (simp_all add: represents_def)
    ultimately show ?thesis using 3 by (simp add: eq deposit_shifted [where 'a = 64, simplified])
  qed
qed (simp add: sym_extract2_i64_def)

lemma unat_ucast_small: "unat (x :: u64) < 2 ^ 32 \<Longrightarrow> unat (ucast x :: u32) = unat x"
  by (simp add: unsigned_ucast_eq take_bit_nat_eq_self)

lemma extract2_i32_correct:
  assumes "shadow_typed B 32 eh" "shadow_typed B 32 el" "unat (ofs :: u64) \<le> 32"
  shows "\<exists>r. sym_extract2_i32 B ah eh al el ofs = Some r \<and>
    shadow_result B ev r (extract2_word ah al (unat ofs))
      (\<lambda>\<sigma>. extract2_word (shadow_word ev \<sigma> ah eh) (shadow_word ev \<sigma> al el) (unat ofs))"
proof (cases "eh = None \<and> el = None")
  case False
  define h where "h = (case eh of None \<Rightarrow> sym_build_integer B (ucast ah) 32 | Some e \<Rightarrow> e)"
  define l where "l = (case el of None \<Rightarrow> sym_build_integer B (ucast al) 32 | Some e \<Rightarrow> e)"
  have h: "\<And>\<sigma>. represents B ev \<sigma> h (shadow_word ev \<sigma> ah eh)"
    and l: "\<And>\<sigma>. represents B ev \<sigma> l (shadow_word ev \<sigma> al el)"
    using assms(1,2) by (simp_all add: h_def l_def or_integer_rep)
  define sh where "sh = sym_build B build_logical_shift_right l (sym_build_integer B ofs 32)"
  have sh: "represents B ev \<sigma> sh (drop_bit (unat ofs) (shadow_word ev \<sigma> al el))" for \<sigma>
    unfolding sh_def using assms(3) by (intro rep_shift_const l) (auto simp: unat_ucast_small)
  have eq: "sym_extract2_i32 B ah eh al el ofs =
      (if ofs = 0 then Some (Some l) else if ofs = 32 then Some (Some h)
       else Option.bind (c_shr al ofs) (\<lambda>s. sym_deposit_i32 B s (Some sh) ah (Some h) (ucast (32 - ofs)) (ucast ofs)))"
    using False by (auto simp: sym_extract2_i32_def h_def l_def sh_def Let_def)
  have "ofs = 0 \<longleftrightarrow> unat ofs = 0" "ofs = 32 \<longleftrightarrow> unat ofs = 32" by (simp_all add: word_unat_eq_iff)
  then consider "ofs = 0" | "ofs = 32" | "0 < unat ofs" "unat ofs < 32" "ofs \<noteq> 0" "ofs \<noteq> 32"
    using assms(3) by linarith
  then show ?thesis
  proof cases
    case 1
    then show ?thesis using eq shadow_resultI [OF l, of al] by (simp add: extract2_word_def)
  next
    case 2
    then show ?thesis using eq shadow_resultI [OF h, of ah] by (simp add: extract2_word_def)
  next
    case 3
    then have d: "unat (ucast (32 - ofs) :: u32) = 32 - unat ofs" "unat (ucast ofs :: u32) = unat ofs"
      by (simp_all add: unat_sub_if_size unat_ucast_small)
    have "sym_width B sh = 32" "sym_width B h = 32" using sh h by (simp_all add: represents_def)
    with 3 d deposit32_correct [of "Some sh" "Some h" "ucast (32 - ofs)" "ucast ofs" "drop_bit (unat ofs) al" ah]
    obtain r where "sym_deposit_i32 B (drop_bit (unat ofs) al) (Some sh) ah (Some h) (ucast (32 - ofs)) (ucast ofs) = Some r"
      "shadow_result B ev r (deposit_word (drop_bit (unat ofs) al) (32 - unat ofs) (unat ofs) ah)
        (\<lambda>\<sigma>. deposit_word (word_of_int (ev \<sigma> sh)) (32 - unat ofs) (unat ofs) (word_of_int (ev \<sigma> h)))"
      by auto
    moreover have "word_of_int (ev \<sigma> sh) = drop_bit (unat ofs) (shadow_word ev \<sigma> al el)"
      "word_of_int (ev \<sigma> h) = shadow_word ev \<sigma> ah eh" for \<sigma>
      using sh h by (simp_all add: represents_def)
    ultimately show ?thesis using 3 by (simp add: eq deposit_shifted [where 'a = 32, simplified])
  qed
qed (simp add: sym_extract2_i32_def)

lemma bswap8_correct:
  assumes "shadow_typed B 64 oe"
  shows "\<exists>r. sym_bswap B oe 8 = Some r \<and>
    shadow_result B ev r (bswap64 c) (\<lambda>\<sigma>. bswap64 (shadow_word ev \<sigma> c oe))"
proof (cases oe)
  case (Some e)
  have w: "sym_bits_helper B e = 64" using assms Some by (simp add: bits_of_width)
  have "represents B ev \<sigma> e (word_of_int (ev \<sigma> e) :: u64)" for \<sigma> using assms Some by (simp add: rep_of_ev)
  then show ?thesis
    unfolding Some sym_bswap_def Let_def
    by (simp add: w, intro shadow_resultI, unfold bswap64_blocks [symmetric])
      (intro rep_arith rep_shift_const rep_const; simp)
qed (simp add: sym_bswap_def)

lemma bswap4_correct:
  assumes "shadow_typed B 32 oe"
  shows "\<exists>r. sym_bswap B oe 4 = Some r \<and>
    shadow_result B ev r (bswap32 c) (\<lambda>\<sigma>. bswap32 (shadow_word ev \<sigma> c oe))"
proof (cases oe)
  case (Some e)
  have w: "sym_bits_helper B e = 32" using assms Some by (simp add: bits_of_width)
  have "represents B ev \<sigma> e (word_of_int (ev \<sigma> e) :: u32)" for \<sigma> using assms Some by (simp add: rep_of_ev)
  then show ?thesis
    unfolding Some sym_bswap_def Let_def
    by (simp add: w, intro shadow_resultI, unfold bswap32_blocks [symmetric])
      (intro rep_arith rep_shift_const rep_const; simp)
qed (simp add: sym_bswap_def)

text \<open>On a 64-bit operand the 4-byte swap clears the upper half, whatever it held.\<close>

lemma bswap4_i64_correct:
  assumes "shadow_typed B 64 oe"
  shows "\<exists>r. sym_bswap B oe 4 = Some r \<and>
    shadow_result B ev r (ucast (bswap32 (ucast (c :: u64))) :: u64) (\<lambda>\<sigma>. ucast (bswap32 (ucast (shadow_word ev \<sigma> c oe))))"
proof (cases oe)
  case (Some e)
  have w: "sym_bits_helper B e = 64" using assms Some by (simp add: bits_of_width)
  have "represents B ev \<sigma> e (shadow_word ev \<sigma> c (Some e))" for \<sigma> using assms Some by (simp add: rep_of_ev)
  then show ?thesis
    unfolding Some sym_bswap_def Let_def
    by (simp add: w del: shadow_word_simps, intro shadow_resultI, unfold bswap32_blocks_i64 [symmetric])
      (intro rep_arith rep_shift_const rep_const; simp)
qed (simp add: sym_bswap_def)

text \<open>The 2-byte swap shifts the bits above the half word down by a byte instead of clearing them.\<close>

lemma bswap2_correct:
  fixes c :: "'a::len word"
  assumes len: "LENGTH('a) = 32 \<or> LENGTH('a) = 64" and typed: "shadow_typed B LENGTH('a) oe"
  shows "\<exists>r. sym_bswap B oe 2 = Some r \<and>
    shadow_result B ev r (push_bit 8 (take_bit 8 c) OR drop_bit 8 c)
      (\<lambda>\<sigma>. push_bit 8 (take_bit 8 (shadow_word ev \<sigma> c oe)) OR drop_bit 8 (shadow_word ev \<sigma> c oe))"
proof (cases oe)
  case (Some e)
  from zext_correct [OF len typed, of 1 c] len obtain z where
    z: "sym_zext B (Some e) 1 = Some z"
    "shadow_result B ev z (take_bit 8 c) (\<lambda>\<sigma>. take_bit 8 (shadow_word ev \<sigma> c oe))"
    unfolding Some by auto
  then obtain z' where z': "z = Some z'" by (auto simp: sym_zext_def c_shl_def split: if_splits)
  have w: "sym_bits_helper B e = of_nat LENGTH('a)" using typed Some by (simp add: bits_of_width)
  have "represents B ev \<sigma> e (word_of_int (ev \<sigma> e) :: 'a word)" for \<sigma> using typed Some by (simp add: rep_of_ev)
  moreover have "represents B ev \<sigma> z' (take_bit 8 (word_of_int (ev \<sigma> e)) :: 'a word)" for \<sigma>
    using shadow_resultD z(2) unfolding z' Some by fastforce
  moreover have "unat (ucast (8 :: u64) :: 'a word) = 8" using len by (auto simp: unsigned_ucast_eq)
  ultimately show ?thesis
    using len unfolding Some sym_bswap_def Let_def
    by (simp add: w z z', intro shadow_resultI)
      (intro rep_arith rep_shift_const; auto)
qed (simp add: sym_bswap_def)

end

subsection \<open>Conditions\<close>

lemma cast_of_bool:
  "ucast (of_bool p :: 1 word) = (of_bool p :: 'a::len word)"
  "scast (of_bool p :: 1 word) = (if p then - 1 else 0 :: 'a::len word)"
proof -
  have "(1 :: 1 word) = - 1" by (rule bit_word_eqI) (simp add: bit_simps)
  moreover have "scast (- 1 :: 1 word) = (- 1 :: 'a::len word)"
    by (simp add: word_uint_eq_iff uint_scast)
  ultimately have "scast (1 :: 1 word) = (- 1 :: 'a::len word)" by metis
  then show "scast (of_bool p :: 1 word) = (if p then - 1 else 0 :: 'a::len word)" by simp
qed simp

lemma bv_cmp_word:
  "bv_cmp LENGTH('a) build_equal (uint x) (uint (y :: 'a::len word)) \<longleftrightarrow> x = y"
  "bv_cmp LENGTH('a) build_not_equal (uint x) (uint y) \<longleftrightarrow> x \<noteq> y"
  "bv_cmp LENGTH('a) build_signed_less_than (uint x) (uint y) \<longleftrightarrow> sint x < sint y"
  "bv_cmp LENGTH('a) build_signed_greater_equal (uint x) (uint y) \<longleftrightarrow> sint x \<ge> sint y"
  "bv_cmp LENGTH('a) build_signed_greater_than (uint x) (uint y) \<longleftrightarrow> sint x > sint y"
  "bv_cmp LENGTH('a) build_signed_less_equal (uint x) (uint y) \<longleftrightarrow> sint x \<le> sint y"
  "bv_cmp LENGTH('a) build_unsigned_less_than (uint x) (uint y) \<longleftrightarrow> x < y"
  "bv_cmp LENGTH('a) build_unsigned_greater_equal (uint x) (uint y) \<longleftrightarrow> x \<ge> y"
  "bv_cmp LENGTH('a) build_unsigned_greater_than (uint x) (uint y) \<longleftrightarrow> x > y"
  "bv_cmp LENGTH('a) build_unsigned_less_equal (uint x) (uint y) \<longleftrightarrow> x \<le> y"
  by (simp_all add: sint_uint word_less_def word_le_def word_uint_eq_iff)

text \<open>What a comparison helper does with a condition: nothing pushed and no expression when it is
  concrete; otherwise one constraint, true on an input exactly when the comparison \<open>cmp\<close> holds there,
  and an expression for its value.\<close>

definition branch_outcome ::
  "('e, 'm) backend \<Rightarrow> ('i \<Rightarrow> 'e \<Rightarrow> int) \<Rightarrow> ('i \<Rightarrow> 'e \<Rightarrow> bool) \<Rightarrow> ('i \<Rightarrow> bool option) \<Rightarrow> bool \<Rightarrow> u64 \<Rightarrow>
   ('e, 'm) rt \<Rightarrow> 'e option \<Rightarrow> ('e, 'm) rt \<Rightarrow> 'a::len itself \<Rightarrow> bool" where
  "branch_outcome B ev evb cmp taken pc rt r rt' _ \<longleftrightarrow>
     (case r of
       None \<Rightarrow> rt' = rt
     | Some e \<Rightarrow> \<exists>s. rt' = rt\<lparr>rt_path := rt_path rt @ [(s, taken, pc)]\<rparr> \<and>
         (\<forall>\<sigma>. cmp \<sigma> = Some (evb \<sigma> s) \<and> represents B ev \<sigma> e (of_bool (evb \<sigma> s) :: 'a word)))"

context sym_backend
begin

lemma cmp_rep:
  assumes "represents B ev \<sigma> a (x :: 'a::len word)" "represents B ev \<sigma> b (y :: 'a word)"
  shows "evb \<sigma> (sym_build_cmp B c a b) = bv_cmp LENGTH('a) c (uint x) (uint y)"
  using assms by (simp add: represents_def cmp_evb)

lemma condition_handler_correct:
  fixes x y :: "'i \<Rightarrow> 'a::len word"
  assumes e: "\<And>\<sigma>. represents B ev \<sigma> e1 (x \<sigma>)" "\<And>\<sigma>. represents B ev \<sigma> e2 (y \<sigma>)"
    and "LENGTH('a) \<le> 64" "is_compare c"
  obtains s where "condition_handler B c e1 e2 = Some s" "\<And>\<sigma>. tci_compare (x \<sigma>) (y \<sigma>) c = Some (evb \<sigma> s)"
proof -
  have "represents B ev \<sigma> (sym_build_integer B 0 (sym_bits_helper B e1)) (0 :: 'a word)" for \<sigma>
    using assms(3) rep_bits [OF e(1)] by (intro rep_const) auto
  note zero = cmp_rep [OF rep_arith(4) [OF e] this]
  have "\<exists>s. condition_handler B c e1 e2 = Some s \<and> (\<forall>\<sigma>. tci_compare (x \<sigma>) (y \<sigma>) c = Some (evb \<sigma> s))"
    using assms(4)
    by (cases rule: is_compare_cases)
      (simp_all add: condition_handler_def tci_compare_def sym_build_tsteq_def sym_build_tstne_def
        cmp_rep [OF e] zero bv_cmp_word del: bv_cmp.simps uint_0_eq unsigned_0)
  then show thesis using that by auto
qed

lemma setcond_correct:
  fixes a b :: "'a::len word"
  assumes len: "LENGTH('a) = 32 \<or> LENGTH('a) = 64" and bits: "unat n = LENGTH('a)"
    and typed: "shadow_typed B LENGTH('a) ea" "shadow_typed B LENGTH('a) eb" and c: "is_compare c"
  obtains "ea = None" "eb = None"
      "sym_setcond_internal B env (ucast a) ea (ucast b) eb c taken n rt = Some (None, rt)"
  | r s where "ea \<noteq> None \<or> eb \<noteq> None"
      "sym_setcond_internal B env (ucast a) ea (ucast b) eb c taken n rt =
        Some (Some r, sym_push_path_constraint s ((ucast taken :: u8) \<noteq> 0) (get_pc env) rt)"
      "\<And>\<sigma>. tci_compare (shadow_word ev \<sigma> a ea) (shadow_word ev \<sigma> b eb) c = Some (evb \<sigma> s)"
      "\<And>\<sigma>. represents B ev \<sigma> r (of_bool (evb \<sigma> s) :: 'a word)"
  using len typed
proof (cases rule: ensure_correct [of ea eb a b])
  case 1
  then show ?thesis by (intro that(1)) (simp_all add: sym_setcond_internal_def)
next
  case (2 e1 e2)
  obtain s where s: "condition_handler B c e1 e2 = Some s"
    "\<And>\<sigma>. tci_compare (shadow_word ev \<sigma> a ea) (shadow_word ev \<sigma> b eb) c = Some (evb \<sigma> s)"
    by (rule condition_handler_correct [OF 2(3,4) _ c]) (use len in auto)
  have n: "1 < n" "unat (ucast (n - 1) :: u64) = LENGTH('a) - 1"
    using len bits by (auto simp: word_less_nat_alt unat_sub_if_size unat_ucast_up)
  have "represents B ev \<sigma> (sym_build_bool_to_bit B s) (of_bool (evb \<sigma> s) :: 1 word)" for \<sigma>
    by (simp add: represents_def bit_width bit_ev)
  then have "represents B ev \<sigma> (sym_build_zext B (sym_build_bool_to_bit B s) (ucast (n - 1)))
      (ucast (of_bool (evb \<sigma> s) :: 1 word) :: 'a word)" for \<sigma>
    using len by (intro rep_zext) (auto simp: n)
  then have r: "represents B ev \<sigma> (sym_build_zext B (sym_build_bool_to_bit B s) (ucast (n - 1)))
      (of_bool (evb \<sigma> s) :: 'a word)" for \<sigma> unfolding cast_of_bool .
  show ?thesis
    by (rule that(2) [OF 2(1) _ s(2) r])
      (simp add: sym_setcond_internal_def build_and_push_path_constraint_def 2(2) s(1) n(1))
qed

lemma setcond_outcome:
  fixes a b :: "'a::len word"
  assumes "LENGTH('a) = 32 \<or> LENGTH('a) = 64" "unat n = LENGTH('a)"
    and "shadow_typed B LENGTH('a) ea" "shadow_typed B LENGTH('a) eb" "is_compare c"
  shows "\<exists>r rt'. sym_setcond_internal B env (ucast a) ea (ucast b) eb c taken n rt = Some (r, rt')
    \<and> (r = None \<longleftrightarrow> ea = None \<and> eb = None)
    \<and> branch_outcome B ev evb (\<lambda>\<sigma>. tci_compare (shadow_word ev \<sigma> a ea) (shadow_word ev \<sigma> b eb) c)
        ((ucast taken :: u8) \<noteq> 0) (get_pc env) rt r rt' TYPE('a)"
  using assms
proof (cases rule: setcond_correct [of n ea eb c env a b taken rt])
  case (2 r s)
  let ?rt = "sym_push_path_constraint s ((ucast taken :: u8) \<noteq> 0) (get_pc env) rt"
  have "branch_outcome B ev evb (\<lambda>\<sigma>. tci_compare (shadow_word ev \<sigma> a ea) (shadow_word ev \<sigma> b eb) c)
      ((ucast taken :: u8) \<noteq> 0) (get_pc env) rt (Some r) ?rt TYPE('a)"
    unfolding branch_outcome_def option.case
    by (intro exI [of _ s] conjI allI 2(3,4)) (simp add: sym_push_path_constraint_def)
  with 2(1,2) show ?thesis by blast
qed (simp add: branch_outcome_def)

lemmas setcond64 = setcond_outcome [where 'a = 64 and n = 64, simplified]
lemmas setcond32 = setcond_outcome [where 'a = 32 and n = 32, simplified]

text \<open>What \<open>sym_movcond_internal\<close> builds: it masks both alternatives with the condition, so the
  result is the exclusive or of the two when the condition holds and zero when it does not.\<close>

lemma movcond_value:
  fixes c1 c2 v1 v2 :: "'a::len word"
  assumes len: "LENGTH('a) = 32 \<or> LENGTH('a) = 64" and bits: "unat n = LENGTH('a)"
    and typed: "shadow_typed B LENGTH('a) e1" "shadow_typed B LENGTH('a) e2"
      "shadow_typed B LENGTH('a) f1" "shadow_typed B LENGTH('a) f2"
    and c: "is_compare c" and sym: "e1 \<noteq> None \<or> e2 \<noteq> None"
  obtains r s where
      "sym_movcond_internal B env (ucast c1) e1 (ucast c2) e2 (ucast v1) f1 (ucast v2) f2 c taken n rt =
        Some (Some r, sym_push_path_constraint s ((ucast taken :: u8) \<noteq> 0) (get_pc env) rt)"
      "\<And>\<sigma>. tci_compare (shadow_word ev \<sigma> c1 e1) (shadow_word ev \<sigma> c2 e2) c = Some (evb \<sigma> s)"
      "\<And>\<sigma>. represents B ev \<sigma> r
        (if evb \<sigma> s then shadow_word ev \<sigma> v1 f1 XOR shadow_word ev \<sigma> v2 f2 else 0)"
proof -
  define k :: u64 where "k = of_nat LENGTH('a)"
  define or where "or = (\<lambda>v oe. case oe of None \<Rightarrow> sym_build_integer B v k | Some e \<Rightarrow> e)"
  have or: "represents B ev \<sigma> (or (ucast v) oe) (shadow_word ev \<sigma> v oe)"
    if "shadow_typed B LENGTH('a) oe" for v :: "'a word" and oe \<sigma>
    unfolding or_def by (rule or_integer_rep [OF that len]) (simp_all add: k_def)
  have w: "sym_bits_helper B (or (ucast v) oe) = k" if "shadow_typed B LENGTH('a) oe" for v :: "'a word" and oe
    using rep_bits [OF or [OF that]] by (simp add: k_def)
  have n: "ucast n = k" using len bits by (auto simp: k_def word_unat_eq_iff unat_ucast_up)
  have n1: "unat (ucast (n - 1) :: u64) = LENGTH('a) - 1"
    using len bits by (auto simp: unat_sub_if_size unat_ucast_up)
  obtain s where s: "condition_handler B c (or (ucast c1) e1) (or (ucast c2) e2) = Some s"
    "\<And>\<sigma>. tci_compare (shadow_word ev \<sigma> c1 e1) (shadow_word ev \<sigma> c2 e2) c = Some (evb \<sigma> s)"
    by (rule condition_handler_correct [OF or [OF typed(1)] or [OF typed(2)] _ c]) (use len in auto)
  define x where "x = sym_build_sext B (sym_build_bool_to_bit B s) (ucast (n - 1))"
  have "represents B ev \<sigma> (sym_build_bool_to_bit B s) (of_bool (evb \<sigma> s) :: 1 word)" for \<sigma>
    by (simp add: represents_def bit_width bit_ev)
  then have "represents B ev \<sigma> x (scast (of_bool (evb \<sigma> s) :: 1 word) :: 'a word)" for \<sigma>
    unfolding x_def using len by (intro rep_sext) (auto simp: n1)
  then have x: "represents B ev \<sigma> x (if evb \<sigma> s then - 1 else 0 :: 'a word)" for \<sigma>
    unfolding cast_of_bool .
  let ?r = "sym_build B build_xor (sym_build B build_and (or (ucast v1) f1) x)
    (sym_build B build_and (or (ucast v2) f2) x)"
  have r: "represents B ev \<sigma> ?r
      (if evb \<sigma> s then shadow_word ev \<sigma> v1 f1 XOR shadow_word ev \<sigma> v2 f2 else 0)" for \<sigma>
    using rep_arith(6) [OF rep_arith(4) [OF or [OF typed(3)] x] rep_arith(4) [OF or [OF typed(4)] x], of \<sigma> v1 v2]
    by (cases "evb \<sigma> s") simp_all
  have "(case e1 of None \<Rightarrow> Option.bind (opt_bits B e2) (\<lambda>m. Some (sym_build_integer B (ucast c1) m))
      | Some e \<Rightarrow> Some e) = Some (or (ucast c1) e1)"
    using sym typed(2) by (auto simp: or_def opt_bits_def k_def bits_of_width split: option.splits)
  moreover have "(case oe of None \<Rightarrow> Some (sym_build_integer B v (sym_bits_helper B (or (ucast c1) e1)))
      | Some e \<Rightarrow> Some e) = Some (or v oe)" for v oe
    unfolding w [OF typed(1)] by (simp add: or_def split: option.splits)
  moreover have "\<not> (e1 = None \<and> e2 = None \<and> f1 = None \<and> f2 = None)" using sym by blast
  ultimately show thesis
    by (intro that [OF _ s(2) r])
      (simp add: sym_movcond_internal_def w typed n s(1) build_and_push_path_constraint_def
        rep_bits [OF x] flip: x_def k_def)
qed

end

text \<open>C4: Path constraints are sound and complete for the branch: \<open>sym_setcond_i64\<close> and
  \<open>sym_setcond_i32\<close> push nothing when both operands are concrete, and otherwise push exactly one
  constraint, at the current program counter and with the given outcome, that is true of an input if
  and only if the comparison of what the operands stand for is; the expression returned has the value
  of that comparison, zero-extended.\<close>

theorem sym_setcond_correct:
  fixes a b :: u64 and p q :: u32
  assumes "sym_backend B ev evb" "is_compare c"
    and "shadow_typed B 64 ea" "shadow_typed B 64 eb" "shadow_typed B 32 ep" "shadow_typed B 32 eq"
  shows "(\<exists>r rt'. sym_setcond_i64 B env a ea b eb c taken rt = Some (r, rt')
      \<and> (r = None \<longleftrightarrow> ea = None \<and> eb = None)
      \<and> branch_outcome B ev evb (\<lambda>\<sigma>. tci_compare (shadow_word ev \<sigma> a ea) (shadow_word ev \<sigma> b eb) c)
          ((ucast taken :: u8) \<noteq> 0) (get_pc env) rt r rt' TYPE(64))
    \<and> (\<exists>r rt'. sym_setcond_i32 B env p ep q eq c taken32 rt = Some (r, rt')
      \<and> (r = None \<longleftrightarrow> ep = None \<and> eq = None)
      \<and> branch_outcome B ev evb (\<lambda>\<sigma>. tci_compare (shadow_word ev \<sigma> p ep) (shadow_word ev \<sigma> q eq) c)
          ((ucast taken32 :: u8) \<noteq> 0) (get_pc env) rt r rt' TYPE(32))"
proof -
  have down: "ucast (ucast taken32 :: u64) = (ucast taken32 :: u8)"
    by (intro bit_word_eqI) (simp add: bit_simps)
  show ?thesis
    using sym_backend.setcond64 [OF assms(1) assms(3,4,2), of env a b taken rt]
      sym_backend.setcond32 [OF assms(1) assms(5,6,2), of env p q "ucast taken32" rt]
    by (simp add: sym_setcond_i64_def sym_setcond_i32_def down)
qed

theorem sym_setcond_witness:
  "\<exists>r rt'. sym_setcond_i64 term_backend
      \<lparr>cpu_get_tb_cpu_state = (0x400000, 0, 0), tlb_vaddr_to_host = (\<lambda>a _ _. a)\<rparr>
      5 (Some (SInput 0 64)) 10 None TCG_COND_LTU 1
      \<lparr>rt_path = [], rt_shadow = (\<lambda>_. None), rt_mem = (\<lambda>_. 0), rt_events = []\<rparr> = Some (r, rt')
    \<and> r \<noteq> None"
  using sym_setcond_correct [OF tb.sym_backend_axioms, of TCG_COND_LTU "Some (SInput 0 64)" None None None
      "\<lparr>cpu_get_tb_cpu_state = (0x400000, 0, 0), tlb_vaddr_to_host = (\<lambda>a _ _. a)\<rparr>" 5 10 1
      "\<lparr>rt_path = [], rt_shadow = (\<lambda>_. None), rt_mem = (\<lambda>_. 0), rt_events = []\<rparr>" 0 0 0]
  by (auto simp: is_compare_code sym_width_def)

subsection \<open>Memory\<close>

definition shadow_bytes ::
  "('m \<Rightarrow> u64 \<Rightarrow> bool) \<Rightarrow> ('m \<Rightarrow> 'i \<Rightarrow> u64 \<Rightarrow> u8) \<Rightarrow> ('e, 'm) rt \<Rightarrow> 'i \<Rightarrow> u64 \<Rightarrow> nat \<Rightarrow> int" where
  "shadow_bytes msym mev rt \<sigma> host n =
     bytes_val (map (\<lambda>i. shadow_byte msym mev (rt_shadow rt) (rt_mem rt) \<sigma> (host + of_nat i)) [0..<n])"

definition concrete_bytes :: "('e, 'm) rt \<Rightarrow> u64 \<Rightarrow> nat \<Rightarrow> int" where
  "concrete_bytes rt host n = bytes_val (map (\<lambda>i. rt_mem rt (host + of_nat i)) [0..<n])"

definition pin_address ::
  "('e, 'm) backend \<Rightarrow> CPUArchState \<Rightarrow> u64 \<Rightarrow> 'e option \<Rightarrow> ('e, 'm) rt \<Rightarrow> ('e, 'm) rt" where
  "pin_address B env addr ea rt = rt\<lparr>rt_path := rt_path rt @ (case ea of None \<Rightarrow> []
      | Some e \<Rightarrow> [(sym_build_cmp B build_equal e (sym_build_integer B addr 64), True, get_pc env)])\<rparr>"

lemma bytes_val_split:
  "bytes_val (map (\<lambda>i. word_of_int (drop_bit (8 * i) k) :: u8) [0..<n]) = take_bit (8 * n) k"
proof (induction n arbitrary: k)
  case (Suc n)
  have m: "map (\<lambda>i. word_of_int (drop_bit (8 * i) k) :: u8) [0..<Suc n] =
      word_of_int k # map (\<lambda>i. word_of_int (drop_bit (8 * i) (drop_bit 8 k)) :: u8) [0..<n]"
    by (simp add: upt_conv_Cons comp_def add.commute del: upt_Suc flip: map_Suc_upt)
  have "take_bit (8 * Suc n) k = take_bit 8 k + 256 * take_bit (8 * n) (drop_bit 8 k)"
    using bits_ident [of 8 "take_bit (8 * Suc n) k"]
    by (simp add: take_bit_take_bit drop_bit_take_bit push_bit_eq_mult add.commute)
  then show ?case unfolding m by (simp only: bytes_val.simps Suc) (simp add: unsigned_of_int)
qed simp

context sym_memory
begin

lemma read_correct:
  assumes "unat len \<le> 32"
  shows "sym_read_memory B (rt_shadow rt) (rt_mem rt) host len True = None
      \<and> (\<forall>\<sigma>. shadow_bytes msym mev rt \<sigma> host (unat len) = concrete_bytes rt host (unat len))
    \<or> (\<exists>e. sym_read_memory B (rt_shadow rt) (rt_mem rt) host len True = Some e \<and> sym_width B e = 8 * unat len
      \<and> (\<forall>\<sigma>. ev \<sigma> e = shadow_bytes msym mev rt \<sigma> host (unat len)))"
proof (cases "\<forall>i < unat len. \<not> msym (rt_shadow rt) (host + of_nat i)")
  case True
  then show ?thesis
    by (auto simp: read_concrete shadow_bytes_def concrete_bytes_def shadow_byte_def
        intro!: arg_cong [of _ _ bytes_val])
next
  case False
  then show ?thesis using read_symbolic [OF assms] by (fastforce simp: shadow_bytes_def)
qed

lemma read_extend:
  fixes n :: u64
  assumes n: "n \<in> {1, 2, 4, 8}" "unat n \<le> unat m" "unat m = 4 \<or> unat m = 8" "8 * unat m = LENGTH('a::len)"
    and e_def: "e = sym_read_memory B (rt_shadow rt) (rt_mem rt) host n True"
  shows "shadow_result B ev
      (if n = m \<or> e = None then e else map_option (\<lambda>e. sym_build_zext B e ((m - n) * 8)) e)
      (word_of_int (concrete_bytes rt host (unat n)) :: 'a word)
      (\<lambda>\<sigma>. word_of_int (shadow_bytes msym mev rt \<sigma> host (unat n)))"
proof -
  have len: "unat n \<le> 32" using n(1) by auto
  from read_correct [OF this, of rt host]
  show ?thesis
  proof (elim disjE conjE exE)
    fix x assume x: "sym_read_memory B (rt_shadow rt) (rt_mem rt) host n True = Some x"
      "sym_width B x = 8 * unat n" "\<forall>\<sigma>. ev \<sigma> x = shadow_bytes msym mev rt \<sigma> host (unat n)"
    show ?thesis
    proof (cases "n = m")
      case True
      with x n(4) show ?thesis by (simp add: e_def shadow_result_def)
    next
      case False
      have k: "unat ((m - n) * 8) = 8 * unat m - 8 * unat n"
        using n(1,2,3) by (auto simp: unat_sub_if_size unat_word_ariths)
      then have "unat ((m - n) * 8) < 256" "sym_width B x + unat ((m - n) * 8) < 2 ^ 32"
        "sym_width B x + unat ((m - n) * 8) = LENGTH('a)"
        using n x(2) by auto
      then show ?thesis using False x
        by (simp add: e_def shadow_result_def zext_width zext_ev)
    qed
  qed (simp add: e_def)
qed

lemma shadow_typed_result:
  "shadow_typed B LENGTH('a) oe \<Longrightarrow> shadow_result B ev oe (c :: 'a::len word) (\<lambda>\<sigma>. shadow_word ev \<sigma> c oe)"
  by (simp add: shadow_result_def)

text \<open>Reading back what was written.\<close>

lemma write_read:
  assumes "unat n \<le> 32" "ve = None \<or> (\<exists>e. ve = Some e \<and> 8 * unat n \<le> sym_width B e)"
  shows "shadow_bytes msym mev (rt\<lparr>rt_shadow := sym_write_memory B (rt_shadow rt) host n ve True\<rparr>) \<sigma> host (unat n) =
    (case ve of None \<Rightarrow> concrete_bytes rt host (unat n) | Some e \<Rightarrow> take_bit (8 * unat n) (ev \<sigma> e))"
proof -
  have off: "host + of_nat i - host = (of_nat i :: u64)" "unat (of_nat i :: u64) = i" if "i < unat n" for i
    using that assms(1) by (simp_all add: unat_of_nat)
  then have r: "in_range host n (host + of_nat i)" if "i < unat n" for i
    using that by (simp add: in_range_def)
  show ?thesis
  proof (cases ve)
    case None
    then show ?thesis using r
      by (auto simp: shadow_bytes_def concrete_bytes_def shadow_byte_def write_null_msym
          intro!: arg_cong [of _ _ bytes_val])
  next
    case (Some e)
    then have "shadow_bytes msym mev (rt\<lparr>rt_shadow := sym_write_memory B (rt_shadow rt) host n ve True\<rparr>) \<sigma> host (unat n)
        = bytes_val (map (\<lambda>i. word_of_int (drop_bit (8 * i) (ev \<sigma> e)) :: u8) [0..<unat n])"
      using r off assms by (auto simp: shadow_bytes_def shadow_byte_def write_expr_msym write_expr_mev
          intro!: arg_cong [of _ _ bytes_val])
    with Some show ?thesis by (simp add: bytes_val_split)
  qed
qed

end

lemma load_guest_eq:
  "sym_load_guest_internal B env addr ea n m mmu_idx rt =
    (let e = sym_read_memory B (rt_shadow rt) (rt_mem rt) (tlb_vaddr_to_host env addr MMU_DATA_LOAD mmu_idx) n True
     in (if n = ucast m \<or> e = None then e else map_option (\<lambda>e. sym_build_zext B e ((ucast m - n) * 8)) e,
         pin_address B env addr ea rt))"
  by (cases ea) (simp_all add: sym_load_guest_internal_def pin_address_def sym_push_path_constraint_def Let_def)

text \<open>C8: Loads read the shadow memory: \<open>sym_load_guest_i64\<close> and \<open>sym_load_guest_i32\<close> of 1, 2, 4
  (or 8) bytes return an operand that stands, on every input, for the zero-extended little-endian value
  of the bytes at the host address, symbolic bytes with their shadow and concrete ones as they are;
  the shadow memory is unchanged, and the address is pinned by a path constraint exactly when it is
  symbolic.\<close>

theorem sym_load_guest_correct:
  assumes "sym_memory B ev evb msym mev" "len \<in> {1, 2, 4, 8}" "len32 \<in> {1, 2, 4}"
  shows "snd (sym_load_guest_i64 B env addr ea len mmu_idx rt) = pin_address B env addr ea rt
    \<and> shadow_result B ev (fst (sym_load_guest_i64 B env addr ea len mmu_idx rt))
        (word_of_int (concrete_bytes rt (tlb_vaddr_to_host env addr MMU_DATA_LOAD mmu_idx) (unat len)) :: u64)
        (\<lambda>\<sigma>. word_of_int (shadow_bytes msym mev rt \<sigma> (tlb_vaddr_to_host env addr MMU_DATA_LOAD mmu_idx) (unat len)))
    \<and> snd (sym_load_guest_i32 B env addr ea len32 mmu_idx rt) = pin_address B env addr ea rt
    \<and> shadow_result B ev (fst (sym_load_guest_i32 B env addr ea len32 mmu_idx rt))
        (word_of_int (concrete_bytes rt (tlb_vaddr_to_host env addr MMU_DATA_LOAD mmu_idx) (unat len32)) :: u32)
        (\<lambda>\<sigma>. word_of_int (shadow_bytes msym mev rt \<sigma> (tlb_vaddr_to_host env addr MMU_DATA_LOAD mmu_idx) (unat len32)))"
proof -
  let ?h = "tlb_vaddr_to_host env addr MMU_DATA_LOAD mmu_idx"
  let ?e = "\<lambda>n. sym_read_memory B (rt_shadow rt) (rt_mem rt) ?h n True"
  have "shadow_result B ev
      (if len = 8 \<or> ?e len = None then ?e len else map_option (\<lambda>e. sym_build_zext B e ((8 - len) * 8)) (?e len))
      (word_of_int (concrete_bytes rt ?h (unat len)) :: u64) (\<lambda>\<sigma>. word_of_int (shadow_bytes msym mev rt \<sigma> ?h (unat len)))"
    "shadow_result B ev
      (if len32 = 4 \<or> ?e len32 = None then ?e len32
       else map_option (\<lambda>e. sym_build_zext B e ((4 - len32) * 8)) (?e len32))
      (word_of_int (concrete_bytes rt ?h (unat len32)) :: u32)
      (\<lambda>\<sigma>. word_of_int (shadow_bytes msym mev rt \<sigma> ?h (unat len32)))"
    by (rule sym_memory.read_extend [OF assms(1)]; use assms(2,3) in auto)+
  moreover have "ucast (8 :: u8) = (8 :: u64)" "ucast (4 :: u8) = (4 :: u64)" by simp_all
  ultimately show ?thesis
    unfolding sym_load_guest_i64_def sym_load_guest_i32_def load_guest_eq Let_def fst_conv snd_conv
    by (simp only: simp_thms)
qed

theorem sym_load_guest_witness:
  "shadow_word sval (\<lambda>_. 5) (0x707 :: u64) (fst (sym_load_guest_i64 term_backend
      \<lparr>cpu_get_tb_cpu_state = (0x400000, 0, 0), tlb_vaddr_to_host = (\<lambda>a _ _. a)\<rparr> 0x1000 None 2 0
      \<lparr>rt_path = [], rt_shadow = (\<lambda>a. if a = 0x1000 then Some (SInput 0 8) else None), rt_mem = (\<lambda>_. 7), rt_events = []\<rparr>))
    = 0x705" (is "shadow_word _ _ _ (fst (sym_load_guest_i64 _ ?env _ _ _ _ ?rt)) = _")
proof -
  have "[0..<unat (2 :: u64)] = [0, 1]" by (simp add: upt_rec)
  then have "concrete_bytes ?rt 0x1000 (unat (2 :: u64)) = 0x707"
    "shadow_bytes term_msym term_mev ?rt (\<lambda>_. 5) 0x1000 (unat (2 :: u64)) = 0x705"
    unfolding concrete_bytes_def shadow_bytes_def
    by (simp_all add: shadow_byte_def term_msym_def term_mev_def)
  moreover have "shadow_word sval (\<lambda>_. 5) (word_of_int (concrete_bytes ?rt 0x1000 (unat (2 :: u64))))
      (fst (sym_load_guest_i64 term_backend ?env 0x1000 None 2 0 ?rt)) =
    (word_of_int (shadow_bytes term_msym term_mev ?rt (\<lambda>_. 5) 0x1000 (unat (2 :: u64))) :: u64)"
    using sym_load_guest_correct [OF tm.sym_memory_axioms, of 2 1 ?env "0x1000" None 0 ?rt]
    unfolding shadow_result_def by auto
  ultimately show ?thesis by simp
qed

subsection \<open>Properties of the remaining helpers\<close>

context sym_memory
begin

lemma store_guest_eq:
  "sym_store_guest_i64 B env v ve addr ae len mmu_idx rt =
    (pin_address B env addr ae rt)\<lparr>rt_shadow :=
       sym_write_memory B (rt_shadow rt) (tlb_vaddr_to_host env addr MMU_DATA_STORE mmu_idx) len ve True\<rparr>"
  by (cases ae) (simp_all add: sym_store_guest_i64_def sym_store_guest_internal_def pin_address_def
      sym_push_path_constraint_def Let_def)

lemma store_load:
  assumes len: "len \<in> {1, 2, 4, 8}" and typed: "shadow_typed B 64 ve"
    and host: "tlb_vaddr_to_host env addr MMU_DATA_STORE mmu_idx = tlb_vaddr_to_host env addr' MMU_DATA_LOAD mmu_idx'"
    and h_def: "h = tlb_vaddr_to_host env addr' MMU_DATA_LOAD mmu_idx'"
    and rt1_def: "rt1 = sym_store_guest_i64 B env v ve addr ae len mmu_idx rt"
  shows "shadow_result B ev (fst (sym_load_guest_i64 B env addr' ae' len mmu_idx' rt1))
      (word_of_int (concrete_bytes rt h (unat len)) :: u64)
      (\<lambda>\<sigma>. if ve = None then word_of_int (concrete_bytes rt h (unat len))
        else take_bit (8 * unat len) (shadow_word ev \<sigma> v ve))"
    and "rt_path (snd (sym_load_guest_i64 B env addr' ae' len mmu_idx' rt1)) =
      rt_path (pin_address B env addr' ae' (pin_address B env addr ae rt))"
proof -
  let ?p = "pin_address B env addr ae rt"
  let ?rt = "?p\<lparr>rt_shadow := sym_write_memory B (rt_shadow ?p) h len ve True\<rparr>"
  let ?e = "sym_read_memory B (rt_shadow ?rt) (rt_mem ?rt) h len True"
  have n: "unat len \<le> 8" "unat len \<le> unat (8 :: u64)" using len by auto
  have p: "rt_shadow ?p = rt_shadow rt" "concrete_bytes ?p h k = concrete_bytes rt h k" for k
    by (cases ae; simp add: pin_address_def sym_push_path_constraint_def concrete_bytes_def)+
  have store: "rt1 = ?rt" by (simp add: rt1_def store_guest_eq host h_def p)
  have load: "sym_load_guest_i64 B env addr' ae' len mmu_idx' ?rt =
      (if len = 8 \<or> ?e = None then ?e else map_option (\<lambda>e. sym_build_zext B e ((8 - len) * 8)) ?e,
       pin_address B env addr' ae' ?rt)"
    unfolding sym_load_guest_i64_def load_guest_eq Let_def h_def by simp
  have "shadow_result B ev (if len = 8 \<or> ?e = None then ?e else map_option (\<lambda>e. sym_build_zext B e ((8 - len) * 8)) ?e)
      (word_of_int (concrete_bytes ?rt h (unat len)) :: u64)
      (\<lambda>\<sigma>. word_of_int (shadow_bytes msym mev ?rt \<sigma> h (unat len)))"
    by (rule read_extend [OF len n(2)]) simp_all
  moreover have "concrete_bytes ?rt h (unat len) = concrete_bytes rt h (unat len)"
    unfolding p(2) [symmetric] by (simp add: concrete_bytes_def)
  moreover have "word_of_int (shadow_bytes msym mev ?rt \<sigma> h (unat len)) =
      (if ve = None then word_of_int (concrete_bytes rt h (unat len))
       else take_bit (8 * unat len) (shadow_word ev \<sigma> v ve))" for \<sigma>
    unfolding p(2) [symmetric] using n typed by (cases ve) (simp_all add: write_read word_of_int_take_bit)
  ultimately show "shadow_result B ev (fst (sym_load_guest_i64 B env addr' ae' len mmu_idx' rt1))
      (word_of_int (concrete_bytes rt h (unat len)) :: u64)
      (\<lambda>\<sigma>. if ve = None then word_of_int (concrete_bytes rt h (unat len))
        else take_bit (8 * unat len) (shadow_word ev \<sigma> v ve))"
    unfolding store load by simp
  show "rt_path (snd (sym_load_guest_i64 B env addr' ae' len mmu_idx' rt1)) =
      rt_path (pin_address B env addr' ae' (pin_address B env addr ae rt))"
    unfolding store load by (cases ae') (simp_all add: pin_address_def sym_push_path_constraint_def)
qed

end

text \<open>C9: What is stored is what is loaded: after \<open>sym_store_guest_i64\<close> of 1, 2, 4 or 8 bytes, a load of
  the same number of bytes at an address that translates to the same host address returns an operand that
  stands for the low bytes of the stored expression, or for the bytes in memory if the stored value
  had no expression, whatever the shadow memory held there before. Either address may be symbolic; the
  path constraints that pin a symbolic address are those of the store followed by those of the load.\<close>

theorem sym_store_load_roundtrip:
  assumes "sym_memory B ev evb msym mev" "len \<in> {1, 2, 4, 8}" "shadow_typed B 64 ve"
    and "tlb_vaddr_to_host env addr MMU_DATA_STORE mmu_idx = tlb_vaddr_to_host env addr' MMU_DATA_LOAD mmu_idx'"
    and "h = tlb_vaddr_to_host env addr' MMU_DATA_LOAD mmu_idx'"
    and "rt1 = sym_store_guest_i64 B env v ve addr ae len mmu_idx rt"
  shows "shadow_result B ev (fst (sym_load_guest_i64 B env addr' ae' len mmu_idx' rt1))
      (word_of_int (concrete_bytes rt h (unat len)) :: u64)
      (\<lambda>\<sigma>. if ve = None then word_of_int (concrete_bytes rt h (unat len))
        else take_bit (8 * unat len) (shadow_word ev \<sigma> v ve))
    \<and> rt_path (snd (sym_load_guest_i64 B env addr' ae' len mmu_idx' rt1)) =
      rt_path (pin_address B env addr' ae' (pin_address B env addr ae rt))"
  using sym_memory.store_load [OF assms] by blast

theorem sym_store_load_witness:
  "shadow_word sval (\<lambda>_. 0x1234) (0 :: u64) (fst (sym_load_guest_i64 term_backend
      \<lparr>cpu_get_tb_cpu_state = (0x400000, 0, 0), tlb_vaddr_to_host = (\<lambda>a _ _. a)\<rparr> 0x1000 (Some (SInput 1 64)) 1 0
      (sym_store_guest_i64 term_backend
        \<lparr>cpu_get_tb_cpu_state = (0x400000, 0, 0), tlb_vaddr_to_host = (\<lambda>a _ _. a)\<rparr> 0 (Some (SInput 0 64)) 0x1000 (Some (SInput 2 64)) 1 0
        \<lparr>rt_path = [], rt_shadow = (\<lambda>a. None), rt_mem = (\<lambda>_. 0), rt_events = []\<rparr>)))
    = 0x34" (is "shadow_word _ _ _ (fst (sym_load_guest_i64 _ ?env _ ?a _ _ (sym_store_guest_i64 _ _ _ ?ve _ ?b _ _ ?rt))) = _")
proof -
  have "shadow_result term_backend sval
      (fst (sym_load_guest_i64 term_backend ?env 0x1000 ?a 1 0 (sym_store_guest_i64 term_backend ?env 0 ?ve 0x1000 ?b 1 0 ?rt)))
      (word_of_int (concrete_bytes ?rt 0x1000 (unat (1 :: u64))) :: u64)
      (\<lambda>\<sigma>. if ?ve = None then word_of_int (concrete_bytes ?rt 0x1000 (unat (1 :: u64)))
        else take_bit (8 * unat (1 :: u64)) (shadow_word sval \<sigma> 0 ?ve))"
    using sym_store_load_roundtrip [OF tm.sym_memory_axioms, of 1 ?ve ?env "0x1000" 0 "0x1000" 0 _ _ 0 ?b ?rt ?a]
    by (simp add: sym_width_def)
  moreover have "concrete_bytes ?rt 0x1000 (unat (1 :: u64)) = 0" by (simp add: concrete_bytes_def)
  ultimately show ?thesis by (simp add: shadow_result_def)
qed

lemma deposit_full:
  "shadow_typed B 64 ea \<Longrightarrow> shadow_typed B 64 eb \<Longrightarrow> \<not> unat n < 64 \<Longrightarrow>
     sym_deposit_i64 B a ea b eb ofs n = (if ea = None \<and> eb = None then Some None else None)"
  "\<not> unat m < 32 \<Longrightarrow>
     sym_deposit_i32 B c ec d ed pos m = (if ec = None \<and> ed = None then Some None else None)"
  by (cases ea; cases eb; simp add: sym_deposit_i64_def BINARY_HELPER_ENSURE_EXPRESSIONS_def Let_def c_assert_def c_shl_def)
    (cases ec; cases ed; simp add: sym_deposit_i32_def BINARY_HELPER_ENSURE_EXPRESSIONS_def Let_def c_assert_def c_shl_def unat_ucast_up)

text \<open>C24: The bit-field helpers agree with the bit-field functions. On every field inside the word, the whole
  word included, \<open>sym_extract\<close> and \<open>sym_sextract\<close> of either width succeed and return an operand that
  stands for the zero-extended or sign-extended field of what their operand stands for. \<open>sym_deposit\<close> does
  the same for the deposited value on fields shorter than the word; on a field as long as the word it shifts
  1 by the width of the word, which C leaves undefined, as soon as an operand is symbolic. \<open>sym_extract2\<close>
  returns the funnel shift for every offset up to the width.\<close>

theorem sym_fields_correct:
  fixes c ca cb :: u64 and d da db :: u32
  assumes "sym_backend B ev evb"
    and "shadow_typed B 64 e" "shadow_typed B 64 ea" "shadow_typed B 64 eb"
    and "shadow_typed B 32 f" "shadow_typed B 32 fa" "shadow_typed B 32 fb"
    and "0 < unat n" "unat ofs + unat n \<le> 64" "0 < unat m" "unat pos + unat m \<le> 32"
    and "unat p \<le> 64" "unat q \<le> 32"
  shows "(\<exists>r. sym_extract_i64 B e ofs n = Some r \<and> shadow_result B ev r
        (take_bit (unat n) (drop_bit (unat ofs) c))
        (\<lambda>\<sigma>. take_bit (unat n) (drop_bit (unat ofs) (shadow_word ev \<sigma> c e))))
    \<and> (\<exists>r. sym_sextract_i64 B e ofs n = Some r \<and> shadow_result B ev r
        (signed_take_bit (unat n - 1) (drop_bit (unat ofs) c))
        (\<lambda>\<sigma>. signed_take_bit (unat n - 1) (drop_bit (unat ofs) (shadow_word ev \<sigma> c e))))
    \<and> (if unat n < 64 then \<exists>r. sym_deposit_i64 B ca ea cb eb ofs n = Some r \<and> shadow_result B ev r
          (deposit_word ca (unat ofs) (unat n) cb)
          (\<lambda>\<sigma>. deposit_word (shadow_word ev \<sigma> ca ea) (unat ofs) (unat n) (shadow_word ev \<sigma> cb eb))
        else sym_deposit_i64 B ca ea cb eb ofs n = (if ea = None \<and> eb = None then Some None else None))
    \<and> (\<exists>r. sym_extract2_i64 B ca ea cb eb p = Some r \<and> shadow_result B ev r
        (extract2_word ca cb (unat p))
        (\<lambda>\<sigma>. extract2_word (shadow_word ev \<sigma> ca ea) (shadow_word ev \<sigma> cb eb) (unat p)))
    \<and> (\<exists>r. sym_extract_i32 B f pos m = Some r \<and> shadow_result B ev r
        (take_bit (unat m) (drop_bit (unat pos) d))
        (\<lambda>\<sigma>. take_bit (unat m) (drop_bit (unat pos) (shadow_word ev \<sigma> d f))))
    \<and> (\<exists>r. sym_sextract_i32 B f pos m = Some r \<and> shadow_result B ev r
        (signed_take_bit (unat m - 1) (drop_bit (unat pos) d))
        (\<lambda>\<sigma>. signed_take_bit (unat m - 1) (drop_bit (unat pos) (shadow_word ev \<sigma> d f))))
    \<and> (if unat m < 32 then \<exists>r. sym_deposit_i32 B da fa db fb pos m = Some r \<and> shadow_result B ev r
          (deposit_word da (unat pos) (unat m) db)
          (\<lambda>\<sigma>. deposit_word (shadow_word ev \<sigma> da fa) (unat pos) (unat m) (shadow_word ev \<sigma> db fb))
        else sym_deposit_i32 B da fa db fb pos m = (if fa = None \<and> fb = None then Some None else None))
    \<and> (\<exists>r. sym_extract2_i32 B da fa db fb q = Some r \<and> shadow_result B ev r
        (extract2_word da db (unat q))
        (\<lambda>\<sigma>. extract2_word (shadow_word ev \<sigma> da fa) (shadow_word ev \<sigma> db fb) (unat q)))"
proof -
  note [simp] = unat_ucast_up
  note E64 = sym_backend.extract_correct [OF assms(1), of e n ofs c]
  note E32 = sym_backend.extract_correct [OF assms(1), of f "ucast m" "ucast pos" d]
  have D64: "if unat n < 64 then \<exists>r. sym_deposit_i64 B ca ea cb eb ofs n = Some r \<and> shadow_result B ev r
          (deposit_word ca (unat ofs) (unat n) cb)
          (\<lambda>\<sigma>. deposit_word (shadow_word ev \<sigma> ca ea) (unat ofs) (unat n) (shadow_word ev \<sigma> cb eb))
        else sym_deposit_i64 B ca ea cb eb ofs n = (if ea = None \<and> eb = None then Some None else None)"
    using sym_backend.deposit64_correct [OF assms(1,3,4), of ofs n ca cb] deposit_full(1) [OF assms(3,4)] assms(8,9)
    by (cases "unat n < 64") (simp_all only: if_True if_False, simp)
  have D32: "if unat m < 32 then \<exists>r. sym_deposit_i32 B da fa db fb pos m = Some r \<and> shadow_result B ev r
          (deposit_word da (unat pos) (unat m) db)
          (\<lambda>\<sigma>. deposit_word (shadow_word ev \<sigma> da fa) (unat pos) (unat m) (shadow_word ev \<sigma> db fb))
        else sym_deposit_i32 B da fa db fb pos m = (if fa = None \<and> fb = None then Some None else None)"
    using sym_backend.deposit32_correct [OF assms(1,6,7), of pos m da db] deposit_full(2) [of m B da fa db fb pos] assms(10,11)
    by (cases "unat m < 32") (simp_all only: if_True if_False, simp)
  note X64 = sym_backend.extract2_i64_correct [OF assms(1,3,4), of p ca cb]
  note X32 = sym_backend.extract2_i32_correct [OF assms(1,6,7), of q da db]
  show ?thesis
    unfolding sym_extract_i32_def sym_sextract_i32_def
    using E64 E32 X64 X32 assms(2,5,8-) by (intro conjI D64 D32) simp_all
qed

theorem sym_fields_witness:
  "(\<exists>r. sym_extract_i64 term_backend (Some (SInput 0 64)) 8 16 = Some r
    \<and> shadow_word sval (\<lambda>_. 0x12345678) (0 :: u64) r = 0x3456)
   \<and> sym_deposit_i32 term_backend 0 (Some (SInput 0 32)) 0 None 0 32 = None"
proof -
  note F = sym_fields_correct [OF tb.sym_backend_axioms, of "Some (SInput 0 64)" None None None "Some (SInput 0 32)" None
      16 8 32 0 1 1 0 0 0 0 0 0]
  from F obtain r where "sym_extract_i64 term_backend (Some (SInput 0 64)) 8 16 = Some r"
    "shadow_result term_backend sval r (0 :: u64)
      (\<lambda>\<sigma>. take_bit 16 (drop_bit 8 (shadow_word sval \<sigma> 0 (Some (SInput 0 64)))))"
    by (auto simp: sym_width_def)
  then show ?thesis using F by (auto simp: shadow_result_def sym_width_def)
qed

text \<open>C25: The width-changing and unary helpers are right on every input. \<open>sym_neg\<close>, \<open>sym_not\<close> and \<open>sym_sext\<close>
  (extension of the low \<open>n\<close> bytes in place, for every positive \<open>n\<close> up to the width of the operand) take
  operands of 32 and of 64 bits; so does \<open>sym_zext\<close>, except that keeping all 8 bytes of a symbolic 64-bit
  operand shifts 1 by 64, which C leaves undefined. The conversions between 32 and 64 bits, and the high half
  of the product \<open>sym_muluh_i64\<close>, are right on operands of their type.\<close>

theorem sym_unary_correct:
  fixes a :: "'a::len word" and c ca cb :: u64 and d :: u32
  assumes "sym_backend B ev evb" and "LENGTH('a) = 32 \<or> LENGTH('a) = 64" "shadow_typed B LENGTH('a) g"
    and "0 < unat n" "8 * unat n \<le> LENGTH('a)"
    and "shadow_typed B 64 e" "shadow_typed B 64 ea" "shadow_typed B 64 eb" "shadow_typed B 32 f"
  shows "(\<exists>r. sym_neg B g = Some r \<and> shadow_result B ev r (- a) (\<lambda>\<sigma>. - shadow_word ev \<sigma> a g))
    \<and> (\<exists>r. sym_not B g = Some r \<and> shadow_result B ev r (NOT a) (\<lambda>\<sigma>. NOT (shadow_word ev \<sigma> a g)))
    \<and> (\<exists>r. sym_sext B g n = Some r \<and> shadow_result B ev r (signed_take_bit (8 * unat n - 1) a)
        (\<lambda>\<sigma>. signed_take_bit (8 * unat n - 1) (shadow_word ev \<sigma> a g)))
    \<and> (if 8 * unat n < 64 then \<exists>r. sym_zext B g n = Some r \<and> shadow_result B ev r (take_bit (8 * unat n) a)
          (\<lambda>\<sigma>. take_bit (8 * unat n) (shadow_word ev \<sigma> a g))
        else sym_zext B g n = (if g = None then Some None else None))
    \<and> (\<exists>r. sym_sext_i32_i64 B f = Some r \<and>
        shadow_result B ev r (scast d :: u64) (\<lambda>\<sigma>. scast (shadow_word ev \<sigma> d f)))
    \<and> (\<exists>r. sym_zext_i32_i64 B f = Some r \<and>
        shadow_result B ev r (ucast d :: u64) (\<lambda>\<sigma>. ucast (shadow_word ev \<sigma> d f)))
    \<and> (\<exists>r. sym_trunc_i64_i32 B e = Some r \<and>
        shadow_result B ev r (ucast c :: u32) (\<lambda>\<sigma>. ucast (shadow_word ev \<sigma> c e)))
    \<and> (\<exists>r. sym_muluh_i64 B ca ea cb eb = Some r \<and> shadow_result B ev r
        (ucast (drop_bit 64 (ucast ca * ucast cb :: 128 word)) :: u64)
        (\<lambda>\<sigma>. ucast (drop_bit 64 (ucast (shadow_word ev \<sigma> ca ea) * ucast (shadow_word ev \<sigma> cb eb) :: 128 word))))"
proof (intro conjI)
  have "sym_zext B g n = (if g = None then Some None else None)" if "\<not> 8 * unat n < 64"
  proof -
    have "unat n = 8" using that assms(2,5) by auto
    then have "n = 8" by (simp add: word_unat_eq_iff)
    then show ?thesis by (cases g) (simp_all add: sym_zext_def c_shl_def)
  qed
  then show "if 8 * unat n < 64 then \<exists>r. sym_zext B g n = Some r \<and> shadow_result B ev r (take_bit (8 * unat n) a)
        (\<lambda>\<sigma>. take_bit (8 * unat n) (shadow_word ev \<sigma> a g)) else sym_zext B g n = (if g = None then Some None else None)"
    using sym_backend.zext_correct [OF assms(1-3)] by (cases "8 * unat n < 64") simp_all
next
  show "\<exists>r. sym_sext B g n = Some r \<and> shadow_result B ev r (signed_take_bit (8 * unat n - 1) a)
        (\<lambda>\<sigma>. signed_take_bit (8 * unat n - 1) (shadow_word ev \<sigma> a g))"
    by (rule sym_backend.sext_correct [OF assms(1-5)])
qed (use assms in \<open>simp_all add: sym_backend.unary_correct [OF assms(1)]
    sym_backend.widen_correct [OF assms(1)] sym_backend.trunc_correct [OF assms(1)] sym_backend.muluh_correct [OF assms(1)]\<close>)

theorem sym_unary_witness:
  "(\<exists>r. sym_trunc_i64_i32 term_backend (Some (SInput 0 64)) = Some r
    \<and> shadow_word sval (\<lambda>_. 0x100000007) (0 :: u32) r = 7)
   \<and> (\<exists>r. sym_sext term_backend (Some (SInput 0 32)) 1 = Some r
    \<and> shadow_word sval (\<lambda>_. 0x80) (0 :: u32) r = 0xffffff80)"
proof -
  note U = sym_unary_correct [OF tb.sym_backend_axioms _ _ _ _, of "Some (SInput 0 32)" 1 "Some (SInput 0 64)" None None None "0 :: u32" 0 0 0 0]
  from U obtain r where "sym_trunc_i64_i32 term_backend (Some (SInput 0 64)) = Some r"
    "shadow_result term_backend sval r (0 :: u32) (\<lambda>\<sigma>. ucast (shadow_word sval \<sigma> (0 :: u64) (Some (SInput 0 64))))"
    by (auto simp: sym_width_def)
  moreover from U obtain q where "sym_sext term_backend (Some (SInput 0 32)) 1 = Some q"
    "shadow_result term_backend sval q (0 :: u32) (\<lambda>\<sigma>. signed_take_bit 7 (shadow_word sval \<sigma> (0 :: u32) (Some (SInput 0 32))))"
    by (auto simp: sym_width_def)
  ultimately show ?thesis by (auto simp: shadow_result_def)
qed

lemma bswap2_low:
  fixes x :: "'a::len word"
  assumes len: "LENGTH('a) = 32 \<or> LENGTH('a) = 64"
  shows "push_bit 8 (take_bit 8 x) OR drop_bit 8 x = (ucast (bswap16 (ucast x)) :: 'a word) \<longleftrightarrow>
    drop_bit 16 x AND NOT (take_bit 8 x) = 0" (is "?l = ?r \<longleftrightarrow> ?z = 0")
proof -
  have m: "(0x00ff :: u16) = mask 8" by (simp add: mask_eq_exp_minus_1)
  have l: "bit ?l i \<longleftrightarrow> 8 \<le> i \<and> i < 16 \<and> bit x (i - 8) \<or> bit x (8 + i)" for i
    using len by (auto simp: bit_simps dest: bit_imp_le_length)
  have r: "bit ?r i \<longleftrightarrow> 8 \<le> i \<and> i < 16 \<and> bit x (i - 8) \<or> i < 8 \<and> bit x (8 + i)" for i
    using len unfolding bswap16_def m by (auto simp: bit_simps dest: bit_imp_le_length)
  have z: "bit ?z j \<longleftrightarrow> bit x (16 + j) \<and> \<not> (j < 8 \<and> bit x j)" for j
    using len by (auto simp: bit_simps dest: bit_imp_le_length)
  show ?thesis
  proof
    assume eq: "?l = ?r"
    have "\<not> bit ?z j" for j
    proof
      assume "bit ?z j"
      then have j: "bit x (16 + j)" "\<not> (j < 8 \<and> bit x j)" by (simp_all add: z)
      have "8 + (8 + j) = 16 + j" by simp
      then have "bit ?l (8 + j)" using j(1) unfolding l by metis
      then have "bit ?r (8 + j)" by (simp only: eq)
      then show False using j(2) unfolding r by simp
    qed
    then show "?z = 0" by (simp add: bit_eq_iff)
  next
    assume "?z = 0"
    then have no: "bit x (16 + j) \<Longrightarrow> j < 8 \<and> bit x j" for j using z [of j] by simp
    have "8 \<le> i \<Longrightarrow> bit x (8 + i) \<Longrightarrow> i < 16 \<and> bit x (i - 8)" for i
    proof -
      assume i: "8 \<le> i" "bit x (8 + i)"
      then have "16 + (i - 8) = 8 + i" by simp
      then show ?thesis using no [of "i - 8"] i by auto
    qed
    then have "bit ?l i = bit ?r i" for i unfolding l r by (cases "8 \<le> i") auto
    then show "?l = ?r" by (intro bit_eqI)
  qed
qed

text \<open>C26: \<open>sym_bswap\<close> with length 8 follows \<open>bswap64\<close> on 64-bit operands, and with length 4 \<open>bswap32\<close> on
  32-bit ones; the 4-byte swap of a 64-bit operand gives the zero-extended swap of its low half. The 2-byte
  swap of an operand \<open>a\<close> of either width gives \<open>(a & 0xff) << 8 | a >> 8\<close>, which is the swap of the low half
  word if and only if the bits of \<open>a >> 16\<close> are among those of \<open>a & 0xff\<close>: it is right where the bits above the half
  word are zero, and in general not elsewhere. Any other length ends abnormally on a symbolic operand.\<close>

theorem sym_bswap_correct:
  fixes a :: "'a::len word" and c :: u64 and d :: u32
  assumes "sym_backend B ev evb" "shadow_typed B 64 e" "shadow_typed B 32 f"
    and "LENGTH('a) = 32 \<or> LENGTH('a) = 64" "shadow_typed B LENGTH('a) g" and "n \<notin> {2, 4, 8}"
  shows "(\<exists>r. sym_bswap B e 8 = Some r \<and>
        shadow_result B ev r (bswap64 c) (\<lambda>\<sigma>. bswap64 (shadow_word ev \<sigma> c e)))
    \<and> (\<exists>r. sym_bswap B f 4 = Some r \<and>
        shadow_result B ev r (bswap32 d) (\<lambda>\<sigma>. bswap32 (shadow_word ev \<sigma> d f)))
    \<and> (\<exists>r. sym_bswap B e 4 = Some r \<and>
        shadow_result B ev r (ucast (bswap32 (ucast c)) :: u64) (\<lambda>\<sigma>. ucast (bswap32 (ucast (shadow_word ev \<sigma> c e)))))
    \<and> (\<exists>r. sym_bswap B g 2 = Some r \<and> shadow_result B ev r (push_bit 8 (take_bit 8 a) OR drop_bit 8 a)
        (\<lambda>\<sigma>. push_bit 8 (take_bit 8 (shadow_word ev \<sigma> a g)) OR drop_bit 8 (shadow_word ev \<sigma> a g)))
    \<and> (push_bit 8 (take_bit 8 a) OR drop_bit 8 a = ucast (bswap16 (ucast a)) \<longleftrightarrow> drop_bit 16 a AND NOT (take_bit 8 a) = 0)
    \<and> sym_bswap B g n = (if g = None then Some None else None)"
proof (intro conjI)
  show "sym_bswap B g n = (if g = None then Some None else None)"
    using assms(6) by (cases g) (simp_all add: sym_bswap_def Let_def)
qed (rule sym_backend.bswap8_correct [OF assms(1,2)] sym_backend.bswap4_correct [OF assms(1,3)]
      sym_backend.bswap4_i64_correct [OF assms(1,2)] sym_backend.bswap2_correct [OF assms(1,4,5)] bswap2_low [OF assms(4)])+

theorem sym_bswap_witness:
  "\<exists>r. sym_bswap term_backend (Some (SInput 0 32)) 4 = Some r
    \<and> shadow_word sval (\<lambda>_. 0x11223344) (0 :: u32) r = 0x44332211"
proof -
  from sym_bswap_correct [OF tb.sym_backend_axioms, of None "Some (SInput 0 32)" "None" 1 0 0 "0 :: u32"]
  obtain r where "sym_bswap term_backend (Some (SInput 0 32)) 4 = Some r"
    "shadow_result term_backend sval r (bswap32 0) (\<lambda>\<sigma>. bswap32 (shadow_word sval \<sigma> 0 (Some (SInput 0 32))))"
    by (auto simp: sym_width_def)
  moreover have "bswap32 0 = 0" "bswap32 0x11223344 = 0x44332211" by (simp_all add: bswap32_def)
  ultimately show ?thesis by (auto simp: shadow_result_def)
qed

text \<open>C28: \<open>sym_movcond_i64\<close> does not select: when the condition is symbolic, the expression it returns has
  the value of \<open>v1 XOR v2\<close> on the inputs where the condition holds and zero on the others, because both
  alternatives are masked with the condition; and when only an alternative is symbolic the helper
  inspects a NULL expression and ends abnormally.\<close>

theorem sym_movcond_defect:
  assumes "sym_backend B ev evb" "is_compare c"
    and "shadow_typed B 64 e1" "shadow_typed B 64 e2" "shadow_typed B 64 f1" "shadow_typed B 64 f2"
  shows "(e1 \<noteq> None \<or> e2 \<noteq> None \<longrightarrow>
      (\<exists>r s. sym_movcond_i64 B env c1 e1 c2 e2 v1 f1 v2 f2 c taken rt =
          Some (Some r, sym_push_path_constraint s ((ucast taken :: u8) \<noteq> 0) (get_pc env) rt)
        \<and> (\<forall>\<sigma>. tci_compare (shadow_word ev \<sigma> c1 e1) (shadow_word ev \<sigma> c2 e2) c = Some (evb \<sigma> s)
          \<and> shadow_word ev \<sigma> v1 (Some r) =
            (if evb \<sigma> s then shadow_word ev \<sigma> v1 f1 XOR shadow_word ev \<sigma> v2 f2 else 0))))
    \<and> (e1 = None \<and> e2 = None \<and> (f1 \<noteq> None \<or> f2 \<noteq> None) \<longrightarrow>
      sym_movcond_i64 B env c1 e1 c2 e2 v1 f1 v2 f2 c taken rt = None)"
proof (intro conjI impI)
  assume "e1 \<noteq> None \<or> e2 \<noteq> None"
  with sym_backend.movcond_value [OF assms(1), where n = 64 and 'a = 64, simplified, OF assms(3-6,2)]
  obtain r s where "sym_movcond_internal B env c1 e1 c2 e2 v1 f1 v2 f2 c taken 64 rt =
        Some (Some r, sym_push_path_constraint s ((ucast taken :: u8) \<noteq> 0) (get_pc env) rt)"
      "\<And>\<sigma>. tci_compare (shadow_word ev \<sigma> c1 e1) (shadow_word ev \<sigma> c2 e2) c = Some (evb \<sigma> s)"
      and r: "\<And>\<sigma>. represents B ev \<sigma> r
        (if evb \<sigma> s then shadow_word ev \<sigma> v1 f1 XOR shadow_word ev \<sigma> v2 f2 else 0)"
    by (metis not_None_eq)
  moreover note sym_backend.rep_shadow [OF assms(1) r, where c = v1]
  ultimately show "\<exists>r s. sym_movcond_i64 B env c1 e1 c2 e2 v1 f1 v2 f2 c taken rt =
          Some (Some r, sym_push_path_constraint s ((ucast taken :: u8) \<noteq> 0) (get_pc env) rt)
        \<and> (\<forall>\<sigma>. tci_compare (shadow_word ev \<sigma> c1 e1) (shadow_word ev \<sigma> c2 e2) c = Some (evb \<sigma> s)
          \<and> shadow_word ev \<sigma> v1 (Some r) =
            (if evb \<sigma> s then shadow_word ev \<sigma> v1 f1 XOR shadow_word ev \<sigma> v2 f2 else 0))"
    unfolding sym_movcond_i64_def by blast
qed (auto simp: sym_movcond_i64_def sym_movcond_internal_def opt_bits_def)

theorem sym_movcond_witness:
  "\<exists>r rt'. sym_movcond_i64 term_backend
      \<lparr>cpu_get_tb_cpu_state = (0x400000, 0, 0), tlb_vaddr_to_host = (\<lambda>a _ _. a)\<rparr>
      5 (Some (SInput 0 64)) 5 None 1 None 3 None TCG_COND_EQ 1
      \<lparr>rt_path = [], rt_shadow = (\<lambda>a. None), rt_mem = (\<lambda>_. 0), rt_events = []\<rparr> = Some (Some r, rt')
    \<and> shadow_word sval (\<lambda>_. 5) (1 :: u64) (Some r) = 2"
proof -
  let ?env = "\<lparr>cpu_get_tb_cpu_state = (0x400000, 0, 0), tlb_vaddr_to_host = (\<lambda>a _ _. a)\<rparr>"
  let ?rt = "\<lparr>rt_path = [], rt_shadow = (\<lambda>a. None), rt_mem = (\<lambda>_. 0), rt_events = []\<rparr> :: (sexpr, smem) rt"
  from sym_movcond_defect [OF tb.sym_backend_axioms, of TCG_COND_EQ "Some (SInput 0 64)" None None None ?env 5 5 1 3 1 ?rt]
  obtain r s where "sym_movcond_i64 term_backend ?env 5 (Some (SInput 0 64)) 5 None 1 None 3 None TCG_COND_EQ 1 ?rt =
      Some (Some r, sym_push_path_constraint s True (get_pc ?env) ?rt)"
    and "\<And>\<sigma>. tci_compare (shadow_word sval \<sigma> 5 (Some (SInput 0 64))) (5 :: u64) TCG_COND_EQ = Some (strue \<sigma> s)
      \<and> shadow_word sval \<sigma> 1 (Some r) = (if strue \<sigma> s then 1 XOR 3 else 0 :: u64)"
    by (auto simp: is_compare_code sym_width_def simp del: shadow_word_simps(2))
  from this(1) this(2) [of "\<lambda>_. 5"] show ?thesis by (auto simp: tci_compare_def)
qed

end
