(* ===== verification/Temps.thy ===== *)
theory Temps
  imports Prelude
begin

section \<open>Temporaries\<close>

text \<open>
  The temporaries of a translation context (\<open>tcg/tcg.c\<close>, \<open>include/tcg/tcg.h\<close>): the array
  \<open>temps\<close>, the bitmaps of free temporaries, the tables of constants, and the functions that allocate
  and free them. SymQEMU allocates, right behind the temporary itself, a second one that holds the
  pointer to its symbolic expression; \<open>temp_expr\<close> finds it there.

  The host has 64-bit registers (\<open>TCG_TARGET_REG_BITS\<close> is 64). A \<open>TCGTemp *\<close>, and the \<open>TCGv_i32\<close>,
  \<open>TCGv_i64\<close>, \<dots> that stand for it, are its index in the array. The array is modelled up to
  \<open>nb_temps\<close>, its length. The fields that only the register allocator uses, and the names, are left
  out. A failed \<open>tcg_debug_assert\<close> is an abnormal end, and so is running out of temporaries
  (\<open>tcg_raise_tb_overflow\<close>).
\<close>

datatype TCGType =
  TCG_TYPE_I32 | TCG_TYPE_I64 | TCG_TYPE_I128 | TCG_TYPE_V64 | TCG_TYPE_V128 | TCG_TYPE_V256

abbreviation TCG_TYPE_REG :: TCGType where "TCG_TYPE_REG \<equiv> TCG_TYPE_I64"
abbreviation TCG_TYPE_PTR :: TCGType where "TCG_TYPE_PTR \<equiv> TCG_TYPE_I64"

datatype TCGTempKind = TEMP_EBB | TEMP_TB | TEMP_GLOBAL | TEMP_FIXED | TEMP_CONST

record TCGTemp =
  base_type :: TCGType
  temp_type :: TCGType
  kind :: TCGTempKind
  indirect_reg :: bool
  indirect_base :: bool
  mem_allocated :: bool
  temp_allocated :: bool
  temp_subindex :: nat
  temp_subindex_len :: nat
  symbolic_expression :: bool
  val :: u64
  mem_base :: nat
  mem_offset :: u64
  sym_offset :: u64

type_synonym TCGv = nat

text \<open>Operations hold pointers to temporaries. A pointer to a constant is written with the value it
  points to, which never changes; any other argument of an operation is a number.\<close>

datatype TCGArg = TempArg nat | ConstArg nat u64 | ImmArg u64

record 'op TCGContext =
  temps :: "TCGTemp list"
  nb_globals :: nat
  nb_indirects :: nat
  free_temps :: "TCGType \<Rightarrow> nat \<Rightarrow> bool"
  const_table :: "TCGType \<Rightarrow> u64 \<Rightarrow> nat option"
  tcg_ops :: "'op list"
  nb_labels :: nat
  label_present :: "nat \<Rightarrow> bool"
  label_uses :: "nat \<Rightarrow> nat list"
  goto_tb_issue_mask :: u32
  gen_tb_cflags :: u32

definition TCG_MAX_TEMPS :: nat where
  "TCG_MAX_TEMPS = 512"

abbreviation nb_temps :: "'op TCGContext \<Rightarrow> nat" where
  "nb_temps s \<equiv> length (temps s)"

text \<open>\<open>memset\<close> to zero: the first constructor of each enumeration is its zero.\<close>

definition zero_temp :: TCGTemp where
  "zero_temp = \<lparr>base_type = TCG_TYPE_I32, temp_type = TCG_TYPE_I32, kind = TEMP_EBB, indirect_reg = False,
     indirect_base = False, mem_allocated = False, temp_allocated = False, temp_subindex = 0,
     temp_subindex_len = 0, symbolic_expression = False, val = 0, mem_base = 0, mem_offset = 0,
     sym_offset = 0\<rparr>"

definition set_temp :: "nat \<Rightarrow> (TCGTemp \<Rightarrow> TCGTemp) \<Rightarrow> 'op TCGContext \<Rightarrow> 'op TCGContext" where
  "set_temp i f s = s\<lparr>temps := (temps s)[i := f (temps s ! i)]\<rparr>"

subsection \<open>Allocation\<close>

definition tcg_temp_alloc :: "'op TCGContext \<Rightarrow> (nat \<times> 'op TCGContext) option" where
  "tcg_temp_alloc s =
     (let n = nb_temps s in
      if n \<ge> TCG_MAX_TEMPS then None else Some (n, s\<lparr>temps := temps s @ [zero_temp]\<rparr>))"

definition tcg_global_alloc :: "'op TCGContext \<Rightarrow> (nat \<times> 'op TCGContext) option" where
  "tcg_global_alloc s = do {
     c_assert (nb_globals s = nb_temps s);
     c_assert (nb_globals s < TCG_MAX_TEMPS);
     (ts, s) \<leftarrow> tcg_temp_alloc (s\<lparr>nb_globals := nb_globals s + 1\<rparr>);
     Some (ts, set_temp ts (\<lambda>t. t\<lparr>kind := TEMP_GLOBAL\<rparr>) s) }"

definition temp_expr :: "'op TCGContext \<Rightarrow> nat \<Rightarrow> nat option" where
  "temp_expr s ts = do {
     c_assert (ts < nb_temps s);
     let temp_sz = temp_subindex_len (temps s ! ts);
     c_assert (ts + temp_sz + 1 < nb_temps s);
     c_assert (\<not> symbolic_expression (temps s ! ts));
     c_assert (symbolic_expression (temps s ! (ts + temp_sz + 1)));
     Some (ts + temp_sz + 1) }"

definition tcg_global_reg_new_internal ::
  "TCGType \<Rightarrow> u64 \<Rightarrow> 'op TCGContext \<Rightarrow> (nat \<times> 'op TCGContext) option" where
  "tcg_global_reg_new_internal ty symbolic_offset s = do {
     (ts, s) \<leftarrow> tcg_global_alloc s;
     let s = set_temp ts (\<lambda>t. t\<lparr>base_type := ty, temp_type := ty, kind := TEMP_FIXED,
       sym_offset := symbolic_offset\<rparr>) s;
     (ts_expr, s) \<leftarrow> tcg_global_alloc s;
     let s = set_temp ts_expr (\<lambda>t. t\<lparr>base_type := TCG_TYPE_PTR, temp_type := TCG_TYPE_PTR,
       symbolic_expression := True, indirect_reg := False, mem_allocated := True, mem_base := ts,
       mem_offset := symbolic_offset\<rparr>) s;
     Some (ts, s) }"

definition tcg_global_mem_new_internal ::
  "nat \<Rightarrow> u64 \<Rightarrow> TCGType \<Rightarrow> 'op TCGContext \<Rightarrow> (nat \<times> 'op TCGContext) option" where
  "tcg_global_mem_new_internal base_ts offset ty s = do {
     let expr_idx = nb_globals s div 2;
     c_assert (base_ts < nb_temps s);
     (ts, s) \<leftarrow> tcg_global_alloc s;
     (ts_expr, s) \<leftarrow> tcg_global_alloc s;
     c_assert (nb_globals s mod 2 = 0);
     (indirect, s) \<leftarrow>
       (case kind (temps s ! base_ts) of
          TEMP_FIXED \<Rightarrow> Some (False, s)
        | TEMP_GLOBAL \<Rightarrow> do {
            c_assert (\<not> indirect_reg (temps s ! base_ts));
            let s = set_temp base_ts (\<lambda>t. t\<lparr>indirect_base := True\<rparr>) s;
            Some (True, s\<lparr>nb_indirects := nb_indirects s + 2\<rparr>) }
        | _ \<Rightarrow> None);
     let s = set_temp ts (\<lambda>t. t\<lparr>base_type := ty, temp_type := ty, indirect_reg := indirect,
       mem_allocated := True, mem_base := base_ts, mem_offset := offset\<rparr>) s;
     let s = set_temp ts_expr (\<lambda>t. t\<lparr>base_type := TCG_TYPE_PTR, temp_type := TCG_TYPE_PTR,
       symbolic_expression := True, indirect_reg := indirect, mem_allocated := True, mem_base := base_ts,
       mem_offset := sym_offset (temps s ! base_ts) + of_nat expr_idx * 8\<rparr>) s;
     Some (ts, s) }"

definition tcg_global_mem_new_i32 :: "nat \<Rightarrow> u64 \<Rightarrow> 'op TCGContext \<Rightarrow> (TCGv \<times> 'op TCGContext) option" where
  "tcg_global_mem_new_i32 reg off = tcg_global_mem_new_internal reg off TCG_TYPE_I32"

definition tcg_global_mem_new_i64 :: "nat \<Rightarrow> u64 \<Rightarrow> 'op TCGContext \<Rightarrow> (TCGv \<times> 'op TCGContext) option" where
  "tcg_global_mem_new_i64 reg off = tcg_global_mem_new_internal reg off TCG_TYPE_I64"

definition tcg_global_mem_new_ptr :: "nat \<Rightarrow> u64 \<Rightarrow> 'op TCGContext \<Rightarrow> (TCGv \<times> 'op TCGContext) option" where
  "tcg_global_mem_new_ptr reg off = tcg_global_mem_new_internal reg off TCG_TYPE_PTR"

text \<open>The frame's extent in the stack belongs to the register allocator; the context keeps its
  temporary.\<close>

definition tcg_set_frame :: "'op TCGContext \<Rightarrow> (nat \<times> 'op TCGContext) option" where
  "tcg_set_frame s = tcg_global_reg_new_internal TCG_TYPE_PTR 0 s"

text \<open>The start of a translation block: only the globals remain.\<close>

definition tcg_func_start :: "'op TCGContext \<Rightarrow> 'op TCGContext" where
  "tcg_func_start s = s\<lparr>temps := take (nb_globals s) (temps s), free_temps := \<lambda>_ _. False,
     const_table := \<lambda>_ _. None, tcg_ops := [], nb_labels := 0, label_present := \<lambda>_. False,
     label_uses := \<lambda>_. [], goto_tb_issue_mask := 0\<rparr>"

definition find_first_bit :: "(nat \<Rightarrow> bool) \<Rightarrow> nat \<Rightarrow> nat" where
  "find_first_bit l nbits = (case find l [0..<nbits] of None \<Rightarrow> nbits | Some i \<Rightarrow> i)"

definition temp_parts :: "TCGType \<Rightarrow> nat" where
  "temp_parts ty = (case ty of TCG_TYPE_I64 \<Rightarrow> 64 div 64 | TCG_TYPE_I128 \<Rightarrow> 128 div 64 | _ \<Rightarrow> 1)"

definition tcg_temp_new_internal ::
  "TCGType \<Rightarrow> TCGTempKind \<Rightarrow> 'op TCGContext \<Rightarrow> (nat \<times> 'op TCGContext) option" where
  "tcg_temp_new_internal ty knd s =
     (let idx = find_first_bit (free_temps s ty) TCG_MAX_TEMPS in
      if knd = TEMP_EBB \<and> idx < TCG_MAX_TEMPS then do {
        c_assert (idx + 1 < nb_temps s);
        let s = s\<lparr>free_temps := (free_temps s)(ty := (free_temps s ty)(idx := False))\<rparr>;
        let s = set_temp idx (\<lambda>t. t\<lparr>temp_allocated := True\<rparr>) s;
        c_assert (base_type (temps s ! idx) = ty);
        c_assert (kind (temps s ! idx) = knd);
        let s = set_temp (idx + 1) (\<lambda>t. t\<lparr>temp_allocated := True, symbolic_expression := True\<rparr>) s;
        c_assert (base_type (temps s ! (idx + 1)) = TCG_TYPE_PTR);
        c_assert (kind (temps s ! (idx + 1)) = knd);
        Some (idx, s) }
      else do {
        c_assert (knd = TEMP_EBB \<or> knd = TEMP_TB);
        let n = temp_parts ty;
        (ts, s) \<leftarrow> tcg_temp_alloc s;
        let s = set_temp ts (\<lambda>t. t\<lparr>base_type := ty, temp_allocated := True, kind := knd,
          temp_subindex_len := n - 1, temp_type := (if n = 1 then ty else TCG_TYPE_REG)\<rparr>) s;
        s \<leftarrow> (if n = 1 then Some s else do {
          (ts2, s) \<leftarrow> tcg_temp_alloc s;
          c_assert (ts2 = ts + 1);
          Some (set_temp ts2 (\<lambda>t. t\<lparr>base_type := ty, temp_type := TCG_TYPE_REG, temp_allocated := True,
            temp_subindex := 1, temp_subindex_len := n - 1, kind := knd\<rparr>) s) });
        (ts_expr, s) \<leftarrow> tcg_temp_alloc s;
        let s = set_temp ts_expr (\<lambda>t. t\<lparr>base_type := TCG_TYPE_PTR, temp_type := TCG_TYPE_PTR,
          temp_allocated := True, temp_subindex := 0, kind := knd, symbolic_expression := True\<rparr>) s;
        s \<leftarrow> (if n = 1 then Some s else do {
          (ts2_expr, s) \<leftarrow> tcg_temp_alloc s;
          c_assert (ts2_expr = ts_expr + 1);
          c_assert (ts2_expr = ts + n + 1);
          Some (set_temp ts2_expr (\<lambda>t. t\<lparr>base_type := TCG_TYPE_PTR, temp_type := TCG_TYPE_PTR,
            temp_allocated := True, temp_subindex := 1, kind := knd, symbolic_expression := True\<rparr>) s) });
        Some (ts, s) })"

definition tcg_temp_new_i32 :: "'op TCGContext \<Rightarrow> (TCGv \<times> 'op TCGContext) option" where
  "tcg_temp_new_i32 = tcg_temp_new_internal TCG_TYPE_I32 TEMP_TB"

definition tcg_temp_ebb_new_i32 :: "'op TCGContext \<Rightarrow> (TCGv \<times> 'op TCGContext) option" where
  "tcg_temp_ebb_new_i32 = tcg_temp_new_internal TCG_TYPE_I32 TEMP_EBB"

definition tcg_temp_new_i64 :: "'op TCGContext \<Rightarrow> (TCGv \<times> 'op TCGContext) option" where
  "tcg_temp_new_i64 = tcg_temp_new_internal TCG_TYPE_I64 TEMP_TB"

definition tcg_temp_ebb_new_i64 :: "'op TCGContext \<Rightarrow> (TCGv \<times> 'op TCGContext) option" where
  "tcg_temp_ebb_new_i64 = tcg_temp_new_internal TCG_TYPE_I64 TEMP_EBB"

definition tcg_temp_new_ptr :: "'op TCGContext \<Rightarrow> (TCGv \<times> 'op TCGContext) option" where
  "tcg_temp_new_ptr = tcg_temp_new_internal TCG_TYPE_PTR TEMP_TB"

definition tcg_temp_ebb_new_ptr :: "'op TCGContext \<Rightarrow> (TCGv \<times> 'op TCGContext) option" where
  "tcg_temp_ebb_new_ptr = tcg_temp_new_internal TCG_TYPE_PTR TEMP_EBB"

definition tcg_temp_new_i128 :: "'op TCGContext \<Rightarrow> (TCGv \<times> 'op TCGContext) option" where
  "tcg_temp_new_i128 = tcg_temp_new_internal TCG_TYPE_I128 TEMP_TB"

definition tcg_temp_ebb_new_i128 :: "'op TCGContext \<Rightarrow> (TCGv \<times> 'op TCGContext) option" where
  "tcg_temp_ebb_new_i128 = tcg_temp_new_internal TCG_TYPE_I128 TEMP_EBB"

subsection \<open>Freeing and constants\<close>

definition tcg_temp_free_internal :: "nat \<Rightarrow> 'op TCGContext \<Rightarrow> 'op TCGContext option" where
  "tcg_temp_free_internal ts s = do {
     ts_expr \<leftarrow> temp_expr s ts;
     (case kind (temps s ! ts) of
        TEMP_CONST \<Rightarrow> Some s
      | TEMP_TB \<Rightarrow> Some s
      | TEMP_EBB \<Rightarrow> do {
          c_assert (temp_allocated (temps s ! ts));
          let s = set_temp ts (\<lambda>t. t\<lparr>temp_allocated := False\<rparr>) s;
          c_assert (temp_allocated (temps s ! ts_expr));
          let s = set_temp ts_expr (\<lambda>t. t\<lparr>temp_allocated := False\<rparr>) s;
          let ty = base_type (temps s ! ts);
          Some (s\<lparr>free_temps := (free_temps s)(ty := (free_temps s ty)(ts := True))\<rparr>) }
      | _ \<Rightarrow> None) }"

definition tcg_temp_free_i32 :: "TCGv \<Rightarrow> 'op TCGContext \<Rightarrow> 'op TCGContext option" where
  "tcg_temp_free_i32 arg = tcg_temp_free_internal arg"

definition tcg_temp_free_i64 :: "TCGv \<Rightarrow> 'op TCGContext \<Rightarrow> 'op TCGContext option" where
  "tcg_temp_free_i64 arg = tcg_temp_free_internal arg"

definition tcg_temp_free_i128 :: "TCGv \<Rightarrow> 'op TCGContext \<Rightarrow> 'op TCGContext option" where
  "tcg_temp_free_i128 arg = tcg_temp_free_internal arg"

definition tcg_temp_free_ptr :: "TCGv \<Rightarrow> 'op TCGContext \<Rightarrow> 'op TCGContext option" where
  "tcg_temp_free_ptr arg = tcg_temp_free_internal arg"

definition tcg_constant_internal ::
  "TCGType \<Rightarrow> u64 \<Rightarrow> 'op TCGContext \<Rightarrow> (nat \<times> 'op TCGContext) option" where
  "tcg_constant_internal ty v s =
     (case const_table s ty v of
        Some ts \<Rightarrow> Some (ts, s)
      | None \<Rightarrow> do {
          (ts, s) \<leftarrow> tcg_temp_alloc s;
          let s = set_temp ts (\<lambda>t. t\<lparr>base_type := ty, temp_type := ty, kind := TEMP_CONST,
            temp_allocated := True, val := v\<rparr>) s;
          let s = s\<lparr>const_table := (const_table s)(ty := (const_table s ty)(v \<mapsto> ts))\<rparr>;
          (ts_expr, s) \<leftarrow> tcg_temp_alloc s;
          let s = set_temp ts_expr (\<lambda>t. t\<lparr>base_type := TCG_TYPE_PTR, temp_type := TCG_TYPE_PTR,
            kind := TEMP_CONST, temp_allocated := True, symbolic_expression := True, val := 0\<rparr>) s;
          Some (ts, s) })"

definition tcg_constant_i32 :: "u32 \<Rightarrow> 'op TCGContext \<Rightarrow> (TCGv \<times> 'op TCGContext) option" where
  "tcg_constant_i32 v = tcg_constant_internal TCG_TYPE_I32 (scast v)"

definition tcg_constant_i64 :: "u64 \<Rightarrow> 'op TCGContext \<Rightarrow> (TCGv \<times> 'op TCGContext) option" where
  "tcg_constant_i64 v = tcg_constant_internal TCG_TYPE_I64 v"

definition tcg_constant_ptr_int :: "u64 \<Rightarrow> 'op TCGContext \<Rightarrow> (TCGv \<times> 'op TCGContext) option" where
  "tcg_constant_ptr_int v = tcg_constant_internal TCG_TYPE_PTR v"

subsection \<open>Expressions and arguments\<close>

definition tcgv_i32_expr :: "TCGv \<Rightarrow> 'op TCGContext \<Rightarrow> TCGv option" where
  "tcgv_i32_expr v s = temp_expr s v"

definition tcgv_i64_expr :: "TCGv \<Rightarrow> 'op TCGContext \<Rightarrow> TCGv option" where
  "tcgv_i64_expr v s = temp_expr s v"

definition temp_arg :: "nat \<Rightarrow> 'op TCGContext \<Rightarrow> TCGArg option" where
  "temp_arg ts s = do {
     c_assert (ts < nb_temps s);
     Some (if kind (temps s ! ts) = TEMP_CONST then ConstArg ts (val (temps s ! ts)) else TempArg ts) }"

subsection \<open>The layout invariant\<close>

text \<open>\<open>temp_pair s i\<close>: the temporary \<open>i\<close> takes one element of the array, and the next element holds
  its expression.\<close>

definition temp_pair :: "'op TCGContext \<Rightarrow> nat \<Rightarrow> bool" where
  "temp_pair s i \<longleftrightarrow>
     i + 1 < nb_temps s \<and> \<not> symbolic_expression (temps s ! i) \<and> temp_subindex_len (temps s ! i) = 0 \<and>
     symbolic_expression (temps s ! (i + 1)) \<and> base_type (temps s ! (i + 1)) = TCG_TYPE_PTR \<and>
     (kind (temps s ! i) \<in> {TEMP_EBB, TEMP_TB, TEMP_CONST} \<longrightarrow> kind (temps s ! (i + 1)) = kind (temps s ! i)) \<and>
     (kind (temps s ! i) \<in> {TEMP_GLOBAL, TEMP_FIXED} \<longrightarrow> kind (temps s ! (i + 1)) = TEMP_GLOBAL) \<and>
     (kind (temps s ! i) \<in> {TEMP_EBB, TEMP_TB} \<longrightarrow>
        temp_allocated (temps s ! (i + 1)) = temp_allocated (temps s ! i)) \<and>
     (kind (temps s ! i) = TEMP_CONST \<longrightarrow> val (temps s ! (i + 1)) = 0)"

definition wf_temps :: "'op TCGContext \<Rightarrow> bool" where
  "wf_temps s \<longleftrightarrow>
     nb_temps s \<le> TCG_MAX_TEMPS \<and>
     (\<forall>i < nb_temps s. \<not> symbolic_expression (temps s ! i) \<and> base_type (temps s ! i) \<noteq> TCG_TYPE_I128 \<longrightarrow>
        temp_pair s i) \<and>
     (\<forall>ty i. free_temps s ty i \<longrightarrow>
        i < nb_temps s \<and> \<not> symbolic_expression (temps s ! i) \<and> base_type (temps s ! i) = ty \<and>
        kind (temps s ! i) = TEMP_EBB \<and> \<not> temp_allocated (temps s ! i)) \<and>
     (\<forall>ty v i. const_table s ty v = Some i \<longrightarrow>
        i < nb_temps s \<and> \<not> symbolic_expression (temps s ! i) \<and> base_type (temps s ! i) = ty \<and>
        kind (temps s ! i) = TEMP_CONST \<and> val (temps s ! i) = v)"

text \<open>A temporary that code may use: allocated, or a global.\<close>

definition temp_live :: "'op TCGContext \<Rightarrow> nat \<Rightarrow> TCGType \<Rightarrow> bool" where
  "temp_live s i ty \<longleftrightarrow> temp_pair s i \<and> base_type (temps s ! i) = ty \<and>
     (kind (temps s ! i) \<in> {TEMP_EBB, TEMP_TB} \<longrightarrow> temp_allocated (temps s ! i))"

text \<open>What an operation keeps: the live temporaries outside \<open>X\<close>, and the operations emitted so far.\<close>

definition temps_kept :: "nat set \<Rightarrow> 'op TCGContext \<Rightarrow> 'op TCGContext \<Rightarrow> bool" where
  "temps_kept X s s' \<longleftrightarrow>
     nb_temps s \<le> nb_temps s' \<and> nb_globals s' = nb_globals s \<and> tcg_ops s' = tcg_ops s \<and>
     nb_labels s' = nb_labels s \<and> label_present s' = label_present s \<and> label_uses s' = label_uses s \<and>
     goto_tb_issue_mask s' = goto_tb_issue_mask s \<and> gen_tb_cflags s' = gen_tb_cflags s \<and>
     (\<forall>i ty. temp_live s i ty \<and> i \<notin> X \<longrightarrow>
        temps s' ! i = temps s ! i \<and> temps s' ! (i + 1) = temps s ! (i + 1))"

lemma set_temp_simps [simp]:
  "temps (set_temp i f s) = (temps s)[i := f (temps s ! i)]"
  "nb_globals (set_temp i f s) = nb_globals s"
  "nb_indirects (set_temp i f s) = nb_indirects s"
  "free_temps (set_temp i f s) = free_temps s"
  "const_table (set_temp i f s) = const_table s"
  "tcg_ops (set_temp i f s) = tcg_ops s"
  "label_present (set_temp i f s) = label_present s"
  "label_uses (set_temp i f s) = label_uses s"
  "nb_labels (set_temp i f s) = nb_labels s"
  "goto_tb_issue_mask (set_temp i f s) = goto_tb_issue_mask s"
  "gen_tb_cflags (set_temp i f s) = gen_tb_cflags s"
  by (simp_all add: set_temp_def)

lemma zero_temp_simps [simp]:
  "symbolic_expression zero_temp = False" "temp_subindex_len zero_temp = 0"
  "temp_allocated zero_temp = False" "val zero_temp = 0" "kind zero_temp = TEMP_EBB"
  "base_type zero_temp = TCG_TYPE_I32" "temp_subindex zero_temp = 0"
  by (simp_all add: zero_temp_def)

lemma find_first_bit_less:
  assumes "find_first_bit l n < n" shows "l (find_first_bit l n)"
proof (cases "find l [0..<n]")
  case (Some i)
  then have "l i" by (auto simp: find_Some_iff)
  with Some show ?thesis by (simp add: find_first_bit_def)
qed (use assms in \<open>simp add: find_first_bit_def\<close>)

lemma temp_expr_live:
  "temp_live s t ty \<Longrightarrow> temp_expr s t = Some (t + 1)"
  by (simp add: temp_live_def temp_pair_def temp_expr_def)

lemma temp_live_kept:
  "temps_kept X s s' \<Longrightarrow> temp_live s t ty \<Longrightarrow> t \<notin> X \<Longrightarrow> temp_live s' t ty"
  unfolding temps_kept_def temp_live_def [of s'] temp_pair_def [of s']
  by (auto simp: temp_live_def temp_pair_def)

lemma temps_kept_trans:
  "temps_kept X s s' \<Longrightarrow> temps_kept Y s' s'' \<Longrightarrow> temps_kept (X \<union> Y) s s''"
  using temp_live_kept [of X s s'] unfolding temps_kept_def by fastforce

lemma temp_live_less: "temp_live s t ty \<Longrightarrow> t + 1 < nb_temps s"
  by (simp add: temp_live_def temp_pair_def)

text \<open>Two appended elements that form a pair keep the invariant.\<close>

lemma wf_temps_append:
  assumes "wf_temps s" and "nb_temps s + 2 \<le> TCG_MAX_TEMPS"
    and t: "\<not> symbolic_expression t" "temp_subindex_len t = 0"
    and e: "symbolic_expression e" "base_type e = TCG_TYPE_PTR"
      "kind t \<in> {TEMP_EBB, TEMP_TB, TEMP_CONST} \<longrightarrow> kind e = kind t"
      "kind t \<in> {TEMP_GLOBAL, TEMP_FIXED} \<longrightarrow> kind e = TEMP_GLOBAL"
      "kind t \<in> {TEMP_EBB, TEMP_TB} \<longrightarrow> temp_allocated e = temp_allocated t"
      "kind t = TEMP_CONST \<longrightarrow> val e = 0"
    and s': "temps s' = temps s @ [t, e]" "free_temps s' = free_temps s"
      "\<And>ty v i. const_table s' ty v = Some i \<Longrightarrow>
         const_table s ty v = Some i \<or> i = nb_temps s \<and> kind t = TEMP_CONST \<and> base_type t = ty \<and> val t = v"
  shows "wf_temps s'" and "temp_pair s' (nb_temps s)"
proof -
  have old: "temps s' ! i = temps s ! i" if "i < nb_temps s" for i
    using that s'(1) by (simp add: nth_append)
  show new: "temp_pair s' (nb_temps s)"
    using t e s'(1) by (simp add: temp_pair_def nth_append)
  have "temp_pair s' i"
    if "i < nb_temps s'" "\<not> symbolic_expression (temps s' ! i)" "base_type (temps s' ! i) \<noteq> TCG_TYPE_I128" for i
  proof (cases "i < nb_temps s")
    case True
    then have "temp_pair s i" using that assms(1) old by (simp add: wf_temps_def)
    then show ?thesis using old by (auto simp: temp_pair_def s'(1))
  next
    case False
    then have "i = nb_temps s" using that e(1) s'(1) by (auto simp: nth_append less_Suc_eq)
    then show ?thesis using new by simp
  qed
  then show "wf_temps s'"
    using assms(1,2) s' old t(1) unfolding wf_temps_def
    by (auto simp: less_Suc_eq) (metis old s'(3) nth_append_length)+
qed

lemma list_update_append_two [simp]:
  "(xs @ [a])[length xs := b] = xs @ [b]" "(xs @ [a, c])[Suc (length xs) := b] = xs @ [a, b]"
  "(xs @ [a, c])[length xs := b] = xs @ [b, c]"
  "(xs @ [a, b]) ! Suc (length xs) = b"
  by (simp_all add: list_update_append nth_append)

lemma temps_kept_append:
  assumes "temps s' = temps s @ xs" and "nb_globals s' = nb_globals s" and "tcg_ops s' = tcg_ops s"
    and "nb_labels s' = nb_labels s" and "label_present s' = label_present s" and "label_uses s' = label_uses s"
    and "goto_tb_issue_mask s' = goto_tb_issue_mask s" and "gen_tb_cflags s' = gen_tb_cflags s"
  shows "temps_kept {} s s'"
  using assms by (auto simp: temps_kept_def nth_append dest: temp_live_less)

lemma not_live_fresh: "\<not> temp_live s (nb_temps s) ty"
  by (auto dest: temp_live_less)

text \<open>Changing only the flags of temporaries keeps the invariant, if the free ones are not allocated.\<close>

lemma wf_temps_fields:
  assumes "wf_temps s" and "nb_temps s' = nb_temps s"
    and "\<And>j. symbolic_expression (temps s' ! j) = symbolic_expression (temps s ! j)"
    and "\<And>j. base_type (temps s' ! j) = base_type (temps s ! j)"
    and "\<And>j. kind (temps s' ! j) = kind (temps s ! j)"
    and "\<And>j. val (temps s' ! j) = val (temps s ! j)"
    and "\<And>j. temp_pair s j \<Longrightarrow> temp_pair s' j"
    and "const_table s' = const_table s"
    and "\<And>ty j. free_temps s' ty j \<Longrightarrow> \<not> temp_allocated (temps s' ! j) \<and> (free_temps s ty j \<or>
      j < nb_temps s \<and> \<not> symbolic_expression (temps s ! j) \<and> base_type (temps s ! j) = ty \<and>
      kind (temps s ! j) = TEMP_EBB)"
  shows "wf_temps s'"
  using assms(1,7,9) unfolding wf_temps_def assms(2-6,8) by blast

text \<open>\<open>fresh_temp ty k s t s'\<close>: \<open>t\<close> is a new live temporary of type \<open>ty\<close>.\<close>

definition fresh_temp :: "TCGType \<Rightarrow> TCGTempKind \<Rightarrow> 'op TCGContext \<Rightarrow> nat \<Rightarrow> 'op TCGContext \<Rightarrow> bool" where
  "fresh_temp ty k s t s' \<longleftrightarrow> wf_temps s' \<and> temps_kept {} s s' \<and> temp_live s' t ty \<and>
     kind (temps s' ! t) = k \<and> (\<forall>ty. \<not> temp_live s t ty) \<and> nb_temps s' \<le> nb_temps s + 2"

lemma tcg_temp_new_reuse:
  assumes "wf_temps s" and "ty \<noteq> TCG_TYPE_I128"
    and "find_first_bit (free_temps s ty) TCG_MAX_TEMPS < TCG_MAX_TEMPS"
  shows "\<exists>t s'. tcg_temp_new_internal ty TEMP_EBB s = Some (t, s') \<and> fresh_temp ty TEMP_EBB s t s'"
proof -
  define i where "i = find_first_bit (free_temps s ty) TCG_MAX_TEMPS"
  have free: "free_temps s ty i" using assms(3) unfolding i_def by (rule find_first_bit_less)
  then have i: "i < nb_temps s" "\<not> symbolic_expression (temps s ! i)" "base_type (temps s ! i) = ty"
    "kind (temps s ! i) = TEMP_EBB" "\<not> temp_allocated (temps s ! i)"
    using assms(1) unfolding wf_temps_def by blast+
  then have pair: "temp_pair s i" using assms(1,2) unfolding wf_temps_def by blast
  define s' where "s' = set_temp (i + 1) (\<lambda>t. t\<lparr>temp_allocated := True, symbolic_expression := True\<rparr>)
    (set_temp i (\<lambda>t. t\<lparr>temp_allocated := True\<rparr>)
      (s\<lparr>free_temps := (free_temps s)(ty := (free_temps s ty)(i := False))\<rparr>))"
  have res: "tcg_temp_new_internal ty TEMP_EBB s = Some (i, s')"
    using assms(3) i pair unfolding tcg_temp_new_internal_def i_def [symmetric]
    by (simp add: temp_pair_def Let_def s'_def)
  have t: "temps s' ! i = (temps s ! i)\<lparr>temp_allocated := True\<rparr>"
    "temps s' ! (i + 1) = (temps s ! (i + 1))\<lparr>temp_allocated := True\<rparr>"
    using i pair by (simp_all add: s'_def temp_pair_def)
  have other: "temps s' ! j = temps s ! j" if "j \<noteq> i" "j \<noteq> i + 1" for j
    using that by (simp add: s'_def)
  have len: "nb_temps s' = nb_temps s" by (simp add: s'_def)
  have pair': "temp_pair s' j" if j: "temp_pair s j" for j
  proof (cases "j = i")
    case True
    then show ?thesis using j t i by (auto simp: temp_pair_def len)
  next
    case False
    have "j \<noteq> i + 1" "j + 1 \<noteq> i" using j pair i(2) by (auto simp: temp_pair_def)
    then show ?thesis using j False other [of j] other [of "j + 1"] by (simp add: temp_pair_def len)
  qed
  have fields: "symbolic_expression (temps s' ! j) = symbolic_expression (temps s ! j)"
    "base_type (temps s' ! j) = base_type (temps s ! j)" "kind (temps s' ! j) = kind (temps s ! j)"
    "val (temps s' ! j) = val (temps s ! j)" for j
    using t other [of j] by (cases "j = i \<or> j = i + 1"; auto)+
  have alloc: "temp_allocated (temps s' ! j) = temp_allocated (temps s ! j)"
    if "\<not> symbolic_expression (temps s ! j)" "j \<noteq> i" for j
    using that other pair by (cases "j = i + 1") (auto simp: temp_pair_def)
  have fr: "free_temps s ty' j \<and> j \<noteq> i" if "free_temps s' ty' j" for ty' j
    using that assms(1) i(3) by (auto simp: s'_def wf_temps_def split: if_splits)
  have "const_table s' = const_table s" by (simp add: s'_def)
  then have "wf_temps s'"
    using assms(1) by (intro wf_temps_fields [OF assms(1) len fields pair'])
      (auto simp: alloc wf_temps_def dest!: fr)
  moreover have "\<not> temp_live s i ty'" for ty' using i by (simp add: temp_live_def)
  moreover have "temps_kept {} s s'"
    unfolding temps_kept_def
  proof (intro conjI allI impI)
    fix j ty' assume "temp_live s j ty' \<and> j \<notin> {}"
    then have "j \<noteq> i" "j \<noteq> i + 1" "j + 1 \<noteq> i" using i pair by (auto simp: temp_live_def temp_pair_def)
    then show "temps s' ! j = temps s ! j" "temps s' ! (j + 1) = temps s ! (j + 1)" using other by simp_all
  qed (simp_all add: s'_def)
  ultimately show ?thesis
    using res pair' [OF pair] i t by (auto simp: fresh_temp_def temp_live_def len)
qed

lemma tcg_temp_new_fresh:
  assumes "wf_temps s" and "nb_temps s + 2 \<le> TCG_MAX_TEMPS" and "ty \<noteq> TCG_TYPE_I128"
    and "k = TEMP_TB \<or> k = TEMP_EBB \<and> \<not> find_first_bit (free_temps s ty) TCG_MAX_TEMPS < TCG_MAX_TEMPS"
  shows "\<exists>t s'. tcg_temp_new_internal ty k s = Some (t, s') \<and> fresh_temp ty k s t s'"
proof -
  define t where "t = zero_temp\<lparr>base_type := ty, temp_allocated := True, kind := k, temp_type := ty\<rparr>"
  define e where "e = zero_temp\<lparr>base_type := TCG_TYPE_PTR, temp_type := TCG_TYPE_PTR,
    temp_allocated := True, kind := k, symbolic_expression := True\<rparr>"
  define s' where "s' = s\<lparr>temps := temps s @ [t, e]\<rparr>"
  have one: "temp_parts ty = 1" using assms(3) by (simp add: temp_parts_def split: TCGType.split)
  have "tcg_temp_new_internal ty k s = Some (nb_temps s, s')"
    using assms(2,4) unfolding tcg_temp_new_internal_def
    by (auto simp: one Let_def tcg_temp_alloc_def set_temp_def s'_def t_def e_def zero_temp_def)
  moreover have "wf_temps s'" "temp_pair s' (nb_temps s)"
    using assms(4) by (auto intro!: wf_temps_append [OF assms(1,2), of t e] simp: s'_def t_def e_def)
  moreover have "temps_kept {} s s'" by (rule temps_kept_append) (simp_all add: s'_def)
  moreover have "temps s' ! nb_temps s = t" by (simp add: s'_def)
  ultimately show ?thesis
    using not_live_fresh by (auto simp: fresh_temp_def temp_live_def t_def s'_def)
qed

lemma tcg_temp_new_internal_ok:
  assumes "wf_temps s" and "nb_temps s + 2 \<le> TCG_MAX_TEMPS" and "ty \<noteq> TCG_TYPE_I128"
    and "k \<in> {TEMP_TB, TEMP_EBB}"
  shows "\<exists>t s'. tcg_temp_new_internal ty k s = Some (t, s') \<and> fresh_temp ty k s t s'"
  using tcg_temp_new_reuse [OF assms(1,3)] tcg_temp_new_fresh [OF assms(1-3), of k] assms(4) by blast

lemma tcg_temp_free_internal_ok:
  assumes "wf_temps s" and "temp_live s t ty" and "kind (temps s ! t) \<in> {TEMP_EBB, TEMP_TB, TEMP_CONST}"
  shows "\<exists>s'. tcg_temp_free_internal t s = Some s' \<and> wf_temps s' \<and> temps_kept {t} s s' \<and>
    nb_temps s' = nb_temps s"
proof (cases "kind (temps s ! t) = TEMP_EBB")
  case True
  note live = assms(2) [unfolded temp_live_def]
  define s' where "s' = (set_temp (t + 1) (\<lambda>t. t\<lparr>temp_allocated := False\<rparr>)
    (set_temp t (\<lambda>t. t\<lparr>temp_allocated := False\<rparr>) s))\<lparr>free_temps := (free_temps s)(ty := (free_temps s ty)(t := True))\<rparr>"
  have res: "tcg_temp_free_internal t s = Some s'"
    using live True temp_expr_live [OF assms(2)]
    by (simp add: tcg_temp_free_internal_def temp_pair_def s'_def Let_def)
  have pair: "temp_pair s t" using live by simp
  have tt: "temps s' ! t = (temps s ! t)\<lparr>temp_allocated := False\<rparr>"
    "temps s' ! (t + 1) = (temps s ! (t + 1))\<lparr>temp_allocated := False\<rparr>"
    using pair by (simp_all add: s'_def temp_pair_def)
  have other: "temps s' ! j = temps s ! j" if "j \<noteq> t" "j \<noteq> t + 1" for j
    using that by (simp add: s'_def)
  have len: "nb_temps s' = nb_temps s" by (simp add: s'_def)
  have apart: "j \<noteq> t + 1" "j + 1 \<noteq> t" if "temp_pair s j" for j
    using that pair by (auto simp: temp_pair_def)
  have pair': "temp_pair s' j" if j: "temp_pair s j" for j
    using j tt True other [of j] other [of "j + 1"] apart [OF j]
    by (cases "j = t") (auto simp: temp_pair_def len)
  have fields: "symbolic_expression (temps s' ! j) = symbolic_expression (temps s ! j)"
    "base_type (temps s' ! j) = base_type (temps s ! j)" "kind (temps s' ! j) = kind (temps s ! j)"
    "val (temps s' ! j) = val (temps s ! j)" for j
    using tt other [of j] by (cases "j = t \<or> j = t + 1"; auto)+
  have "\<not> temp_allocated (temps s' ! j) \<and> (free_temps s ty' j \<or>
      j < nb_temps s \<and> \<not> symbolic_expression (temps s ! j) \<and> base_type (temps s ! j) = ty' \<and>
      kind (temps s ! j) = TEMP_EBB)" if "free_temps s' ty' j" for ty' j
  proof (cases "j = t")
    case True
    then have "ty' = ty"
      using that assms(1) live by (auto simp: s'_def wf_temps_def split: if_splits)
    then show ?thesis using True tt live pair \<open>kind (temps s ! t) = TEMP_EBB\<close> by (simp add: temp_pair_def)
  next
    case False
    then have "free_temps s ty' j" using that by (simp add: s'_def split: if_splits)
    then show ?thesis using assms(1) False other [of j] pair unfolding wf_temps_def
      by (cases "j = t + 1") (auto simp: temp_pair_def)
  qed
  then have "wf_temps s'"
    by (intro wf_temps_fields [OF assms(1) len fields pair']) (simp_all add: s'_def)
  moreover have "temps_kept {t} s s'"
    unfolding temps_kept_def
  proof (intro conjI allI impI)
    fix j ty' assume "temp_live s j ty' \<and> j \<notin> {t}"
    then have "j \<noteq> t" "j \<noteq> t + 1" "j + 1 \<noteq> t" using apart by (auto simp: temp_live_def)
    then show "temps s' ! j = temps s ! j" "temps s' ! (j + 1) = temps s ! (j + 1)" using other by simp_all
  qed (simp_all add: s'_def)
  ultimately show ?thesis using res len by blast
next
  case False
  then have "tcg_temp_free_internal t s = Some s"
    using temp_expr_live [OF assms(2)] assms(3) by (auto simp: tcg_temp_free_internal_def)
  then show ?thesis using assms(1) by (simp add: temps_kept_def)
qed

text \<open>\<open>const_temp ty v s t\<close>: \<open>t\<close> is the temporary of the constant \<open>v\<close>.\<close>

definition const_temp :: "TCGType \<Rightarrow> u64 \<Rightarrow> 'op TCGContext \<Rightarrow> nat \<Rightarrow> bool" where
  "const_temp ty v s t \<longleftrightarrow> temp_live s t ty \<and> kind (temps s ! t) = TEMP_CONST \<and> val (temps s ! t) = v"

lemma tcg_constant_internal_ok:
  assumes "wf_temps s" and "nb_temps s + 2 \<le> TCG_MAX_TEMPS" and "ty \<noteq> TCG_TYPE_I128"
  shows "\<exists>t s'. tcg_constant_internal ty v s = Some (t, s') \<and> wf_temps s' \<and> temps_kept {} s s' \<and>
    const_temp ty v s' t \<and> nb_temps s' \<le> nb_temps s + 2 \<and> const_table s' ty v = Some t"
proof (cases "const_table s ty v")
  case None
  define t where "t = zero_temp\<lparr>base_type := ty, temp_type := ty, kind := TEMP_CONST,
    temp_allocated := True, val := v\<rparr>"
  define e where "e = zero_temp\<lparr>base_type := TCG_TYPE_PTR, temp_type := TCG_TYPE_PTR, kind := TEMP_CONST,
    temp_allocated := True, symbolic_expression := True, val := 0\<rparr>"
  define s' where "s' = s\<lparr>temps := temps s @ [t, e],
    const_table := (const_table s)(ty := (const_table s ty)(v \<mapsto> nb_temps s))\<rparr>"
  have "tcg_constant_internal ty v s = Some (nb_temps s, s')"
    using None assms(2) unfolding tcg_constant_internal_def
    by (simp add: Let_def tcg_temp_alloc_def set_temp_def s'_def t_def e_def)
  moreover have "wf_temps s'" "temp_pair s' (nb_temps s)"
    by (auto intro!: wf_temps_append [OF assms(1,2), of t e] simp: s'_def t_def e_def split: if_splits)
  moreover have "temps_kept {} s s'" by (rule temps_kept_append) (simp_all add: s'_def)
  moreover have "temps s' ! nb_temps s = t" by (simp add: s'_def)
  ultimately show ?thesis
    by (auto simp: const_temp_def temp_live_def t_def s'_def)
next
  case (Some t)
  then have "const_temp ty v s t"
    using assms(1,3) unfolding wf_temps_def const_temp_def temp_live_def by auto
  then show ?thesis
    using Some assms(1) by (simp add: tcg_constant_internal_def temps_kept_def)
qed

text \<open>\<open>wf_globals\<close>: the globals come first, each followed by its expression, whose place in memory is
  the array of expressions of the base register.\<close>

definition global_ok :: "'op TCGContext \<Rightarrow> nat \<Rightarrow> bool" where
  "global_ok s j \<longleftrightarrow>
     (let t = temps s ! (2 * j); e = temps s ! (2 * j + 1) in
      \<not> symbolic_expression t \<and> base_type t \<noteq> TCG_TYPE_I128 \<and> kind t \<in> {TEMP_GLOBAL, TEMP_FIXED} \<and>
      mem_base e < nb_globals s \<and>
      mem_offset e = (if kind t = TEMP_FIXED then sym_offset t
                      else sym_offset (temps s ! mem_base e) + of_nat j * 8) \<and>
      (kind t = TEMP_GLOBAL \<longrightarrow> mem_base t = mem_base e))"

definition wf_globals :: "'op TCGContext \<Rightarrow> bool" where
  "wf_globals s \<longleftrightarrow> nb_globals s \<le> nb_temps s \<and> even (nb_globals s) \<and> (\<forall>j < nb_globals s div 2. global_ok s j)"

inductive tcg_reach :: "'op TCGContext \<Rightarrow> bool" where
  init: "temps s = [] \<Longrightarrow> nb_globals s = 0 \<Longrightarrow> free_temps s = (\<lambda>_ _. False) \<Longrightarrow>
    const_table s = (\<lambda>_ _. None) \<Longrightarrow> tcg_reach s"
| reg: "tcg_reach s \<Longrightarrow> ty \<in> {TCG_TYPE_I32, TCG_TYPE_I64} \<Longrightarrow>
    tcg_global_reg_new_internal ty off s = Some (t, s') \<Longrightarrow> tcg_reach s'"
| mem: "tcg_reach s \<Longrightarrow> ty \<in> {TCG_TYPE_I32, TCG_TYPE_I64} \<Longrightarrow>
    tcg_global_mem_new_internal base off ty s = Some (t, s') \<Longrightarrow> tcg_reach s'"
| start: "tcg_reach s \<Longrightarrow> tcg_reach (tcg_func_start s)"
| new: "tcg_reach s \<Longrightarrow> ty \<noteq> TCG_TYPE_I128 \<Longrightarrow> tcg_temp_new_internal ty k s = Some (t, s') \<Longrightarrow> tcg_reach s'"
| free: "tcg_reach s \<Longrightarrow> temp_live s t ty \<Longrightarrow> tcg_temp_free_internal t s = Some s' \<Longrightarrow> tcg_reach s'"
| const: "tcg_reach s \<Longrightarrow> ty \<noteq> TCG_TYPE_I128 \<Longrightarrow> tcg_constant_internal ty v s = Some (t, s') \<Longrightarrow> tcg_reach s'"


lemma tcg_temp_new_internal_inv:
  assumes "tcg_temp_new_internal ty k s = Some (t, s')" and "wf_temps s" and "ty \<noteq> TCG_TYPE_I128"
  shows "fresh_temp ty k s t s'"
proof -
  have k: "k = TEMP_TB \<or> k = TEMP_EBB"
    using assms(1) by (auto simp: tcg_temp_new_internal_def Let_def split: if_splits bind_splits)
  have "temp_parts ty = 1" using assms(3) by (simp add: temp_parts_def split: TCGType.split)
  then have "nb_temps s + 2 \<le> TCG_MAX_TEMPS"
    if "\<not> (k = TEMP_EBB \<and> find_first_bit (free_temps s ty) TCG_MAX_TEMPS < TCG_MAX_TEMPS)"
    using assms(1) that
    by (auto simp: tcg_temp_new_internal_def tcg_temp_alloc_def Let_def split: if_splits bind_splits)
  then show ?thesis
    using assms k tcg_temp_new_reuse [OF assms(2,3)] tcg_temp_new_fresh [OF assms(2) _ assms(3), of k]
    by (metis old.prod.inject option.inject)
qed

lemma tcg_constant_internal_inv:
  assumes "tcg_constant_internal ty v s = Some (t, s')" and "wf_temps s" and "ty \<noteq> TCG_TYPE_I128"
  shows "wf_temps s' \<and> temps_kept {} s s' \<and> const_temp ty v s' t \<and> nb_temps s' \<le> nb_temps s + 2 \<and>
    const_table s' ty v = Some t"
proof (cases "nb_temps s + 2 \<le> TCG_MAX_TEMPS")
  case True
  then show ?thesis using tcg_constant_internal_ok [OF assms(2) True assms(3), of v] assms(1) by auto
next
  case False
  then obtain t' where "const_table s ty v = Some t'"
    using assms(1) by (auto simp: tcg_constant_internal_def tcg_temp_alloc_def Let_def
      split: option.splits if_splits bind_splits)
  moreover from this have "const_temp ty v s t'"
    using assms(2,3) unfolding wf_temps_def const_temp_def temp_live_def by auto
  ultimately show ?thesis using assms(1,2) by (simp add: tcg_constant_internal_def temps_kept_def)
qed

lemma global_live:
  assumes "wf_temps s" and "wf_globals s" and "j < nb_globals s div 2"
  shows "temp_live s (2 * j) (base_type (temps s ! (2 * j)))"
proof -
  have "2 * j < nb_temps s" using assms(2,3) by (auto simp: wf_globals_def)
  then have "temp_pair s (2 * j)"
    using assms unfolding wf_globals_def wf_temps_def global_ok_def Let_def by blast
  then show ?thesis using assms(2,3) by (auto simp: temp_live_def wf_globals_def global_ok_def Let_def)
qed

lemma wf_globals_same:
  assumes "wf_globals s" and "nb_globals s' = nb_globals s" and "nb_temps s \<le> nb_temps s'"
    and "\<And>i. i < nb_globals s \<Longrightarrow> temps s' ! i = temps s ! i"
  shows "wf_globals s'"
proof -
  have "global_ok s' j" if j: "global_ok s j" "j < nb_globals s div 2" for j
  proof -
    have "temps s' ! (2 * j) = temps s ! (2 * j)" "temps s' ! (2 * j + 1) = temps s ! (2 * j + 1)"
      using j(2) assms(1) by (auto intro!: assms(4) simp: wf_globals_def elim!: evenE)
    then show ?thesis using j(1) assms(2,4) by (simp add: global_ok_def Let_def)
  qed
  then show ?thesis using assms(1-3) by (simp add: wf_globals_def)
qed

lemma wf_globals_kept:
  assumes "wf_temps s" and "wf_globals s" and "temps_kept X s s'"
    and "\<And>t. t \<in> X \<Longrightarrow> kind (temps s ! t) \<notin> {TEMP_GLOBAL, TEMP_FIXED}"
  shows "wf_globals s'"
proof (rule wf_globals_same [OF assms(2)])
  fix i assume i: "i < nb_globals s"
  then have j: "i div 2 < nb_globals s div 2" using assms(2) by (auto simp: wf_globals_def elim!: evenE)
  have "2 * (i div 2) \<notin> X"
    using j assms(2,4) unfolding wf_globals_def global_ok_def Let_def by blast
  moreover have "i = 2 * (i div 2) \<or> i = 2 * (i div 2) + 1" by presburger
  ultimately show "temps s' ! i = temps s ! i"
    using global_live [OF assms(1,2) j] assms(3) unfolding temps_kept_def by metis
qed (use assms(3) in \<open>auto simp: temps_kept_def\<close>)

lemma tcg_global_reg_new_internal_inv:
  assumes "tcg_global_reg_new_internal ty off s = Some (t, s')"
  shows "t = nb_temps s \<and> nb_globals s = nb_temps s \<and> nb_temps s + 2 \<le> TCG_MAX_TEMPS \<and>
    s' = s\<lparr>temps := temps s @
      [zero_temp\<lparr>base_type := ty, temp_type := ty, kind := TEMP_FIXED, sym_offset := off\<rparr>,
       zero_temp\<lparr>base_type := TCG_TYPE_PTR, temp_type := TCG_TYPE_PTR, kind := TEMP_GLOBAL, mem_allocated := True,
         symbolic_expression := True, mem_base := nb_temps s, mem_offset := off\<rparr>],
      nb_globals := nb_globals s + 2\<rparr>"
  using assms unfolding tcg_global_reg_new_internal_def tcg_global_alloc_def tcg_temp_alloc_def
  by (auto simp: Let_def set_temp_def zero_temp_def split: if_splits bind_splits)

lemma tcg_global_mem_new_internal_inv:
  assumes "tcg_global_mem_new_internal base off ty s = Some (t, s')"
  obtains f ind n where
    "t = nb_temps s" "nb_globals s = nb_temps s" "nb_temps s + 2 \<le> TCG_MAX_TEMPS" "base < nb_temps s"
    "even (nb_globals s)" "f = id \<or> f = (\<lambda>t. t\<lparr>indirect_base := True\<rparr>)"
    "s' = s\<lparr>temps := (temps s)[base := f (temps s ! base)] @
      [zero_temp\<lparr>base_type := ty, temp_type := ty, kind := TEMP_GLOBAL, indirect_reg := ind, mem_allocated := True,
         mem_base := base, mem_offset := off\<rparr>,
       zero_temp\<lparr>base_type := TCG_TYPE_PTR, temp_type := TCG_TYPE_PTR, kind := TEMP_GLOBAL, indirect_reg := ind,
         mem_allocated := True, symbolic_expression := True, mem_base := base,
         mem_offset := sym_offset (temps s ! base) + of_nat (nb_globals s div 2) * 8\<rparr>],
      nb_globals := nb_globals s + 2, nb_indirects := n\<rparr>"
proof (cases "kind (temps s ! base)")
  case TEMP_GLOBAL
  then show thesis
    using assms that [of "\<lambda>t. t\<lparr>indirect_base := True\<rparr>" "nb_indirects s + 2" True]
    unfolding tcg_global_mem_new_internal_def tcg_global_alloc_def tcg_temp_alloc_def
    by (auto simp: Let_def nth_append set_temp_def list_update_append zero_temp_def even_iff_mod_2_eq_zero
      split: if_splits bind_splits)
next
  case TEMP_FIXED
  then show thesis
    using assms that [of id "nb_indirects s" False]
    unfolding tcg_global_mem_new_internal_def tcg_global_alloc_def tcg_temp_alloc_def
    by (auto simp: Let_def nth_append set_temp_def list_update_append zero_temp_def even_iff_mod_2_eq_zero
      split: if_splits bind_splits)
qed (use assms in \<open>simp_all add: tcg_global_mem_new_internal_def tcg_global_alloc_def tcg_temp_alloc_def Let_def
    nth_append set_temp_def list_update_append split: if_splits bind_splits\<close>)

lemma wf_globals_append:
  assumes "wf_globals s" and "nb_globals s = nb_temps s" and "nb_globals s' = nb_globals s + 2"
    and "temps s' = xs @ [t, e]" and "length xs = nb_temps s"
    and "\<And>i. i < nb_temps s \<Longrightarrow> xs ! i = temps s ! i \<or> xs ! i = (temps s ! i)\<lparr>indirect_base := True\<rparr>"
    and "\<not> symbolic_expression t" "base_type t \<noteq> TCG_TYPE_I128" "kind t \<in> {TEMP_GLOBAL, TEMP_FIXED}"
    and "mem_base e < nb_temps s + 2" "kind t = TEMP_GLOBAL \<longrightarrow> mem_base t = mem_base e \<and> mem_base e < nb_temps s"
    and "mem_offset e = (if kind t = TEMP_FIXED then sym_offset t
           else sym_offset (temps s ! mem_base e) + of_nat (nb_globals s div 2) * 8)"
  shows "wf_globals s'"
proof -
  obtain m where m: "nb_temps s = 2 * m" using assms(1,2) by (auto simp: wf_globals_def elim!: evenE)
  have old: "temps s' ! i = xs ! i" if "i < 2 * m" for i using that assms(4,5) m by (simp add: nth_append)
  have new: "temps s' ! (2 * m) = t" "temps s' ! (2 * m + 1) = e"
    using assms(4,5) m by (simp_all add: nth_append)
  have so: "sym_offset (temps s' ! i) = sym_offset (temps s ! i)" if "i < 2 * m" for i
    using old [OF that] assms(6) [of i] that m by auto
  have "global_ok s' j" if "j < m + 1" for j
  proof (cases "j = m")
    case True
    then show ?thesis
      using new assms(3,9-12) m assms(2) so [of "mem_base e"] assms(7,8) by (auto simp: global_ok_def Let_def)
  next
    case False
    then have j: "j < m" using that by simp
    then have ok: "global_ok s j" using assms(1,2) m by (simp add: wf_globals_def)
    have t: "temps s' ! i = temps s ! i \<or> temps s' ! i = (temps s ! i)\<lparr>indirect_base := True\<rparr>"
      if "i = 2 * j \<or> i = 2 * j + 1" for i
      using old [of i] assms(6) [of i] j m that by auto
    have "mem_base (temps s ! (2 * j + 1)) < 2 * m"
      using ok assms(2) m by (simp add: global_ok_def Let_def)
    then show ?thesis
      using ok t [of "2 * j"] t [of "2 * j + 1"] so assms(2,3) m by (auto simp: global_ok_def Let_def)
  qed
  then show ?thesis using assms(2-5) m by (simp add: wf_globals_def)
qed

lemma nth_update_indirect:
  assumes "f = id \<or> f = (\<lambda>t. t\<lparr>indirect_base := True\<rparr>)"
  shows "xs[b := f (xs ! b)] ! i = xs ! i \<or> xs[b := f (xs ! b)] ! i = (xs ! i)\<lparr>indirect_base := True\<rparr>"
proof (cases "b < length xs")
  case True
  then show ?thesis using assms by (cases "i = b") auto
qed (simp add: list_update_beyond)

lemma wf_temps_indirect:
  assumes "wf_temps s" and "f = id \<or> f = (\<lambda>t. t\<lparr>indirect_base := True\<rparr>)"
  shows "wf_temps (s\<lparr>temps := (temps s)[b := f (temps s ! b)]\<rparr>)"
proof -
  define s' where "s' = s\<lparr>temps := (temps s)[b := f (temps s ! b)]\<rparr>"
  have t: "temps s' ! i = temps s ! i \<or> temps s' ! i = (temps s ! i)\<lparr>indirect_base := True\<rparr>" for i
    using nth_update_indirect [OF assms(2)] by (simp add: s'_def)
  have fields: "symbolic_expression (temps s' ! j) = symbolic_expression (temps s ! j)"
    "base_type (temps s' ! j) = base_type (temps s ! j)" "kind (temps s' ! j) = kind (temps s ! j)"
    "val (temps s' ! j) = val (temps s ! j)" "temp_allocated (temps s' ! j) = temp_allocated (temps s ! j)"
    "temp_subindex_len (temps s' ! j) = temp_subindex_len (temps s ! j)" for j
    using t [of j] by auto
  have n: "nb_temps s' = nb_temps s" "free_temps s' = free_temps s" "const_table s' = const_table s"
    by (simp_all add: s'_def)
  have "temp_pair s' j" if "temp_pair s j" for j
    using that unfolding temp_pair_def fields n .
  moreover have "\<not> temp_allocated (temps s' ! j) \<and> free_temps s ty j" if "free_temps s' ty j" for ty j
    using that assms(1) unfolding fields n wf_temps_def by blast
  ultimately have "wf_temps s'"
    using n by (intro wf_temps_fields [OF assms(1) _ fields(1-4)]) blast+
  then show ?thesis by (simp add: s'_def)
qed

lemma tcg_global_reg_new_internal_wf:
  assumes "tcg_global_reg_new_internal ty off s = Some (t, s')" and "ty \<in> {TCG_TYPE_I32, TCG_TYPE_I64}"
    and "wf_temps s" and "wf_globals s"
  shows "wf_temps s'" and "wf_globals s'"
proof -
  note inv = tcg_global_reg_new_internal_inv [OF assms(1)]
  show "wf_temps s'"
    by (rule wf_temps_append [OF assms(3)]) (use inv in auto)
  show "wf_globals s'"
    by (rule wf_globals_append [OF assms(4), of s' "temps s"]) (use inv assms(2) in auto)
qed

lemma tcg_global_mem_new_internal_wf:
  assumes "tcg_global_mem_new_internal base off ty s = Some (t, s')" and "ty \<in> {TCG_TYPE_I32, TCG_TYPE_I64}"
    and "wf_temps s" and "wf_globals s"
  shows "wf_temps s'" and "wf_globals s'"
proof -
  obtain f n ind where inv: "nb_globals s = nb_temps s" "nb_temps s + 2 \<le> TCG_MAX_TEMPS" "base < nb_temps s"
    "f = id \<or> f = (\<lambda>t. t\<lparr>indirect_base := True\<rparr>)"
    "s' = s\<lparr>temps := (temps s)[base := f (temps s ! base)] @
      [zero_temp\<lparr>base_type := ty, temp_type := ty, kind := TEMP_GLOBAL, indirect_reg := ind, mem_allocated := True,
         mem_base := base, mem_offset := off\<rparr>,
       zero_temp\<lparr>base_type := TCG_TYPE_PTR, temp_type := TCG_TYPE_PTR, kind := TEMP_GLOBAL, indirect_reg := ind,
         mem_allocated := True, symbolic_expression := True, mem_base := base,
         mem_offset := sym_offset (temps s ! base) + of_nat (nb_globals s div 2) * 8\<rparr>],
      nb_globals := nb_globals s + 2, nb_indirects := n\<rparr>"
    by (rule tcg_global_mem_new_internal_inv [OF assms(1)])
  show "wf_temps s'"
    by (rule wf_temps_append [OF wf_temps_indirect [OF assms(3) inv(4), of base]]) (use inv in auto)
  show "wf_globals s'"
    by (rule wf_globals_append [OF assms(4), of s' "(temps s)[base := f (temps s ! base)]"])
      (use inv assms(2) nth_update_indirect [OF inv(4), of "temps s" base] in auto)
qed

lemma tcg_func_start_wf:
  assumes "wf_temps s" and "wf_globals s"
  shows "wf_temps (tcg_func_start s)" and "wf_globals (tcg_func_start s)"
proof -
  let ?s = "tcg_func_start s"
  have t: "temps ?s ! i = temps s ! i" if "i < nb_globals s" for i using that by (simp add: tcg_func_start_def)
  have n: "nb_temps ?s = nb_globals s" "nb_globals ?s = nb_globals s"
    "free_temps ?s = (\<lambda>_ _. False)" "const_table ?s = (\<lambda>_ _. None)"
    using assms(2) by (simp_all add: tcg_func_start_def wf_globals_def)
  have pair: "temp_pair ?s i" if "temp_pair s i" "i < nb_globals s" for i
  proof -
    have "i + 1 < nb_globals s"
    proof (rule ccontr)
      define j where "j = nb_globals s div 2 - 1"
      assume "\<not> i + 1 < nb_globals s"
      then have "i = 2 * j + 1" "j < nb_globals s div 2"
        using that(2) assms(2) by (auto simp: wf_globals_def j_def elim!: evenE)
      then show False
        using that(1) global_live [OF assms, of j] by (simp add: temp_live_def temp_pair_def)
    qed
    then show ?thesis using that t [of i] t [of "i + 1"] by (simp add: temp_pair_def n)
  qed
  have le: "nb_globals s \<le> nb_temps s" using assms(2) by (simp add: wf_globals_def)
  show "wf_temps ?s"
    unfolding wf_temps_def n using assms(1) t pair le by (simp add: wf_temps_def)
  have "global_ok ?s j" if "j < nb_globals s div 2" for j
  proof -
    have "2 * j < nb_globals s" "2 * j + 1 < nb_globals s"
      using that assms(2) by (auto simp: wf_globals_def elim!: evenE)
    then show ?thesis using that assms(2) t by (simp add: wf_globals_def global_ok_def Let_def n)
  qed
  then show "wf_globals ?s"
    using assms(2) unfolding wf_globals_def n by simp
qed

lemma tcg_reach_wf: "tcg_reach s \<Longrightarrow> wf_temps s \<and> wf_globals s"
proof (induction rule: tcg_reach.induct)
  case (init s)
  then show ?case by (simp add: wf_temps_def wf_globals_def)
next
  case (new s ty k t s')
  then have "fresh_temp ty k s t s'" using tcg_temp_new_internal_inv by blast
  then show ?case using new.IH wf_globals_kept [of s "{}"] by (auto simp: fresh_temp_def)
next
  case (free s t ty s')
  have "kind (temps s ! t) \<in> {TEMP_EBB, TEMP_TB, TEMP_CONST}"
    using free.hyps(3) by (cases "kind (temps s ! t)") (auto simp: tcg_temp_free_internal_def split: bind_splits)
  then show ?case
    using tcg_temp_free_internal_ok [of s t ty] free wf_globals_kept [of s "{t}"] by auto
next
  case (const s ty v t s')
  then show ?case
    using tcg_constant_internal_inv [of ty v s t s'] wf_globals_kept [of s "{}"] by blast
qed (auto dest: tcg_global_reg_new_internal_wf tcg_global_mem_new_internal_wf tcg_func_start_wf)

subsection \<open>Properties\<close>

text \<open>A context that the witnesses use: the register \<open>env\<close>, two globals in the CPU state, a temporary of
  the translation block that was freed and allocated again, and a constant.\<close>

definition ctx0 :: "unit TCGContext" where
  "ctx0 = \<lparr>temps = [], nb_globals = 0, nb_indirects = 0, free_temps = \<lambda>_ _. False,
     const_table = \<lambda>_ _. None, tcg_ops = [], nb_labels = 0, label_present = \<lambda>_. False,
     label_uses = \<lambda>_. [], goto_tb_issue_mask = 0, gen_tb_cflags = 0\<rparr>"

definition ctx1 :: "unit TCGContext option" where
  "ctx1 = do {
     (env, s) \<leftarrow> tcg_global_reg_new_internal TCG_TYPE_PTR 4096 ctx0;
     (pc, s) \<leftarrow> tcg_global_mem_new_internal env 16 TCG_TYPE_I64 s;
     (cc, s) \<leftarrow> tcg_global_mem_new_internal env 24 TCG_TYPE_I32 s;
     (t0, s) \<leftarrow> tcg_temp_new_internal TCG_TYPE_I32 TEMP_EBB (tcg_func_start s);
     s \<leftarrow> tcg_temp_free_internal t0 s;
     (t0, s) \<leftarrow> tcg_temp_new_internal TCG_TYPE_I32 TEMP_EBB s;
     (c, s) \<leftarrow> tcg_constant_internal TCG_TYPE_I64 5 s;
     Some s }"

lemma find_first_bit_simps [simp]:
  "find_first_bit (\<lambda>_. False) n = n" "(\<lambda>_. False)(i := False) = (\<lambda>_. False)"
  "i < n \<Longrightarrow> find_first_bit ((\<lambda>_. False)(i := True)) n = i"
proof -
  show "find_first_bit (\<lambda>_. False) n = n"
    by (simp add: find_first_bit_def find_None_iff [THEN iffD2])
  assume "i < n"
  then have "find ((\<lambda>_. False)(i := True)) [0..<n] = Some i"
    unfolding find_Some_iff by (intro exI [of _ i] conjI allI impI) auto
  then show "find_first_bit ((\<lambda>_. False)(i := True)) n = i" by (simp add: find_first_bit_def)
qed (simp_all add: fun_eq_iff)

lemmas alloc_defs = tcg_global_reg_new_internal_def tcg_global_mem_new_internal_def tcg_global_alloc_def
  tcg_temp_alloc_def tcg_temp_new_internal_def tcg_temp_free_internal_def tcg_constant_internal_def
  tcg_func_start_def temp_expr_def temp_parts_def set_temp_def TCG_MAX_TEMPS_def zero_temp_def

lemma tcg_reach_ctx1:
  assumes "ctx1 = Some s" shows "tcg_reach s"
proof -
  obtain env s1 pc s2 cc s3 t s4 s5 t' s6 c where s:
    "tcg_global_reg_new_internal TCG_TYPE_PTR 4096 ctx0 = Some (env, s1)"
    "tcg_global_mem_new_internal env 16 TCG_TYPE_I64 s1 = Some (pc, s2)"
    "tcg_global_mem_new_internal env 24 TCG_TYPE_I32 s2 = Some (cc, s3)"
    "tcg_temp_new_internal TCG_TYPE_I32 TEMP_EBB (tcg_func_start s3) = Some (t, s4)"
    "tcg_temp_free_internal t s4 = Some s5"
    "tcg_temp_new_internal TCG_TYPE_I32 TEMP_EBB s5 = Some (t', s6)"
    "tcg_constant_internal TCG_TYPE_I64 5 s6 = Some (c, s)"
    using assms unfolding ctx1_def by (auto split: bind_splits)
  have "tcg_reach ctx0" by (rule tcg_reach.init) (simp_all add: ctx0_def)
  from tcg_reach.mem [OF tcg_reach.mem [OF tcg_reach.reg [OF this _ s(1)] _ s(2)] _ s(3)]
  have r3: "tcg_reach (tcg_func_start s3)" by (simp add: tcg_reach.start)
  from tcg_reach.new [OF r3 _ s(4)] have "tcg_reach s4" by simp
  moreover have "temp_live s4 t TCG_TYPE_I32"
    using tcg_temp_new_internal_inv [OF s(4)] tcg_reach_wf [OF r3]
    by (simp add: fresh_temp_def)
  ultimately have "tcg_reach s5" using s(5) by (rule tcg_reach.free)
  from tcg_reach.const [OF tcg_reach.new [OF this _ s(6)] _ s(7)] show ?thesis by simp
qed

lemma ctx1_temps:
  obtains s where "ctx1 = Some s" and "tcg_reach s" and "nb_temps s = 10" and
    "base_type (temps s ! 2) = TCG_TYPE_I64" "base_type (temps s ! 6) = TCG_TYPE_I32"
    "\<not> symbolic_expression (temps s ! 2)" "\<not> symbolic_expression (temps s ! 6)"
    "kind (temps s ! 6) = TEMP_EBB" "temp_allocated (temps s ! 6)"
    "mem_base (temps s ! 3) = 0" "mem_base (temps s ! 5) = 0" "nb_globals s = 6"
proof -
  have "\<exists>s. ctx1 = Some s \<and> nb_temps s = 10 \<and>
    base_type (temps s ! 2) = TCG_TYPE_I64 \<and> base_type (temps s ! 6) = TCG_TYPE_I32 \<and>
    \<not> symbolic_expression (temps s ! 2) \<and> \<not> symbolic_expression (temps s ! 6) \<and>
    kind (temps s ! 6) = TEMP_EBB \<and> temp_allocated (temps s ! 6) \<and>
    mem_base (temps s ! 3) = 0 \<and> mem_base (temps s ! 5) = 0 \<and> nb_globals s = 6"
    by (simp add: ctx1_def ctx0_def alloc_defs Let_def)
  then show thesis using that tcg_reach_ctx1 by blast
qed

text \<open>C14: in every context that the allocation functions reach, each temporary has an expression, and two
  different temporaries and their two expressions occupy four different elements of the array: no
  operation on one temporary, or on its expression, changes another, also after temporaries have been
  freed and reused. (Temporaries of 128 bits are the subject of another property.)\<close>

theorem temp_expr_disjoint:
  assumes "tcg_reach s"
    and "t < nb_temps s" "\<not> symbolic_expression (temps s ! t)" "base_type (temps s ! t) \<noteq> TCG_TYPE_I128"
    and "u < nb_temps s" "\<not> symbolic_expression (temps s ! u)" "base_type (temps s ! u) \<noteq> TCG_TYPE_I128"
    and "t \<noteq> u"
  shows "\<exists>et eu. temp_expr s t = Some et \<and> temp_expr s u = Some eu \<and> distinct [t, et, u, eu] \<and>
    et < nb_temps s \<and> eu < nb_temps s"
proof -
  have "temp_pair s t" "temp_pair s u"
    using tcg_reach_wf [OF assms(1)] assms(2-7) unfolding wf_temps_def by blast+
  then have "temp_expr s t = Some (t + 1)" "temp_expr s u = Some (u + 1)" "t + 1 \<noteq> u" "u + 1 \<noteq> t"
      "t + 1 < nb_temps s" "u + 1 < nb_temps s"
    using assms(3,6) unfolding temp_expr_def temp_pair_def by auto
  then show ?thesis using assms(8) by simp
qed

theorem temp_expr_disjoint_witness:
  "\<exists>s et eu. ctx1 = Some s \<and> temp_expr s 2 = Some et \<and> temp_expr s 6 = Some eu \<and> distinct [2, et, 6, eu]"
proof (rule ctx1_temps)
  fix s assume "ctx1 = Some s" "tcg_reach s" "nb_temps s = 10" "base_type (temps s ! 2) = TCG_TYPE_I64"
    "base_type (temps s ! 6) = TCG_TYPE_I32" "\<not> symbolic_expression (temps s ! 2)"
    "\<not> symbolic_expression (temps s ! 6)"
  then show ?thesis using temp_expr_disjoint [of s 2 6] by auto
qed

lemma find_first_bit_min:
  assumes "j < find_first_bit l n" shows "\<not> l j"
proof (cases "find l [0..<n]")
  case None
  then show ?thesis using assms find_None_iff [THEN iffD1, OF None] by (simp add: find_first_bit_def)
next
  case (Some i)
  then have "j < i" using assms by (simp add: find_first_bit_def)
  then show ?thesis using Some by (auto simp: find_Some_iff)
qed

lemma find_first_bit_eq: "i < n \<Longrightarrow> l i \<Longrightarrow> (\<And>j. j < i \<Longrightarrow> \<not> l j) \<Longrightarrow> find_first_bit l n = i"
  by (metis find_first_bit_less find_first_bit_min linorder_neqE_nat order.strict_trans)

text \<open>The allocation takes the first free element, or none is free.\<close>

lemma tcg_temp_new_first:
  assumes "tcg_temp_new_internal ty TEMP_EBB s = Some (t, s')" and "ty \<noteq> TCG_TYPE_I128" and "nb_temps s + 2 \<le> TCG_MAX_TEMPS"
  shows "t < TCG_MAX_TEMPS" "j < t \<Longrightarrow> \<not> free_temps s' ty j"
proof -
  define i where "i = find_first_bit (free_temps s ty) TCG_MAX_TEMPS"
  note min = find_first_bit_min [of _ "free_temps s ty" TCG_MAX_TEMPS, folded i_def]
  have parts: "temp_parts ty = 1" using assms(2) by (cases ty) (simp_all add: temp_parts_def)
  have "t < TCG_MAX_TEMPS \<and> (\<forall>j < t. \<not> free_temps s' ty j)"
  proof (cases "i < TCG_MAX_TEMPS")
    case True
    then show ?thesis using assms(1) min
      by (auto simp: tcg_temp_new_internal_def i_def [symmetric] set_temp_def c_assert_def Let_def split: if_splits)
  next
    case False
    then have "t = nb_temps s" "free_temps s' = free_temps s"
      using assms(1) by (auto simp: tcg_temp_new_internal_def i_def [symmetric] tcg_temp_alloc_def set_temp_def
          c_assert_def Let_def parts split: if_splits)
    then show ?thesis using False min assms(3) by auto
  qed
  then show "t < TCG_MAX_TEMPS" "j < t \<Longrightarrow> \<not> free_temps s' ty j" by auto
qed

lemma tcg_temp_free_effect:
  assumes "temp_live s t ty" and "tcg_temp_free_internal t s = Some s'"
  shows "kind (temps s ! t) = TEMP_EBB \<Longrightarrow> free_temps s' = (free_temps s)(ty := (free_temps s ty)(t := True))"
    "kind (temps s ! t) = TEMP_TB \<Longrightarrow> s' = s"
  using assms temp_expr_live [OF assms(1)]
  by (auto simp: tcg_temp_free_internal_def temp_live_def temp_pair_def c_assert_def set_temp_def Let_def split: if_splits)

lemma tcg_temp_new_reuses:
  assumes new: "tcg_temp_new_internal ty TEMP_EBB s = Some (t, s1)" "ty \<noteq> TCG_TYPE_I128" "nb_temps s + 2 \<le> TCG_MAX_TEMPS"
    and s1: "temp_live s1 t ty" "kind (temps s1 ! t) = TEMP_EBB"
    and s2: "tcg_temp_free_internal t s1 = Some s2" "wf_temps s2"
  shows "\<exists>s3. tcg_temp_new_internal ty TEMP_EBB s2 = Some (t, s3) \<and> nb_temps s3 = nb_temps s2"
proof -
  note first = tcg_temp_new_first [OF new]
  have "free_temps s2 ty = (free_temps s1 ty)(t := True)" using tcg_temp_free_effect(1) [OF s1(1) s2(1) s1(2)] by simp
  then have t: "find_first_bit (free_temps s2 ty) TCG_MAX_TEMPS = t"
    using first by (intro find_first_bit_eq) auto
  then obtain t' s3 where n: "tcg_temp_new_internal ty TEMP_EBB s2 = Some (t', s3)"
    using tcg_temp_new_reuse [OF s2(2) new(2)] first(1) by auto
  moreover have "t' = t \<and> nb_temps s3 = nb_temps s2"
    using n t first(1) by (auto simp: tcg_temp_new_internal_def set_temp_def c_assert_def Let_def split: if_splits)
  ultimately show ?thesis by simp
qed



text \<open>C38: constants are interned. \<open>tcg_constant_internal\<close> gives a temporary of kind \<open>TEMP_CONST\<close> with the
  value asked for, whose expression is the constant null pointer; asking again for the same value gives
  the same temporary and leaves the context alone, and asking for another value, or for the same value
  at another type, gives a different one.\<close>

theorem constant_interned:
  assumes "tcg_reach s" and "ty \<noteq> TCG_TYPE_I128" and "tcg_constant_internal ty v s = Some (t, s1)"
  shows "base_type (temps s1 ! t) = ty \<and> kind (temps s1 ! t) = TEMP_CONST \<and> val (temps s1 ! t) = v \<and>
    temp_expr s1 t = Some (t + 1) \<and> kind (temps s1 ! (t + 1)) = TEMP_CONST \<and> val (temps s1 ! (t + 1)) = 0 \<and>
    tcg_constant_internal ty v s1 = Some (t, s1) \<and>
    (\<forall>ty' v' t' s2. ty' \<noteq> TCG_TYPE_I128 \<and> (ty', v') \<noteq> (ty, v) \<and>
       tcg_constant_internal ty' v' s1 = Some (t', s2) \<longrightarrow> t' \<noteq> t \<and> temps s2 ! t = temps s1 ! t)"
proof -
  have wf: "wf_temps s" using tcg_reach_wf [OF assms(1)] by simp
  note inv = tcg_constant_internal_inv [OF assms(3) wf assms(2)]
  then have c: "temp_live s1 t ty" "kind (temps s1 ! t) = TEMP_CONST" "val (temps s1 ! t) = v"
    by (simp_all add: const_temp_def)
  have "t' \<noteq> t \<and> temps s2 ! t = temps s1 ! t"
    if "ty' \<noteq> TCG_TYPE_I128" "(ty', v') \<noteq> (ty, v)" "tcg_constant_internal ty' v' s1 = Some (t', s2)" for ty' v' t' s2
  proof -
    note inv' = tcg_constant_internal_inv [OF that(3) _ that(1)]
    have "temps s2 ! t = temps s1 ! t"
      using inv' inv c(1) unfolding temps_kept_def by blast
    moreover have "base_type (temps s2 ! t') = ty'" "val (temps s2 ! t') = v'"
      using inv inv' by (simp_all add: const_temp_def temp_live_def)
    ultimately show ?thesis using c that(2) by (auto simp: temp_live_def)
  qed
  then show ?thesis
    using inv c temp_expr_live [OF c(1)]
    by (auto simp: temp_live_def temp_pair_def tcg_constant_internal_def)
qed

theorem constant_interned_witness:
  "\<exists>s t s1. ctx1 = Some s \<and> tcg_constant_internal TCG_TYPE_I32 7 s = Some (t, s1) \<and>
     val (temps s1 ! t) = 7 \<and> tcg_constant_internal TCG_TYPE_I32 7 s1 = Some (t, s1)"
proof (rule ctx1_temps)
  fix s assume s: "ctx1 = Some s" "tcg_reach s" "nb_temps s = 10"
  then obtain t s1 where t: "tcg_constant_internal TCG_TYPE_I32 7 s = Some (t, s1)"
    using tcg_constant_internal_ok [of s TCG_TYPE_I32 7] tcg_reach_wf [OF s(2)] by (auto simp: TCG_MAX_TEMPS_def)
  show ?thesis using constant_interned [OF s(2) _ t] s(1) t by auto
qed

text \<open>C39: the expressions of the globals of one base register live at different places of the CPU state:
  eight bytes each, none overlapping another, and none overlapping the slot of the base register itself
  at the start of the array.\<close>

theorem global_expr_slots_disjoint:
  assumes "tcg_reach s" and "i < nb_globals s div 2" "j < nb_globals s div 2" "i < j"
    and "kind (temps s ! (2 * j)) = TEMP_GLOBAL"
    and "mem_base (temps s ! (2 * j + 1)) = b"
    and "kind (temps s ! (2 * i)) = TEMP_FIXED \<and> 2 * i = b \<or>
         kind (temps s ! (2 * i)) = TEMP_GLOBAL \<and> mem_base (temps s ! (2 * i + 1)) = b"
    and "d < 8" and "d' < 8"
  shows "mem_offset (temps s ! (2 * i + 1)) + of_nat d \<noteq> mem_offset (temps s ! (2 * j + 1)) + of_nat d'"
proof -
  note wf = tcg_reach_wf [OF assms(1)]
  have ok: "global_ok s i" "global_ok s j" using wf assms(2,3) by (simp_all add: wf_globals_def)
  have "nb_globals s \<le> nb_temps s" "nb_temps s \<le> 512"
    using wf unfolding wf_globals_def wf_temps_def TCG_MAX_TEMPS_def by blast+
  then have le: "j < 256" using assms(3) by linarith
  have mj: "mem_offset (temps s ! (2 * j + 1)) = sym_offset (temps s ! b) + of_nat (8 * j)"
    using ok(2) assms(5,6) by (simp add: global_ok_def Let_def)
  obtain i' where i': "i' < j" "mem_offset (temps s ! (2 * i + 1)) = sym_offset (temps s ! b) + of_nat (8 * i')"
  proof (cases "kind (temps s ! (2 * i)) = TEMP_FIXED")
    case True
    then show thesis
      using ok(1) assms(4,7) that [of 0] by (simp add: global_ok_def Let_def)
  next
    case False
    then show thesis
      using ok(1) assms(4,7) that [of i] by (simp add: global_ok_def Let_def)
  qed
  have "(of_nat (8 * i' + d) :: u64) \<noteq> of_nat (8 * j + d')"
    unfolding word_unat_eq_iff unat_of_nat using i'(1) le assms(8,9) by simp
  then show ?thesis using mj i'(2) by (simp add: algebra_simps)
qed

theorem global_expr_slots_witness:
  "\<exists>s. ctx1 = Some s \<and> mem_offset (temps s ! 3) + of_nat 7 \<noteq> mem_offset (temps s ! 5) + of_nat 0"
proof (rule ctx1_temps)
  fix s assume s: "ctx1 = Some s" "tcg_reach s" "mem_base (temps s ! 3) = 0" "mem_base (temps s ! 5) = 0"
    "nb_globals s = 6"
  have "kind (temps s ! 4) = TEMP_GLOBAL" "kind (temps s ! 2) = TEMP_GLOBAL"
    using s(1) by (auto simp: ctx1_def ctx0_def alloc_defs Let_def)
  then show ?thesis using global_expr_slots_disjoint [OF s(2), of 1 2 0 7 0] s by auto
qed

text \<open>C40: the reuse of a freed 128-bit temporary fails. Such a temporary takes two elements, and its
  expressions the next two; but \<open>tcg_temp_new_internal\<close> takes, for a freed temporary of any type, the
  element right after the first one for its expression, where the second half of the 128-bit temporary
  is. After one 128-bit temporary has been allocated and freed, the assertion on the type of that element
  stops the next allocation.\<close>

theorem i128_reuse_fails:
  assumes "\<And>i. \<not> free_temps s TCG_TYPE_I128 i" and "nb_temps s + 4 \<le> TCG_MAX_TEMPS"
  shows "\<exists>t s1 s2. tcg_temp_ebb_new_i128 s = Some (t, s1) \<and> temp_expr s1 t = Some (t + 2) \<and>
    tcg_temp_free_internal t s1 = Some s2 \<and> tcg_temp_ebb_new_i128 s2 = None"
proof -
  have none: "free_temps s TCG_TYPE_I128 = (\<lambda>_. False)" using assms(1) by blast
  have n: "nb_temps s < TCG_MAX_TEMPS" using assms(2) by simp
  then show ?thesis
    using assms(2) none
    by (simp add: tcg_temp_ebb_new_i128_def tcg_temp_new_internal_def tcg_temp_alloc_def temp_parts_def
        tcg_temp_free_internal_def temp_expr_def Let_def nth_append list_update_append)
qed

theorem i128_reuse_witness:
  "\<exists>t s1 s2. tcg_temp_ebb_new_i128 ctx0 = Some (t, s1) \<and> tcg_temp_free_internal t s1 = Some s2 \<and>
     tcg_temp_ebb_new_i128 s2 = None"
  using i128_reuse_fails [of ctx0] by (auto simp: ctx0_def TCG_MAX_TEMPS_def)

end
