(* ===== verification/TCG_Ops.thy ===== *)
theory TCG_Ops
  imports Temps Sym_Runtime Bitops
begin

unbundle bit_operations_syntax

section \<open>TCG operations and the machine that runs them\<close>

text \<open>
  The operations of a translation block (\<open>include/tcg/tcg-opc.h\<close>), the helpers they call
  (\<open>accel/tcg/tcg-runtime.c\<close>, \<open>accel/tcg/tcg-runtime-sym.c\<close>), and what a run of them does. What an
  operation computes is what the interpreter \<open>tcg/tci.c\<close> computes: registers have 64 bits, and an
  operation of 32 bits may leave anything in the upper half. Two operations the interpreter does not
  have, \<open>extract2\<close> and \<open>negsetcond\<close>, follow \<open>docs/devel/tcg-ops.rst\<close>.

  The machine runs operations on the temporaries themselves: which register or stack slot holds a
  temporary is the register allocator's choice and is not modelled. A temporary holds a number or the
  pointer to an expression; the null pointer is the number 0. An operation name carries its type where
  the source has one name per type.
\<close>

text \<open>The helpers that build expressions, grouped by the arguments they take, and those that compute
  numbers. A helper that exists for both widths carries the type.\<close>

datatype sym_unary_helper =
  unary_neg | unary_not | unary_sext_i32_i64 | unary_zext_i32_i64 | unary_trunc_i64_i32

datatype sym_length_helper = length_sext | length_zext | length_bswap

datatype TCGHelper_i32 =
  helper_div_i32 | helper_rem_i32 | helper_divu_i32 | helper_remu_i32
| helper_clz_i32 | helper_ctz_i32 | helper_clrsb_i32 | helper_ctpop_i32

datatype TCGHelper_i64 =
  helper_div_i64 | helper_rem_i64 | helper_divu_i64 | helper_remu_i64
| helper_muluh_i64 | helper_mulsh_i64
| helper_clz_i64 | helper_ctz_i64 | helper_clrsb_i64 | helper_ctpop_i64

datatype TCGHelper =
    helper_sym_binary sym_helper TCGType
  | helper_sym_muluh_i64
  | helper_sym_unary sym_unary_helper
  | helper_sym_length sym_length_helper
  | helper_sym_load_host TCGType | helper_sym_store_host
  | helper_sym_extract TCGType | helper_sym_sextract TCGType
  | helper_sym_deposit TCGType | helper_sym_extract2 TCGType
  | helper_sym_setcond TCGType | helper_sym_movcond TCGType
  | helper_sym_collect_garbage
  | helper_i32 TCGHelper_i32 | helper_i64 TCGHelper_i64
  | helper_lookup_tb_ptr

text \<open>The operations, grouped by the format of their arguments as the interpreter decodes them
  (\<open>tci_args_rr\<close>, \<open>tci_args_rrr\<close>, \<dots>).\<close>

datatype TCGOpcode_rr =
    INDEX_op_mov | INDEX_op_not | INDEX_op_neg | INDEX_op_ctpop
  | INDEX_op_ext8s | INDEX_op_ext16s | INDEX_op_ext32s | INDEX_op_ext8u | INDEX_op_ext16u | INDEX_op_ext32u
  | INDEX_op_ext_i32 | INDEX_op_extu_i32

datatype TCGOpcode_bswap = INDEX_op_bswap16 | INDEX_op_bswap32 | INDEX_op_bswap64

datatype TCGOpcode_rrr =
    INDEX_op_add | INDEX_op_sub | INDEX_op_mul
  | INDEX_op_and | INDEX_op_or | INDEX_op_xor
  | INDEX_op_andc | INDEX_op_orc | INDEX_op_eqv | INDEX_op_nand | INDEX_op_nor
  | INDEX_op_div | INDEX_op_divu | INDEX_op_rem | INDEX_op_remu
  | INDEX_op_clz | INDEX_op_ctz
  | INDEX_op_shl | INDEX_op_shr | INDEX_op_sar | INDEX_op_rotl | INDEX_op_rotr

datatype TCGOpcode_rrs =
    INDEX_op_ld8u | INDEX_op_ld8s | INDEX_op_ld16u | INDEX_op_ld16s | INDEX_op_ld32u | INDEX_op_ld32s | INDEX_op_ld
  | INDEX_op_st8 | INDEX_op_st16 | INDEX_op_st32 | INDEX_op_st

datatype TCGOpcode =
    INDEX_op_discard | INDEX_op_set_label | INDEX_op_call TCGHelper | INDEX_op_br | INDEX_op_mb
  | op_rr TCGOpcode_rr TCGType | op_bswap TCGOpcode_bswap TCGType
  | op_rrr TCGOpcode_rrr TCGType | op_rrs TCGOpcode_rrs TCGType
  | INDEX_op_div2 TCGType | INDEX_op_divu2 TCGType
  | INDEX_op_setcond TCGType | INDEX_op_negsetcond TCGType | INDEX_op_movcond TCGType | INDEX_op_brcond TCGType
  | INDEX_op_deposit TCGType | INDEX_op_extract TCGType | INDEX_op_sextract TCGType | INDEX_op_extract2 TCGType
  | INDEX_op_exit_tb | INDEX_op_goto_tb | INDEX_op_goto_ptr

datatype TCGOp = TCGOp (op_opc: TCGOpcode) (op_args: "TCGArg list")

type_synonym ctx = "TCGOp TCGContext"

subsection \<open>Values and machine states\<close>

datatype 'e val = Num u64 | Ptr 'e

record ('e, 'm) machine =
  slots :: "nat \<Rightarrow> 'e val"
  mrt :: "('e, 'm) rt"

definition set_slot :: "nat \<Rightarrow> 'e val \<Rightarrow> ('e, 'm) machine \<Rightarrow> ('e, 'm) machine" where
  "set_slot t v m = m\<lparr>slots := (slots m)(t := v)\<rparr>"

fun as_num :: "'e val \<Rightarrow> u64 option" where
  "as_num (Num n) = Some n"
| "as_num (Ptr e) = None"

fun as_expr :: "'e val \<Rightarrow> 'e option option" where
  "as_expr (Num n) = (if n = 0 then Some None else None)"
| "as_expr (Ptr e) = Some (Some e)"

definition expr_val :: "'e option \<Rightarrow> 'e val" where
  "expr_val oe = (case oe of None \<Rightarrow> Num 0 | Some e \<Rightarrow> Ptr e)"

fun arg_val :: "('e, 'm) machine \<Rightarrow> TCGArg \<Rightarrow> 'e val option" where
  "arg_val m (TempArg t) = Some (slots m t)"
| "arg_val m (ConstArg t v) = Some (Num v)"
| "arg_val m (ImmArg v) = None"

text \<open>Arguments of operations and of helpers, and the number of an immediate argument.\<close>

definition arg64 :: "('e, 'm) machine \<Rightarrow> TCGArg \<Rightarrow> u64 option" where
  "arg64 m a = Option.bind (arg_val m a) as_num"

definition arg32 :: "('e, 'm) machine \<Rightarrow> TCGArg \<Rightarrow> u32 option" where
  "arg32 m a = map_option ucast (arg64 m a)"

definition argp :: "('e, 'm) machine \<Rightarrow> TCGArg \<Rightarrow> 'e option option" where
  "argp m a = Option.bind (arg_val m a) as_expr"

fun imm :: "TCGArg \<Rightarrow> u64 option" where
  "imm (ImmArg v) = Some v"
| "imm _ = None"

fun out :: "TCGArg \<Rightarrow> nat option" where
  "out (TempArg t) = Some t"
| "out _ = None"

subsection \<open>Helpers that compute numbers\<close>

definition c_sdiv :: "'a::len word \<Rightarrow> 'a word \<Rightarrow> 'a word option" where
  "c_sdiv x y = (if y = 0 \<or> sint x = - (2 ^ (LENGTH('a) - 1)) \<and> sint y = - 1 then None
     else Some (word_of_int (sint x sdiv sint y)))"

definition c_smod :: "'a::len word \<Rightarrow> 'a word \<Rightarrow> 'a word option" where
  "c_smod x y = (if y = 0 \<or> sint x = - (2 ^ (LENGTH('a) - 1)) \<and> sint y = - 1 then None
     else Some (word_of_int (sint x smod sint y)))"

definition c_udiv :: "'a::len word \<Rightarrow> 'a word \<Rightarrow> 'a word option" where
  "c_udiv x y = (if y = 0 then None else Some (x div y))"

definition c_umod :: "'a::len word \<Rightarrow> 'a word \<Rightarrow> 'a word option" where
  "c_umod x y = (if y = 0 then None else Some (x mod y))"

definition mulu64 :: "u64 \<Rightarrow> u64 \<Rightarrow> u64 \<times> u64" where
  "mulu64 a b = (let r = ucast a * ucast b :: 128 word in (ucast r, ucast (drop_bit 64 r)))"

definition muls64 :: "u64 \<Rightarrow> u64 \<Rightarrow> u64 \<times> u64" where
  "muls64 a b = (let r = scast a * scast b :: 128 word in (ucast r, ucast (signed_drop_bit 64 r)))"

text \<open>The helpers of \<open>tcg-runtime.c\<close> on two arguments; those of one argument ignore the second.\<close>

definition run_helper_i32 :: "TCGHelper_i32 \<Rightarrow> u32 \<Rightarrow> u32 \<Rightarrow> u32 option" where
  "run_helper_i32 h arg1 arg2 = (case h of
     helper_div_i32 \<Rightarrow> c_sdiv arg1 arg2
   | helper_rem_i32 \<Rightarrow> c_smod arg1 arg2
   | helper_divu_i32 \<Rightarrow> c_udiv arg1 arg2
   | helper_remu_i32 \<Rightarrow> c_umod arg1 arg2
   | helper_clz_i32 \<Rightarrow> Some (if arg1 \<noteq> 0 then of_nat (clz32 arg1) else arg2)
   | helper_ctz_i32 \<Rightarrow> Some (if arg1 \<noteq> 0 then of_nat (ctz32 arg1) else arg2)
   | helper_clrsb_i32 \<Rightarrow> Some (of_int (clrsb32 arg1))
   | helper_ctpop_i32 \<Rightarrow> Some (of_nat (ctpop32 arg1)))"

definition run_helper_i64 :: "TCGHelper_i64 \<Rightarrow> u64 \<Rightarrow> u64 \<Rightarrow> u64 option" where
  "run_helper_i64 h arg1 arg2 = (case h of
     helper_div_i64 \<Rightarrow> c_sdiv arg1 arg2
   | helper_rem_i64 \<Rightarrow> c_smod arg1 arg2
   | helper_divu_i64 \<Rightarrow> c_udiv arg1 arg2
   | helper_remu_i64 \<Rightarrow> c_umod arg1 arg2
   | helper_muluh_i64 \<Rightarrow> Some (snd (mulu64 arg1 arg2))
   | helper_mulsh_i64 \<Rightarrow> Some (snd (muls64 arg1 arg2))
   | helper_clz_i64 \<Rightarrow> Some (if arg1 \<noteq> 0 then of_nat (clz64 arg1) else arg2)
   | helper_ctz_i64 \<Rightarrow> Some (if arg1 \<noteq> 0 then of_nat (ctz64 arg1) else arg2)
   | helper_clrsb_i64 \<Rightarrow> Some (of_int (clrsb64 arg1))
   | helper_ctpop_i64 \<Rightarrow> Some (of_nat (ctpop64 arg1)))"

subsection \<open>What the interpreter computes\<close>

definition tci_rr :: "TCGOpcode_rr \<Rightarrow> TCGType \<Rightarrow> u64 \<Rightarrow> u64 option" where
  "tci_rr opc ty r1 = (case opc of
     INDEX_op_mov \<Rightarrow> Some r1
   | INDEX_op_ext8s \<Rightarrow> Some (scast (ucast r1 :: u8))
   | INDEX_op_ext16s \<Rightarrow> Some (scast (ucast r1 :: u16))
   | INDEX_op_ext8u \<Rightarrow> Some (ucast (ucast r1 :: u8))
   | INDEX_op_ext16u \<Rightarrow> Some (ucast (ucast r1 :: u16))
   | INDEX_op_not \<Rightarrow> Some (NOT r1)
   | INDEX_op_neg \<Rightarrow> Some (- r1)
   | INDEX_op_ctpop \<Rightarrow> Some (if ty = TCG_TYPE_I32 then of_nat (ctpop32 (ucast r1)) else of_nat (ctpop64 r1))
   | INDEX_op_ext32s \<Rightarrow> Some (scast (ucast r1 :: u32))
   | INDEX_op_ext_i32 \<Rightarrow> Some (scast (ucast r1 :: u32))
   | INDEX_op_ext32u \<Rightarrow> Some (ucast (ucast r1 :: u32))
   | INDEX_op_extu_i32 \<Rightarrow> Some (ucast (ucast r1 :: u32)))"

text \<open>The code generator of the interpreter adds a sign extension to a byte swap with \<open>TCG_BSWAP_OS\<close>.\<close>

definition TCG_BSWAP_IZ :: u64 where "TCG_BSWAP_IZ = 1"
definition TCG_BSWAP_OZ :: u64 where "TCG_BSWAP_OZ = 2"
definition TCG_BSWAP_OS :: u64 where "TCG_BSWAP_OS = 4"

definition tci_bswap :: "TCGOpcode_bswap \<Rightarrow> TCGType \<Rightarrow> u64 \<Rightarrow> u64 \<Rightarrow> u64" where
  "tci_bswap opc ty r1 flags =
     (let os = (flags AND TCG_BSWAP_OS \<noteq> 0) in
      case opc of
        INDEX_op_bswap16 \<Rightarrow> (let x = bswap16 (ucast r1) in if os then scast x else ucast x)
      | INDEX_op_bswap32 \<Rightarrow> (let x = bswap32 (ucast r1) in if os \<and> ty \<noteq> TCG_TYPE_I32 then scast x else ucast x)
      | INDEX_op_bswap64 \<Rightarrow> bswap64 r1)"

definition tci_rrr_32 :: "TCGOpcode_rrr \<Rightarrow> u64 \<Rightarrow> u64 \<Rightarrow> u64 option" where
  "tci_rrr_32 opc r1 r2 =
     (let x = ucast r1 :: u32; y = ucast r2 :: u32; k = unat (r2 AND 31) in
      case opc of
        INDEX_op_div \<Rightarrow> map_option scast (c_sdiv x y)
      | INDEX_op_divu \<Rightarrow> map_option ucast (c_udiv x y)
      | INDEX_op_rem \<Rightarrow> map_option scast (c_smod x y)
      | INDEX_op_remu \<Rightarrow> map_option ucast (c_umod x y)
      | INDEX_op_clz \<Rightarrow> Some (if x \<noteq> 0 then of_nat (clz32 x) else r2)
      | INDEX_op_ctz \<Rightarrow> Some (if x \<noteq> 0 then of_nat (ctz32 x) else r2)
      | INDEX_op_shl \<Rightarrow> Some (ucast (push_bit k x))
      | INDEX_op_shr \<Rightarrow> Some (ucast (drop_bit k x))
      | INDEX_op_sar \<Rightarrow> Some (scast (signed_drop_bit k x))
      | INDEX_op_rotl \<Rightarrow> Some (ucast (rol32 x (ucast (r2 AND 31))))
      | INDEX_op_rotr \<Rightarrow> Some (ucast (ror32 x (ucast (r2 AND 31))))
      | _ \<Rightarrow> None)"

definition tci_rrr_64 :: "TCGOpcode_rrr \<Rightarrow> u64 \<Rightarrow> u64 \<Rightarrow> u64 option" where
  "tci_rrr_64 opc r1 r2 =
     (let k = unat (r2 AND 63) in
      case opc of
        INDEX_op_div \<Rightarrow> c_sdiv r1 r2
      | INDEX_op_divu \<Rightarrow> c_udiv r1 r2
      | INDEX_op_rem \<Rightarrow> c_smod r1 r2
      | INDEX_op_remu \<Rightarrow> c_umod r1 r2
      | INDEX_op_clz \<Rightarrow> Some (if r1 \<noteq> 0 then of_nat (clz64 r1) else r2)
      | INDEX_op_ctz \<Rightarrow> Some (if r1 \<noteq> 0 then of_nat (ctz64 r1) else r2)
      | INDEX_op_shl \<Rightarrow> Some (push_bit k r1)
      | INDEX_op_shr \<Rightarrow> Some (drop_bit k r1)
      | INDEX_op_sar \<Rightarrow> Some (signed_drop_bit k r1)
      | INDEX_op_rotl \<Rightarrow> Some (rol64 r1 (ucast (r2 AND 63)))
      | INDEX_op_rotr \<Rightarrow> Some (ror64 r1 (ucast (r2 AND 63)))
      | _ \<Rightarrow> None)"

text \<open>The operations that the interpreter has one case for at both widths come first.\<close>

definition tci_rrr :: "TCGOpcode_rrr \<Rightarrow> TCGType \<Rightarrow> u64 \<Rightarrow> u64 \<Rightarrow> u64 option" where
  "tci_rrr opc ty r1 r2 = (case opc of
     INDEX_op_add \<Rightarrow> Some (r1 + r2)
   | INDEX_op_sub \<Rightarrow> Some (r1 - r2)
   | INDEX_op_mul \<Rightarrow> Some (r1 * r2)
   | INDEX_op_and \<Rightarrow> Some (r1 AND r2)
   | INDEX_op_or \<Rightarrow> Some (r1 OR r2)
   | INDEX_op_xor \<Rightarrow> Some (r1 XOR r2)
   | INDEX_op_andc \<Rightarrow> Some (r1 AND NOT r2)
   | INDEX_op_orc \<Rightarrow> Some (r1 OR NOT r2)
   | INDEX_op_eqv \<Rightarrow> Some (NOT (r1 XOR r2))
   | INDEX_op_nand \<Rightarrow> Some (NOT (r1 AND r2))
   | INDEX_op_nor \<Rightarrow> Some (NOT (r1 OR r2))
   | _ \<Rightarrow> (if ty = TCG_TYPE_I32 then tci_rrr_32 opc r1 r2 else tci_rrr_64 opc r1 r2))"

definition tci_setcond :: "TCGType \<Rightarrow> u64 \<Rightarrow> u64 \<Rightarrow> u64 \<Rightarrow> bool option" where
  "tci_setcond ty r1 r2 cond =
     (if ty = TCG_TYPE_I32 then tci_compare (ucast r1 :: u32) (ucast r2) (ucast cond)
      else tci_compare r1 r2 (ucast cond))"

definition tci_deposit :: "TCGType \<Rightarrow> u64 \<Rightarrow> u64 \<Rightarrow> u64 \<Rightarrow> u64 \<Rightarrow> u64 option" where
  "tci_deposit ty r1 r2 pos len =
     (if ty = TCG_TYPE_I32 then map_option ucast (deposit32 (ucast r1) (uint pos) (uint len) (ucast r2))
      else deposit64 r1 (uint pos) (uint len) r2)"

definition tci_extract :: "TCGType \<Rightarrow> u64 \<Rightarrow> u64 \<Rightarrow> u64 \<Rightarrow> u64 option" where
  "tci_extract ty r1 pos len =
     (if ty = TCG_TYPE_I32 then map_option ucast (extract32 (ucast r1) (uint pos) (uint len))
      else extract64 r1 (uint pos) (uint len))"

definition tci_sextract :: "TCGType \<Rightarrow> u64 \<Rightarrow> u64 \<Rightarrow> u64 \<Rightarrow> u64 option" where
  "tci_sextract ty r1 pos len =
     (if ty = TCG_TYPE_I32 then map_option scast (sextract32 (ucast r1) (uint pos) (uint len))
      else sextract64 r1 (uint pos) (uint len))"

definition op_extract2 :: "TCGType \<Rightarrow> u64 \<Rightarrow> u64 \<Rightarrow> u64 \<Rightarrow> u64 option" where
  "op_extract2 ty r1 r2 pos =
     (if ty = TCG_TYPE_I32 then
        c_assert (0 < pos \<and> pos < 32) \<bind> (\<lambda>_. Some (ucast (drop_bit (unat pos) (ucast r1 :: u32)
          OR push_bit (32 - unat pos) (ucast r2))))
      else c_assert (0 < pos \<and> pos < 64) \<bind> (\<lambda>_. Some (drop_bit (unat pos) r1 OR push_bit (64 - unat pos) r2)))"

subsection \<open>Memory accesses of the interpreter\<close>

text \<open>Loads and stores relative to a host pointer, little-endian.\<close>

definition mem_read :: "(u64 \<Rightarrow> u8) \<Rightarrow> u64 \<Rightarrow> nat \<Rightarrow> u64" where
  "mem_read mem p n = fold (\<lambda>i acc. acc OR push_bit (8 * i) (ucast (mem (p + of_nat i)))) [0..<n] 0"

definition mem_write :: "(u64 \<Rightarrow> u8) \<Rightarrow> u64 \<Rightarrow> nat \<Rightarrow> u64 \<Rightarrow> u64 \<Rightarrow> u8" where
  "mem_write mem p n v = fold (\<lambda>i mem. mem(p + of_nat i := ucast (drop_bit (8 * i) v))) [0..<n] mem"

definition rrs_size :: "TCGOpcode_rrs \<Rightarrow> TCGType \<Rightarrow> nat" where
  "rrs_size opc ty = (case opc of
     INDEX_op_ld8u \<Rightarrow> 1 | INDEX_op_ld8s \<Rightarrow> 1 | INDEX_op_st8 \<Rightarrow> 1
   | INDEX_op_ld16u \<Rightarrow> 2 | INDEX_op_ld16s \<Rightarrow> 2 | INDEX_op_st16 \<Rightarrow> 2
   | INDEX_op_ld32u \<Rightarrow> 4 | INDEX_op_ld32s \<Rightarrow> 4 | INDEX_op_st32 \<Rightarrow> 4
   | _ \<Rightarrow> if ty = TCG_TYPE_I32 then 4 else 8)"

definition rrs_load :: "TCGOpcode_rrs \<Rightarrow> u64 \<Rightarrow> u64 option" where
  "rrs_load opc v = (case opc of
     INDEX_op_ld8s \<Rightarrow> Some (scast (ucast v :: u8))
   | INDEX_op_ld16s \<Rightarrow> Some (scast (ucast v :: u16))
   | INDEX_op_ld32s \<Rightarrow> Some (scast (ucast v :: u32))
   | INDEX_op_st8 \<Rightarrow> None | INDEX_op_st16 \<Rightarrow> None | INDEX_op_st32 \<Rightarrow> None | INDEX_op_st \<Rightarrow> None
   | _ \<Rightarrow> Some v)"

definition tci_rrs :: "TCGOpcode_rrs \<Rightarrow> TCGType \<Rightarrow> TCGArg \<Rightarrow> u64 \<Rightarrow> ('e, 'm) machine \<Rightarrow> ('e, 'm) machine option" where
  "tci_rrs opc ty r0 ptr m =
     (case rrs_load opc (mem_read (rt_mem (mrt m)) ptr (rrs_size opc ty)) of
        Some v \<Rightarrow> do { d \<leftarrow> out r0; Some (set_slot d (Num v) m) }
      | None \<Rightarrow> do {
          v \<leftarrow> arg64 m r0;
          Some (m\<lparr>mrt := (mrt m)\<lparr>rt_mem := mem_write (rt_mem (mrt m)) ptr (rrs_size opc ty) v\<rparr>\<rparr>) })"

subsection \<open>Helper calls\<close>

definition ret_expr :: "TCGArg \<Rightarrow> ('e, 'm) machine \<Rightarrow> 'e option option \<Rightarrow> ('e, 'm) machine option" where
  "ret_expr d m r = do { t \<leftarrow> out d; e \<leftarrow> r; Some (set_slot t (expr_val e) m) }"

definition ret_expr_rt ::
  "TCGArg \<Rightarrow> ('e, 'm) machine \<Rightarrow> ('e option \<times> ('e, 'm) rt) option \<Rightarrow> ('e, 'm) machine option" where
  "ret_expr_rt d m r = do { t \<leftarrow> out d; (e, rt) \<leftarrow> r; Some (set_slot t (expr_val e) (m\<lparr>mrt := rt\<rparr>)) }"

definition run_sym_unary :: "('e, 'x) backend \<Rightarrow> sym_unary_helper \<Rightarrow> 'e option \<Rightarrow> 'e option option" where
  "run_sym_unary B u e = (case u of
     unary_neg \<Rightarrow> sym_neg B e
   | unary_not \<Rightarrow> sym_not B e
   | unary_sext_i32_i64 \<Rightarrow> sym_sext_i32_i64 B e
   | unary_zext_i32_i64 \<Rightarrow> sym_zext_i32_i64 B e
   | unary_trunc_i64_i32 \<Rightarrow> sym_trunc_i64_i32 B e)"

definition run_sym_length :: "('e, 'x) backend \<Rightarrow> sym_length_helper \<Rightarrow> 'e option \<Rightarrow> u64 \<Rightarrow> 'e option option" where
  "run_sym_length B u e len = (case u of
     length_sext \<Rightarrow> sym_sext B e len
   | length_zext \<Rightarrow> sym_zext B e len
   | length_bswap \<Rightarrow> sym_bswap B e len)"

text \<open>The value of the base pointer \<open>env\<close> is only passed to helpers; it stands for the argument \<open>env\<close> of
  the run. The lookup of a translation block belongs to the execution loop and has no model here.\<close>

definition exec_call ::
  "('e, 'm) backend \<Rightarrow> CPUArchState \<Rightarrow> TCGHelper \<Rightarrow> TCGArg list \<Rightarrow> ('e, 'm) machine \<Rightarrow> ('e, 'm) machine option" where
  "exec_call B env h args m = (case (h, args) of
     (helper_sym_binary k ty, [d, a1, e1, a2, e2]) \<Rightarrow> do {
       x \<leftarrow> arg64 m a1; p \<leftarrow> argp m e1; y \<leftarrow> arg64 m a2; q \<leftarrow> argp m e2;
       ret_expr d m (if ty = TCG_TYPE_I32 then sym_binary_i32 B k (ucast x) p (ucast y) q else sym_binary_i64 B k x p y q) }
   | (helper_sym_muluh_i64, [d, a1, e1, a2, e2]) \<Rightarrow> do {
       x \<leftarrow> arg64 m a1; p \<leftarrow> argp m e1; y \<leftarrow> arg64 m a2; q \<leftarrow> argp m e2;
       ret_expr d m (sym_muluh_i64 B x p y q) }
   | (helper_sym_unary u, [d, e1]) \<Rightarrow> do { p \<leftarrow> argp m e1; ret_expr d m (run_sym_unary B u p) }
   | (helper_sym_length u, [d, e1, len]) \<Rightarrow> do {
       p \<leftarrow> argp m e1; n \<leftarrow> arg64 m len; ret_expr d m (run_sym_length B u p n) }
   | (helper_sym_load_host ty, [d, a, ofs, len]) \<Rightarrow> do {
       x \<leftarrow> arg64 m a; k \<leftarrow> arg64 m ofs; n \<leftarrow> arg64 m len;
       ret_expr d m (Some ((if ty = TCG_TYPE_I32 then sym_load_host_i32 else sym_load_host_i64) B x k n (mrt m))) }
   | (helper_sym_store_host, [e, a, ofs, len]) \<Rightarrow> do {
       p \<leftarrow> argp m e; x \<leftarrow> arg64 m a; k \<leftarrow> arg64 m ofs; n \<leftarrow> arg64 m len;
       Some (m\<lparr>mrt := sym_store_host B p x k n (mrt m)\<rparr>) }
   | (helper_sym_extract ty, [d, e1, ofs, len]) \<Rightarrow> do {
       p \<leftarrow> argp m e1; k \<leftarrow> arg64 m ofs; n \<leftarrow> arg64 m len;
       ret_expr d m (if ty = TCG_TYPE_I32 then sym_extract_i32 B p (ucast k) (ucast n) else sym_extract_i64 B p k n) }
   | (helper_sym_sextract ty, [d, e1, ofs, len]) \<Rightarrow> do {
       p \<leftarrow> argp m e1; k \<leftarrow> arg64 m ofs; n \<leftarrow> arg64 m len;
       ret_expr d m (if ty = TCG_TYPE_I32 then sym_sextract_i32 B p (ucast k) (ucast n) else sym_sextract_i64 B p k n) }
   | (helper_sym_deposit ty, [d, a1, e1, a2, e2, ofs, len]) \<Rightarrow> do {
       x \<leftarrow> arg64 m a1; p \<leftarrow> argp m e1; y \<leftarrow> arg64 m a2; q \<leftarrow> argp m e2; k \<leftarrow> arg64 m ofs; n \<leftarrow> arg64 m len;
       ret_expr d m (if ty = TCG_TYPE_I32 then sym_deposit_i32 B (ucast x) p (ucast y) q (ucast k) (ucast n)
                     else sym_deposit_i64 B x p y q k n) }
   | (helper_sym_extract2 ty, [d, ah, eh, al, el, ofs]) \<Rightarrow> do {
       x \<leftarrow> arg64 m ah; p \<leftarrow> argp m eh; y \<leftarrow> arg64 m al; q \<leftarrow> argp m el; k \<leftarrow> arg64 m ofs;
       ret_expr d m (if ty = TCG_TYPE_I32 then sym_extract2_i32 B (ucast x) p (ucast y) q k
                     else sym_extract2_i64 B x p y q k) }
   | (helper_sym_setcond ty, [d, _, a1, e1, a2, e2, c, r]) \<Rightarrow> do {
       x \<leftarrow> arg64 m a1; p \<leftarrow> argp m e1; y \<leftarrow> arg64 m a2; q \<leftarrow> argp m e2; k \<leftarrow> arg64 m c; t \<leftarrow> arg64 m r;
       ret_expr_rt d m (if ty = TCG_TYPE_I32
         then sym_setcond_i32 B env (ucast x) p (ucast y) q (ucast k) (ucast t) (mrt m)
         else sym_setcond_i64 B env x p y q (ucast k) t (mrt m)) }
   | (helper_sym_movcond ty, [d, _, a1, e1, a2, e2, b1, f1, b2, f2, c, r]) \<Rightarrow> do {
       x \<leftarrow> arg64 m a1; p \<leftarrow> argp m e1; y \<leftarrow> arg64 m a2; q \<leftarrow> argp m e2;
       v \<leftarrow> arg64 m b1; f \<leftarrow> argp m f1; w \<leftarrow> arg64 m b2; g \<leftarrow> argp m f2; k \<leftarrow> arg64 m c; t \<leftarrow> arg64 m r;
       ret_expr_rt d m (if ty = TCG_TYPE_I32
         then sym_movcond_i32 B env (ucast x) p (ucast y) q (ucast v) f (ucast w) g (ucast k) (ucast t) (mrt m)
         else sym_movcond_i64 B env x p y q v f w g (ucast k) t (mrt m)) }
   | (helper_sym_collect_garbage, []) \<Rightarrow> Some (m\<lparr>mrt := sym_collect_garbage (mrt m)\<rparr>)
   | (helper_i32 k, d # a1 # rest) \<Rightarrow> do {
       t \<leftarrow> out d; x \<leftarrow> arg32 m a1; y \<leftarrow> (case rest of [] \<Rightarrow> Some 0 | a2 # _ \<Rightarrow> arg32 m a2);
       r \<leftarrow> run_helper_i32 k x y; Some (set_slot t (Num (ucast r)) m) }
   | (helper_i64 k, d # a1 # rest) \<Rightarrow> do {
       t \<leftarrow> out d; x \<leftarrow> arg64 m a1; y \<leftarrow> (case rest of [] \<Rightarrow> Some 0 | a2 # _ \<Rightarrow> arg64 m a2);
       r \<leftarrow> run_helper_i64 k x y; Some (set_slot t (Num r) m) }
   | _ \<Rightarrow> None)"

subsection \<open>Running operations\<close>

text \<open>An operation falls through, jumps to a label, or leaves the block.\<close>

datatype flow = Next | Jump u64 | Leave u64

definition next_op :: "('e, 'm) machine option \<Rightarrow> (flow \<times> ('e, 'm) machine) option" where
  "next_op r = map_option (Pair Next) r"

definition ret_num :: "TCGArg \<Rightarrow> ('e, 'm) machine \<Rightarrow> u64 option \<Rightarrow> (flow \<times> ('e, 'm) machine) option" where
  "ret_num d m r = do { t \<leftarrow> out d; v \<leftarrow> r; Some (Next, set_slot t (Num v) m) }"

definition exec_op ::
  "('e, 'm) backend \<Rightarrow> CPUArchState \<Rightarrow> TCGOp \<Rightarrow> ('e, 'm) machine \<Rightarrow> (flow \<times> ('e, 'm) machine) option" where
  "exec_op B env op m = (case (op_opc op, op_args op) of
     (INDEX_op_discard, _) \<Rightarrow> Some (Next, m)
   | (INDEX_op_set_label, _) \<Rightarrow> Some (Next, m)
   | (INDEX_op_mb, _) \<Rightarrow> Some (Next, m)
   | (INDEX_op_call h, args) \<Rightarrow> next_op (exec_call B env h args m)
   | (INDEX_op_br, [l]) \<Rightarrow> do { n \<leftarrow> imm l; Some (Jump n, m) }
   | (op_rr opc ty, [r0, r1]) \<Rightarrow>
       (if opc = INDEX_op_mov then do { t \<leftarrow> out r0; v \<leftarrow> arg_val m r1; Some (Next, set_slot t v m) }
        else do { x \<leftarrow> arg64 m r1; ret_num r0 m (tci_rr opc ty x) })
   | (op_bswap opc ty, [r0, r1, fl]) \<Rightarrow> do {
       x \<leftarrow> arg64 m r1; k \<leftarrow> imm fl; ret_num r0 m (Some (tci_bswap opc ty x k)) }
   | (op_rrr opc ty, [r0, r1, r2]) \<Rightarrow> do {
       x \<leftarrow> arg64 m r1; y \<leftarrow> arg64 m r2; ret_num r0 m (tci_rrr opc ty x y) }
   | (op_rrs opc ty, [r0, r1, ofs]) \<Rightarrow> do {
       p \<leftarrow> arg64 m r1; k \<leftarrow> imm ofs; next_op (tci_rrs opc ty r0 (p + k) m) }
   | (INDEX_op_setcond ty, [r0, r1, r2, c]) \<Rightarrow> do {
       x \<leftarrow> arg64 m r1; y \<leftarrow> arg64 m r2; k \<leftarrow> imm c; ret_num r0 m (map_option of_bool (tci_setcond ty x y k)) }
   | (INDEX_op_negsetcond ty, [r0, r1, r2, c]) \<Rightarrow> do {
       x \<leftarrow> arg64 m r1; y \<leftarrow> arg64 m r2; k \<leftarrow> imm c;
       ret_num r0 m (map_option (\<lambda>b. - of_bool b) (tci_setcond ty x y k)) }
   | (INDEX_op_movcond ty, [r0, r1, r2, r3, r4, c]) \<Rightarrow> do {
       x \<leftarrow> arg64 m r1; y \<leftarrow> arg64 m r2; k \<leftarrow> imm c; b \<leftarrow> tci_setcond ty x y k;
       t \<leftarrow> out r0; v \<leftarrow> arg_val m (if b then r3 else r4); Some (Next, set_slot t v m) }
   | (INDEX_op_brcond ty, [r1, r2, c, l]) \<Rightarrow> do {
       x \<leftarrow> arg64 m r1; y \<leftarrow> arg64 m r2; k \<leftarrow> imm c; n \<leftarrow> imm l; b \<leftarrow> tci_setcond ty x y k;
       Some (if b then Jump n else Next, m) }
   | (INDEX_op_deposit ty, [r0, r1, r2, pos, len]) \<Rightarrow> do {
       x \<leftarrow> arg64 m r1; y \<leftarrow> arg64 m r2; p \<leftarrow> imm pos; n \<leftarrow> imm len; ret_num r0 m (tci_deposit ty x y p n) }
   | (INDEX_op_extract ty, [r0, r1, pos, len]) \<Rightarrow> do {
       x \<leftarrow> arg64 m r1; p \<leftarrow> imm pos; n \<leftarrow> imm len; ret_num r0 m (tci_extract ty x p n) }
   | (INDEX_op_sextract ty, [r0, r1, pos, len]) \<Rightarrow> do {
       x \<leftarrow> arg64 m r1; p \<leftarrow> imm pos; n \<leftarrow> imm len; ret_num r0 m (tci_sextract ty x p n) }
   | (INDEX_op_extract2 ty, [r0, r1, r2, pos]) \<Rightarrow> do {
       x \<leftarrow> arg64 m r1; y \<leftarrow> arg64 m r2; p \<leftarrow> imm pos; ret_num r0 m (op_extract2 ty x y p) }
   | (INDEX_op_exit_tb, [v]) \<Rightarrow> do { n \<leftarrow> imm v; Some (Leave n, m) }
   | (INDEX_op_goto_ptr, [p]) \<Rightarrow> do { n \<leftarrow> arg64 m p; Some (Leave n, m) }
   | _ \<Rightarrow> None)"

fun exec_ops ::
  "('e, 'm) backend \<Rightarrow> CPUArchState \<Rightarrow> TCGOp list \<Rightarrow> ('e, 'm) machine \<Rightarrow> (flow \<times> ('e, 'm) machine) option" where
  "exec_ops B env [] m = Some (Next, m)"
| "exec_ops B env (op # ops) m =
     (case exec_op B env op m of
        Some (Next, m') \<Rightarrow> exec_ops B env ops m'
      | r \<Rightarrow> r)"

end
