(* ===== verification/Gen.thy ===== *)
theory Gen
  imports TCG_Ops
begin

unbundle bit_operations_syntax

section \<open>Emitting operations\<close>

text \<open>
  The layer of \<open>tcg/tcg-op.c\<close> that all generators share: emitting an operation, calling a helper,
  labels, moves, and the accesses to host memory. Operations are appended to the context; the other
  mode, in which a plugin inserts operations before a given one, is not used by the generators.

  Helper arguments of 32 bits are passed as they are, which is what the hosts do that do not define
  \<open>TCG_TARGET_CALL_ARG_I32\<close> as an extension (among them the interpreter, x86-64 and AArch64).
\<close>

text \<open>What a host supports: \<open>TCG_TARGET_HAS_\<dots>_i32\<close> and \<open>_i64\<close>, and the bit fields it takes.\<close>

record tcg_host =
  HAS_div :: "TCGType \<Rightarrow> bool"
  HAS_rem :: "TCGType \<Rightarrow> bool"
  HAS_div2 :: "TCGType \<Rightarrow> bool"
  HAS_rot :: "TCGType \<Rightarrow> bool"
  HAS_ext8s :: "TCGType \<Rightarrow> bool"
  HAS_ext16s :: "TCGType \<Rightarrow> bool"
  HAS_ext32s :: "TCGType \<Rightarrow> bool"
  HAS_ext8u :: "TCGType \<Rightarrow> bool"
  HAS_ext16u :: "TCGType \<Rightarrow> bool"
  HAS_ext32u :: "TCGType \<Rightarrow> bool"
  HAS_bswap16 :: "TCGType \<Rightarrow> bool"
  HAS_bswap32 :: "TCGType \<Rightarrow> bool"
  HAS_bswap64 :: "TCGType \<Rightarrow> bool"
  HAS_not :: "TCGType \<Rightarrow> bool"
  HAS_andc :: "TCGType \<Rightarrow> bool"
  HAS_orc :: "TCGType \<Rightarrow> bool"
  HAS_eqv :: "TCGType \<Rightarrow> bool"
  HAS_nand :: "TCGType \<Rightarrow> bool"
  HAS_nor :: "TCGType \<Rightarrow> bool"
  HAS_clz :: "TCGType \<Rightarrow> bool"
  HAS_ctz :: "TCGType \<Rightarrow> bool"
  HAS_ctpop :: "TCGType \<Rightarrow> bool"
  HAS_deposit :: "TCGType \<Rightarrow> bool"
  HAS_extract :: "TCGType \<Rightarrow> bool"
  HAS_sextract :: "TCGType \<Rightarrow> bool"
  HAS_extract2 :: "TCGType \<Rightarrow> bool"
  HAS_negsetcond :: "TCGType \<Rightarrow> bool"
  HAS_mulu2 :: "TCGType \<Rightarrow> bool"
  HAS_muluh :: "TCGType \<Rightarrow> bool"
  deposit_valid :: "TCGType \<Rightarrow> u32 \<Rightarrow> u32 \<Rightarrow> bool"
  extract_valid :: "TCGType \<Rightarrow> u32 \<Rightarrow> u32 \<Rightarrow> bool"

text \<open>The interpreter as a host.\<close>

definition tci_host :: tcg_host where
  "tci_host = \<lparr>HAS_div = \<lambda>_. True, HAS_rem = \<lambda>_. True, HAS_div2 = \<lambda>_. False, HAS_rot = \<lambda>_. True,
     HAS_ext8s = \<lambda>_. True, HAS_ext16s = \<lambda>_. True, HAS_ext32s = \<lambda>_. True,
     HAS_ext8u = \<lambda>_. True, HAS_ext16u = \<lambda>_. True, HAS_ext32u = \<lambda>_. True,
     HAS_bswap16 = \<lambda>_. True, HAS_bswap32 = \<lambda>_. True, HAS_bswap64 = \<lambda>_. True,
     HAS_not = \<lambda>_. True, HAS_andc = \<lambda>_. True, HAS_orc = \<lambda>_. True, HAS_eqv = \<lambda>_. True,
     HAS_nand = \<lambda>_. True, HAS_nor = \<lambda>_. True, HAS_clz = \<lambda>_. True, HAS_ctz = \<lambda>_. True, HAS_ctpop = \<lambda>_. True,
     HAS_deposit = \<lambda>_. True, HAS_extract = \<lambda>_. True, HAS_sextract = \<lambda>_. True, HAS_extract2 = \<lambda>_. False,
     HAS_negsetcond = \<lambda>_. False, HAS_mulu2 = \<lambda>_. True, HAS_muluh = \<lambda>_. False,
     deposit_valid = \<lambda>_ _ _. True, extract_valid = \<lambda>_ _ _. True\<rparr>"

text \<open>\<open>tcg_env\<close>, the pointer to the CPU state, is the first temporary that \<open>tcg_context_init\<close> allocates.\<close>

definition tcg_env :: TCGv where
  "tcg_env = 0"

subsection \<open>Operations\<close>

definition tcg_emit_op :: "TCGOpcode \<Rightarrow> TCGArg list \<Rightarrow> ctx \<Rightarrow> ctx" where
  "tcg_emit_op opc args s = s\<lparr>tcg_ops := tcg_ops s @ [TCGOp opc args]\<rparr>"

definition tcg_gen_op1 :: "TCGOpcode \<Rightarrow> TCGArg \<Rightarrow> ctx \<Rightarrow> ctx" where
  "tcg_gen_op1 opc a1 = tcg_emit_op opc [a1]"

definition tcg_gen_op2 :: "TCGOpcode \<Rightarrow> TCGArg \<Rightarrow> TCGArg \<Rightarrow> ctx \<Rightarrow> ctx" where
  "tcg_gen_op2 opc a1 a2 = tcg_emit_op opc [a1, a2]"

definition tcg_gen_op3 :: "TCGOpcode \<Rightarrow> TCGArg \<Rightarrow> TCGArg \<Rightarrow> TCGArg \<Rightarrow> ctx \<Rightarrow> ctx" where
  "tcg_gen_op3 opc a1 a2 a3 = tcg_emit_op opc [a1, a2, a3]"

definition tcg_gen_op4 :: "TCGOpcode \<Rightarrow> TCGArg \<Rightarrow> TCGArg \<Rightarrow> TCGArg \<Rightarrow> TCGArg \<Rightarrow> ctx \<Rightarrow> ctx" where
  "tcg_gen_op4 opc a1 a2 a3 a4 = tcg_emit_op opc [a1, a2, a3, a4]"

definition tcg_gen_op5 :: "TCGOpcode \<Rightarrow> TCGArg \<Rightarrow> TCGArg \<Rightarrow> TCGArg \<Rightarrow> TCGArg \<Rightarrow> TCGArg \<Rightarrow> ctx \<Rightarrow> ctx" where
  "tcg_gen_op5 opc a1 a2 a3 a4 a5 = tcg_emit_op opc [a1, a2, a3, a4, a5]"

definition tcg_gen_op6 ::
  "TCGOpcode \<Rightarrow> TCGArg \<Rightarrow> TCGArg \<Rightarrow> TCGArg \<Rightarrow> TCGArg \<Rightarrow> TCGArg \<Rightarrow> TCGArg \<Rightarrow> ctx \<Rightarrow> ctx" where
  "tcg_gen_op6 opc a1 a2 a3 a4 a5 a6 = tcg_emit_op opc [a1, a2, a3, a4, a5, a6]"

text \<open>The typed variants look the temporaries up. The source has one copy per type, with the same body:
  a \<open>TCGv_i32\<close> and a \<open>TCGv_i64\<close> name a temporary in the same way.\<close>

definition tcg_gen_op1_v :: "TCGOpcode \<Rightarrow> TCGv \<Rightarrow> ctx \<Rightarrow> ctx option" where
  "tcg_gen_op1_v opc a1 s = do { x1 \<leftarrow> temp_arg a1 s; Some (tcg_gen_op1 opc x1 s) }"

definition tcg_gen_op1i :: "TCGOpcode \<Rightarrow> u64 \<Rightarrow> ctx \<Rightarrow> ctx option" where
  "tcg_gen_op1i opc a1 s = Some (tcg_gen_op1 opc (ImmArg a1) s)"

definition tcg_gen_op2_v :: "TCGOpcode \<Rightarrow> TCGv \<Rightarrow> TCGv \<Rightarrow> ctx \<Rightarrow> ctx option" where
  "tcg_gen_op2_v opc a1 a2 s = do { x1 \<leftarrow> temp_arg a1 s; x2 \<leftarrow> temp_arg a2 s; Some (tcg_gen_op2 opc x1 x2 s) }"

definition tcg_gen_op3_v :: "TCGOpcode \<Rightarrow> TCGv \<Rightarrow> TCGv \<Rightarrow> TCGv \<Rightarrow> ctx \<Rightarrow> ctx option" where
  "tcg_gen_op3_v opc a1 a2 a3 s = do {
     x1 \<leftarrow> temp_arg a1 s; x2 \<leftarrow> temp_arg a2 s; x3 \<leftarrow> temp_arg a3 s; Some (tcg_gen_op3 opc x1 x2 x3 s) }"

definition tcg_gen_op3i_v :: "TCGOpcode \<Rightarrow> TCGv \<Rightarrow> TCGv \<Rightarrow> u64 \<Rightarrow> ctx \<Rightarrow> ctx option" where
  "tcg_gen_op3i_v opc a1 a2 a3 s = do {
     x1 \<leftarrow> temp_arg a1 s; x2 \<leftarrow> temp_arg a2 s; Some (tcg_gen_op3 opc x1 x2 (ImmArg a3) s) }"

definition tcg_gen_op4i_v :: "TCGOpcode \<Rightarrow> TCGv \<Rightarrow> TCGv \<Rightarrow> TCGv \<Rightarrow> u64 \<Rightarrow> ctx \<Rightarrow> ctx option" where
  "tcg_gen_op4i_v opc a1 a2 a3 a4 s = do {
     x1 \<leftarrow> temp_arg a1 s; x2 \<leftarrow> temp_arg a2 s; x3 \<leftarrow> temp_arg a3 s;
     Some (tcg_gen_op4 opc x1 x2 x3 (ImmArg a4) s) }"

definition tcg_gen_op4ii_v :: "TCGOpcode \<Rightarrow> TCGv \<Rightarrow> TCGv \<Rightarrow> u64 \<Rightarrow> u64 \<Rightarrow> ctx \<Rightarrow> ctx option" where
  "tcg_gen_op4ii_v opc a1 a2 a3 a4 s = do {
     x1 \<leftarrow> temp_arg a1 s; x2 \<leftarrow> temp_arg a2 s; Some (tcg_gen_op4 opc x1 x2 (ImmArg a3) (ImmArg a4) s) }"

definition tcg_gen_op5_v :: "TCGOpcode \<Rightarrow> TCGv \<Rightarrow> TCGv \<Rightarrow> TCGv \<Rightarrow> TCGv \<Rightarrow> TCGv \<Rightarrow> ctx \<Rightarrow> ctx option" where
  "tcg_gen_op5_v opc a1 a2 a3 a4 a5 s = do {
     x1 \<leftarrow> temp_arg a1 s; x2 \<leftarrow> temp_arg a2 s; x3 \<leftarrow> temp_arg a3 s; x4 \<leftarrow> temp_arg a4 s; x5 \<leftarrow> temp_arg a5 s;
     Some (tcg_gen_op5 opc x1 x2 x3 x4 x5 s) }"

definition tcg_gen_op5ii_v :: "TCGOpcode \<Rightarrow> TCGv \<Rightarrow> TCGv \<Rightarrow> TCGv \<Rightarrow> u64 \<Rightarrow> u64 \<Rightarrow> ctx \<Rightarrow> ctx option" where
  "tcg_gen_op5ii_v opc a1 a2 a3 a4 a5 s = do {
     x1 \<leftarrow> temp_arg a1 s; x2 \<leftarrow> temp_arg a2 s; x3 \<leftarrow> temp_arg a3 s;
     Some (tcg_gen_op5 opc x1 x2 x3 (ImmArg a4) (ImmArg a5) s) }"

definition tcg_gen_op6i_v ::
  "TCGOpcode \<Rightarrow> TCGv \<Rightarrow> TCGv \<Rightarrow> TCGv \<Rightarrow> TCGv \<Rightarrow> TCGv \<Rightarrow> u64 \<Rightarrow> ctx \<Rightarrow> ctx option" where
  "tcg_gen_op6i_v opc a1 a2 a3 a4 a5 a6 s = do {
     x1 \<leftarrow> temp_arg a1 s; x2 \<leftarrow> temp_arg a2 s; x3 \<leftarrow> temp_arg a3 s; x4 \<leftarrow> temp_arg a4 s; x5 \<leftarrow> temp_arg a5 s;
     Some (tcg_gen_op6 opc x1 x2 x3 x4 x5 (ImmArg a6) s) }"

subsection \<open>Moves and helper calls\<close>

definition tcg_gen_mov_i64_internal :: "TCGv \<Rightarrow> TCGv \<Rightarrow> bool \<Rightarrow> ctx \<Rightarrow> ctx option" where
  "tcg_gen_mov_i64_internal ret arg concrete s =
     (if ret = arg then Some s
      else do {
        s \<leftarrow> (if \<not> concrete then do {
          er \<leftarrow> tcgv_i64_expr ret s; ea \<leftarrow> tcgv_i64_expr arg s;
          tcg_gen_op2_v (op_rr INDEX_op_mov TCG_TYPE_I64) er ea s } else Some s);
        tcg_gen_op2_v (op_rr INDEX_op_mov TCG_TYPE_I64) ret arg s })"

definition tcg_gen_mov_i64 :: "TCGv \<Rightarrow> TCGv \<Rightarrow> ctx \<Rightarrow> ctx option" where
  "tcg_gen_mov_i64 ret arg = tcg_gen_mov_i64_internal ret arg False"

definition tcg_gen_mov_i64_concrete :: "TCGv \<Rightarrow> TCGv \<Rightarrow> ctx \<Rightarrow> ctx option" where
  "tcg_gen_mov_i64_concrete ret arg = tcg_gen_mov_i64_internal ret arg True"

text \<open>A helper with a result that is not an expression concretizes it: the expression of the result
  becomes the null pointer.\<close>

definition tcg_gen_callN :: "TCGHelper \<Rightarrow> TCGv option \<Rightarrow> TCGv list \<Rightarrow> ctx \<Rightarrow> ctx option" where
  "tcg_gen_callN func ret args s = do {
     s \<leftarrow> (case ret of
        Some r \<Rightarrow> (if r < nb_temps s \<and> \<not> symbolic_expression (temps s ! r) then do {
            er \<leftarrow> temp_expr s r;
            (zero, s) \<leftarrow> tcg_constant_internal TCG_TYPE_I64 0 s;
            tcg_gen_mov_i64_concrete er zero s }
          else Some s)
      | None \<Rightarrow> Some s);
     outs \<leftarrow> (case ret of Some r \<Rightarrow> map_option (\<lambda>a. [a]) (temp_arg r s) | None \<Rightarrow> Some []);
     ins \<leftarrow> those (map (\<lambda>t. temp_arg t s) args);
     Some (tcg_emit_op (INDEX_op_call func) (outs @ ins) s) }"

definition SYM_HELPER_BINARY_32 :: "sym_helper \<Rightarrow> TCGv \<Rightarrow> TCGv \<Rightarrow> TCGv \<Rightarrow> ctx \<Rightarrow> ctx option" where
  "SYM_HELPER_BINARY_32 k ret arg1 arg2 s = do {
     er \<leftarrow> tcgv_i32_expr ret s; e1 \<leftarrow> tcgv_i32_expr arg1 s; e2 \<leftarrow> tcgv_i32_expr arg2 s;
     tcg_gen_callN (helper_sym_binary k TCG_TYPE_I32) (Some er) [arg1, e1, arg2, e2] s }"

definition SYM_HELPER_BINARY_64 :: "sym_helper \<Rightarrow> TCGv \<Rightarrow> TCGv \<Rightarrow> TCGv \<Rightarrow> ctx \<Rightarrow> ctx option" where
  "SYM_HELPER_BINARY_64 k ret arg1 arg2 s = do {
     er \<leftarrow> tcgv_i64_expr ret s; e1 \<leftarrow> tcgv_i64_expr arg1 s; e2 \<leftarrow> tcgv_i64_expr arg2 s;
     tcg_gen_callN (helper_sym_binary k TCG_TYPE_I64) (Some er) [arg1, e1, arg2, e2] s }"

text \<open>Calls of the expression helpers of one operand.\<close>

definition gen_helper_sym_unary :: "sym_unary_helper \<Rightarrow> TCGv \<Rightarrow> TCGv \<Rightarrow> ctx \<Rightarrow> ctx option" where
  "gen_helper_sym_unary u ret arg s = do {
     er \<leftarrow> temp_expr s ret; ea \<leftarrow> temp_expr s arg; tcg_gen_callN (helper_sym_unary u) (Some er) [ea] s }"

definition gen_helper_sym_length :: "sym_length_helper \<Rightarrow> TCGv \<Rightarrow> TCGv \<Rightarrow> u64 \<Rightarrow> ctx \<Rightarrow> ctx option" where
  "gen_helper_sym_length u ret arg len s = do {
     (n, s) \<leftarrow> tcg_constant_i64 len s;
     er \<leftarrow> temp_expr s ret; ea \<leftarrow> temp_expr s arg;
     tcg_gen_callN (helper_sym_length u) (Some er) [ea, n] s }"

subsection \<open>Accesses to host memory\<close>

definition tcg_gen_ldst_op_i32 :: "TCGOpcode_rrs \<Rightarrow> TCGv \<Rightarrow> TCGv \<Rightarrow> u64 \<Rightarrow> ctx \<Rightarrow> ctx option" where
  "tcg_gen_ldst_op_i32 opc v base offset s = do {
     data_size \<leftarrow> (case opc of
         INDEX_op_ld8u \<Rightarrow> Some 1 | INDEX_op_ld8s \<Rightarrow> Some 1 | INDEX_op_st8 \<Rightarrow> Some 1
       | INDEX_op_ld16u \<Rightarrow> Some 2 | INDEX_op_ld16s \<Rightarrow> Some 2 | INDEX_op_st16 \<Rightarrow> Some 2
       | INDEX_op_ld \<Rightarrow> Some 4 | INDEX_op_st \<Rightarrow> Some 4
       | _ \<Rightarrow> None);
     (k, s) \<leftarrow> tcg_constant_i64 offset s;
     (n, s) \<leftarrow> tcg_constant_i64 data_size s;
     ev \<leftarrow> tcgv_i32_expr v s;
     s \<leftarrow> (if opc \<in> {INDEX_op_ld8u, INDEX_op_ld8s, INDEX_op_ld16u, INDEX_op_ld16s, INDEX_op_ld}
       then tcg_gen_callN (helper_sym_load_host TCG_TYPE_I32) (Some ev) [base, k, n] s
       else tcg_gen_callN helper_sym_store_host None [ev, base, k, n] s);
     tcg_gen_op3i_v (op_rrs opc TCG_TYPE_I32) v base offset s }"

definition tcg_gen_ldst_op_i64 :: "TCGOpcode_rrs \<Rightarrow> TCGv \<Rightarrow> TCGv \<Rightarrow> u64 \<Rightarrow> ctx \<Rightarrow> ctx option" where
  "tcg_gen_ldst_op_i64 opc v base offset s = do {
     data_size \<leftarrow> (case opc of
         INDEX_op_ld8u \<Rightarrow> Some 1 | INDEX_op_ld8s \<Rightarrow> Some 1 | INDEX_op_st8 \<Rightarrow> Some 1
       | INDEX_op_ld16u \<Rightarrow> Some 2 | INDEX_op_ld16s \<Rightarrow> Some 2 | INDEX_op_st16 \<Rightarrow> Some 2
       | INDEX_op_ld32u \<Rightarrow> Some 4 | INDEX_op_ld32s \<Rightarrow> Some 4 | INDEX_op_st32 \<Rightarrow> Some 4
       | INDEX_op_ld \<Rightarrow> Some 8 | INDEX_op_st \<Rightarrow> Some 8);
     (k, s) \<leftarrow> tcg_constant_i64 offset s;
     (n, s) \<leftarrow> tcg_constant_i64 data_size s;
     ev \<leftarrow> tcgv_i64_expr v s;
     s \<leftarrow> (if opc \<in> {INDEX_op_ld8u, INDEX_op_ld8s, INDEX_op_ld16u, INDEX_op_ld16s, INDEX_op_ld32u,
                      INDEX_op_ld32s, INDEX_op_ld}
       then tcg_gen_callN (helper_sym_load_host TCG_TYPE_I64) (Some ev) [base, k, n] s
       else tcg_gen_callN helper_sym_store_host None [ev, base, k, n] s);
     tcg_gen_op3i_v (op_rrs opc TCG_TYPE_I64) v base offset s }"

subsection \<open>Labels\<close>

definition gen_new_label :: "ctx \<Rightarrow> nat \<times> ctx" where
  "gen_new_label s = (nb_labels s, s\<lparr>nb_labels := nb_labels s + 1,
     label_present := (label_present s)(nb_labels s := False), label_uses := (label_uses s)(nb_labels s := [])\<rparr>)"

definition gen_set_label :: "nat \<Rightarrow> ctx \<Rightarrow> ctx" where
  "gen_set_label l s = tcg_gen_op1 INDEX_op_set_label (ImmArg (of_nat l)) (s\<lparr>label_present := (label_present s)(l := True)\<rparr>)"

text \<open>The uses of a label are positions in the list of operations.\<close>

definition add_last_as_label_use :: "nat \<Rightarrow> ctx \<Rightarrow> ctx" where
  "add_last_as_label_use l s = s\<lparr>label_uses := (label_uses s)(l := label_uses s l @ [length (tcg_ops s) - 1])\<rparr>"

definition tcg_gen_br :: "nat \<Rightarrow> ctx \<Rightarrow> ctx option" where
  "tcg_gen_br l s = Some (add_last_as_label_use l (tcg_gen_op1 INDEX_op_br (ImmArg (of_nat l)) s))"

definition CF_PARALLEL :: u32 where "CF_PARALLEL = 0x00008000"
definition CF_NO_GOTO_TB :: u32 where "CF_NO_GOTO_TB = 0x00000200"
definition CF_NO_GOTO_PTR :: u32 where "CF_NO_GOTO_PTR = 0x00000400"

text \<open>The configuration is \<open>CONFIG_USER_ONLY\<close>.\<close>

definition tcg_gen_mb :: "u64 \<Rightarrow> ctx \<Rightarrow> ctx option" where
  "tcg_gen_mb mb_type s =
     (if gen_tb_cflags s AND CF_PARALLEL \<noteq> 0 then tcg_gen_op1i INDEX_op_mb mb_type s else Some s)"

subsection \<open>Leaving a translation block\<close>

definition TB_EXIT_IDXMAX :: u32 where "TB_EXIT_IDXMAX = 1"
definition TB_EXIT_REQUESTED :: u32 where "TB_EXIT_REQUESTED = 3"

definition tcg_gen_exit_tb :: "u64 \<Rightarrow> u32 \<Rightarrow> ctx \<Rightarrow> ctx option" where
  "tcg_gen_exit_tb tb idx s = do {
     let v = tb + ucast idx;
     (if tb = 0 then c_assert (idx = 0)
      else if idx \<le> TB_EXIT_IDXMAX then c_assert (goto_tb_issue_mask s AND push_bit (unat idx) 1 \<noteq> 0)
      else c_assert (idx = TB_EXIT_REQUESTED));
     s \<leftarrow> tcg_gen_callN helper_sym_collect_garbage None [] s;
     tcg_gen_op1i INDEX_op_exit_tb v s }"

definition tcg_gen_goto_tb :: "u32 \<Rightarrow> ctx \<Rightarrow> ctx option" where
  "tcg_gen_goto_tb idx s = do {
     c_assert (gen_tb_cflags s AND CF_NO_GOTO_TB = 0);
     c_assert (idx \<le> TB_EXIT_IDXMAX);
     c_assert (goto_tb_issue_mask s AND push_bit (unat idx) 1 = 0);
     let s = s\<lparr>goto_tb_issue_mask := goto_tb_issue_mask s OR push_bit (unat idx) 1\<rparr>;
     s \<leftarrow> tcg_gen_callN helper_sym_collect_garbage None [] s;
     tcg_gen_op1i INDEX_op_goto_tb (ucast idx) s }"

definition tcg_gen_lookup_and_goto_ptr :: "ctx \<Rightarrow> ctx option" where
  "tcg_gen_lookup_and_goto_ptr s =
     (if gen_tb_cflags s AND CF_NO_GOTO_PTR \<noteq> 0 then tcg_gen_exit_tb 0 0 s
      else do {
        (ptr, s) \<leftarrow> tcg_temp_ebb_new_ptr s;
        s \<leftarrow> tcg_gen_callN helper_lookup_tb_ptr (Some ptr) [tcg_env] s;
        s \<leftarrow> tcg_gen_callN helper_sym_collect_garbage None [] s;
        s \<leftarrow> tcg_gen_op1_v INDEX_op_goto_ptr ptr s;
        tcg_temp_free_ptr ptr s })"

end
