(* ===== verification/Gen32.thy ===== *)
theory Gen32
  imports Gen
begin

unbundle bit_operations_syntax

section \<open>Generators of 32-bit operations\<close>

text \<open>
  The functions \<open>tcg_gen_\<dots>_i32\<close> of \<open>tcg/tcg-op.c\<close> that the guest translators call: each emits an
  operation (or, where the host \<open>H\<close> lacks it, a sequence that computes the same) together with the
  helper calls that build the expression of the result. The functions that go through 64-bit
  temporaries are in \<open>Gen64\<close>. A C argument of type \<open>int32_t\<close> or \<open>unsigned\<close> is a 32-bit word, read with
  \<^const>\<open>sint\<close> where C compares it as signed.
\<close>

abbreviation I32 :: TCGType where "I32 \<equiv> TCG_TYPE_I32"
abbreviation I64 :: TCGType where "I64 \<equiv> TCG_TYPE_I64"

subsection \<open>Moves and arithmetic\<close>

definition tcg_gen_discard_i32 :: "TCGv \<Rightarrow> ctx \<Rightarrow> ctx option" where
  "tcg_gen_discard_i32 arg s = do {
     e \<leftarrow> tcgv_i32_expr arg s;
     s \<leftarrow> tcg_gen_op1_v INDEX_op_discard e s;
     tcg_gen_op1_v INDEX_op_discard arg s }"

definition tcg_gen_mov_i32_internal :: "TCGv \<Rightarrow> TCGv \<Rightarrow> bool \<Rightarrow> ctx \<Rightarrow> ctx option" where
  "tcg_gen_mov_i32_internal ret arg concrete s =
     (if ret \<noteq> arg then do {
        s \<leftarrow> (if \<not> concrete then do {
          er \<leftarrow> tcgv_i32_expr ret s; ea \<leftarrow> tcgv_i32_expr arg s;
          tcg_gen_op2_v (op_rr INDEX_op_mov I64) er ea s } else Some s);
        tcg_gen_op2_v (op_rr INDEX_op_mov I32) ret arg s }
      else Some s)"

definition tcg_gen_mov_i32 :: "TCGv \<Rightarrow> TCGv \<Rightarrow> ctx \<Rightarrow> ctx option" where
  "tcg_gen_mov_i32 ret arg = tcg_gen_mov_i32_internal ret arg False"

definition tcg_gen_mov_i32_concrete :: "TCGv \<Rightarrow> TCGv \<Rightarrow> ctx \<Rightarrow> ctx option" where
  "tcg_gen_mov_i32_concrete ret arg = tcg_gen_mov_i32_internal ret arg True"

definition tcg_gen_movi_i32 :: "TCGv \<Rightarrow> u32 \<Rightarrow> ctx \<Rightarrow> ctx option" where
  "tcg_gen_movi_i32 ret arg s = do {
     (zero, s) \<leftarrow> tcg_constant_i64 0 s;
     er \<leftarrow> tcgv_i32_expr ret s;
     s \<leftarrow> tcg_gen_op2_v (op_rr INDEX_op_mov I64) er zero s;
     (c, s) \<leftarrow> tcg_constant_i32 arg s;
     tcg_gen_op2_v (op_rr INDEX_op_mov I32) ret c s }"

definition tcg_gen_add_i32 :: "TCGv \<Rightarrow> TCGv \<Rightarrow> TCGv \<Rightarrow> ctx \<Rightarrow> ctx option" where
  "tcg_gen_add_i32 ret arg1 arg2 s = do {
     s \<leftarrow> SYM_HELPER_BINARY_32 sym_add ret arg1 arg2 s;
     tcg_gen_op3_v (op_rrr INDEX_op_add I32) ret arg1 arg2 s }"

definition tcg_gen_addi_i32 :: "TCGv \<Rightarrow> TCGv \<Rightarrow> u32 \<Rightarrow> ctx \<Rightarrow> ctx option" where
  "tcg_gen_addi_i32 ret arg1 arg2 s =
     (if arg2 = 0 then tcg_gen_mov_i32 ret arg1 s
      else do { (c, s) \<leftarrow> tcg_constant_i32 arg2 s; tcg_gen_add_i32 ret arg1 c s })"

definition tcg_gen_sub_i32 :: "TCGv \<Rightarrow> TCGv \<Rightarrow> TCGv \<Rightarrow> ctx \<Rightarrow> ctx option" where
  "tcg_gen_sub_i32 ret arg1 arg2 s = do {
     s \<leftarrow> SYM_HELPER_BINARY_32 sym_sub ret arg1 arg2 s;
     tcg_gen_op3_v (op_rrr INDEX_op_sub I32) ret arg1 arg2 s }"

definition tcg_gen_neg_i32 :: "TCGv \<Rightarrow> TCGv \<Rightarrow> ctx \<Rightarrow> ctx option" where
  "tcg_gen_neg_i32 ret arg s = do {
     s \<leftarrow> gen_helper_sym_unary unary_neg ret arg s;
     tcg_gen_op2_v (op_rr INDEX_op_neg I32) ret arg s }"

definition tcg_gen_subfi_i32 :: "TCGv \<Rightarrow> u32 \<Rightarrow> TCGv \<Rightarrow> ctx \<Rightarrow> ctx option" where
  "tcg_gen_subfi_i32 ret arg1 arg2 s =
     (if arg1 = 0 then tcg_gen_neg_i32 ret arg2 s
      else do { (c, s) \<leftarrow> tcg_constant_i32 arg1 s; tcg_gen_sub_i32 ret c arg2 s })"

definition tcg_gen_subi_i32 :: "TCGv \<Rightarrow> TCGv \<Rightarrow> u32 \<Rightarrow> ctx \<Rightarrow> ctx option" where
  "tcg_gen_subi_i32 ret arg1 arg2 = tcg_gen_addi_i32 ret arg1 (- arg2)"

subsection \<open>Logic\<close>

definition tcg_gen_and_i32 :: "TCGv \<Rightarrow> TCGv \<Rightarrow> TCGv \<Rightarrow> ctx \<Rightarrow> ctx option" where
  "tcg_gen_and_i32 ret arg1 arg2 s = do {
     s \<leftarrow> SYM_HELPER_BINARY_32 sym_and ret arg1 arg2 s;
     tcg_gen_op3_v (op_rrr INDEX_op_and I32) ret arg1 arg2 s }"

text \<open>\<open>andi\<close> uses the zero extensions only where the host has them, and they use \<open>andi\<close> only where it has
  not.\<close>

function tcg_gen_andi_i32 :: "tcg_host \<Rightarrow> TCGv \<Rightarrow> TCGv \<Rightarrow> u32 \<Rightarrow> ctx \<Rightarrow> ctx option"
  and tcg_gen_ext8u_i32 :: "tcg_host \<Rightarrow> TCGv \<Rightarrow> TCGv \<Rightarrow> ctx \<Rightarrow> ctx option"
  and tcg_gen_ext16u_i32 :: "tcg_host \<Rightarrow> TCGv \<Rightarrow> TCGv \<Rightarrow> ctx \<Rightarrow> ctx option" where
  "tcg_gen_andi_i32 H ret arg1 arg2 s =
     (if arg2 = 0 then tcg_gen_movi_i32 ret 0 s
      else if arg2 = - 1 then tcg_gen_mov_i32 ret arg1 s
      else if arg2 = 0xff \<and> HAS_ext8u H I32 then tcg_gen_ext8u_i32 H ret arg1 s
      else if arg2 = 0xffff \<and> HAS_ext16u H I32 then tcg_gen_ext16u_i32 H ret arg1 s
      else do { (c, s) \<leftarrow> tcg_constant_i32 arg2 s; tcg_gen_and_i32 ret arg1 c s })"
| "tcg_gen_ext8u_i32 H ret arg s =
     (if HAS_ext8u H I32 then do {
        s \<leftarrow> gen_helper_sym_length length_zext ret arg 1 s;
        tcg_gen_op2_v (op_rr INDEX_op_ext8u I32) ret arg s }
      else tcg_gen_andi_i32 H ret arg 0xff s)"
| "tcg_gen_ext16u_i32 H ret arg s =
     (if HAS_ext16u H I32 then do {
        s \<leftarrow> gen_helper_sym_length length_zext ret arg 2 s;
        tcg_gen_op2_v (op_rr INDEX_op_ext16u I32) ret arg s }
      else tcg_gen_andi_i32 H ret arg 0xffff s)"
  by pat_completeness auto
termination
  by (relation "measure (\<lambda>x. case x of Inl _ \<Rightarrow> 1
        | Inr (Inl (H, _)) \<Rightarrow> if HAS_ext8u H I32 then 0 else 2
        | Inr (Inr (H, _)) \<Rightarrow> if HAS_ext16u H I32 then 0 else 2)") auto

definition tcg_gen_or_i32 :: "TCGv \<Rightarrow> TCGv \<Rightarrow> TCGv \<Rightarrow> ctx \<Rightarrow> ctx option" where
  "tcg_gen_or_i32 ret arg1 arg2 s = do {
     s \<leftarrow> SYM_HELPER_BINARY_32 sym_or ret arg1 arg2 s;
     tcg_gen_op3_v (op_rrr INDEX_op_or I32) ret arg1 arg2 s }"

definition tcg_gen_ori_i32 :: "TCGv \<Rightarrow> TCGv \<Rightarrow> u32 \<Rightarrow> ctx \<Rightarrow> ctx option" where
  "tcg_gen_ori_i32 ret arg1 arg2 s =
     (if arg2 = - 1 then tcg_gen_movi_i32 ret (- 1) s
      else if arg2 = 0 then tcg_gen_mov_i32 ret arg1 s
      else do { (c, s) \<leftarrow> tcg_constant_i32 arg2 s; tcg_gen_or_i32 ret arg1 c s })"

definition tcg_gen_xor_i32 :: "TCGv \<Rightarrow> TCGv \<Rightarrow> TCGv \<Rightarrow> ctx \<Rightarrow> ctx option" where
  "tcg_gen_xor_i32 ret arg1 arg2 s = do {
     s \<leftarrow> SYM_HELPER_BINARY_32 sym_xor ret arg1 arg2 s;
     tcg_gen_op3_v (op_rrr INDEX_op_xor I32) ret arg1 arg2 s }"

definition tcg_gen_xori_i32 :: "tcg_host \<Rightarrow> TCGv \<Rightarrow> TCGv \<Rightarrow> u32 \<Rightarrow> ctx \<Rightarrow> ctx option" where
  "tcg_gen_xori_i32 H ret arg1 arg2 s =
     (if arg2 = 0 then tcg_gen_mov_i32 ret arg1 s
      else if arg2 = - 1 \<and> HAS_not H I32 then do {
        s \<leftarrow> gen_helper_sym_unary unary_not ret arg1 s;
        tcg_gen_op2_v (op_rr INDEX_op_not I32) ret arg1 s }
      else do { (c, s) \<leftarrow> tcg_constant_i32 arg2 s; tcg_gen_xor_i32 ret arg1 c s })"

definition tcg_gen_not_i32 :: "tcg_host \<Rightarrow> TCGv \<Rightarrow> TCGv \<Rightarrow> ctx \<Rightarrow> ctx option" where
  "tcg_gen_not_i32 H ret arg s =
     (if HAS_not H I32 then do {
        s \<leftarrow> gen_helper_sym_unary unary_not ret arg s;
        tcg_gen_op2_v (op_rr INDEX_op_not I32) ret arg s }
      else tcg_gen_xori_i32 H ret arg (- 1) s)"

subsection \<open>Shifts\<close>

definition tcg_gen_shl_i32 :: "TCGv \<Rightarrow> TCGv \<Rightarrow> TCGv \<Rightarrow> ctx \<Rightarrow> ctx option" where
  "tcg_gen_shl_i32 ret arg1 arg2 s = do {
     s \<leftarrow> SYM_HELPER_BINARY_32 sym_shift_left ret arg1 arg2 s;
     tcg_gen_op3_v (op_rrr INDEX_op_shl I32) ret arg1 arg2 s }"

definition tcg_gen_shli_i32 :: "TCGv \<Rightarrow> TCGv \<Rightarrow> u32 \<Rightarrow> ctx \<Rightarrow> ctx option" where
  "tcg_gen_shli_i32 ret arg1 arg2 s = do {
     c_assert (sint arg2 \<ge> 0 \<and> sint arg2 < 32);
     if arg2 = 0 then tcg_gen_mov_i32 ret arg1 s
     else do { (c, s) \<leftarrow> tcg_constant_i32 arg2 s; tcg_gen_shl_i32 ret arg1 c s } }"

definition tcg_gen_shr_i32 :: "TCGv \<Rightarrow> TCGv \<Rightarrow> TCGv \<Rightarrow> ctx \<Rightarrow> ctx option" where
  "tcg_gen_shr_i32 ret arg1 arg2 s = do {
     s \<leftarrow> SYM_HELPER_BINARY_32 sym_shift_right ret arg1 arg2 s;
     tcg_gen_op3_v (op_rrr INDEX_op_shr I32) ret arg1 arg2 s }"

definition tcg_gen_shri_i32 :: "TCGv \<Rightarrow> TCGv \<Rightarrow> u32 \<Rightarrow> ctx \<Rightarrow> ctx option" where
  "tcg_gen_shri_i32 ret arg1 arg2 s = do {
     c_assert (sint arg2 \<ge> 0 \<and> sint arg2 < 32);
     if arg2 = 0 then tcg_gen_mov_i32 ret arg1 s
     else do { (c, s) \<leftarrow> tcg_constant_i32 arg2 s; tcg_gen_shr_i32 ret arg1 c s } }"

definition tcg_gen_sar_i32 :: "TCGv \<Rightarrow> TCGv \<Rightarrow> TCGv \<Rightarrow> ctx \<Rightarrow> ctx option" where
  "tcg_gen_sar_i32 ret arg1 arg2 s = do {
     s \<leftarrow> SYM_HELPER_BINARY_32 sym_arithmetic_shift_right ret arg1 arg2 s;
     tcg_gen_op3_v (op_rrr INDEX_op_sar I32) ret arg1 arg2 s }"

definition tcg_gen_sari_i32 :: "TCGv \<Rightarrow> TCGv \<Rightarrow> u32 \<Rightarrow> ctx \<Rightarrow> ctx option" where
  "tcg_gen_sari_i32 ret arg1 arg2 s = do {
     c_assert (sint arg2 \<ge> 0 \<and> sint arg2 < 32);
     if arg2 = 0 then tcg_gen_mov_i32 ret arg1 s
     else do { (c, s) \<leftarrow> tcg_constant_i32 arg2 s; tcg_gen_sar_i32 ret arg1 c s } }"

subsection \<open>Conditions\<close>

definition tcg_gen_setcond_i32 :: "TCGCond \<Rightarrow> TCGv \<Rightarrow> TCGv \<Rightarrow> TCGv \<Rightarrow> ctx \<Rightarrow> ctx option" where
  "tcg_gen_setcond_i32 cond ret arg1 arg2 s =
     (if cond = TCG_COND_ALWAYS then tcg_gen_movi_i32 ret 1 s
      else if cond = TCG_COND_NEVER then tcg_gen_movi_i32 ret 0 s
      else do {
        s \<leftarrow> tcg_gen_op4i_v (INDEX_op_setcond I32) ret arg1 arg2 (ucast cond) s;
        (c, s) \<leftarrow> tcg_constant_i32 cond s;
        er \<leftarrow> tcgv_i32_expr ret s; e1 \<leftarrow> tcgv_i32_expr arg1 s; e2 \<leftarrow> tcgv_i32_expr arg2 s;
        tcg_gen_callN (helper_sym_setcond I32) (Some er) [tcg_env, arg1, e1, arg2, e2, c, ret] s })"

definition tcg_gen_setcondi_i32 :: "TCGCond \<Rightarrow> TCGv \<Rightarrow> TCGv \<Rightarrow> u32 \<Rightarrow> ctx \<Rightarrow> ctx option" where
  "tcg_gen_setcondi_i32 cond ret arg1 arg2 s = do {
     (c, s) \<leftarrow> tcg_constant_i32 arg2 s; tcg_gen_setcond_i32 cond ret arg1 c s }"

definition tcg_gen_brcond_i32 :: "TCGCond \<Rightarrow> TCGv \<Rightarrow> TCGv \<Rightarrow> nat \<Rightarrow> ctx \<Rightarrow> ctx option" where
  "tcg_gen_brcond_i32 cond arg1 arg2 l s =
     (if cond = TCG_COND_ALWAYS then tcg_gen_br l s
      else if cond \<noteq> TCG_COND_NEVER then do {
        (cond_result_temp, s) \<leftarrow> tcg_temp_new_i32 s;
        s \<leftarrow> tcg_gen_setcond_i32 cond cond_result_temp arg1 arg2 s;
        s \<leftarrow> tcg_temp_free_i32 cond_result_temp s;
        s \<leftarrow> tcg_gen_op4ii_v (INDEX_op_brcond I32) arg1 arg2 (ucast cond) (of_nat l) s;
        Some (add_last_as_label_use l s) }
      else Some s)"

definition tcg_gen_brcondi_i32 :: "TCGCond \<Rightarrow> TCGv \<Rightarrow> u32 \<Rightarrow> nat \<Rightarrow> ctx \<Rightarrow> ctx option" where
  "tcg_gen_brcondi_i32 cond arg1 arg2 l s =
     (if cond = TCG_COND_ALWAYS then tcg_gen_br l s
      else if cond \<noteq> TCG_COND_NEVER then do {
        (c, s) \<leftarrow> tcg_constant_i32 arg2 s; tcg_gen_brcond_i32 cond arg1 c l s }
      else Some s)"

definition tcg_gen_negsetcond_i32 :: "tcg_host \<Rightarrow> TCGCond \<Rightarrow> TCGv \<Rightarrow> TCGv \<Rightarrow> TCGv \<Rightarrow> ctx \<Rightarrow> ctx option" where
  "tcg_gen_negsetcond_i32 H cond ret arg1 arg2 s =
     (if cond = TCG_COND_ALWAYS then tcg_gen_movi_i32 ret (- 1) s
      else if cond = TCG_COND_NEVER then tcg_gen_movi_i32 ret 0 s
      else if HAS_negsetcond H I32 then
        tcg_gen_op4i_v (INDEX_op_negsetcond I32) ret arg1 arg2 (ucast cond) s
      else do {
        s \<leftarrow> tcg_gen_setcond_i32 cond ret arg1 arg2 s;
        tcg_gen_neg_i32 ret ret s })"

definition tcg_gen_negsetcondi_i32 :: "tcg_host \<Rightarrow> TCGCond \<Rightarrow> TCGv \<Rightarrow> TCGv \<Rightarrow> u32 \<Rightarrow> ctx \<Rightarrow> ctx option" where
  "tcg_gen_negsetcondi_i32 H cond ret arg1 arg2 s = do {
     (c, s) \<leftarrow> tcg_constant_i32 arg2 s; tcg_gen_negsetcond_i32 H cond ret arg1 c s }"

definition tcg_gen_movcond_i32 ::
  "TCGCond \<Rightarrow> TCGv \<Rightarrow> TCGv \<Rightarrow> TCGv \<Rightarrow> TCGv \<Rightarrow> TCGv \<Rightarrow> ctx \<Rightarrow> ctx option" where
  "tcg_gen_movcond_i32 cond ret c1 c2 v1 v2 s =
     (if cond = TCG_COND_ALWAYS then tcg_gen_mov_i32 ret v1 s
      else if cond = TCG_COND_NEVER then tcg_gen_mov_i32 ret v2 s
      else do {
        (cond_result_temp, s) \<leftarrow> tcg_temp_new_i32 s;
        s \<leftarrow> tcg_gen_setcond_i32 cond cond_result_temp c1 c2 s;
        s \<leftarrow> tcg_temp_free_i32 cond_result_temp s;
        (c1_tmp, s) \<leftarrow> tcg_temp_new_i64 s;
        (c2_tmp, s) \<leftarrow> tcg_temp_new_i64 s;
        s \<leftarrow> tcg_gen_op2_v (op_rr INDEX_op_extu_i32 I64) c1_tmp c1 s;
        s \<leftarrow> tcg_gen_op2_v (op_rr INDEX_op_extu_i32 I64) c2_tmp c2 s;
        er \<leftarrow> tcgv_i32_expr ret s; f1 \<leftarrow> tcgv_i32_expr v1 s; f2 \<leftarrow> tcgv_i32_expr v2 s;
        s \<leftarrow> tcg_gen_op6i_v (INDEX_op_movcond I64) er c1_tmp c2_tmp f1 f2 (ucast cond) s;
        s \<leftarrow> tcg_temp_free_i64 c1_tmp s;
        s \<leftarrow> tcg_temp_free_i64 c2_tmp s;
        (c, s) \<leftarrow> tcg_constant_i32 cond s;
        e1 \<leftarrow> tcgv_i32_expr c1 s; e2 \<leftarrow> tcgv_i32_expr c2 s;
        s \<leftarrow> tcg_gen_callN (helper_sym_movcond I32) (Some er) [tcg_env, c1, e1, c2, e2, v1, f1, v2, f2, c, ret] s;
        tcg_gen_op6i_v (INDEX_op_movcond I32) ret c1 c2 v1 v2 (ucast cond) s })"

definition tcg_gen_smin_i32 :: "TCGv \<Rightarrow> TCGv \<Rightarrow> TCGv \<Rightarrow> ctx \<Rightarrow> ctx option" where
  "tcg_gen_smin_i32 ret a b = tcg_gen_movcond_i32 TCG_COND_LT ret a b a b"

definition tcg_gen_umin_i32 :: "TCGv \<Rightarrow> TCGv \<Rightarrow> TCGv \<Rightarrow> ctx \<Rightarrow> ctx option" where
  "tcg_gen_umin_i32 ret a b = tcg_gen_movcond_i32 TCG_COND_LTU ret a b a b"

definition tcg_gen_smax_i32 :: "TCGv \<Rightarrow> TCGv \<Rightarrow> TCGv \<Rightarrow> ctx \<Rightarrow> ctx option" where
  "tcg_gen_smax_i32 ret a b = tcg_gen_movcond_i32 TCG_COND_LT ret a b b a"

definition tcg_gen_umax_i32 :: "TCGv \<Rightarrow> TCGv \<Rightarrow> TCGv \<Rightarrow> ctx \<Rightarrow> ctx option" where
  "tcg_gen_umax_i32 ret a b = tcg_gen_movcond_i32 TCG_COND_LTU ret a b b a"

subsection \<open>Multiplication and division\<close>

definition tcg_gen_mul_i32 :: "TCGv \<Rightarrow> TCGv \<Rightarrow> TCGv \<Rightarrow> ctx \<Rightarrow> ctx option" where
  "tcg_gen_mul_i32 ret arg1 arg2 s = do {
     s \<leftarrow> SYM_HELPER_BINARY_32 sym_mul ret arg1 arg2 s;
     tcg_gen_op3_v (op_rrr INDEX_op_mul I32) ret arg1 arg2 s }"

definition tcg_gen_muli_i32 :: "TCGv \<Rightarrow> TCGv \<Rightarrow> u32 \<Rightarrow> ctx \<Rightarrow> ctx option" where
  "tcg_gen_muli_i32 ret arg1 arg2 s =
     (if arg2 = 0 then tcg_gen_movi_i32 ret 0 s
      else if is_power_of_2 (scast arg2) then tcg_gen_shli_i32 ret arg1 (of_nat (ctz32 arg2)) s
      else do { (c, s) \<leftarrow> tcg_constant_i32 arg2 s; tcg_gen_mul_i32 ret arg1 c s })"

definition tcg_gen_div_i32 :: "tcg_host \<Rightarrow> TCGv \<Rightarrow> TCGv \<Rightarrow> TCGv \<Rightarrow> ctx \<Rightarrow> ctx option" where
  "tcg_gen_div_i32 H ret arg1 arg2 s = do {
     s \<leftarrow> (if HAS_div H I32 then tcg_gen_op3_v (op_rrr INDEX_op_div I32) ret arg1 arg2 s
       else if HAS_div2 H I32 then do {
         (t0, s) \<leftarrow> tcg_temp_ebb_new_i32 s;
         s \<leftarrow> tcg_gen_sari_i32 t0 arg1 31 s;
         s \<leftarrow> tcg_gen_op5_v (INDEX_op_div2 I32) ret t0 arg1 t0 arg2 s;
         tcg_temp_free_i32 t0 s }
       else tcg_gen_callN (helper_i32 helper_div_i32) (Some ret) [arg1, arg2] s);
     SYM_HELPER_BINARY_32 sym_div ret arg1 arg2 s }"

definition tcg_gen_rem_i32 :: "tcg_host \<Rightarrow> TCGv \<Rightarrow> TCGv \<Rightarrow> TCGv \<Rightarrow> ctx \<Rightarrow> ctx option" where
  "tcg_gen_rem_i32 H ret arg1 arg2 s = do {
     s \<leftarrow> (if HAS_rem H I32 then tcg_gen_op3_v (op_rrr INDEX_op_rem I32) ret arg1 arg2 s
       else if HAS_div H I32 then do {
         (t0, s) \<leftarrow> tcg_temp_ebb_new_i32 s;
         s \<leftarrow> tcg_gen_op3_v (op_rrr INDEX_op_div I32) t0 arg1 arg2 s;
         s \<leftarrow> tcg_gen_mul_i32 t0 t0 arg2 s;
         s \<leftarrow> tcg_gen_sub_i32 ret arg1 t0 s;
         tcg_temp_free_i32 t0 s }
       else if HAS_div2 H I32 then do {
         (t0, s) \<leftarrow> tcg_temp_ebb_new_i32 s;
         s \<leftarrow> tcg_gen_sari_i32 t0 arg1 31 s;
         s \<leftarrow> tcg_gen_op5_v (INDEX_op_div2 I32) t0 ret arg1 t0 arg2 s;
         tcg_temp_free_i32 t0 s }
       else tcg_gen_callN (helper_i32 helper_rem_i32) (Some ret) [arg1, arg2] s);
     SYM_HELPER_BINARY_32 sym_rem ret arg1 arg2 s }"

definition tcg_gen_divu_i32 :: "tcg_host \<Rightarrow> TCGv \<Rightarrow> TCGv \<Rightarrow> TCGv \<Rightarrow> ctx \<Rightarrow> ctx option" where
  "tcg_gen_divu_i32 H ret arg1 arg2 s = do {
     s \<leftarrow> (if HAS_div H I32 then tcg_gen_op3_v (op_rrr INDEX_op_divu I32) ret arg1 arg2 s
       else if HAS_div2 H I32 then do {
         (t0, s) \<leftarrow> tcg_temp_ebb_new_i32 s;
         (zero, s) \<leftarrow> tcg_constant_i32 0 s;
         s \<leftarrow> tcg_gen_op5_v (INDEX_op_divu2 I32) ret t0 arg1 zero arg2 s;
         tcg_temp_free_i32 t0 s }
       else tcg_gen_callN (helper_i32 helper_divu_i32) (Some ret) [arg1, arg2] s);
     SYM_HELPER_BINARY_32 sym_divu ret arg1 arg2 s }"

definition tcg_gen_remu_i32 :: "tcg_host \<Rightarrow> TCGv \<Rightarrow> TCGv \<Rightarrow> TCGv \<Rightarrow> ctx \<Rightarrow> ctx option" where
  "tcg_gen_remu_i32 H ret arg1 arg2 s = do {
     s \<leftarrow> (if HAS_rem H I32 then tcg_gen_op3_v (op_rrr INDEX_op_remu I32) ret arg1 arg2 s
       else if HAS_div H I32 then do {
         (t0, s) \<leftarrow> tcg_temp_ebb_new_i32 s;
         s \<leftarrow> tcg_gen_op3_v (op_rrr INDEX_op_divu I32) t0 arg1 arg2 s;
         s \<leftarrow> tcg_gen_mul_i32 t0 t0 arg2 s;
         s \<leftarrow> tcg_gen_sub_i32 ret arg1 t0 s;
         tcg_temp_free_i32 t0 s }
       else if HAS_div2 H I32 then do {
         (t0, s) \<leftarrow> tcg_temp_ebb_new_i32 s;
         (zero, s) \<leftarrow> tcg_constant_i32 0 s;
         s \<leftarrow> tcg_gen_op5_v (INDEX_op_divu2 I32) t0 ret arg1 zero arg2 s;
         tcg_temp_free_i32 t0 s }
       else tcg_gen_callN (helper_i32 helper_remu_i32) (Some ret) [arg1, arg2] s);
     SYM_HELPER_BINARY_32 sym_remu ret arg1 arg2 s }"

subsection \<open>Compound logic\<close>

definition tcg_gen_andc_i32 :: "tcg_host \<Rightarrow> TCGv \<Rightarrow> TCGv \<Rightarrow> TCGv \<Rightarrow> ctx \<Rightarrow> ctx option" where
  "tcg_gen_andc_i32 H ret arg1 arg2 s = do {
     s \<leftarrow> (if HAS_andc H I32 then tcg_gen_op3_v (op_rrr INDEX_op_andc I32) ret arg1 arg2 s
       else do {
         (t0, s) \<leftarrow> tcg_temp_ebb_new_i32 s;
         s \<leftarrow> tcg_gen_not_i32 H t0 arg2 s;
         s \<leftarrow> tcg_gen_and_i32 ret arg1 t0 s;
         tcg_temp_free_i32 t0 s });
     SYM_HELPER_BINARY_32 sym_andc ret arg1 arg2 s }"

definition tcg_gen_eqv_i32 :: "tcg_host \<Rightarrow> TCGv \<Rightarrow> TCGv \<Rightarrow> TCGv \<Rightarrow> ctx \<Rightarrow> ctx option" where
  "tcg_gen_eqv_i32 H ret arg1 arg2 s = do {
     s \<leftarrow> (if HAS_eqv H I32 then tcg_gen_op3_v (op_rrr INDEX_op_eqv I32) ret arg1 arg2 s
       else do {
         s \<leftarrow> tcg_gen_xor_i32 ret arg1 arg2 s;
         tcg_gen_not_i32 H ret ret s });
     SYM_HELPER_BINARY_32 sym_eqv ret arg1 arg2 s }"

definition tcg_gen_nand_i32 :: "tcg_host \<Rightarrow> TCGv \<Rightarrow> TCGv \<Rightarrow> TCGv \<Rightarrow> ctx \<Rightarrow> ctx option" where
  "tcg_gen_nand_i32 H ret arg1 arg2 s = do {
     s \<leftarrow> (if HAS_nand H I32 then tcg_gen_op3_v (op_rrr INDEX_op_nand I32) ret arg1 arg2 s
       else do {
         s \<leftarrow> tcg_gen_and_i32 ret arg1 arg2 s;
         tcg_gen_not_i32 H ret ret s });
     SYM_HELPER_BINARY_32 sym_nand ret arg1 arg2 s }"

definition tcg_gen_nor_i32 :: "tcg_host \<Rightarrow> TCGv \<Rightarrow> TCGv \<Rightarrow> TCGv \<Rightarrow> ctx \<Rightarrow> ctx option" where
  "tcg_gen_nor_i32 H ret arg1 arg2 s = do {
     s \<leftarrow> (if HAS_nor H I32 then tcg_gen_op3_v (op_rrr INDEX_op_nor I32) ret arg1 arg2 s
       else do {
         s \<leftarrow> tcg_gen_or_i32 ret arg1 arg2 s;
         tcg_gen_not_i32 H ret ret s });
     SYM_HELPER_BINARY_32 sym_nor ret arg1 arg2 s }"

definition tcg_gen_orc_i32 :: "tcg_host \<Rightarrow> TCGv \<Rightarrow> TCGv \<Rightarrow> TCGv \<Rightarrow> ctx \<Rightarrow> ctx option" where
  "tcg_gen_orc_i32 H ret arg1 arg2 s = do {
     s \<leftarrow> (if HAS_orc H I32 then tcg_gen_op3_v (op_rrr INDEX_op_orc I32) ret arg1 arg2 s
       else do {
         (t0, s) \<leftarrow> tcg_temp_ebb_new_i32 s;
         s \<leftarrow> tcg_gen_not_i32 H t0 arg2 s;
         s \<leftarrow> tcg_gen_or_i32 ret arg1 t0 s;
         tcg_temp_free_i32 t0 s });
     SYM_HELPER_BINARY_32 sym_orc ret arg1 arg2 s }"

subsection \<open>Rotations\<close>

definition tcg_gen_rotl_i32 :: "tcg_host \<Rightarrow> TCGv \<Rightarrow> TCGv \<Rightarrow> TCGv \<Rightarrow> ctx \<Rightarrow> ctx option" where
  "tcg_gen_rotl_i32 H ret arg1 arg2 s =
     (if HAS_rot H I32 then do {
        s \<leftarrow> SYM_HELPER_BINARY_32 sym_rotate_left ret arg1 arg2 s;
        tcg_gen_op3_v (op_rrr INDEX_op_rotl I32) ret arg1 arg2 s }
      else do {
        (t0, s) \<leftarrow> tcg_temp_ebb_new_i32 s;
        (t1, s) \<leftarrow> tcg_temp_ebb_new_i32 s;
        s \<leftarrow> tcg_gen_shl_i32 t0 arg1 arg2 s;
        s \<leftarrow> tcg_gen_subfi_i32 t1 32 arg2 s;
        s \<leftarrow> tcg_gen_shr_i32 t1 arg1 t1 s;
        s \<leftarrow> tcg_gen_or_i32 ret t0 t1 s;
        s \<leftarrow> tcg_temp_free_i32 t0 s;
        tcg_temp_free_i32 t1 s })"

definition tcg_gen_rotli_i32 :: "tcg_host \<Rightarrow> TCGv \<Rightarrow> TCGv \<Rightarrow> u32 \<Rightarrow> ctx \<Rightarrow> ctx option" where
  "tcg_gen_rotli_i32 H ret arg1 arg2 s = do {
     c_assert (sint arg2 \<ge> 0 \<and> sint arg2 < 32);
     if arg2 = 0 then tcg_gen_mov_i32 ret arg1 s
     else if HAS_rot H I32 then do { (c, s) \<leftarrow> tcg_constant_i32 arg2 s; tcg_gen_rotl_i32 H ret arg1 c s }
     else do {
       (t0, s) \<leftarrow> tcg_temp_ebb_new_i32 s;
       (t1, s) \<leftarrow> tcg_temp_ebb_new_i32 s;
       s \<leftarrow> tcg_gen_shli_i32 t0 arg1 arg2 s;
       s \<leftarrow> tcg_gen_shri_i32 t1 arg1 (32 - arg2) s;
       s \<leftarrow> tcg_gen_or_i32 ret t0 t1 s;
       s \<leftarrow> tcg_temp_free_i32 t0 s;
       tcg_temp_free_i32 t1 s } }"

definition tcg_gen_rotr_i32 :: "tcg_host \<Rightarrow> TCGv \<Rightarrow> TCGv \<Rightarrow> TCGv \<Rightarrow> ctx \<Rightarrow> ctx option" where
  "tcg_gen_rotr_i32 H ret arg1 arg2 s =
     (if HAS_rot H I32 then do {
        s \<leftarrow> SYM_HELPER_BINARY_32 sym_rotate_right ret arg1 arg2 s;
        tcg_gen_op3_v (op_rrr INDEX_op_rotr I32) ret arg1 arg2 s }
      else do {
        (t0, s) \<leftarrow> tcg_temp_ebb_new_i32 s;
        (t1, s) \<leftarrow> tcg_temp_ebb_new_i32 s;
        s \<leftarrow> tcg_gen_shr_i32 t0 arg1 arg2 s;
        s \<leftarrow> tcg_gen_subfi_i32 t1 32 arg2 s;
        s \<leftarrow> tcg_gen_shl_i32 t1 arg1 t1 s;
        s \<leftarrow> tcg_gen_or_i32 ret t0 t1 s;
        s \<leftarrow> tcg_temp_free_i32 t0 s;
        tcg_temp_free_i32 t1 s })"

definition tcg_gen_rotri_i32 :: "tcg_host \<Rightarrow> TCGv \<Rightarrow> TCGv \<Rightarrow> u32 \<Rightarrow> ctx \<Rightarrow> ctx option" where
  "tcg_gen_rotri_i32 H ret arg1 arg2 s = do {
     c_assert (sint arg2 \<ge> 0 \<and> sint arg2 < 32);
     if arg2 = 0 then tcg_gen_mov_i32 ret arg1 s
     else tcg_gen_rotli_i32 H ret arg1 (32 - arg2) s }"

subsection \<open>Sign extensions\<close>

definition tcg_gen_ext8s_i32 :: "tcg_host \<Rightarrow> TCGv \<Rightarrow> TCGv \<Rightarrow> ctx \<Rightarrow> ctx option" where
  "tcg_gen_ext8s_i32 H ret arg s =
     (if HAS_ext8s H I32 then do {
        s \<leftarrow> gen_helper_sym_length length_sext ret arg 1 s;
        tcg_gen_op2_v (op_rr INDEX_op_ext8s I32) ret arg s }
      else do {
        s \<leftarrow> tcg_gen_shli_i32 ret arg 24 s;
        tcg_gen_sari_i32 ret ret 24 s })"

definition tcg_gen_ext16s_i32 :: "tcg_host \<Rightarrow> TCGv \<Rightarrow> TCGv \<Rightarrow> ctx \<Rightarrow> ctx option" where
  "tcg_gen_ext16s_i32 H ret arg s =
     (if HAS_ext16s H I32 then do {
        s \<leftarrow> gen_helper_sym_length length_sext ret arg 2 s;
        tcg_gen_op2_v (op_rr INDEX_op_ext16s I32) ret arg s }
      else do {
        s \<leftarrow> tcg_gen_shli_i32 ret arg 16 s;
        tcg_gen_sari_i32 ret ret 16 s })"

subsection \<open>Bit fields\<close>

definition field_assert :: "u32 \<Rightarrow> u32 \<Rightarrow> u32 \<Rightarrow> unit option" where
  "field_assert w ofs len = do {
     c_assert (ofs < w); c_assert (len > 0); c_assert (len \<le> w); c_assert (ofs + len \<le> w) }"

text \<open>\<open>deposit\<close> uses \<open>extract2\<close> only where the host has it, and \<open>extract2\<close> uses \<open>deposit\<close> only where it has
  not.\<close>

function tcg_gen_deposit_i32 :: "tcg_host \<Rightarrow> TCGv \<Rightarrow> TCGv \<Rightarrow> TCGv \<Rightarrow> u32 \<Rightarrow> u32 \<Rightarrow> ctx \<Rightarrow> ctx option"
  and tcg_gen_extract2_i32 :: "tcg_host \<Rightarrow> TCGv \<Rightarrow> TCGv \<Rightarrow> TCGv \<Rightarrow> u32 \<Rightarrow> ctx \<Rightarrow> ctx option" where
  "tcg_gen_deposit_i32 H ret arg1 arg2 ofs len s = do {
     field_assert 32 ofs len;
     if len = 32 then tcg_gen_mov_i32 ret arg2 s
     else if HAS_deposit H I32 \<and> deposit_valid H I32 ofs len then do {
       (k, s) \<leftarrow> tcg_constant_i32 ofs s;
       (n, s) \<leftarrow> tcg_constant_i32 len s;
       er \<leftarrow> tcgv_i32_expr ret s; e1 \<leftarrow> tcgv_i32_expr arg1 s; e2 \<leftarrow> tcgv_i32_expr arg2 s;
       s \<leftarrow> tcg_gen_callN (helper_sym_deposit I32) (Some er) [arg1, e1, arg2, e2, k, n] s;
       tcg_gen_op5ii_v (INDEX_op_deposit I32) ret arg1 arg2 (ucast ofs) (ucast len) s }
     else do {
       (t1, s) \<leftarrow> tcg_temp_ebb_new_i32 s;
       s \<leftarrow> (if HAS_extract2 H I32 \<and> ofs + len = 32 then do {
           s \<leftarrow> tcg_gen_shli_i32 t1 arg1 len s;
           tcg_gen_extract2_i32 H ret t1 arg2 len s }
         else if HAS_extract2 H I32 \<and> ofs = 0 then do {
           s \<leftarrow> tcg_gen_extract2_i32 H ret arg1 arg2 len s;
           tcg_gen_rotli_i32 H ret ret len s }
         else do {
           let mask = push_bit (unat len) 1 - 1;
           s \<leftarrow> (if ofs + len < 32 then do {
               s \<leftarrow> tcg_gen_andi_i32 H t1 arg2 mask s;
               tcg_gen_shli_i32 t1 t1 ofs s }
             else tcg_gen_shli_i32 t1 arg2 ofs s);
           s \<leftarrow> tcg_gen_andi_i32 H ret arg1 (NOT (push_bit (unat ofs) mask)) s;
           tcg_gen_or_i32 ret ret t1 s });
       tcg_temp_free_i32 t1 s } }"
| "tcg_gen_extract2_i32 H ret al ah ofs s = do {
     c_assert (ofs \<le> 32);
     if ofs = 0 then tcg_gen_mov_i32 ret al s
     else if ofs = 32 then tcg_gen_mov_i32 ret ah s
     else if al = ah then tcg_gen_rotri_i32 H ret al ofs s
     else if HAS_extract2 H I32 then do {
       (ofs_tmp, s) \<leftarrow> tcg_constant_i64 (ucast ofs) s;
       er \<leftarrow> tcgv_i32_expr ret s; eh \<leftarrow> tcgv_i32_expr ah s; el \<leftarrow> tcgv_i32_expr al s;
       s \<leftarrow> tcg_gen_callN (helper_sym_extract2 I32) (Some er) [ah, eh, al, el, ofs_tmp] s;
       tcg_gen_op4i_v (INDEX_op_extract2 I32) ret al ah (ucast ofs) s }
     else do {
       (t0, s) \<leftarrow> tcg_temp_ebb_new_i32 s;
       s \<leftarrow> tcg_gen_shri_i32 t0 al ofs s;
       s \<leftarrow> tcg_gen_deposit_i32 H ret t0 ah (32 - ofs) ofs s;
       tcg_temp_free_i32 t0 s } }"
  by pat_completeness auto
termination
  by (relation "measure (\<lambda>x. case x of Inl (H, _) \<Rightarrow> if HAS_extract2 H I32 then 1 else 0
        | Inr (H, _) \<Rightarrow> if HAS_extract2 H I32 then 0 else 1)") auto

definition tcg_gen_deposit_z_i32 :: "tcg_host \<Rightarrow> TCGv \<Rightarrow> TCGv \<Rightarrow> u32 \<Rightarrow> u32 \<Rightarrow> ctx \<Rightarrow> ctx option" where
  "tcg_gen_deposit_z_i32 H ret arg ofs len s = do {
     field_assert 32 ofs len;
     if ofs + len = 32 then tcg_gen_shli_i32 ret arg ofs s
     else if ofs = 0 then tcg_gen_andi_i32 H ret arg (push_bit (unat len) 1 - 1) s
     else if HAS_deposit H I32 \<and> deposit_valid H I32 ofs len then do {
       (zero, s) \<leftarrow> tcg_constant_i32 0 s;
       (k, s) \<leftarrow> tcg_constant_i32 ofs s;
       (n, s) \<leftarrow> tcg_constant_i32 len s;
       er \<leftarrow> tcgv_i32_expr ret s; ez \<leftarrow> tcgv_i32_expr zero s; ea \<leftarrow> tcgv_i32_expr arg s;
       s \<leftarrow> tcg_gen_callN (helper_sym_deposit I32) (Some er) [zero, ez, arg, ea, k, n] s;
       tcg_gen_op5ii_v (INDEX_op_deposit I32) ret zero arg (ucast ofs) (ucast len) s }
     else if len = 16 \<and> HAS_ext16u H I32 then do {
       s \<leftarrow> tcg_gen_ext16u_i32 H ret arg s; tcg_gen_shli_i32 ret ret ofs s }
     else if len = 8 \<and> HAS_ext8u H I32 then do {
       s \<leftarrow> tcg_gen_ext8u_i32 H ret arg s; tcg_gen_shli_i32 ret ret ofs s }
     else if ofs + len = 16 \<and> HAS_ext16u H I32 then do {
       s \<leftarrow> tcg_gen_shli_i32 ret arg ofs s; tcg_gen_ext16u_i32 H ret ret s }
     else if ofs + len = 8 \<and> HAS_ext8u H I32 then do {
       s \<leftarrow> tcg_gen_shli_i32 ret arg ofs s; tcg_gen_ext8u_i32 H ret ret s }
     else do {
       s \<leftarrow> tcg_gen_andi_i32 H ret arg (push_bit (unat len) 1 - 1) s; tcg_gen_shli_i32 ret ret ofs s } }"

definition tcg_gen_extract_i32 :: "tcg_host \<Rightarrow> TCGv \<Rightarrow> TCGv \<Rightarrow> u32 \<Rightarrow> u32 \<Rightarrow> ctx \<Rightarrow> ctx option" where
  "tcg_gen_extract_i32 H ret arg ofs len s = do {
     field_assert 32 ofs len;
     if ofs + len = 32 then tcg_gen_shri_i32 ret arg (32 - len) s
     else if ofs = 0 then tcg_gen_andi_i32 H ret arg (push_bit (unat len) 1 - 1) s
     else if HAS_extract H I32 \<and> extract_valid H I32 ofs len then do {
       (k, s) \<leftarrow> tcg_constant_i32 ofs s;
       (n, s) \<leftarrow> tcg_constant_i32 len s;
       er \<leftarrow> tcgv_i32_expr ret s; ea \<leftarrow> tcgv_i32_expr arg s;
       s \<leftarrow> tcg_gen_callN (helper_sym_extract I32) (Some er) [ea, k, n] s;
       tcg_gen_op4ii_v (INDEX_op_extract I32) ret arg (ucast ofs) (ucast len) s }
     else if ofs + len = 16 \<and> HAS_ext16u H I32 then do {
       s \<leftarrow> tcg_gen_ext16u_i32 H ret arg s; tcg_gen_shri_i32 ret ret ofs s }
     else if ofs + len = 8 \<and> HAS_ext8u H I32 then do {
       s \<leftarrow> tcg_gen_ext8u_i32 H ret arg s; tcg_gen_shri_i32 ret ret ofs s }
     else if 1 \<le> len \<and> len \<le> 8 \<or> len = 16 then do {
       s \<leftarrow> tcg_gen_shri_i32 ret arg ofs s; tcg_gen_andi_i32 H ret ret (push_bit (unat len) 1 - 1) s }
     else do {
       s \<leftarrow> tcg_gen_shli_i32 ret arg (32 - len - ofs) s; tcg_gen_shri_i32 ret ret (32 - len) s } }"

definition tcg_gen_sextract_i32 :: "tcg_host \<Rightarrow> TCGv \<Rightarrow> TCGv \<Rightarrow> u32 \<Rightarrow> u32 \<Rightarrow> ctx \<Rightarrow> ctx option" where
  "tcg_gen_sextract_i32 H ret arg ofs len s = do {
     field_assert 32 ofs len;
     if ofs + len = 32 then tcg_gen_sari_i32 ret arg (32 - len) s
     else if ofs = 0 \<and> len = 16 then tcg_gen_ext16s_i32 H ret arg s
     else if ofs = 0 \<and> len = 8 then tcg_gen_ext8s_i32 H ret arg s
     else if HAS_sextract H I32 \<and> extract_valid H I32 ofs len then do {
       (k, s) \<leftarrow> tcg_constant_i32 ofs s;
       (n, s) \<leftarrow> tcg_constant_i32 len s;
       er \<leftarrow> tcgv_i32_expr ret s; ea \<leftarrow> tcgv_i32_expr arg s;
       s \<leftarrow> tcg_gen_callN (helper_sym_sextract I32) (Some er) [ea, k, n] s;
       tcg_gen_op4ii_v (INDEX_op_sextract I32) ret arg (ucast ofs) (ucast len) s }
     else if ofs + len = 16 \<and> HAS_ext16s H I32 then do {
       s \<leftarrow> tcg_gen_ext16s_i32 H ret arg s; tcg_gen_sari_i32 ret ret ofs s }
     else if ofs + len = 8 \<and> HAS_ext8s H I32 then do {
       s \<leftarrow> tcg_gen_ext8s_i32 H ret arg s; tcg_gen_sari_i32 ret ret ofs s }
     else if len = 16 \<and> HAS_ext16s H I32 then do {
       s \<leftarrow> tcg_gen_shri_i32 ret arg ofs s; tcg_gen_ext16s_i32 H ret ret s }
     else if len = 8 \<and> HAS_ext8s H I32 then do {
       s \<leftarrow> tcg_gen_shri_i32 ret arg ofs s; tcg_gen_ext8s_i32 H ret ret s }
     else do {
       s \<leftarrow> tcg_gen_shli_i32 ret arg (32 - len - ofs) s; tcg_gen_sari_i32 ret ret (32 - len) s } }"

subsection \<open>Byte swaps\<close>

definition tcg_gen_bswap16_i32 :: "tcg_host \<Rightarrow> TCGv \<Rightarrow> TCGv \<Rightarrow> u64 \<Rightarrow> ctx \<Rightarrow> ctx option" where
  "tcg_gen_bswap16_i32 H ret arg flags s = do {
     c_assert (flags AND TCG_BSWAP_OS = 0 \<or> flags AND TCG_BSWAP_OZ = 0);
     if HAS_bswap16 H I32 then do {
       s \<leftarrow> gen_helper_sym_length length_bswap ret arg 2 s;
       tcg_gen_op3i_v (op_bswap INDEX_op_bswap16 I32) ret arg flags s }
     else do {
       (t0, s) \<leftarrow> tcg_temp_ebb_new_i32 s;
       (t1, s) \<leftarrow> tcg_temp_ebb_new_i32 s;
       s \<leftarrow> tcg_gen_shri_i32 t0 arg 8 s;
       s \<leftarrow> (if flags AND TCG_BSWAP_IZ = 0 then tcg_gen_ext8u_i32 H t0 t0 s else Some s);
       s \<leftarrow> (if flags AND TCG_BSWAP_OS \<noteq> 0 then do {
           s \<leftarrow> tcg_gen_shli_i32 t1 arg 24 s; tcg_gen_sari_i32 t1 t1 16 s }
         else if flags AND TCG_BSWAP_OZ \<noteq> 0 then do {
           s \<leftarrow> tcg_gen_ext8u_i32 H t1 arg s; tcg_gen_shli_i32 t1 t1 8 s }
         else tcg_gen_shli_i32 t1 arg 8 s);
       s \<leftarrow> tcg_gen_or_i32 ret t0 t1 s;
       s \<leftarrow> tcg_temp_free_i32 t0 s;
       tcg_temp_free_i32 t1 s } }"

definition tcg_gen_bswap32_i32 :: "tcg_host \<Rightarrow> TCGv \<Rightarrow> TCGv \<Rightarrow> ctx \<Rightarrow> ctx option" where
  "tcg_gen_bswap32_i32 H ret arg s =
     (if HAS_bswap32 H I32 then do {
        s \<leftarrow> gen_helper_sym_length length_bswap ret arg 4 s;
        tcg_gen_op3i_v (op_bswap INDEX_op_bswap32 I32) ret arg 0 s }
      else do {
        (t0, s) \<leftarrow> tcg_temp_ebb_new_i32 s;
        (t1, s) \<leftarrow> tcg_temp_ebb_new_i32 s;
        (t2, s) \<leftarrow> tcg_constant_i32 0x00ff00ff s;
        s \<leftarrow> tcg_gen_shri_i32 t0 arg 8 s;
        s \<leftarrow> tcg_gen_and_i32 t1 arg t2 s;
        s \<leftarrow> tcg_gen_and_i32 t0 t0 t2 s;
        s \<leftarrow> tcg_gen_shli_i32 t1 t1 8 s;
        s \<leftarrow> tcg_gen_or_i32 ret t0 t1 s;
        s \<leftarrow> tcg_gen_shri_i32 t0 ret 16 s;
        s \<leftarrow> tcg_gen_shli_i32 t1 ret 16 s;
        s \<leftarrow> tcg_gen_or_i32 ret t0 t1 s;
        s \<leftarrow> tcg_temp_free_i32 t0 s;
        tcg_temp_free_i32 t1 s })"

definition tcg_gen_hswap_i32 :: "tcg_host \<Rightarrow> TCGv \<Rightarrow> TCGv \<Rightarrow> ctx \<Rightarrow> ctx option" where
  "tcg_gen_hswap_i32 H ret arg = tcg_gen_rotli_i32 H ret arg 16"

definition tcg_gen_abs_i32 :: "TCGv \<Rightarrow> TCGv \<Rightarrow> ctx \<Rightarrow> ctx option" where
  "tcg_gen_abs_i32 ret a s = do {
     (t, s) \<leftarrow> tcg_temp_ebb_new_i32 s;
     s \<leftarrow> tcg_gen_sari_i32 t a 31 s;
     s \<leftarrow> tcg_gen_xor_i32 ret a t s;
     s \<leftarrow> tcg_gen_sub_i32 ret ret t s;
     tcg_temp_free_i32 t s }"

subsection \<open>Loads and stores of host memory\<close>

definition tcg_gen_ld8u_i32 :: "TCGv \<Rightarrow> TCGv \<Rightarrow> u64 \<Rightarrow> ctx \<Rightarrow> ctx option" where
  "tcg_gen_ld8u_i32 ret arg2 offset = tcg_gen_ldst_op_i32 INDEX_op_ld8u ret arg2 offset"

definition tcg_gen_ld8s_i32 :: "TCGv \<Rightarrow> TCGv \<Rightarrow> u64 \<Rightarrow> ctx \<Rightarrow> ctx option" where
  "tcg_gen_ld8s_i32 ret arg2 offset = tcg_gen_ldst_op_i32 INDEX_op_ld8s ret arg2 offset"

definition tcg_gen_ld16u_i32 :: "TCGv \<Rightarrow> TCGv \<Rightarrow> u64 \<Rightarrow> ctx \<Rightarrow> ctx option" where
  "tcg_gen_ld16u_i32 ret arg2 offset = tcg_gen_ldst_op_i32 INDEX_op_ld16u ret arg2 offset"

definition tcg_gen_ld16s_i32 :: "TCGv \<Rightarrow> TCGv \<Rightarrow> u64 \<Rightarrow> ctx \<Rightarrow> ctx option" where
  "tcg_gen_ld16s_i32 ret arg2 offset = tcg_gen_ldst_op_i32 INDEX_op_ld16s ret arg2 offset"

definition tcg_gen_ld_i32 :: "TCGv \<Rightarrow> TCGv \<Rightarrow> u64 \<Rightarrow> ctx \<Rightarrow> ctx option" where
  "tcg_gen_ld_i32 ret arg2 offset = tcg_gen_ldst_op_i32 INDEX_op_ld ret arg2 offset"

definition tcg_gen_st8_i32 :: "TCGv \<Rightarrow> TCGv \<Rightarrow> u64 \<Rightarrow> ctx \<Rightarrow> ctx option" where
  "tcg_gen_st8_i32 arg1 arg2 offset = tcg_gen_ldst_op_i32 INDEX_op_st8 arg1 arg2 offset"

definition tcg_gen_st16_i32 :: "TCGv \<Rightarrow> TCGv \<Rightarrow> u64 \<Rightarrow> ctx \<Rightarrow> ctx option" where
  "tcg_gen_st16_i32 arg1 arg2 offset = tcg_gen_ldst_op_i32 INDEX_op_st16 arg1 arg2 offset"

definition tcg_gen_st_i32 :: "TCGv \<Rightarrow> TCGv \<Rightarrow> u64 \<Rightarrow> ctx \<Rightarrow> ctx option" where
  "tcg_gen_st_i32 arg1 arg2 offset = tcg_gen_ldst_op_i32 INDEX_op_st arg1 arg2 offset"

end
