(* ===== verification/Gen64.thy ===== *)
theory Gen64
  imports Gen32
begin

unbundle bit_operations_syntax

section \<open>Generators of 64-bit operations\<close>

text \<open>
  The functions \<open>tcg_gen_\<dots>_i64\<close> of \<open>tcg/tcg-op.c\<close> on a 64-bit host (\<open>TCG_TARGET_REG_BITS\<close> is 64, so the
  branches for 32-bit hosts are absent), the operations that change the size of a value, and the 32-bit
  operations that go through 64-bit temporaries.
\<close>

subsection \<open>Moves and accesses to host memory\<close>

definition tcg_gen_discard_i64 :: "TCGv \<Rightarrow> ctx \<Rightarrow> ctx option" where
  "tcg_gen_discard_i64 arg s = do {
     e \<leftarrow> tcgv_i64_expr arg s;
     s \<leftarrow> tcg_gen_op1_v INDEX_op_discard e s;
     tcg_gen_op1_v INDEX_op_discard arg s }"

definition tcg_gen_movi_i64 :: "TCGv \<Rightarrow> u64 \<Rightarrow> ctx \<Rightarrow> ctx option" where
  "tcg_gen_movi_i64 ret arg s = do { (c, s) \<leftarrow> tcg_constant_i64 arg s; tcg_gen_mov_i64 ret c s }"

definition tcg_gen_ld8u_i64 :: "TCGv \<Rightarrow> TCGv \<Rightarrow> u64 \<Rightarrow> ctx \<Rightarrow> ctx option" where
  "tcg_gen_ld8u_i64 ret arg2 offset = tcg_gen_ldst_op_i64 INDEX_op_ld8u ret arg2 offset"

definition tcg_gen_ld8s_i64 :: "TCGv \<Rightarrow> TCGv \<Rightarrow> u64 \<Rightarrow> ctx \<Rightarrow> ctx option" where
  "tcg_gen_ld8s_i64 ret arg2 offset = tcg_gen_ldst_op_i64 INDEX_op_ld8s ret arg2 offset"

definition tcg_gen_ld16u_i64 :: "TCGv \<Rightarrow> TCGv \<Rightarrow> u64 \<Rightarrow> ctx \<Rightarrow> ctx option" where
  "tcg_gen_ld16u_i64 ret arg2 offset = tcg_gen_ldst_op_i64 INDEX_op_ld16u ret arg2 offset"

definition tcg_gen_ld16s_i64 :: "TCGv \<Rightarrow> TCGv \<Rightarrow> u64 \<Rightarrow> ctx \<Rightarrow> ctx option" where
  "tcg_gen_ld16s_i64 ret arg2 offset = tcg_gen_ldst_op_i64 INDEX_op_ld16s ret arg2 offset"

definition tcg_gen_ld32u_i64 :: "TCGv \<Rightarrow> TCGv \<Rightarrow> u64 \<Rightarrow> ctx \<Rightarrow> ctx option" where
  "tcg_gen_ld32u_i64 ret arg2 offset = tcg_gen_ldst_op_i64 INDEX_op_ld32u ret arg2 offset"

definition tcg_gen_ld32s_i64 :: "TCGv \<Rightarrow> TCGv \<Rightarrow> u64 \<Rightarrow> ctx \<Rightarrow> ctx option" where
  "tcg_gen_ld32s_i64 ret arg2 offset = tcg_gen_ldst_op_i64 INDEX_op_ld32s ret arg2 offset"

definition tcg_gen_ld_i64 :: "TCGv \<Rightarrow> TCGv \<Rightarrow> u64 \<Rightarrow> ctx \<Rightarrow> ctx option" where
  "tcg_gen_ld_i64 ret arg2 offset = tcg_gen_ldst_op_i64 INDEX_op_ld ret arg2 offset"

definition tcg_gen_st8_i64 :: "TCGv \<Rightarrow> TCGv \<Rightarrow> u64 \<Rightarrow> ctx \<Rightarrow> ctx option" where
  "tcg_gen_st8_i64 arg1 arg2 offset = tcg_gen_ldst_op_i64 INDEX_op_st8 arg1 arg2 offset"

definition tcg_gen_st16_i64 :: "TCGv \<Rightarrow> TCGv \<Rightarrow> u64 \<Rightarrow> ctx \<Rightarrow> ctx option" where
  "tcg_gen_st16_i64 arg1 arg2 offset = tcg_gen_ldst_op_i64 INDEX_op_st16 arg1 arg2 offset"

definition tcg_gen_st32_i64 :: "TCGv \<Rightarrow> TCGv \<Rightarrow> u64 \<Rightarrow> ctx \<Rightarrow> ctx option" where
  "tcg_gen_st32_i64 arg1 arg2 offset = tcg_gen_ldst_op_i64 INDEX_op_st32 arg1 arg2 offset"

definition tcg_gen_st_i64 :: "TCGv \<Rightarrow> TCGv \<Rightarrow> u64 \<Rightarrow> ctx \<Rightarrow> ctx option" where
  "tcg_gen_st_i64 arg1 arg2 offset = tcg_gen_ldst_op_i64 INDEX_op_st arg1 arg2 offset"

subsection \<open>Arithmetic and logic\<close>

definition tcg_gen_add_i64 :: "TCGv \<Rightarrow> TCGv \<Rightarrow> TCGv \<Rightarrow> ctx \<Rightarrow> ctx option" where
  "tcg_gen_add_i64 ret arg1 arg2 s = do {
     s \<leftarrow> SYM_HELPER_BINARY_64 sym_add ret arg1 arg2 s;
     tcg_gen_op3_v (op_rrr INDEX_op_add I64) ret arg1 arg2 s }"

definition tcg_gen_sub_i64 :: "TCGv \<Rightarrow> TCGv \<Rightarrow> TCGv \<Rightarrow> ctx \<Rightarrow> ctx option" where
  "tcg_gen_sub_i64 ret arg1 arg2 s = do {
     s \<leftarrow> SYM_HELPER_BINARY_64 sym_sub ret arg1 arg2 s;
     tcg_gen_op3_v (op_rrr INDEX_op_sub I64) ret arg1 arg2 s }"

definition tcg_gen_and_i64 :: "TCGv \<Rightarrow> TCGv \<Rightarrow> TCGv \<Rightarrow> ctx \<Rightarrow> ctx option" where
  "tcg_gen_and_i64 ret arg1 arg2 s = do {
     s \<leftarrow> SYM_HELPER_BINARY_64 sym_and ret arg1 arg2 s;
     tcg_gen_op3_v (op_rrr INDEX_op_and I64) ret arg1 arg2 s }"

definition tcg_gen_or_i64 :: "TCGv \<Rightarrow> TCGv \<Rightarrow> TCGv \<Rightarrow> ctx \<Rightarrow> ctx option" where
  "tcg_gen_or_i64 ret arg1 arg2 s = do {
     s \<leftarrow> SYM_HELPER_BINARY_64 sym_or ret arg1 arg2 s;
     tcg_gen_op3_v (op_rrr INDEX_op_or I64) ret arg1 arg2 s }"

definition tcg_gen_xor_i64 :: "TCGv \<Rightarrow> TCGv \<Rightarrow> TCGv \<Rightarrow> ctx \<Rightarrow> ctx option" where
  "tcg_gen_xor_i64 ret arg1 arg2 s = do {
     s \<leftarrow> SYM_HELPER_BINARY_64 sym_xor ret arg1 arg2 s;
     tcg_gen_op3_v (op_rrr INDEX_op_xor I64) ret arg1 arg2 s }"

definition tcg_gen_shl_i64 :: "TCGv \<Rightarrow> TCGv \<Rightarrow> TCGv \<Rightarrow> ctx \<Rightarrow> ctx option" where
  "tcg_gen_shl_i64 ret arg1 arg2 s = do {
     s \<leftarrow> SYM_HELPER_BINARY_64 sym_shift_left ret arg1 arg2 s;
     tcg_gen_op3_v (op_rrr INDEX_op_shl I64) ret arg1 arg2 s }"

definition tcg_gen_shr_i64 :: "TCGv \<Rightarrow> TCGv \<Rightarrow> TCGv \<Rightarrow> ctx \<Rightarrow> ctx option" where
  "tcg_gen_shr_i64 ret arg1 arg2 s = do {
     s \<leftarrow> SYM_HELPER_BINARY_64 sym_shift_right ret arg1 arg2 s;
     tcg_gen_op3_v (op_rrr INDEX_op_shr I64) ret arg1 arg2 s }"

definition tcg_gen_sar_i64 :: "TCGv \<Rightarrow> TCGv \<Rightarrow> TCGv \<Rightarrow> ctx \<Rightarrow> ctx option" where
  "tcg_gen_sar_i64 ret arg1 arg2 s = do {
     s \<leftarrow> SYM_HELPER_BINARY_64 sym_arithmetic_shift_right ret arg1 arg2 s;
     tcg_gen_op3_v (op_rrr INDEX_op_sar I64) ret arg1 arg2 s }"

definition tcg_gen_mul_i64 :: "TCGv \<Rightarrow> TCGv \<Rightarrow> TCGv \<Rightarrow> ctx \<Rightarrow> ctx option" where
  "tcg_gen_mul_i64 ret arg1 arg2 s = do {
     s \<leftarrow> SYM_HELPER_BINARY_64 sym_mul ret arg1 arg2 s;
     tcg_gen_op3_v (op_rrr INDEX_op_mul I64) ret arg1 arg2 s }"

definition tcg_gen_addi_i64 :: "TCGv \<Rightarrow> TCGv \<Rightarrow> u64 \<Rightarrow> ctx \<Rightarrow> ctx option" where
  "tcg_gen_addi_i64 ret arg1 arg2 s =
     (if arg2 = 0 then tcg_gen_mov_i64 ret arg1 s
      else do { (c, s) \<leftarrow> tcg_constant_i64 arg2 s; tcg_gen_add_i64 ret arg1 c s })"

definition tcg_gen_neg_i64 :: "TCGv \<Rightarrow> TCGv \<Rightarrow> ctx \<Rightarrow> ctx option" where
  "tcg_gen_neg_i64 ret arg s = do {
     s \<leftarrow> gen_helper_sym_unary unary_neg ret arg s;
     tcg_gen_op2_v (op_rr INDEX_op_neg I64) ret arg s }"

definition tcg_gen_subfi_i64 :: "TCGv \<Rightarrow> u64 \<Rightarrow> TCGv \<Rightarrow> ctx \<Rightarrow> ctx option" where
  "tcg_gen_subfi_i64 ret arg1 arg2 s =
     (if arg1 = 0 then tcg_gen_neg_i64 ret arg2 s
      else do { (c, s) \<leftarrow> tcg_constant_i64 arg1 s; tcg_gen_sub_i64 ret c arg2 s })"

definition tcg_gen_subi_i64 :: "TCGv \<Rightarrow> TCGv \<Rightarrow> u64 \<Rightarrow> ctx \<Rightarrow> ctx option" where
  "tcg_gen_subi_i64 ret arg1 arg2 = tcg_gen_addi_i64 ret arg1 (- arg2)"

function tcg_gen_andi_i64 :: "tcg_host \<Rightarrow> TCGv \<Rightarrow> TCGv \<Rightarrow> u64 \<Rightarrow> ctx \<Rightarrow> ctx option"
  and tcg_gen_ext8u_i64 :: "tcg_host \<Rightarrow> TCGv \<Rightarrow> TCGv \<Rightarrow> ctx \<Rightarrow> ctx option"
  and tcg_gen_ext16u_i64 :: "tcg_host \<Rightarrow> TCGv \<Rightarrow> TCGv \<Rightarrow> ctx \<Rightarrow> ctx option"
  and tcg_gen_ext32u_i64 :: "tcg_host \<Rightarrow> TCGv \<Rightarrow> TCGv \<Rightarrow> ctx \<Rightarrow> ctx option" where
  "tcg_gen_andi_i64 H ret arg1 arg2 s =
     (if arg2 = 0 then tcg_gen_movi_i64 ret 0 s
      else if arg2 = - 1 then tcg_gen_mov_i64 ret arg1 s
      else if arg2 = 0xff \<and> HAS_ext8u H I64 then tcg_gen_ext8u_i64 H ret arg1 s
      else if arg2 = 0xffff \<and> HAS_ext16u H I64 then tcg_gen_ext16u_i64 H ret arg1 s
      else if arg2 = 0xffffffff \<and> HAS_ext32u H I64 then tcg_gen_ext32u_i64 H ret arg1 s
      else do { (c, s) \<leftarrow> tcg_constant_i64 arg2 s; tcg_gen_and_i64 ret arg1 c s })"
| "tcg_gen_ext8u_i64 H ret arg s =
     (if HAS_ext8u H I64 then do {
        s \<leftarrow> gen_helper_sym_length length_zext ret arg 1 s;
        tcg_gen_op2_v (op_rr INDEX_op_ext8u I64) ret arg s }
      else tcg_gen_andi_i64 H ret arg 0xff s)"
| "tcg_gen_ext16u_i64 H ret arg s =
     (if HAS_ext16u H I64 then do {
        s \<leftarrow> gen_helper_sym_length length_zext ret arg 2 s;
        tcg_gen_op2_v (op_rr INDEX_op_ext16u I64) ret arg s }
      else tcg_gen_andi_i64 H ret arg 0xffff s)"
| "tcg_gen_ext32u_i64 H ret arg s =
     (if HAS_ext32u H I64 then do {
        s \<leftarrow> gen_helper_sym_length length_zext ret arg 4 s;
        tcg_gen_op2_v (op_rr INDEX_op_ext32u I64) ret arg s }
      else tcg_gen_andi_i64 H ret arg 0xffffffff s)"
  by pat_completeness auto
termination
  by (relation "measure (\<lambda>x. case x of Inl (Inl _) \<Rightarrow> 1
        | Inl (Inr (H, _)) \<Rightarrow> if HAS_ext8u H I64 then 0 else 2
        | Inr (Inl (H, _)) \<Rightarrow> if HAS_ext16u H I64 then 0 else 2
        | Inr (Inr (H, _)) \<Rightarrow> if HAS_ext32u H I64 then 0 else 2)") auto

definition tcg_gen_ori_i64 :: "TCGv \<Rightarrow> TCGv \<Rightarrow> u64 \<Rightarrow> ctx \<Rightarrow> ctx option" where
  "tcg_gen_ori_i64 ret arg1 arg2 s =
     (if arg2 = - 1 then tcg_gen_movi_i64 ret (- 1) s
      else if arg2 = 0 then tcg_gen_mov_i64 ret arg1 s
      else do { (c, s) \<leftarrow> tcg_constant_i64 arg2 s; tcg_gen_or_i64 ret arg1 c s })"

definition tcg_gen_xori_i64 :: "tcg_host \<Rightarrow> TCGv \<Rightarrow> TCGv \<Rightarrow> u64 \<Rightarrow> ctx \<Rightarrow> ctx option" where
  "tcg_gen_xori_i64 H ret arg1 arg2 s =
     (if arg2 = 0 then tcg_gen_mov_i64 ret arg1 s
      else if arg2 = - 1 \<and> HAS_not H I64 then do {
        s \<leftarrow> gen_helper_sym_unary unary_not ret arg1 s;
        tcg_gen_op2_v (op_rr INDEX_op_not I64) ret arg1 s }
      else do { (c, s) \<leftarrow> tcg_constant_i64 arg2 s; tcg_gen_xor_i64 ret arg1 c s })"

definition tcg_gen_not_i64 :: "tcg_host \<Rightarrow> TCGv \<Rightarrow> TCGv \<Rightarrow> ctx \<Rightarrow> ctx option" where
  "tcg_gen_not_i64 H ret arg s =
     (if HAS_not H I64 then do {
        s \<leftarrow> gen_helper_sym_unary unary_not ret arg s;
        tcg_gen_op2_v (op_rr INDEX_op_not I64) ret arg s }
      else tcg_gen_xori_i64 H ret arg (- 1) s)"

definition tcg_gen_shli_i64 :: "TCGv \<Rightarrow> TCGv \<Rightarrow> u64 \<Rightarrow> ctx \<Rightarrow> ctx option" where
  "tcg_gen_shli_i64 ret arg1 arg2 s = do {
     c_assert (sint arg2 \<ge> 0 \<and> sint arg2 < 64);
     if arg2 = 0 then tcg_gen_mov_i64 ret arg1 s
     else do { (c, s) \<leftarrow> tcg_constant_i64 arg2 s; tcg_gen_shl_i64 ret arg1 c s } }"

definition tcg_gen_shri_i64 :: "TCGv \<Rightarrow> TCGv \<Rightarrow> u64 \<Rightarrow> ctx \<Rightarrow> ctx option" where
  "tcg_gen_shri_i64 ret arg1 arg2 s = do {
     c_assert (sint arg2 \<ge> 0 \<and> sint arg2 < 64);
     if arg2 = 0 then tcg_gen_mov_i64 ret arg1 s
     else do { (c, s) \<leftarrow> tcg_constant_i64 arg2 s; tcg_gen_shr_i64 ret arg1 c s } }"

definition tcg_gen_sari_i64 :: "TCGv \<Rightarrow> TCGv \<Rightarrow> u64 \<Rightarrow> ctx \<Rightarrow> ctx option" where
  "tcg_gen_sari_i64 ret arg1 arg2 s = do {
     c_assert (sint arg2 \<ge> 0 \<and> sint arg2 < 64);
     if arg2 = 0 then tcg_gen_mov_i64 ret arg1 s
     else do { (c, s) \<leftarrow> tcg_constant_i64 arg2 s; tcg_gen_sar_i64 ret arg1 c s } }"

subsection \<open>Conditions\<close>

definition tcg_gen_setcond_i64 :: "TCGCond \<Rightarrow> TCGv \<Rightarrow> TCGv \<Rightarrow> TCGv \<Rightarrow> ctx \<Rightarrow> ctx option" where
  "tcg_gen_setcond_i64 cond ret arg1 arg2 s =
     (if cond = TCG_COND_ALWAYS then tcg_gen_movi_i64 ret 1 s
      else if cond = TCG_COND_NEVER then tcg_gen_movi_i64 ret 0 s
      else do {
        s \<leftarrow> tcg_gen_op4i_v (INDEX_op_setcond I64) ret arg1 arg2 (ucast cond) s;
        (c, s) \<leftarrow> tcg_constant_i32 cond s;
        er \<leftarrow> tcgv_i64_expr ret s; e1 \<leftarrow> tcgv_i64_expr arg1 s; e2 \<leftarrow> tcgv_i64_expr arg2 s;
        tcg_gen_callN (helper_sym_setcond I64) (Some er) [tcg_env, arg1, e1, arg2, e2, c, ret] s })"

definition tcg_gen_setcondi_i64 :: "TCGCond \<Rightarrow> TCGv \<Rightarrow> TCGv \<Rightarrow> u64 \<Rightarrow> ctx \<Rightarrow> ctx option" where
  "tcg_gen_setcondi_i64 cond ret arg1 arg2 s = do {
     (c, s) \<leftarrow> tcg_constant_i64 arg2 s; tcg_gen_setcond_i64 cond ret arg1 c s }"

definition tcg_gen_brcond_i64 :: "TCGCond \<Rightarrow> TCGv \<Rightarrow> TCGv \<Rightarrow> nat \<Rightarrow> ctx \<Rightarrow> ctx option" where
  "tcg_gen_brcond_i64 cond arg1 arg2 l s =
     (if cond = TCG_COND_ALWAYS then tcg_gen_br l s
      else if cond \<noteq> TCG_COND_NEVER then do {
        (cond_result_temp, s) \<leftarrow> tcg_temp_new_i64 s;
        s \<leftarrow> tcg_gen_setcond_i64 cond cond_result_temp arg1 arg2 s;
        s \<leftarrow> tcg_temp_free_i64 cond_result_temp s;
        s \<leftarrow> tcg_gen_op4ii_v (INDEX_op_brcond I64) arg1 arg2 (ucast cond) (of_nat l) s;
        Some (add_last_as_label_use l s) }
      else Some s)"

definition tcg_gen_brcondi_i64 :: "TCGCond \<Rightarrow> TCGv \<Rightarrow> u64 \<Rightarrow> nat \<Rightarrow> ctx \<Rightarrow> ctx option" where
  "tcg_gen_brcondi_i64 cond arg1 arg2 l s = do {
     (c, s) \<leftarrow> tcg_constant_i64 arg2 s; tcg_gen_brcond_i64 cond arg1 c l s }"

definition tcg_gen_negsetcond_i64 :: "tcg_host \<Rightarrow> TCGCond \<Rightarrow> TCGv \<Rightarrow> TCGv \<Rightarrow> TCGv \<Rightarrow> ctx \<Rightarrow> ctx option" where
  "tcg_gen_negsetcond_i64 H cond ret arg1 arg2 s =
     (if cond = TCG_COND_ALWAYS then tcg_gen_movi_i64 ret (- 1) s
      else if cond = TCG_COND_NEVER then tcg_gen_movi_i64 ret 0 s
      else if HAS_negsetcond H I64 then
        tcg_gen_op4i_v (INDEX_op_negsetcond I64) ret arg1 arg2 (ucast cond) s
      else do {
        s \<leftarrow> tcg_gen_setcond_i64 cond ret arg1 arg2 s;
        tcg_gen_neg_i64 ret ret s })"

definition tcg_gen_negsetcondi_i64 :: "tcg_host \<Rightarrow> TCGCond \<Rightarrow> TCGv \<Rightarrow> TCGv \<Rightarrow> u64 \<Rightarrow> ctx \<Rightarrow> ctx option" where
  "tcg_gen_negsetcondi_i64 H cond ret arg1 arg2 s = do {
     (c, s) \<leftarrow> tcg_constant_i64 arg2 s; tcg_gen_negsetcond_i64 H cond ret arg1 c s }"

definition tcg_gen_movcond_i64 ::
  "TCGCond \<Rightarrow> TCGv \<Rightarrow> TCGv \<Rightarrow> TCGv \<Rightarrow> TCGv \<Rightarrow> TCGv \<Rightarrow> ctx \<Rightarrow> ctx option" where
  "tcg_gen_movcond_i64 cond ret c1 c2 v1 v2 s =
     (if cond = TCG_COND_ALWAYS then tcg_gen_mov_i64 ret v1 s
      else if cond = TCG_COND_NEVER then tcg_gen_mov_i64 ret v2 s
      else do {
        (c, s) \<leftarrow> tcg_constant_i32 cond s;
        er \<leftarrow> tcgv_i64_expr ret s; e1 \<leftarrow> tcgv_i64_expr c1 s; e2 \<leftarrow> tcgv_i64_expr c2 s;
        f1 \<leftarrow> tcgv_i64_expr v1 s; f2 \<leftarrow> tcgv_i64_expr v2 s;
        s \<leftarrow> tcg_gen_callN (helper_sym_movcond I64) (Some er) [tcg_env, c1, e1, c2, e2, v1, f1, v2, f2, c, ret] s;
        tcg_gen_op6i_v (INDEX_op_movcond I64) ret c1 c2 v1 v2 (ucast cond) s })"

definition tcg_gen_smin_i64 :: "TCGv \<Rightarrow> TCGv \<Rightarrow> TCGv \<Rightarrow> ctx \<Rightarrow> ctx option" where
  "tcg_gen_smin_i64 ret a b = tcg_gen_movcond_i64 TCG_COND_LT ret a b a b"

definition tcg_gen_umin_i64 :: "TCGv \<Rightarrow> TCGv \<Rightarrow> TCGv \<Rightarrow> ctx \<Rightarrow> ctx option" where
  "tcg_gen_umin_i64 ret a b = tcg_gen_movcond_i64 TCG_COND_LTU ret a b a b"

definition tcg_gen_smax_i64 :: "TCGv \<Rightarrow> TCGv \<Rightarrow> TCGv \<Rightarrow> ctx \<Rightarrow> ctx option" where
  "tcg_gen_smax_i64 ret a b = tcg_gen_movcond_i64 TCG_COND_LT ret a b b a"

definition tcg_gen_umax_i64 :: "TCGv \<Rightarrow> TCGv \<Rightarrow> TCGv \<Rightarrow> ctx \<Rightarrow> ctx option" where
  "tcg_gen_umax_i64 ret a b = tcg_gen_movcond_i64 TCG_COND_LTU ret a b b a"

subsection \<open>Multiplication and division\<close>

definition tcg_gen_muli_i64 :: "TCGv \<Rightarrow> TCGv \<Rightarrow> u64 \<Rightarrow> ctx \<Rightarrow> ctx option" where
  "tcg_gen_muli_i64 ret arg1 arg2 s =
     (if arg2 = 0 then tcg_gen_movi_i64 ret 0 s
      else if is_power_of_2 arg2 then tcg_gen_shli_i64 ret arg1 (of_nat (ctz64 arg2)) s
      else do { (c, s) \<leftarrow> tcg_constant_i64 arg2 s; tcg_gen_mul_i64 ret arg1 c s })"

definition tcg_gen_div_i64 :: "tcg_host \<Rightarrow> TCGv \<Rightarrow> TCGv \<Rightarrow> TCGv \<Rightarrow> ctx \<Rightarrow> ctx option" where
  "tcg_gen_div_i64 H ret arg1 arg2 s = do {
     s \<leftarrow> (if HAS_div H I64 then tcg_gen_op3_v (op_rrr INDEX_op_div I64) ret arg1 arg2 s
       else if HAS_div2 H I64 then do {
         (t0, s) \<leftarrow> tcg_temp_ebb_new_i64 s;
         s \<leftarrow> tcg_gen_sari_i64 t0 arg1 63 s;
         s \<leftarrow> tcg_gen_op5_v (INDEX_op_div2 I64) ret t0 arg1 t0 arg2 s;
         tcg_temp_free_i64 t0 s }
       else tcg_gen_callN (helper_i64 helper_div_i64) (Some ret) [arg1, arg2] s);
     SYM_HELPER_BINARY_64 sym_div ret arg1 arg2 s }"

definition tcg_gen_rem_i64 :: "tcg_host \<Rightarrow> TCGv \<Rightarrow> TCGv \<Rightarrow> TCGv \<Rightarrow> ctx \<Rightarrow> ctx option" where
  "tcg_gen_rem_i64 H ret arg1 arg2 s = do {
     s \<leftarrow> (if HAS_rem H I64 then tcg_gen_op3_v (op_rrr INDEX_op_rem I64) ret arg1 arg2 s
       else if HAS_div H I64 then do {
         (t0, s) \<leftarrow> tcg_temp_ebb_new_i64 s;
         s \<leftarrow> tcg_gen_op3_v (op_rrr INDEX_op_div I64) t0 arg1 arg2 s;
         s \<leftarrow> tcg_gen_mul_i64 t0 t0 arg2 s;
         s \<leftarrow> tcg_gen_sub_i64 ret arg1 t0 s;
         tcg_temp_free_i64 t0 s }
       else if HAS_div2 H I64 then do {
         (t0, s) \<leftarrow> tcg_temp_ebb_new_i64 s;
         s \<leftarrow> tcg_gen_sari_i64 t0 arg1 63 s;
         s \<leftarrow> tcg_gen_op5_v (INDEX_op_div2 I64) t0 ret arg1 t0 arg2 s;
         tcg_temp_free_i64 t0 s }
       else tcg_gen_callN (helper_i64 helper_rem_i64) (Some ret) [arg1, arg2] s);
     SYM_HELPER_BINARY_64 sym_rem ret arg1 arg2 s }"

definition tcg_gen_divu_i64 :: "tcg_host \<Rightarrow> TCGv \<Rightarrow> TCGv \<Rightarrow> TCGv \<Rightarrow> ctx \<Rightarrow> ctx option" where
  "tcg_gen_divu_i64 H ret arg1 arg2 s = do {
     s \<leftarrow> (if HAS_div H I64 then tcg_gen_op3_v (op_rrr INDEX_op_divu I64) ret arg1 arg2 s
       else if HAS_div2 H I64 then do {
         (t0, s) \<leftarrow> tcg_temp_ebb_new_i64 s;
         (zero, s) \<leftarrow> tcg_constant_i64 0 s;
         s \<leftarrow> tcg_gen_op5_v (INDEX_op_divu2 I64) ret t0 arg1 zero arg2 s;
         tcg_temp_free_i64 t0 s }
       else tcg_gen_callN (helper_i64 helper_divu_i64) (Some ret) [arg1, arg2] s);
     SYM_HELPER_BINARY_64 sym_divu ret arg1 arg2 s }"

definition tcg_gen_remu_i64 :: "tcg_host \<Rightarrow> TCGv \<Rightarrow> TCGv \<Rightarrow> TCGv \<Rightarrow> ctx \<Rightarrow> ctx option" where
  "tcg_gen_remu_i64 H ret arg1 arg2 s = do {
     s \<leftarrow> (if HAS_rem H I64 then tcg_gen_op3_v (op_rrr INDEX_op_remu I64) ret arg1 arg2 s
       else if HAS_div H I64 then do {
         (t0, s) \<leftarrow> tcg_temp_ebb_new_i64 s;
         s \<leftarrow> tcg_gen_op3_v (op_rrr INDEX_op_divu I64) t0 arg1 arg2 s;
         s \<leftarrow> tcg_gen_mul_i64 t0 t0 arg2 s;
         s \<leftarrow> tcg_gen_sub_i64 ret arg1 t0 s;
         tcg_temp_free_i64 t0 s }
       else if HAS_div2 H I64 then do {
         (t0, s) \<leftarrow> tcg_temp_ebb_new_i64 s;
         (zero, s) \<leftarrow> tcg_constant_i64 0 s;
         s \<leftarrow> tcg_gen_op5_v (INDEX_op_divu2 I64) t0 ret arg1 zero arg2 s;
         tcg_temp_free_i64 t0 s }
       else tcg_gen_callN (helper_i64 helper_remu_i64) (Some ret) [arg1, arg2] s);
     SYM_HELPER_BINARY_64 sym_rem ret arg1 arg2 s }"

subsection \<open>Sign extensions\<close>

definition tcg_gen_ext8s_i64 :: "tcg_host \<Rightarrow> TCGv \<Rightarrow> TCGv \<Rightarrow> ctx \<Rightarrow> ctx option" where
  "tcg_gen_ext8s_i64 H ret arg s =
     (if HAS_ext8s H I64 then do {
        s \<leftarrow> gen_helper_sym_length length_sext ret arg 1 s;
        tcg_gen_op2_v (op_rr INDEX_op_ext8s I64) ret arg s }
      else do {
        s \<leftarrow> tcg_gen_shli_i64 ret arg 56 s;
        tcg_gen_sari_i64 ret ret 56 s })"

definition tcg_gen_ext16s_i64 :: "tcg_host \<Rightarrow> TCGv \<Rightarrow> TCGv \<Rightarrow> ctx \<Rightarrow> ctx option" where
  "tcg_gen_ext16s_i64 H ret arg s =
     (if HAS_ext16s H I64 then do {
        s \<leftarrow> gen_helper_sym_length length_sext ret arg 2 s;
        tcg_gen_op2_v (op_rr INDEX_op_ext16s I64) ret arg s }
      else do {
        s \<leftarrow> tcg_gen_shli_i64 ret arg 48 s;
        tcg_gen_sari_i64 ret ret 48 s })"

definition tcg_gen_ext32s_i64 :: "tcg_host \<Rightarrow> TCGv \<Rightarrow> TCGv \<Rightarrow> ctx \<Rightarrow> ctx option" where
  "tcg_gen_ext32s_i64 H ret arg s =
     (if HAS_ext32s H I64 then do {
        s \<leftarrow> gen_helper_sym_length length_sext ret arg 4 s;
        tcg_gen_op2_v (op_rr INDEX_op_ext32s I64) ret arg s }
      else do {
        s \<leftarrow> tcg_gen_shli_i64 ret arg 32 s;
        tcg_gen_sari_i64 ret ret 32 s })"

subsection \<open>Compound logic, counting and rotations\<close>

definition tcg_gen_andc_i64 :: "tcg_host \<Rightarrow> TCGv \<Rightarrow> TCGv \<Rightarrow> TCGv \<Rightarrow> ctx \<Rightarrow> ctx option" where
  "tcg_gen_andc_i64 H ret arg1 arg2 s = do {
     s \<leftarrow> (if HAS_andc H I64 then tcg_gen_op3_v (op_rrr INDEX_op_andc I64) ret arg1 arg2 s
       else do {
         (t0, s) \<leftarrow> tcg_temp_ebb_new_i64 s;
         s \<leftarrow> tcg_gen_not_i64 H t0 arg2 s;
         s \<leftarrow> tcg_gen_and_i64 ret arg1 t0 s;
         tcg_temp_free_i64 t0 s });
     SYM_HELPER_BINARY_64 sym_andc ret arg1 arg2 s }"

definition tcg_gen_eqv_i64 :: "tcg_host \<Rightarrow> TCGv \<Rightarrow> TCGv \<Rightarrow> TCGv \<Rightarrow> ctx \<Rightarrow> ctx option" where
  "tcg_gen_eqv_i64 H ret arg1 arg2 s = do {
     s \<leftarrow> (if HAS_eqv H I64 then tcg_gen_op3_v (op_rrr INDEX_op_eqv I64) ret arg1 arg2 s
       else do {
         s \<leftarrow> tcg_gen_xor_i64 ret arg1 arg2 s;
         tcg_gen_not_i64 H ret ret s });
     SYM_HELPER_BINARY_64 sym_eqv ret arg1 arg2 s }"

definition tcg_gen_nand_i64 :: "tcg_host \<Rightarrow> TCGv \<Rightarrow> TCGv \<Rightarrow> TCGv \<Rightarrow> ctx \<Rightarrow> ctx option" where
  "tcg_gen_nand_i64 H ret arg1 arg2 s = do {
     s \<leftarrow> (if HAS_nand H I64 then tcg_gen_op3_v (op_rrr INDEX_op_nand I64) ret arg1 arg2 s
       else do {
         s \<leftarrow> tcg_gen_and_i64 ret arg1 arg2 s;
         tcg_gen_not_i64 H ret ret s });
     SYM_HELPER_BINARY_64 sym_nand ret arg1 arg2 s }"

definition tcg_gen_nor_i64 :: "tcg_host \<Rightarrow> TCGv \<Rightarrow> TCGv \<Rightarrow> TCGv \<Rightarrow> ctx \<Rightarrow> ctx option" where
  "tcg_gen_nor_i64 H ret arg1 arg2 s = do {
     s \<leftarrow> (if HAS_nor H I64 then tcg_gen_op3_v (op_rrr INDEX_op_nor I64) ret arg1 arg2 s
       else do {
         s \<leftarrow> tcg_gen_or_i64 ret arg1 arg2 s;
         tcg_gen_not_i64 H ret ret s });
     SYM_HELPER_BINARY_64 sym_nor ret arg1 arg2 s }"

definition tcg_gen_orc_i64 :: "tcg_host \<Rightarrow> TCGv \<Rightarrow> TCGv \<Rightarrow> TCGv \<Rightarrow> ctx \<Rightarrow> ctx option" where
  "tcg_gen_orc_i64 H ret arg1 arg2 s = do {
     s \<leftarrow> (if HAS_orc H I64 then tcg_gen_op3_v (op_rrr INDEX_op_orc I64) ret arg1 arg2 s
       else do {
         (t0, s) \<leftarrow> tcg_temp_ebb_new_i64 s;
         s \<leftarrow> tcg_gen_not_i64 H t0 arg2 s;
         s \<leftarrow> tcg_gen_or_i64 ret arg1 t0 s;
         tcg_temp_free_i64 t0 s });
     SYM_HELPER_BINARY_64 sym_orc ret arg1 arg2 s }"

definition tcg_gen_clz_i64 :: "tcg_host \<Rightarrow> TCGv \<Rightarrow> TCGv \<Rightarrow> TCGv \<Rightarrow> ctx \<Rightarrow> ctx option" where
  "tcg_gen_clz_i64 H ret arg1 arg2 s =
     (if HAS_clz H I64 then tcg_gen_op3_v (op_rrr INDEX_op_clz I64) ret arg1 arg2 s
      else tcg_gen_callN (helper_i64 helper_clz_i64) (Some ret) [arg1, arg2] s)"

definition tcg_gen_clzi_i64 :: "tcg_host \<Rightarrow> TCGv \<Rightarrow> TCGv \<Rightarrow> u64 \<Rightarrow> ctx \<Rightarrow> ctx option" where
  "tcg_gen_clzi_i64 H ret arg1 arg2 s = do {
     (c, s) \<leftarrow> tcg_constant_i64 arg2 s; tcg_gen_clz_i64 H ret arg1 c s }"

definition tcg_gen_ctpop_i64 :: "tcg_host \<Rightarrow> TCGv \<Rightarrow> TCGv \<Rightarrow> ctx \<Rightarrow> ctx option" where
  "tcg_gen_ctpop_i64 H ret arg1 s =
     (if HAS_ctpop H I64 then tcg_gen_op2_v (op_rr INDEX_op_ctpop I64) ret arg1 s
      else tcg_gen_callN (helper_i64 helper_ctpop_i64) (Some ret) [arg1] s)"

definition tcg_gen_ctz_i64 :: "tcg_host \<Rightarrow> TCGv \<Rightarrow> TCGv \<Rightarrow> TCGv \<Rightarrow> ctx \<Rightarrow> ctx option" where
  "tcg_gen_ctz_i64 H ret arg1 arg2 s =
     (if HAS_ctz H I64 then tcg_gen_op3_v (op_rrr INDEX_op_ctz I64) ret arg1 arg2 s
      else if HAS_ctpop H I64 \<or> HAS_clz H I64 then do {
        (t, s) \<leftarrow> tcg_temp_ebb_new_i64 s;
        s \<leftarrow> (if HAS_ctpop H I64 then do {
            s \<leftarrow> tcg_gen_subi_i64 t arg1 1 s;
            s \<leftarrow> tcg_gen_andc_i64 H t t arg1 s;
            tcg_gen_ctpop_i64 H t t s }
          else do {
            s \<leftarrow> tcg_gen_neg_i64 t arg1 s;
            s \<leftarrow> tcg_gen_and_i64 t t arg1 s;
            s \<leftarrow> tcg_gen_clzi_i64 H t t 64 s;
            tcg_gen_xori_i64 H t t 63 s });
        (z, s) \<leftarrow> tcg_constant_i64 0 s;
        s \<leftarrow> tcg_gen_movcond_i64 TCG_COND_EQ ret arg1 z arg2 t s;
        s \<leftarrow> tcg_temp_free_i64 t s;
        tcg_temp_free_i64 z s }
      else tcg_gen_callN (helper_i64 helper_ctz_i64) (Some ret) [arg1, arg2] s)"

definition tcg_gen_ctzi_i64 :: "tcg_host \<Rightarrow> TCGv \<Rightarrow> TCGv \<Rightarrow> u64 \<Rightarrow> ctx \<Rightarrow> ctx option" where
  "tcg_gen_ctzi_i64 H ret arg1 arg2 s =
     (if \<not> HAS_ctz H I64 \<and> HAS_ctpop H I64 \<and> arg2 = 64 then do {
        (t, s) \<leftarrow> tcg_temp_ebb_new_i64 s;
        s \<leftarrow> tcg_gen_subi_i64 t arg1 1 s;
        s \<leftarrow> tcg_gen_andc_i64 H t t arg1 s;
        s \<leftarrow> tcg_gen_ctpop_i64 H ret t s;
        tcg_temp_free_i64 t s }
      else do { (c, s) \<leftarrow> tcg_constant_i64 arg2 s; tcg_gen_ctz_i64 H ret arg1 c s })"

definition tcg_gen_clrsb_i64 :: "tcg_host \<Rightarrow> TCGv \<Rightarrow> TCGv \<Rightarrow> ctx \<Rightarrow> ctx option" where
  "tcg_gen_clrsb_i64 H ret arg s =
     (if HAS_clz H I64 \<or> HAS_clz H I32 then do {
        (t, s) \<leftarrow> tcg_temp_ebb_new_i64 s;
        s \<leftarrow> tcg_gen_sari_i64 t arg 63 s;
        s \<leftarrow> tcg_gen_xor_i64 t t arg s;
        s \<leftarrow> tcg_gen_clzi_i64 H t t 64 s;
        s \<leftarrow> tcg_gen_subi_i64 ret t 1 s;
        tcg_temp_free_i64 t s }
      else tcg_gen_callN (helper_i64 helper_clrsb_i64) (Some ret) [arg] s)"

definition tcg_gen_rotl_i64 :: "tcg_host \<Rightarrow> TCGv \<Rightarrow> TCGv \<Rightarrow> TCGv \<Rightarrow> ctx \<Rightarrow> ctx option" where
  "tcg_gen_rotl_i64 H ret arg1 arg2 s =
     (if HAS_rot H I64 then do {
        s \<leftarrow> SYM_HELPER_BINARY_64 sym_rotate_left ret arg1 arg2 s;
        tcg_gen_op3_v (op_rrr INDEX_op_rotl I64) ret arg1 arg2 s }
      else do {
        (t0, s) \<leftarrow> tcg_temp_ebb_new_i64 s;
        (t1, s) \<leftarrow> tcg_temp_ebb_new_i64 s;
        s \<leftarrow> tcg_gen_shl_i64 t0 arg1 arg2 s;
        s \<leftarrow> tcg_gen_subfi_i64 t1 64 arg2 s;
        s \<leftarrow> tcg_gen_shr_i64 t1 arg1 t1 s;
        s \<leftarrow> tcg_gen_or_i64 ret t0 t1 s;
        s \<leftarrow> tcg_temp_free_i64 t0 s;
        tcg_temp_free_i64 t1 s })"

definition tcg_gen_rotli_i64 :: "tcg_host \<Rightarrow> TCGv \<Rightarrow> TCGv \<Rightarrow> u64 \<Rightarrow> ctx \<Rightarrow> ctx option" where
  "tcg_gen_rotli_i64 H ret arg1 arg2 s = do {
     c_assert (sint arg2 \<ge> 0 \<and> sint arg2 < 64);
     if arg2 = 0 then tcg_gen_mov_i64 ret arg1 s
     else if HAS_rot H I64 then do { (c, s) \<leftarrow> tcg_constant_i64 arg2 s; tcg_gen_rotl_i64 H ret arg1 c s }
     else do {
       (t0, s) \<leftarrow> tcg_temp_ebb_new_i64 s;
       (t1, s) \<leftarrow> tcg_temp_ebb_new_i64 s;
       s \<leftarrow> tcg_gen_shli_i64 t0 arg1 arg2 s;
       s \<leftarrow> tcg_gen_shri_i64 t1 arg1 (64 - arg2) s;
       s \<leftarrow> tcg_gen_or_i64 ret t0 t1 s;
       s \<leftarrow> tcg_temp_free_i64 t0 s;
       tcg_temp_free_i64 t1 s } }"

definition tcg_gen_rotr_i64 :: "tcg_host \<Rightarrow> TCGv \<Rightarrow> TCGv \<Rightarrow> TCGv \<Rightarrow> ctx \<Rightarrow> ctx option" where
  "tcg_gen_rotr_i64 H ret arg1 arg2 s =
     (if HAS_rot H I64 then do {
        s \<leftarrow> SYM_HELPER_BINARY_64 sym_rotate_right ret arg1 arg2 s;
        tcg_gen_op3_v (op_rrr INDEX_op_rotr I64) ret arg1 arg2 s }
      else do {
        (t0, s) \<leftarrow> tcg_temp_ebb_new_i64 s;
        (t1, s) \<leftarrow> tcg_temp_ebb_new_i64 s;
        s \<leftarrow> tcg_gen_shr_i64 t0 arg1 arg2 s;
        s \<leftarrow> tcg_gen_subfi_i64 t1 64 arg2 s;
        s \<leftarrow> tcg_gen_shl_i64 t1 arg1 t1 s;
        s \<leftarrow> tcg_gen_or_i64 ret t0 t1 s;
        s \<leftarrow> tcg_temp_free_i64 t0 s;
        tcg_temp_free_i64 t1 s })"

definition tcg_gen_rotri_i64 :: "tcg_host \<Rightarrow> TCGv \<Rightarrow> TCGv \<Rightarrow> u64 \<Rightarrow> ctx \<Rightarrow> ctx option" where
  "tcg_gen_rotri_i64 H ret arg1 arg2 s = do {
     c_assert (sint arg2 \<ge> 0 \<and> sint arg2 < 64);
     if arg2 = 0 then tcg_gen_mov_i64 ret arg1 s
     else tcg_gen_rotli_i64 H ret arg1 (64 - arg2) s }"

subsection \<open>Bit fields\<close>

function tcg_gen_deposit_i64 :: "tcg_host \<Rightarrow> TCGv \<Rightarrow> TCGv \<Rightarrow> TCGv \<Rightarrow> u32 \<Rightarrow> u32 \<Rightarrow> ctx \<Rightarrow> ctx option"
  and tcg_gen_extract2_i64 :: "tcg_host \<Rightarrow> TCGv \<Rightarrow> TCGv \<Rightarrow> TCGv \<Rightarrow> u32 \<Rightarrow> ctx \<Rightarrow> ctx option" where
  "tcg_gen_deposit_i64 H ret arg1 arg2 ofs len s = do {
     field_assert 64 ofs len;
     if len = 64 then tcg_gen_mov_i64 ret arg2 s
     else if HAS_deposit H I64 \<and> deposit_valid H I64 ofs len then do {
       (k, s) \<leftarrow> tcg_constant_i64 (ucast ofs) s;
       (n, s) \<leftarrow> tcg_constant_i64 (ucast len) s;
       er \<leftarrow> tcgv_i64_expr ret s; e1 \<leftarrow> tcgv_i64_expr arg1 s; e2 \<leftarrow> tcgv_i64_expr arg2 s;
       s \<leftarrow> tcg_gen_callN (helper_sym_deposit I64) (Some er) [arg1, e1, arg2, e2, k, n] s;
       tcg_gen_op5ii_v (INDEX_op_deposit I64) ret arg1 arg2 (ucast ofs) (ucast len) s }
     else do {
       (t1, s) \<leftarrow> tcg_temp_ebb_new_i64 s;
       s \<leftarrow> (if HAS_extract2 H I64 \<and> ofs + len = 64 then do {
           s \<leftarrow> tcg_gen_shli_i64 t1 arg1 (ucast len) s;
           tcg_gen_extract2_i64 H ret t1 arg2 len s }
         else if HAS_extract2 H I64 \<and> ofs = 0 then do {
           s \<leftarrow> tcg_gen_extract2_i64 H ret arg1 arg2 len s;
           tcg_gen_rotli_i64 H ret ret (ucast len) s }
         else do {
           let mask = push_bit (unat len) 1 - 1;
           s \<leftarrow> (if ofs + len < 64 then do {
               s \<leftarrow> tcg_gen_andi_i64 H t1 arg2 mask s;
               tcg_gen_shli_i64 t1 t1 (ucast ofs) s }
             else tcg_gen_shli_i64 t1 arg2 (ucast ofs) s);
           s \<leftarrow> tcg_gen_andi_i64 H ret arg1 (NOT (push_bit (unat ofs) mask)) s;
           tcg_gen_or_i64 ret ret t1 s });
       tcg_temp_free_i64 t1 s } }"
| "tcg_gen_extract2_i64 H ret al ah ofs s = do {
     c_assert (ofs \<le> 64);
     if ofs = 0 then tcg_gen_mov_i64 ret al s
     else if ofs = 64 then tcg_gen_mov_i64 ret ah s
     else if al = ah then tcg_gen_rotri_i64 H ret al (ucast ofs) s
     else if HAS_extract2 H I64 then do {
       (k, s) \<leftarrow> tcg_constant_i64 (ucast ofs) s;
       er \<leftarrow> tcgv_i64_expr ret s; eh \<leftarrow> tcgv_i64_expr ah s; el \<leftarrow> tcgv_i64_expr al s;
       s \<leftarrow> tcg_gen_callN (helper_sym_extract2 I64) (Some er) [ah, eh, al, el, k] s;
       tcg_gen_op4i_v (INDEX_op_extract2 I64) ret al ah (ucast ofs) s }
     else do {
       (t0, s) \<leftarrow> tcg_temp_ebb_new_i64 s;
       s \<leftarrow> tcg_gen_shri_i64 t0 al (ucast ofs) s;
       s \<leftarrow> tcg_gen_deposit_i64 H ret t0 ah (64 - ofs) ofs s;
       tcg_temp_free_i64 t0 s } }"
  by pat_completeness auto
termination
  by (relation "measure (\<lambda>x. case x of Inl (H, _) \<Rightarrow> if HAS_extract2 H I64 then 1 else 0
        | Inr (H, _) \<Rightarrow> if HAS_extract2 H I64 then 0 else 1)") auto

definition tcg_gen_deposit_z_i64 :: "tcg_host \<Rightarrow> TCGv \<Rightarrow> TCGv \<Rightarrow> u32 \<Rightarrow> u32 \<Rightarrow> ctx \<Rightarrow> ctx option" where
  "tcg_gen_deposit_z_i64 H ret arg ofs len s = do {
     field_assert 64 ofs len;
     if ofs + len = 64 then tcg_gen_shli_i64 ret arg (ucast ofs) s
     else if ofs = 0 then tcg_gen_andi_i64 H ret arg (push_bit (unat len) 1 - 1) s
     else if HAS_deposit H I64 \<and> deposit_valid H I64 ofs len then do {
       (zero, s) \<leftarrow> tcg_constant_i64 0 s;
       (k, s) \<leftarrow> tcg_constant_i64 (ucast ofs) s;
       (n, s) \<leftarrow> tcg_constant_i64 (ucast len) s;
       er \<leftarrow> tcgv_i64_expr ret s; ez \<leftarrow> tcgv_i64_expr zero s; ea \<leftarrow> tcgv_i64_expr arg s;
       s \<leftarrow> tcg_gen_callN (helper_sym_deposit I64) (Some er) [zero, ez, arg, ea, k, n] s;
       tcg_gen_op5ii_v (INDEX_op_deposit I64) ret zero arg (ucast ofs) (ucast len) s }
     else if len = 32 \<and> HAS_ext32u H I64 then do {
       s \<leftarrow> tcg_gen_ext32u_i64 H ret arg s; tcg_gen_shli_i64 ret ret (ucast ofs) s }
     else if len = 16 \<and> HAS_ext16u H I64 then do {
       s \<leftarrow> tcg_gen_ext16u_i64 H ret arg s; tcg_gen_shli_i64 ret ret (ucast ofs) s }
     else if len = 8 \<and> HAS_ext8u H I64 then do {
       s \<leftarrow> tcg_gen_ext8u_i64 H ret arg s; tcg_gen_shli_i64 ret ret (ucast ofs) s }
     else if ofs + len = 32 \<and> HAS_ext32u H I64 then do {
       s \<leftarrow> tcg_gen_shli_i64 ret arg (ucast ofs) s; tcg_gen_ext32u_i64 H ret ret s }
     else if ofs + len = 16 \<and> HAS_ext16u H I64 then do {
       s \<leftarrow> tcg_gen_shli_i64 ret arg (ucast ofs) s; tcg_gen_ext16u_i64 H ret ret s }
     else if ofs + len = 8 \<and> HAS_ext8u H I64 then do {
       s \<leftarrow> tcg_gen_shli_i64 ret arg (ucast ofs) s; tcg_gen_ext8u_i64 H ret ret s }
     else do {
       s \<leftarrow> tcg_gen_andi_i64 H ret arg (push_bit (unat len) 1 - 1) s; tcg_gen_shli_i64 ret ret (ucast ofs) s } }"

definition tcg_gen_extract_i64 :: "tcg_host \<Rightarrow> TCGv \<Rightarrow> TCGv \<Rightarrow> u32 \<Rightarrow> u32 \<Rightarrow> ctx \<Rightarrow> ctx option" where
  "tcg_gen_extract_i64 H ret arg ofs len s = do {
     field_assert 64 ofs len;
     if ofs + len = 64 then tcg_gen_shri_i64 ret arg (ucast (64 - len)) s
     else if ofs = 0 then tcg_gen_andi_i64 H ret arg (push_bit (unat len) 1 - 1) s
     else if HAS_extract H I64 \<and> extract_valid H I64 ofs len then do {
       (k, s) \<leftarrow> tcg_constant_i64 (ucast ofs) s;
       (n, s) \<leftarrow> tcg_constant_i64 (ucast len) s;
       er \<leftarrow> tcgv_i64_expr ret s; ea \<leftarrow> tcgv_i64_expr arg s;
       s \<leftarrow> tcg_gen_callN (helper_sym_extract I64) (Some er) [ea, k, n] s;
       tcg_gen_op4ii_v (INDEX_op_extract I64) ret arg (ucast ofs) (ucast len) s }
     else if ofs + len = 32 \<and> HAS_ext32u H I64 then do {
       s \<leftarrow> tcg_gen_ext32u_i64 H ret arg s; tcg_gen_shri_i64 ret ret (ucast ofs) s }
     else if ofs + len = 16 \<and> HAS_ext16u H I64 then do {
       s \<leftarrow> tcg_gen_ext16u_i64 H ret arg s; tcg_gen_shri_i64 ret ret (ucast ofs) s }
     else if ofs + len = 8 \<and> HAS_ext8u H I64 then do {
       s \<leftarrow> tcg_gen_ext8u_i64 H ret arg s; tcg_gen_shri_i64 ret ret (ucast ofs) s }
     else if 1 \<le> len \<and> len \<le> 8 \<or> len = 16 \<or> len = 32 then do {
       s \<leftarrow> tcg_gen_shri_i64 ret arg (ucast ofs) s;
       tcg_gen_andi_i64 H ret ret (push_bit (unat len) 1 - 1) s }
     else do {
       s \<leftarrow> tcg_gen_shli_i64 ret arg (ucast (64 - len - ofs)) s;
       tcg_gen_shri_i64 ret ret (ucast (64 - len)) s } }"

definition tcg_gen_sextract_i64 :: "tcg_host \<Rightarrow> TCGv \<Rightarrow> TCGv \<Rightarrow> u32 \<Rightarrow> u32 \<Rightarrow> ctx \<Rightarrow> ctx option" where
  "tcg_gen_sextract_i64 H ret arg ofs len s = do {
     field_assert 64 ofs len;
     if ofs + len = 64 then tcg_gen_sari_i64 ret arg (ucast (64 - len)) s
     else if ofs = 0 \<and> len = 32 then tcg_gen_ext32s_i64 H ret arg s
     else if ofs = 0 \<and> len = 16 then tcg_gen_ext16s_i64 H ret arg s
     else if ofs = 0 \<and> len = 8 then tcg_gen_ext8s_i64 H ret arg s
     else if HAS_sextract H I64 \<and> extract_valid H I64 ofs len then do {
       (k, s) \<leftarrow> tcg_constant_i64 (ucast ofs) s;
       (n, s) \<leftarrow> tcg_constant_i64 (ucast len) s;
       er \<leftarrow> tcgv_i64_expr ret s; ea \<leftarrow> tcgv_i64_expr arg s;
       s \<leftarrow> tcg_gen_callN (helper_sym_sextract I64) (Some er) [ea, k, n] s;
       tcg_gen_op4ii_v (INDEX_op_sextract I64) ret arg (ucast ofs) (ucast len) s }
     else if ofs + len = 32 \<and> HAS_ext32s H I64 then do {
       s \<leftarrow> tcg_gen_ext32s_i64 H ret arg s; tcg_gen_sari_i64 ret ret (ucast ofs) s }
     else if ofs + len = 16 \<and> HAS_ext16s H I64 then do {
       s \<leftarrow> tcg_gen_ext16s_i64 H ret arg s; tcg_gen_sari_i64 ret ret (ucast ofs) s }
     else if ofs + len = 8 \<and> HAS_ext8s H I64 then do {
       s \<leftarrow> tcg_gen_ext8s_i64 H ret arg s; tcg_gen_sari_i64 ret ret (ucast ofs) s }
     else if len = 32 \<and> HAS_ext32s H I64 then do {
       s \<leftarrow> tcg_gen_shri_i64 ret arg (ucast ofs) s; tcg_gen_ext32s_i64 H ret ret s }
     else if len = 16 \<and> HAS_ext16s H I64 then do {
       s \<leftarrow> tcg_gen_shri_i64 ret arg (ucast ofs) s; tcg_gen_ext16s_i64 H ret ret s }
     else if len = 8 \<and> HAS_ext8s H I64 then do {
       s \<leftarrow> tcg_gen_shri_i64 ret arg (ucast ofs) s; tcg_gen_ext8s_i64 H ret ret s }
     else do {
       s \<leftarrow> tcg_gen_shli_i64 ret arg (ucast (64 - len - ofs)) s;
       tcg_gen_sari_i64 ret ret (ucast (64 - len)) s } }"

subsection \<open>Byte swaps\<close>

definition tcg_gen_bswap16_i64 :: "tcg_host \<Rightarrow> TCGv \<Rightarrow> TCGv \<Rightarrow> u64 \<Rightarrow> ctx \<Rightarrow> ctx option" where
  "tcg_gen_bswap16_i64 H ret arg flags s = do {
     c_assert (flags AND TCG_BSWAP_OS = 0 \<or> flags AND TCG_BSWAP_OZ = 0);
     if HAS_bswap16 H I64 then do {
       s \<leftarrow> gen_helper_sym_length length_bswap ret arg 2 s;
       tcg_gen_op3i_v (op_bswap INDEX_op_bswap16 I64) ret arg flags s }
     else do {
       (t0, s) \<leftarrow> tcg_temp_ebb_new_i64 s;
       (t1, s) \<leftarrow> tcg_temp_ebb_new_i64 s;
       s \<leftarrow> tcg_gen_shri_i64 t0 arg 8 s;
       s \<leftarrow> (if flags AND TCG_BSWAP_IZ = 0 then tcg_gen_ext8u_i64 H t0 t0 s else Some s);
       s \<leftarrow> (if flags AND TCG_BSWAP_OS \<noteq> 0 then do {
           s \<leftarrow> tcg_gen_shli_i64 t1 arg 56 s; tcg_gen_sari_i64 t1 t1 48 s }
         else if flags AND TCG_BSWAP_OZ \<noteq> 0 then do {
           s \<leftarrow> tcg_gen_ext8u_i64 H t1 arg s; tcg_gen_shli_i64 t1 t1 8 s }
         else tcg_gen_shli_i64 t1 arg 8 s);
       s \<leftarrow> tcg_gen_or_i64 ret t0 t1 s;
       s \<leftarrow> tcg_temp_free_i64 t0 s;
       tcg_temp_free_i64 t1 s } }"

definition tcg_gen_bswap32_i64 :: "tcg_host \<Rightarrow> TCGv \<Rightarrow> TCGv \<Rightarrow> u64 \<Rightarrow> ctx \<Rightarrow> ctx option" where
  "tcg_gen_bswap32_i64 H ret arg flags s = do {
     c_assert (flags AND TCG_BSWAP_OS = 0 \<or> flags AND TCG_BSWAP_OZ = 0);
     if HAS_bswap32 H I64 then do {
       s \<leftarrow> gen_helper_sym_length length_bswap ret arg 4 s;
       tcg_gen_op3i_v (op_bswap INDEX_op_bswap32 I64) ret arg flags s }
     else do {
       (t0, s) \<leftarrow> tcg_temp_ebb_new_i64 s;
       (t1, s) \<leftarrow> tcg_temp_ebb_new_i64 s;
       (t2, s) \<leftarrow> tcg_constant_i64 0x00ff00ff s;
       s \<leftarrow> tcg_gen_shri_i64 t0 arg 8 s;
       s \<leftarrow> tcg_gen_and_i64 t1 arg t2 s;
       s \<leftarrow> tcg_gen_and_i64 t0 t0 t2 s;
       s \<leftarrow> tcg_gen_shli_i64 t1 t1 8 s;
       s \<leftarrow> tcg_gen_or_i64 ret t0 t1 s;
       s \<leftarrow> tcg_gen_shli_i64 t1 ret 48 s;
       s \<leftarrow> tcg_gen_shri_i64 t0 ret 16 s;
       s \<leftarrow> (if flags AND TCG_BSWAP_OS \<noteq> 0 then tcg_gen_sari_i64 t1 t1 32 s else tcg_gen_shri_i64 t1 t1 32 s);
       s \<leftarrow> tcg_gen_or_i64 ret t0 t1 s;
       s \<leftarrow> tcg_temp_free_i64 t0 s;
       tcg_temp_free_i64 t1 s } }"

definition tcg_gen_bswap64_i64 :: "tcg_host \<Rightarrow> TCGv \<Rightarrow> TCGv \<Rightarrow> ctx \<Rightarrow> ctx option" where
  "tcg_gen_bswap64_i64 H ret arg s =
     (if HAS_bswap64 H I64 then do {
        s \<leftarrow> gen_helper_sym_length length_bswap ret arg 8 s;
        tcg_gen_op3i_v (op_bswap INDEX_op_bswap64 I64) ret arg 0 s }
      else do {
        (t0, s) \<leftarrow> tcg_temp_ebb_new_i64 s;
        (t1, s) \<leftarrow> tcg_temp_ebb_new_i64 s;
        (t2, s) \<leftarrow> tcg_temp_ebb_new_i64 s;
        s \<leftarrow> tcg_gen_movi_i64 t2 0x00ff00ff00ff00ff s;
        s \<leftarrow> tcg_gen_shri_i64 t0 arg 8 s;
        s \<leftarrow> tcg_gen_and_i64 t1 arg t2 s;
        s \<leftarrow> tcg_gen_and_i64 t0 t0 t2 s;
        s \<leftarrow> tcg_gen_shli_i64 t1 t1 8 s;
        s \<leftarrow> tcg_gen_or_i64 ret t0 t1 s;
        s \<leftarrow> tcg_gen_movi_i64 t2 0x0000ffff0000ffff s;
        s \<leftarrow> tcg_gen_shri_i64 t0 ret 16 s;
        s \<leftarrow> tcg_gen_and_i64 t1 ret t2 s;
        s \<leftarrow> tcg_gen_and_i64 t0 t0 t2 s;
        s \<leftarrow> tcg_gen_shli_i64 t1 t1 16 s;
        s \<leftarrow> tcg_gen_or_i64 ret t0 t1 s;
        s \<leftarrow> tcg_gen_shri_i64 t0 ret 32 s;
        s \<leftarrow> tcg_gen_shli_i64 t1 ret 32 s;
        s \<leftarrow> tcg_gen_or_i64 ret t0 t1 s;
        s \<leftarrow> tcg_temp_free_i64 t0 s;
        s \<leftarrow> tcg_temp_free_i64 t1 s;
        tcg_temp_free_i64 t2 s })"

definition tcg_gen_hswap_i64 :: "tcg_host \<Rightarrow> TCGv \<Rightarrow> TCGv \<Rightarrow> ctx \<Rightarrow> ctx option" where
  "tcg_gen_hswap_i64 H ret arg s = do {
     let m = 0x0000ffff0000ffff;
     (t0, s) \<leftarrow> tcg_temp_ebb_new_i64 s;
     (t1, s) \<leftarrow> tcg_temp_ebb_new_i64 s;
     s \<leftarrow> tcg_gen_rotli_i64 H t1 arg 32 s;
     s \<leftarrow> tcg_gen_andi_i64 H t0 t1 m s;
     s \<leftarrow> tcg_gen_shli_i64 t0 t0 16 s;
     s \<leftarrow> tcg_gen_shri_i64 t1 t1 16 s;
     s \<leftarrow> tcg_gen_andi_i64 H t1 t1 m s;
     s \<leftarrow> tcg_gen_or_i64 ret t0 t1 s;
     s \<leftarrow> tcg_temp_free_i64 t0 s;
     tcg_temp_free_i64 t1 s }"

definition tcg_gen_wswap_i64 :: "tcg_host \<Rightarrow> TCGv \<Rightarrow> TCGv \<Rightarrow> ctx \<Rightarrow> ctx option" where
  "tcg_gen_wswap_i64 H ret arg = tcg_gen_rotli_i64 H ret arg 32"

definition tcg_gen_abs_i64 :: "TCGv \<Rightarrow> TCGv \<Rightarrow> ctx \<Rightarrow> ctx option" where
  "tcg_gen_abs_i64 ret a s = do {
     (t, s) \<leftarrow> tcg_temp_ebb_new_i64 s;
     s \<leftarrow> tcg_gen_sari_i64 t a 63 s;
     s \<leftarrow> tcg_gen_xor_i64 ret a t s;
     s \<leftarrow> tcg_gen_sub_i64 ret ret t s;
     tcg_temp_free_i64 t s }"

subsection \<open>Double-word arithmetic\<close>

definition tcg_gen_add2_i64 :: "TCGv \<Rightarrow> TCGv \<Rightarrow> TCGv \<Rightarrow> TCGv \<Rightarrow> TCGv \<Rightarrow> TCGv \<Rightarrow> ctx \<Rightarrow> ctx option" where
  "tcg_gen_add2_i64 rl rh al ah bl bh s = do {
     (t0, s) \<leftarrow> tcg_temp_ebb_new_i64 s;
     (t1, s) \<leftarrow> tcg_temp_ebb_new_i64 s;
     s \<leftarrow> tcg_gen_add_i64 t0 al bl s;
     s \<leftarrow> tcg_gen_setcond_i64 TCG_COND_LTU t1 t0 al s;
     s \<leftarrow> tcg_gen_add_i64 rh ah bh s;
     s \<leftarrow> tcg_gen_add_i64 rh rh t1 s;
     s \<leftarrow> tcg_gen_mov_i64 rl t0 s;
     s \<leftarrow> tcg_temp_free_i64 t0 s;
     tcg_temp_free_i64 t1 s }"

definition tcg_gen_sub2_i64 :: "TCGv \<Rightarrow> TCGv \<Rightarrow> TCGv \<Rightarrow> TCGv \<Rightarrow> TCGv \<Rightarrow> TCGv \<Rightarrow> ctx \<Rightarrow> ctx option" where
  "tcg_gen_sub2_i64 rl rh al ah bl bh s = do {
     (t0, s) \<leftarrow> tcg_temp_ebb_new_i64 s;
     (t1, s) \<leftarrow> tcg_temp_ebb_new_i64 s;
     s \<leftarrow> tcg_gen_sub_i64 t0 al bl s;
     s \<leftarrow> tcg_gen_setcond_i64 TCG_COND_LTU t1 al bl s;
     s \<leftarrow> tcg_gen_sub_i64 rh ah bh s;
     s \<leftarrow> tcg_gen_sub_i64 rh rh t1 s;
     s \<leftarrow> tcg_gen_mov_i64 rl t0 s;
     s \<leftarrow> tcg_temp_free_i64 t0 s;
     tcg_temp_free_i64 t1 s }"

definition tcg_gen_mulu2_i64 :: "TCGv \<Rightarrow> TCGv \<Rightarrow> TCGv \<Rightarrow> TCGv \<Rightarrow> ctx \<Rightarrow> ctx option" where
  "tcg_gen_mulu2_i64 rl rh arg1 arg2 s = do {
     (t0, s) \<leftarrow> tcg_temp_ebb_new_i64 s;
     s \<leftarrow> tcg_gen_mul_i64 t0 arg1 arg2 s;
     er \<leftarrow> tcgv_i64_expr rh s; e1 \<leftarrow> tcgv_i64_expr arg1 s; e2 \<leftarrow> tcgv_i64_expr arg2 s;
     s \<leftarrow> tcg_gen_callN helper_sym_muluh_i64 (Some er) [arg1, e1, arg2, e2] s;
     s \<leftarrow> tcg_gen_callN (helper_i64 helper_muluh_i64) (Some rh) [arg1, arg2] s;
     s \<leftarrow> tcg_gen_mov_i64 rl t0 s;
     tcg_temp_free_i64 t0 s }"

definition tcg_gen_muls2_i64 :: "tcg_host \<Rightarrow> TCGv \<Rightarrow> TCGv \<Rightarrow> TCGv \<Rightarrow> TCGv \<Rightarrow> ctx \<Rightarrow> ctx option" where
  "tcg_gen_muls2_i64 H rl rh arg1 arg2 s =
     (if HAS_mulu2 H I64 \<or> HAS_muluh H I64 then do {
        (t0, s) \<leftarrow> tcg_temp_ebb_new_i64 s;
        (t1, s) \<leftarrow> tcg_temp_ebb_new_i64 s;
        (t2, s) \<leftarrow> tcg_temp_ebb_new_i64 s;
        (t3, s) \<leftarrow> tcg_temp_ebb_new_i64 s;
        s \<leftarrow> tcg_gen_mulu2_i64 t0 t1 arg1 arg2 s;
        s \<leftarrow> tcg_gen_sari_i64 t2 arg1 63 s;
        s \<leftarrow> tcg_gen_sari_i64 t3 arg2 63 s;
        s \<leftarrow> tcg_gen_and_i64 t2 t2 arg2 s;
        s \<leftarrow> tcg_gen_and_i64 t3 t3 arg1 s;
        s \<leftarrow> tcg_gen_sub_i64 rh t1 t2 s;
        s \<leftarrow> tcg_gen_sub_i64 rh rh t3 s;
        s \<leftarrow> tcg_gen_mov_i64 rl t0 s;
        s \<leftarrow> tcg_temp_free_i64 t0 s;
        s \<leftarrow> tcg_temp_free_i64 t1 s;
        s \<leftarrow> tcg_temp_free_i64 t2 s;
        tcg_temp_free_i64 t3 s }
      else do {
        (t0, s) \<leftarrow> tcg_temp_ebb_new_i64 s;
        s \<leftarrow> tcg_gen_mul_i64 t0 arg1 arg2 s;
        s \<leftarrow> tcg_gen_callN (helper_i64 helper_mulsh_i64) (Some rh) [arg1, arg2] s;
        s \<leftarrow> tcg_gen_mov_i64 rl t0 s;
        tcg_temp_free_i64 t0 s })"

definition tcg_gen_mulsu2_i64 :: "TCGv \<Rightarrow> TCGv \<Rightarrow> TCGv \<Rightarrow> TCGv \<Rightarrow> ctx \<Rightarrow> ctx option" where
  "tcg_gen_mulsu2_i64 rl rh arg1 arg2 s = do {
     (t0, s) \<leftarrow> tcg_temp_ebb_new_i64 s;
     (t1, s) \<leftarrow> tcg_temp_ebb_new_i64 s;
     (t2, s) \<leftarrow> tcg_temp_ebb_new_i64 s;
     s \<leftarrow> tcg_gen_mulu2_i64 t0 t1 arg1 arg2 s;
     s \<leftarrow> tcg_gen_sari_i64 t2 arg1 63 s;
     s \<leftarrow> tcg_gen_and_i64 t2 t2 arg2 s;
     s \<leftarrow> tcg_gen_sub_i64 rh t1 t2 s;
     s \<leftarrow> tcg_gen_mov_i64 rl t0 s;
     s \<leftarrow> tcg_temp_free_i64 t0 s;
     s \<leftarrow> tcg_temp_free_i64 t1 s;
     tcg_temp_free_i64 t2 s }"

subsection \<open>Changing the size\<close>

definition tcg_gen_extrl_i64_i32 :: "TCGv \<Rightarrow> TCGv \<Rightarrow> ctx \<Rightarrow> ctx option" where
  "tcg_gen_extrl_i64_i32 ret arg s = do {
     s \<leftarrow> gen_helper_sym_unary unary_trunc_i64_i32 ret arg s;
     tcg_gen_mov_i32_concrete ret arg s }"

definition tcg_gen_extrh_i64_i32 :: "TCGv \<Rightarrow> TCGv \<Rightarrow> ctx \<Rightarrow> ctx option" where
  "tcg_gen_extrh_i64_i32 ret arg s = do {
     (t, s) \<leftarrow> tcg_temp_ebb_new_i64 s;
     s \<leftarrow> tcg_gen_shri_i64 t arg 32 s;
     s \<leftarrow> gen_helper_sym_unary unary_trunc_i64_i32 ret t s;
     s \<leftarrow> tcg_gen_mov_i32_concrete ret t s;
     tcg_temp_free_i64 t s }"

definition tcg_gen_extu_i32_i64 :: "TCGv \<Rightarrow> TCGv \<Rightarrow> ctx \<Rightarrow> ctx option" where
  "tcg_gen_extu_i32_i64 ret arg s = do {
     s \<leftarrow> gen_helper_sym_unary unary_zext_i32_i64 ret arg s;
     tcg_gen_op2_v (op_rr INDEX_op_extu_i32 I64) ret arg s }"

definition tcg_gen_ext_i32_i64 :: "TCGv \<Rightarrow> TCGv \<Rightarrow> ctx \<Rightarrow> ctx option" where
  "tcg_gen_ext_i32_i64 ret arg s = do {
     s \<leftarrow> gen_helper_sym_unary unary_sext_i32_i64 ret arg s;
     tcg_gen_op2_v (op_rr INDEX_op_ext_i32 I64) ret arg s }"

definition tcg_gen_concat_i32_i64 :: "tcg_host \<Rightarrow> TCGv \<Rightarrow> TCGv \<Rightarrow> TCGv \<Rightarrow> ctx \<Rightarrow> ctx option" where
  "tcg_gen_concat_i32_i64 H dest low high s = do {
     (tmp, s) \<leftarrow> tcg_temp_ebb_new_i64 s;
     s \<leftarrow> tcg_gen_extu_i32_i64 tmp high s;
     s \<leftarrow> tcg_gen_extu_i32_i64 dest low s;
     s \<leftarrow> (if HAS_deposit H I64 \<and> deposit_valid H I64 32 32 then tcg_gen_deposit_i64 H dest dest tmp 32 32 s
       else do {
         s \<leftarrow> tcg_gen_shli_i64 tmp tmp 32 s;
         tcg_gen_or_i64 dest dest tmp s });
     tcg_temp_free_i64 tmp s }"

definition tcg_gen_extr_i64_i32 :: "TCGv \<Rightarrow> TCGv \<Rightarrow> TCGv \<Rightarrow> ctx \<Rightarrow> ctx option" where
  "tcg_gen_extr_i64_i32 lo hi arg s = do {
     s \<leftarrow> tcg_gen_extrl_i64_i32 lo arg s;
     tcg_gen_extrh_i64_i32 hi arg s }"

definition tcg_gen_extr32_i64 :: "tcg_host \<Rightarrow> TCGv \<Rightarrow> TCGv \<Rightarrow> TCGv \<Rightarrow> ctx \<Rightarrow> ctx option" where
  "tcg_gen_extr32_i64 H lo hi arg s = do {
     s \<leftarrow> tcg_gen_ext32u_i64 H lo arg s;
     tcg_gen_shri_i64 hi arg 32 s }"

definition tcg_gen_concat32_i64 :: "tcg_host \<Rightarrow> TCGv \<Rightarrow> TCGv \<Rightarrow> TCGv \<Rightarrow> ctx \<Rightarrow> ctx option" where
  "tcg_gen_concat32_i64 H ret lo hi = tcg_gen_deposit_i64 H ret lo hi 32 32"

text \<open>A 128-bit temporary is two 64-bit ones; the host is little-endian.\<close>

definition TCGV128_LOW :: "TCGv \<Rightarrow> TCGv" where "TCGV128_LOW t = t"
definition TCGV128_HIGH :: "TCGv \<Rightarrow> TCGv" where "TCGV128_HIGH t = t + 1"

definition tcg_gen_extr_i128_i64 :: "TCGv \<Rightarrow> TCGv \<Rightarrow> TCGv \<Rightarrow> ctx \<Rightarrow> ctx option" where
  "tcg_gen_extr_i128_i64 lo hi arg s = do {
     s \<leftarrow> tcg_gen_mov_i64 lo (TCGV128_LOW arg) s;
     tcg_gen_mov_i64 hi (TCGV128_HIGH arg) s }"

definition tcg_gen_concat_i64_i128 :: "TCGv \<Rightarrow> TCGv \<Rightarrow> TCGv \<Rightarrow> ctx \<Rightarrow> ctx option" where
  "tcg_gen_concat_i64_i128 ret lo hi s = do {
     s \<leftarrow> tcg_gen_mov_i64 (TCGV128_LOW ret) lo s;
     tcg_gen_mov_i64 (TCGV128_HIGH ret) hi s }"

definition tcg_gen_mov_i128 :: "TCGv \<Rightarrow> TCGv \<Rightarrow> ctx \<Rightarrow> ctx option" where
  "tcg_gen_mov_i128 dst src s =
     (if dst \<noteq> src then do {
        s \<leftarrow> tcg_gen_mov_i64 (TCGV128_LOW dst) (TCGV128_LOW src) s;
        tcg_gen_mov_i64 (TCGV128_HIGH dst) (TCGV128_HIGH src) s }
      else Some s)"

definition tcg_gen_ld_i128 :: "TCGv \<Rightarrow> TCGv \<Rightarrow> u64 \<Rightarrow> ctx \<Rightarrow> ctx option" where
  "tcg_gen_ld_i128 ret base offset s = do {
     s \<leftarrow> tcg_gen_ld_i64 (TCGV128_LOW ret) base offset s;
     tcg_gen_ld_i64 (TCGV128_HIGH ret) base (offset + 8) s }"

definition tcg_gen_st_i128 :: "TCGv \<Rightarrow> TCGv \<Rightarrow> u64 \<Rightarrow> ctx \<Rightarrow> ctx option" where
  "tcg_gen_st_i128 v base offset s = do {
     s \<leftarrow> tcg_gen_st_i64 (TCGV128_LOW v) base offset s;
     tcg_gen_st_i64 (TCGV128_HIGH v) base (offset + 8) s }"

subsection \<open>32-bit operations through 64-bit temporaries\<close>

definition tcg_gen_clz_i32 :: "tcg_host \<Rightarrow> TCGv \<Rightarrow> TCGv \<Rightarrow> TCGv \<Rightarrow> ctx \<Rightarrow> ctx option" where
  "tcg_gen_clz_i32 H ret arg1 arg2 s =
     (if HAS_clz H I32 then tcg_gen_op3_v (op_rrr INDEX_op_clz I32) ret arg1 arg2 s
      else if HAS_clz H I64 then do {
        (t1, s) \<leftarrow> tcg_temp_ebb_new_i64 s;
        (t2, s) \<leftarrow> tcg_temp_ebb_new_i64 s;
        s \<leftarrow> tcg_gen_extu_i32_i64 t1 arg1 s;
        s \<leftarrow> tcg_gen_extu_i32_i64 t2 arg2 s;
        s \<leftarrow> tcg_gen_addi_i64 t2 t2 32 s;
        s \<leftarrow> tcg_gen_clz_i64 H t1 t1 t2 s;
        s \<leftarrow> tcg_gen_extrl_i64_i32 ret t1 s;
        s \<leftarrow> tcg_temp_free_i64 t1 s;
        s \<leftarrow> tcg_temp_free_i64 t2 s;
        tcg_gen_subi_i32 ret ret 32 s }
      else tcg_gen_callN (helper_i32 helper_clz_i32) (Some ret) [arg1, arg2] s)"

definition tcg_gen_clzi_i32 :: "tcg_host \<Rightarrow> TCGv \<Rightarrow> TCGv \<Rightarrow> u32 \<Rightarrow> ctx \<Rightarrow> ctx option" where
  "tcg_gen_clzi_i32 H ret arg1 arg2 s = do {
     (c, s) \<leftarrow> tcg_constant_i32 arg2 s; tcg_gen_clz_i32 H ret arg1 c s }"

definition tcg_gen_ctpop_i32 :: "tcg_host \<Rightarrow> TCGv \<Rightarrow> TCGv \<Rightarrow> ctx \<Rightarrow> ctx option" where
  "tcg_gen_ctpop_i32 H ret arg1 s =
     (if HAS_ctpop H I32 then tcg_gen_op2_v (op_rr INDEX_op_ctpop I32) ret arg1 s
      else if HAS_ctpop H I64 then do {
        (t, s) \<leftarrow> tcg_temp_ebb_new_i64 s;
        s \<leftarrow> tcg_gen_extu_i32_i64 t arg1 s;
        s \<leftarrow> tcg_gen_ctpop_i64 H t t s;
        s \<leftarrow> tcg_gen_extrl_i64_i32 ret t s;
        tcg_temp_free_i64 t s }
      else tcg_gen_callN (helper_i32 helper_ctpop_i32) (Some ret) [arg1] s)"

definition tcg_gen_ctz_i32 :: "tcg_host \<Rightarrow> TCGv \<Rightarrow> TCGv \<Rightarrow> TCGv \<Rightarrow> ctx \<Rightarrow> ctx option" where
  "tcg_gen_ctz_i32 H ret arg1 arg2 s =
     (if HAS_ctz H I32 then tcg_gen_op3_v (op_rrr INDEX_op_ctz I32) ret arg1 arg2 s
      else if HAS_ctz H I64 then do {
        (t1, s) \<leftarrow> tcg_temp_ebb_new_i64 s;
        (t2, s) \<leftarrow> tcg_temp_ebb_new_i64 s;
        s \<leftarrow> tcg_gen_extu_i32_i64 t1 arg1 s;
        s \<leftarrow> tcg_gen_extu_i32_i64 t2 arg2 s;
        s \<leftarrow> tcg_gen_ctz_i64 H t1 t1 t2 s;
        s \<leftarrow> tcg_gen_extrl_i64_i32 ret t1 s;
        s \<leftarrow> tcg_temp_free_i64 t1 s;
        tcg_temp_free_i64 t2 s }
      else if HAS_ctpop H I32 \<or> HAS_ctpop H I64 \<or> HAS_clz H I32 \<or> HAS_clz H I64 then do {
        (t, s) \<leftarrow> tcg_temp_ebb_new_i32 s;
        s \<leftarrow> (if HAS_ctpop H I32 \<or> HAS_ctpop H I64 then do {
            s \<leftarrow> tcg_gen_subi_i32 t arg1 1 s;
            s \<leftarrow> tcg_gen_andc_i32 H t t arg1 s;
            tcg_gen_ctpop_i32 H t t s }
          else do {
            s \<leftarrow> tcg_gen_neg_i32 t arg1 s;
            s \<leftarrow> tcg_gen_and_i32 t t arg1 s;
            s \<leftarrow> tcg_gen_clzi_i32 H t t 32 s;
            tcg_gen_xori_i32 H t t 31 s });
        (z, s) \<leftarrow> tcg_constant_i32 0 s;
        s \<leftarrow> tcg_gen_movcond_i32 TCG_COND_EQ ret arg1 z arg2 t s;
        tcg_temp_free_i32 t s }
      else tcg_gen_callN (helper_i32 helper_ctz_i32) (Some ret) [arg1, arg2] s)"

definition tcg_gen_ctzi_i32 :: "tcg_host \<Rightarrow> TCGv \<Rightarrow> TCGv \<Rightarrow> u32 \<Rightarrow> ctx \<Rightarrow> ctx option" where
  "tcg_gen_ctzi_i32 H ret arg1 arg2 s =
     (if \<not> HAS_ctz H I32 \<and> HAS_ctpop H I32 \<and> arg2 = 32 then do {
        (t, s) \<leftarrow> tcg_temp_ebb_new_i32 s;
        s \<leftarrow> tcg_gen_subi_i32 t arg1 1 s;
        s \<leftarrow> tcg_gen_andc_i32 H t t arg1 s;
        s \<leftarrow> tcg_gen_ctpop_i32 H ret t s;
        tcg_temp_free_i32 t s }
      else do { (c, s) \<leftarrow> tcg_constant_i32 arg2 s; tcg_gen_ctz_i32 H ret arg1 c s })"

definition tcg_gen_clrsb_i32 :: "tcg_host \<Rightarrow> TCGv \<Rightarrow> TCGv \<Rightarrow> ctx \<Rightarrow> ctx option" where
  "tcg_gen_clrsb_i32 H ret arg s =
     (if HAS_clz H I32 then do {
        (t, s) \<leftarrow> tcg_temp_ebb_new_i32 s;
        s \<leftarrow> tcg_gen_sari_i32 t arg 31 s;
        s \<leftarrow> tcg_gen_xor_i32 t t arg s;
        s \<leftarrow> tcg_gen_clzi_i32 H t t 32 s;
        s \<leftarrow> tcg_gen_subi_i32 ret t 1 s;
        tcg_temp_free_i32 t s }
      else tcg_gen_callN (helper_i32 helper_clrsb_i32) (Some ret) [arg] s)"

definition tcg_gen_add2_i32 ::
  "tcg_host \<Rightarrow> TCGv \<Rightarrow> TCGv \<Rightarrow> TCGv \<Rightarrow> TCGv \<Rightarrow> TCGv \<Rightarrow> TCGv \<Rightarrow> ctx \<Rightarrow> ctx option" where
  "tcg_gen_add2_i32 H rl rh al ah bl bh s = do {
     (t0, s) \<leftarrow> tcg_temp_ebb_new_i64 s;
     (t1, s) \<leftarrow> tcg_temp_ebb_new_i64 s;
     s \<leftarrow> tcg_gen_concat_i32_i64 H t0 al ah s;
     s \<leftarrow> tcg_gen_concat_i32_i64 H t1 bl bh s;
     s \<leftarrow> tcg_gen_add_i64 t0 t0 t1 s;
     s \<leftarrow> tcg_gen_extr_i64_i32 rl rh t0 s;
     s \<leftarrow> tcg_temp_free_i64 t0 s;
     tcg_temp_free_i64 t1 s }"

definition tcg_gen_sub2_i32 ::
  "tcg_host \<Rightarrow> TCGv \<Rightarrow> TCGv \<Rightarrow> TCGv \<Rightarrow> TCGv \<Rightarrow> TCGv \<Rightarrow> TCGv \<Rightarrow> ctx \<Rightarrow> ctx option" where
  "tcg_gen_sub2_i32 H rl rh al ah bl bh s = do {
     (t0, s) \<leftarrow> tcg_temp_ebb_new_i64 s;
     (t1, s) \<leftarrow> tcg_temp_ebb_new_i64 s;
     s \<leftarrow> tcg_gen_concat_i32_i64 H t0 al ah s;
     s \<leftarrow> tcg_gen_concat_i32_i64 H t1 bl bh s;
     s \<leftarrow> tcg_gen_sub_i64 t0 t0 t1 s;
     s \<leftarrow> tcg_gen_extr_i64_i32 rl rh t0 s;
     s \<leftarrow> tcg_temp_free_i64 t0 s;
     tcg_temp_free_i64 t1 s }"

definition tcg_gen_mulu2_i32 :: "TCGv \<Rightarrow> TCGv \<Rightarrow> TCGv \<Rightarrow> TCGv \<Rightarrow> ctx \<Rightarrow> ctx option" where
  "tcg_gen_mulu2_i32 rl rh arg1 arg2 s = do {
     (t0, s) \<leftarrow> tcg_temp_ebb_new_i64 s;
     (t1, s) \<leftarrow> tcg_temp_ebb_new_i64 s;
     s \<leftarrow> tcg_gen_extu_i32_i64 t0 arg1 s;
     s \<leftarrow> tcg_gen_extu_i32_i64 t1 arg2 s;
     s \<leftarrow> tcg_gen_mul_i64 t0 t0 t1 s;
     s \<leftarrow> tcg_gen_extr_i64_i32 rl rh t0 s;
     s \<leftarrow> tcg_temp_free_i64 t0 s;
     tcg_temp_free_i64 t1 s }"

definition tcg_gen_muls2_i32 :: "TCGv \<Rightarrow> TCGv \<Rightarrow> TCGv \<Rightarrow> TCGv \<Rightarrow> ctx \<Rightarrow> ctx option" where
  "tcg_gen_muls2_i32 rl rh arg1 arg2 s = do {
     (t0, s) \<leftarrow> tcg_temp_ebb_new_i64 s;
     (t1, s) \<leftarrow> tcg_temp_ebb_new_i64 s;
     s \<leftarrow> tcg_gen_ext_i32_i64 t0 arg1 s;
     s \<leftarrow> tcg_gen_ext_i32_i64 t1 arg2 s;
     s \<leftarrow> tcg_gen_mul_i64 t0 t0 t1 s;
     s \<leftarrow> tcg_gen_extr_i64_i32 rl rh t0 s;
     s \<leftarrow> tcg_temp_free_i64 t0 s;
     tcg_temp_free_i64 t1 s }"

definition tcg_gen_mulsu2_i32 :: "TCGv \<Rightarrow> TCGv \<Rightarrow> TCGv \<Rightarrow> TCGv \<Rightarrow> ctx \<Rightarrow> ctx option" where
  "tcg_gen_mulsu2_i32 rl rh arg1 arg2 s = do {
     (t0, s) \<leftarrow> tcg_temp_ebb_new_i64 s;
     (t1, s) \<leftarrow> tcg_temp_ebb_new_i64 s;
     s \<leftarrow> tcg_gen_ext_i32_i64 t0 arg1 s;
     s \<leftarrow> tcg_gen_extu_i32_i64 t1 arg2 s;
     s \<leftarrow> tcg_gen_mul_i64 t0 t0 t1 s;
     s \<leftarrow> tcg_gen_extr_i64_i32 rl rh t0 s;
     s \<leftarrow> tcg_temp_free_i64 t0 s;
     tcg_temp_free_i64 t1 s }"

end
