(* ===== verification/Gen_Logic.thy ===== *)
theory Gen_Logic
  imports Runtime_Correct Gen64
begin

unbundle bit_operations_syntax

section \<open>A program logic for generated code\<close>

text \<open>
  A generator returns a translation context with more operations. This theory relates the two sides:
  \<open>runs\<close> says that a generator succeeds and that the operations it emitted, executed on a machine,
  end in a machine with a given property; \<open>St\<close> is the assertion language, which keeps for each
  temporary of interest what it stands for. Values come in pairs: the concrete value the code computes
  and the value that the expression beside it has on a fixed input \<open>\<sigma>\<close>. That the two stay in step, the
  same function applied to both, is the correctness of the instrumentation.
\<close>

subsection \<open>Running what a generator emits\<close>

definition runs ::
  "('e, 'm) backend \<Rightarrow> CPUArchState \<Rightarrow> flow \<Rightarrow> ctx \<Rightarrow> ('e, 'm) machine \<Rightarrow> ctx option \<Rightarrow>
   (ctx \<Rightarrow> ('e, 'm) machine \<Rightarrow> bool) \<Rightarrow> bool" where
  "runs B env fl s m x Q \<longleftrightarrow> (\<exists>s' new m'. x = Some s' \<and> tcg_ops s' = tcg_ops s @ new \<and>
     exec_ops B env new m = Some (fl, m') \<and> Q s' m')"

lemma exec_ops_append:
  "exec_ops B env (xs @ ys) m = (case exec_ops B env xs m of
     Some (Next, m') \<Rightarrow> exec_ops B env ys m' | r \<Rightarrow> r)"
  by (induction xs arbitrary: m) (auto split: option.splits prod.splits flow.splits)

lemma runs_bind:
  "runs B env Next s m x (\<lambda>s' m'. runs B env fl s' m' (f s') Q) \<Longrightarrow> runs B env fl s m (Option.bind x f) Q"
  unfolding runs_def by (force simp: exec_ops_append)

lemma runs_return: "Q s m \<Longrightarrow> runs B env Next s m (Some s) Q"
  unfolding runs_def by (intro exI [of _ s] exI [of _ "[]"]) simp

lemma runs_mono: "runs B env fl s m x Q \<Longrightarrow> (\<And>s' m'. Q s' m' \<Longrightarrow> R s' m') \<Longrightarrow> runs B env fl s m x R"
  unfolding runs_def by blast

lemma runs_ops: "tcg_ops s0 = tcg_ops s \<Longrightarrow> runs B env fl s m x Q \<Longrightarrow> runs B env fl s0 m x Q"
  unfolding runs_def by simp

lemma runs_emit:
  "exec_op B env (TCGOp opc args) m = Some (Next, m') \<Longrightarrow> Q (tcg_emit_op opc args s) m' \<Longrightarrow>
    runs B env Next s m (Some (tcg_emit_op opc args s)) Q"
  unfolding runs_def by (auto simp: tcg_emit_op_def)

lemma tcg_emit_op_simps [simp]:
  "temps (tcg_emit_op opc args s) = temps s" "nb_globals (tcg_emit_op opc args s) = nb_globals s"
  "free_temps (tcg_emit_op opc args s) = free_temps s" "const_table (tcg_emit_op opc args s) = const_table s"
  by (simp_all add: tcg_emit_op_def)

subsection \<open>Assertions\<close>

datatype aval = Unk | V32 u32 u32 | V64 u64 u64

text \<open>The argument that names a temporary, and the number and the expression that a machine holds for
  it.\<close>

definition targ :: "ctx \<Rightarrow> nat \<Rightarrow> TCGArg" where
  "targ s t = (if kind (temps s ! t) = TEMP_CONST then ConstArg t (val (temps s ! t)) else TempArg t)"

definition tnum :: "ctx \<Rightarrow> ('e, 'm) machine \<Rightarrow> nat \<Rightarrow> u64 option" where
  "tnum s m t = arg64 m (targ s t)"

definition texpr :: "ctx \<Rightarrow> ('e, 'm) machine \<Rightarrow> nat \<Rightarrow> 'e option option" where
  "texpr s m t = argp m (targ s (t + 1))"

fun vty :: "aval \<Rightarrow> TCGType" where
  "vty (V32 c x) = I32"
| "vty (V64 c x) = I64"
| "vty Unk = I64"

text \<open>\<open>result w e v\<close>: the number \<open>w\<close> with the expression \<open>e\<close> stands for \<open>v\<close>. Of a 32-bit temporary only the
  low half of the number counts.\<close>

fun result :: "('e, 'm) backend \<Rightarrow> ('i \<Rightarrow> 'e \<Rightarrow> int) \<Rightarrow> 'i \<Rightarrow> u64 \<Rightarrow> 'e option \<Rightarrow> aval \<Rightarrow> bool" where
  "result B ev \<sigma> w e (V32 c x) = (ucast w = c \<and> shadow_typed B 32 e \<and> shadow_word ev \<sigma> c e = x)"
| "result B ev \<sigma> w e (V64 c x) = (w = c \<and> shadow_typed B 64 e \<and> shadow_word ev \<sigma> c e = x)"
| "result B ev \<sigma> w e Unk = True"

definition stands ::
  "('e, 'm) backend \<Rightarrow> ('i \<Rightarrow> 'e \<Rightarrow> int) \<Rightarrow> 'i \<Rightarrow> ctx \<Rightarrow> ('e, 'm) machine \<Rightarrow> nat \<Rightarrow> aval \<Rightarrow> bool" where
  "stands B ev \<sigma> s m t v \<longleftrightarrow> v = Unk \<or> temp_live s t (vty v) \<and>
     (\<exists>w e. tnum s m t = Some w \<and> texpr s m t = Some e \<and> result B ev \<sigma> w e v)"

text \<open>\<open>L\<close> lists the temporaries that may be written, with their type and whether they may be freed.\<close>

definition writable :: "ctx \<Rightarrow> nat \<Rightarrow> TCGType \<times> bool \<Rightarrow> bool" where
  "writable s t p \<longleftrightarrow> temp_live s t (fst p) \<and> kind (temps s ! t) \<noteq> TEMP_CONST \<and>
     (snd p \<longrightarrow> kind (temps s ! t) \<in> {TEMP_EBB, TEMP_TB})"

definition St ::
  "('e, 'm) backend \<Rightarrow> ('i \<Rightarrow> 'e \<Rightarrow> int) \<Rightarrow> 'i \<Rightarrow> nat \<Rightarrow> (nat \<rightharpoonup> TCGType \<times> bool) \<Rightarrow> (nat \<Rightarrow> aval) \<Rightarrow>
   ('e, 'm) rt \<Rightarrow> ctx \<Rightarrow> ('e, 'm) machine \<Rightarrow> bool" where
  "St B ev \<sigma> b L A r s m \<longleftrightarrow> wf_temps s \<and> nb_temps s + b \<le> TCG_MAX_TEMPS \<and> mrt m = r \<and>
     (\<forall>t p. L t = Some p \<longrightarrow> writable s t p) \<and> (\<forall>t. stands B ev \<sigma> s m t (A t))"

definition lty :: "(nat \<rightharpoonup> TCGType \<times> bool) \<Rightarrow> nat \<Rightarrow> TCGType option" where
  "lty L t = map_option fst (L t)"

lemma lty_simps [simp]:
  "lty (L(t \<mapsto> p)) u = (if u = t then Some (fst p) else lty L u)"
  "lty (L(t := None)) u = (if u = t then None else lty L u)"
  by (simp_all add: lty_def)

lemma St_weaken:
  assumes "St B ev \<sigma> b L A r s m" and "b' \<le> b" and "\<And>t. L' t \<noteq> None \<Longrightarrow> L t = L' t"
    and "\<And>t. A' t \<noteq> Unk \<Longrightarrow> A t = A' t"
  shows "St B ev \<sigma> b' L' A' r s m"
proof -
  have "stands B ev \<sigma> s m t (A' t)" for t
    using assms(1) assms(4) [of t] unfolding St_def by (cases "A' t = Unk") (simp add: stands_def, metis)
  moreover have "writable s t p" if "L' t = Some p" for t p
    using assms(1) assms(3) [of t] that by (cases p) (auto simp: St_def)
  ultimately show ?thesis using assms(1,2) by (auto simp: St_def)
qed

text \<open>\<open>weaker A' A\<close>: what \<open>A'\<close> says of a temporary \<open>A\<close> says too. The equations decide it for assertions that
  differ by updates.\<close>

definition weaker :: "(nat \<Rightarrow> aval) \<Rightarrow> (nat \<Rightarrow> aval) \<Rightarrow> bool" where
  "weaker A' A \<longleftrightarrow> (\<forall>t. A' t \<noteq> Unk \<longrightarrow> A t = A' t)"

lemma weaker_simps [simp]:
  "weaker A A" "weaker A' (A(t := v)) \<longleftrightarrow> (A' t = Unk \<or> v = A' t) \<and> weaker (A'(t := Unk)) A"
  "weaker A' A \<Longrightarrow> weaker (A'(t := Unk)) A"
  by (auto simp: weaker_def)

lemma map_le_fresh [simp]: "L' t = None \<Longrightarrow> L' \<subseteq>\<^sub>m L(t := p) \<longleftrightarrow> L' \<subseteq>\<^sub>m L"
  by (auto simp: map_le_def)

lemma St_post:
  assumes "\<And>s' m'. St B ev \<sigma> b' L' A' r s' m' \<Longrightarrow> Q s' m'" "St B ev \<sigma> b L A r s m"
    and "b' \<le> b" "L' \<subseteq>\<^sub>m L" "weaker A' A"
  shows "Q s m"
  using assms(4,5) by (intro assms(1) St_weaken [OF assms(2,3)]) (metis domIff map_le_def, metis weaker_def)

subsection \<open>Looking up temporaries\<close>

lemma temp_arg_targ: "t < nb_temps s \<Longrightarrow> temp_arg t s = Some (targ s t)"
  by (simp add: temp_arg_def targ_def)

lemma live_arg: "temp_live s t ty \<Longrightarrow> temp_arg t s = Some (targ s t)"
  "temp_live s t ty \<Longrightarrow> temp_arg (t + 1) s = Some (targ s (t + 1))"
  "temp_live s t ty \<Longrightarrow> temp_arg (Suc t) s = Some (targ s (Suc t))"
  by (auto intro!: temp_arg_targ dest!: temp_live_less)

lemma live_expr: "temp_live s t ty \<Longrightarrow> tcgv_i32_expr t s = Some (t + 1)"
  "temp_live s t ty \<Longrightarrow> tcgv_i64_expr t s = Some (t + 1)"
  by (simp_all add: tcgv_i32_expr_def tcgv_i64_expr_def temp_expr_live)

lemma writable_arg:
  assumes "writable s t p"
  shows "targ s t = TempArg t" and "targ s (t + 1) = TempArg (t + 1)"
  using assms by (cases "kind (temps s ! t)"; simp add: writable_def targ_def temp_live_def temp_pair_def)+

lemma live_symbolic:
  "temp_live s t ty \<Longrightarrow> \<not> symbolic_expression (temps s ! t) \<and> symbolic_expression (temps s ! (t + 1))"
  by (simp add: temp_live_def temp_pair_def)

lemma live_disjoint:
  assumes "temp_live s t ty" "temp_live s u ty'"
  shows "t \<noteq> u + 1" "u \<noteq> t + 1"
  using live_symbolic [OF assms(1)] live_symbolic [OF assms(2)] by auto

lemma St_wr: "St B ev \<sigma> b L A r s m \<Longrightarrow> lty L t = Some ty \<Longrightarrow> \<exists>f. writable s t (ty, f)"
  by (auto simp: St_def lty_def)

lemma St_stands: "St B ev \<sigma> b L A r s m \<Longrightarrow> A t = v \<Longrightarrow> stands B ev \<sigma> s m t v"
  by (auto simp: St_def)


subsection \<open>Writing a temporary\<close>

lemma stands_Unk [simp]: "stands B ev \<sigma> s m t Unk"
  by (simp add: stands_def)

lemma standsI:
  "temp_live s t (vty v) \<Longrightarrow> tnum s m t = Some w \<Longrightarrow> texpr s m t = Some e \<Longrightarrow> result B ev \<sigma> w e v \<Longrightarrow>
    stands B ev \<sigma> s m t v"
  by (auto simp: stands_def)

lemma standsE:
  assumes "stands B ev \<sigma> s m t v" "v \<noteq> Unk"
  obtains w e where "temp_live s t (vty v)" "tnum s m t = Some w" "texpr s m t = Some e" "result B ev \<sigma> w e v"
  using assms by (auto simp: stands_def)

lemma set_slot_simps [simp]:
  "slots (set_slot t v m) = (slots m)(t := v)" "mrt (set_slot t v m) = mrt m"
  by (simp_all add: set_slot_def)

lemma as_expr_val [simp]: "as_expr (expr_val e) = Some e"
  by (simp add: expr_val_def split: option.split)

lemma wf_temps_same:
  "wf_temps s \<Longrightarrow> temps s' = temps s \<Longrightarrow> free_temps s' = free_temps s \<Longrightarrow> const_table s' = const_table s \<Longrightarrow>
    wf_temps s'"
  by (simp add: wf_temps_def temp_pair_def)

lemma same_temps:
  assumes "temps s' = temps s"
  shows "temp_live s' = temp_live s" "targ s' = targ s" "writable s' = writable s"
  using assms by (auto simp: fun_eq_iff temp_live_def temp_pair_def targ_def writable_def)

lemma targ_slots:
  assumes "slots m' u = slots m u"
  shows "arg64 m' (targ s u) = arg64 m (targ s u)" "argp m' (targ s u) = argp m (targ s u)"
  using assms by (simp_all add: targ_def arg64_def argp_def)

lemma stands_frame:
  assumes "stands B ev \<sigma> s m u v" "writable s t p" "u \<noteq> t"
    and "\<And>w. w \<notin> {t, t + 1} \<Longrightarrow> slots m' w = slots m w" "temps s' = temps s"
  shows "stands B ev \<sigma> s' m' u v"
proof (cases "v = Unk")
  case False
  with assms(1) obtain w e where u: "temp_live s u (vty v)" "tnum s m u = Some w" "texpr s m u = Some e"
    "result B ev \<sigma> w e v" by (rule standsE)
  have "temp_live s t (fst p)" using assms(2) by (simp add: writable_def)
  note disj = live_disjoint [OF this u(1)] live_disjoint [OF u(1) this]
  have "slots m' u = slots m u" "slots m' (u + 1) = slots m (u + 1)"
    using disj assms(3) by (auto intro!: assms(4))
  then have "tnum s' m' u = Some w" "texpr s' m' u = Some e"
    using targ_slots [of m' u m s] targ_slots [of m' "u + 1" m s] u(2,3) same_temps(2) [OF assms(5)]
    by (simp_all add: tnum_def texpr_def)
  moreover have "temp_live s' u (vty v)" using u(1) same_temps(1) [OF assms(5)] by simp
  ultimately show ?thesis by (intro standsI [OF _ _ _ u(4)])
qed simp

lemma St_assign:
  assumes "St B ev \<sigma> b L A r s m" "lty L t = Some ty"
    and "\<And>w. w \<notin> {t, t + 1} \<Longrightarrow> slots m' w = slots m w" "mrt m' = r'"
    and s': "temps s' = temps s" "free_temps s' = free_temps s" "const_table s' = const_table s"
    and "stands B ev \<sigma> s' m' t v"
  shows "St B ev \<sigma> b L (A(t := v)) r' s' m'"
proof -
  obtain f where "writable s t (ty, f)" using St_wr [OF assms(1,2)] by blast
  then have "stands B ev \<sigma> s' m' u (A u)" if "u \<noteq> t" for u
    using stands_frame [OF St_stands [OF assms(1) refl] _ that assms(3) s'(1)] by blast
  then show ?thesis
    using assms(1,4,8) s' wf_temps_same [of s s'] same_temps [OF s'(1)] by (auto simp: St_def)
qed


subsection \<open>Allocation\<close>

lemma St_temps_kept:
  assumes "St B ev \<sigma> b L A r s m" and "wf_temps s'" and "temps_kept X s s'" and "nb_temps s' + b' \<le> TCG_MAX_TEMPS"
    and "\<And>t. t \<in> X \<Longrightarrow> L t = None \<and> A t = Unk"
  shows "St B ev \<sigma> b' L A r s' m"
proof -
  have keep: "temp_live s' t ty \<and> temps s' ! t = temps s ! t \<and> temps s' ! (t + 1) = temps s ! (t + 1)"
    if "temp_live s t ty" "t \<notin> X" for t ty
    using that assms(3) temp_live_kept [OF assms(3) that] by (auto simp: temps_kept_def)
  have "stands B ev \<sigma> s' m t (A t)" for t
  proof (cases "A t = Unk")
    case False
    then obtain w e where t: "temp_live s t (vty (A t))" "tnum s m t = Some w" "texpr s m t = Some e"
      "result B ev \<sigma> w e (A t)" using St_stands [OF assms(1) refl, of t] by (auto elim!: standsE)
    have "t \<notin> X" using False assms(5) by auto
    with keep [OF t(1)] t show ?thesis
      by (intro standsI [OF _ _ _ t(4)]) (auto simp: tnum_def texpr_def targ_def)
  qed simp
  moreover have "writable s' t p" if "L t = Some p" for t p
  proof -
    have w: "writable s t p" using assms(1) that by (cases p) (auto simp: St_def)
    moreover have "t \<notin> X" using that assms(5) [of t] by auto
    ultimately show ?thesis using keep [of t "fst p"] by (auto simp: writable_def)
  qed
  ultimately show ?thesis using assms(1,2,4) by (auto simp: St_def)
qed

lemma stands_not_live:
  assumes "stands B ev \<sigma> s m t v" "\<And>ty. \<not> temp_live s t ty"
  shows "v = Unk"
  using assms by (auto simp: stands_def)

lemma runs_new:
  assumes "St B ev \<sigma> b L A r s m" and "2 \<le> b" and "ty \<noteq> TCG_TYPE_I128" and "k \<in> {TEMP_TB, TEMP_EBB}"
    and "\<And>t s'. (\<And>u. A u \<noteq> Unk \<Longrightarrow> u \<noteq> t \<and> t \<noteq> u) \<Longrightarrow> (\<And>u. lty L u \<noteq> None \<Longrightarrow> u \<noteq> t \<and> t \<noteq> u) \<Longrightarrow> A t = Unk \<Longrightarrow> L t = None \<Longrightarrow>
      St B ev \<sigma> (b - 2) (L(t \<mapsto> (ty, True))) A r s' m \<Longrightarrow> runs B env fl s' m (g t s') Q"
  shows "runs B env fl s m (Option.bind (tcg_temp_new_internal ty k s) (case_prod g)) Q"
proof -
  have wf: "wf_temps s" "nb_temps s + b \<le> TCG_MAX_TEMPS" using assms(1) by (auto simp: St_def)
  obtain t s' where new: "tcg_temp_new_internal ty k s = Some (t, s')" and fresh: "fresh_temp ty k s t s'"
    using tcg_temp_new_internal_ok [OF wf(1) _ assms(3,4)] wf(2) assms(2) by auto
  have A: "A t = Unk"
    using stands_not_live [OF St_stands [OF assms(1) refl]] fresh by (simp add: fresh_temp_def)
  have "writable s t p" if "L t = Some p" for p using assms(1) that by (cases p) (auto simp: St_def)
  then have L: "L t = None" using fresh by (cases "L t") (auto simp: fresh_temp_def writable_def)
  have "St B ev \<sigma> (b - 2) L A r s' m"
    by (rule St_temps_kept [OF assms(1), of s' "{}"]) (use fresh wf(2) assms(2) in \<open>auto simp: fresh_temp_def\<close>)
  then have "St B ev \<sigma> (b - 2) (L(t \<mapsto> (ty, True))) A r s' m"
    using fresh assms(4) by (auto simp: St_def fresh_temp_def writable_def)
  then have "runs B env fl s' m (g t s') Q" using A L by (intro assms(5)) (auto simp: lty_def)
  moreover have "tcg_ops s' = tcg_ops s" using fresh by (simp add: fresh_temp_def temps_kept_def)
  ultimately show ?thesis by (simp add: new runs_def)
qed

text \<open>A constant stands for itself; one that was in use already keeps its meaning.\<close>

definition cval :: "TCGType \<Rightarrow> u64 \<Rightarrow> aval" where
  "cval ty v = (if ty = I32 then V32 (ucast v) (ucast v) else V64 v v)"

lemma const_stands:
  assumes "const_temp ty v s t" and "ty \<in> {I32, I64}"
  shows "stands B ev \<sigma> s m t (cval ty v)"
    and "stands B ev \<sigma> s m t w \<Longrightarrow> w \<noteq> Unk \<Longrightarrow> w = cval ty v"
proof -
  have t: "temp_live s t ty" "tnum s m t = Some v" "texpr s m t = Some None"
    using assms(1)
    by (auto simp: const_temp_def tnum_def texpr_def targ_def arg64_def argp_def temp_live_def temp_pair_def)
  show "stands B ev \<sigma> s m t (cval ty v)"
    by (rule standsI [OF _ t(2,3)]) (use t(1) assms(2) in \<open>auto simp: cval_def\<close>)
  show "w = cval ty v" if "stands B ev \<sigma> s m t w" "w \<noteq> Unk"
    using that t assms(2) by (cases w) (auto simp: cval_def temp_live_def stands_def)
qed

lemma kept_const:
  assumes "St B ev \<sigma> b L A r s m" and "2 \<le> b" and "ty \<in> {I32, I64}"
    and "\<And>c s'. temps_kept {} s s' \<Longrightarrow> const_temp ty v s' c \<Longrightarrow> St B ev \<sigma> (b - 2) L A r s' m \<Longrightarrow> runs B env fl s' m (g c s') Q"
  shows "runs B env fl s m (Option.bind (tcg_constant_internal ty v s) (case_prod g)) Q"
proof -
  have wf: "wf_temps s" "nb_temps s + b \<le> TCG_MAX_TEMPS" using assms(1) by (auto simp: St_def)
  obtain c s' where new: "tcg_constant_internal ty v s = Some (c, s')" and c: "wf_temps s'" "temps_kept {} s s'"
    "const_temp ty v s' c" "nb_temps s' \<le> nb_temps s + 2"
    using tcg_constant_internal_ok [OF wf(1), of ty v] wf(2) assms(2,3) by fastforce
  have st: "St B ev \<sigma> (b - 2) L A r s' m"
    by (rule St_temps_kept [OF assms(1) c(1,2)]) (use c(4) wf(2) assms(2) in auto)
  moreover have "tcg_ops s' = tcg_ops s" using c(2) by (simp add: temps_kept_def)
  ultimately show ?thesis using assms(4) [OF c(2,3) st] by (simp add: new runs_def)
qed

lemma runs_const:
  assumes "St B ev \<sigma> b L A r s m" and "2 \<le> b" and "ty \<in> {I32, I64}"
    and "\<And>c s' A'. A' c = cval ty v \<Longrightarrow> (\<And>u. A u \<noteq> Unk \<Longrightarrow> A' u = A u) \<Longrightarrow>
      (\<And>u. lty L u \<noteq> None \<Longrightarrow> u \<noteq> c \<and> c \<noteq> u) \<Longrightarrow> L c = None \<Longrightarrow>
      St B ev \<sigma> (b - 2) L A' r s' m \<Longrightarrow> runs B env fl s' m (g c s') Q"
  shows "runs B env fl s m (Option.bind (tcg_constant_internal ty v s) (case_prod g)) Q"
proof (rule kept_const [OF assms(1-3)])
  fix c s' assume c: "const_temp ty v s' c" and st: "St B ev \<sigma> (b - 2) L A r s' m"
  have "writable s' c p" if "L c = Some p" for p using st that by (cases p) (auto simp: St_def)
  then have L: "L c = None" using c by (cases "L c") (auto simp: const_temp_def writable_def)
  have A: "A c \<noteq> Unk \<Longrightarrow> A c = cval ty v"
    using const_stands(2) [OF c assms(3) St_stands [OF st refl]] by simp
  have "St B ev \<sigma> (b - 2) L (A(c := cval ty v)) r s' m"
    using st const_stands(1) [OF c assms(3)] by (auto simp: St_def)
  then show "runs B env fl s' m (g c s') Q" using A L by (intro assms(4) [of "A(c := cval ty v)"]) (auto simp: lty_def)
qed

lemma runs_free:
  assumes "St B ev \<sigma> b L A r s m" and "L t = Some (ty, True)"
    and "\<And>s'. St B ev \<sigma> b (L(t := None)) (A(t := Unk)) r s' m \<Longrightarrow> Q s' m"
  shows "runs B env Next s m (tcg_temp_free_internal t s) Q"
proof -
  have wf: "wf_temps s" "nb_temps s + b \<le> TCG_MAX_TEMPS" and t: "writable s t (ty, True)"
    using assms(1,2) by (auto simp: St_def)
  then obtain s' where s': "tcg_temp_free_internal t s = Some s'" "wf_temps s'" "temps_kept {t} s s'"
    "nb_temps s' = nb_temps s"
    using tcg_temp_free_internal_ok [of s t ty] by (auto simp: writable_def)
  have "St B ev \<sigma> b (L(t := None)) (A(t := Unk)) r s m"
    by (rule St_weaken [OF assms(1)]) (auto split: if_splits)
  then have "St B ev \<sigma> b (L(t := None)) (A(t := Unk)) r s' m"
    by (rule St_temps_kept [OF _ s'(2,3)]) (use wf(2) s'(4) in auto)
  moreover have "tcg_ops s' = tcg_ops s" using s'(3) by (simp add: temps_kept_def)
  ultimately show ?thesis using assms(3) by (auto simp: runs_def s'(1))
qed


subsection \<open>Emitted operations\<close>

lemma emit_simps [simp]:
  "temp_live (tcg_emit_op opc args s) = temp_live s" "targ (tcg_emit_op opc args s) = targ s"
  "writable (tcg_emit_op opc args s) = writable s" "temp_arg t (tcg_emit_op opc args s) = temp_arg t s"
  "temp_expr (tcg_emit_op opc args s) t = temp_expr s t"
  "tcgv_i32_expr t (tcg_emit_op opc args s) = tcgv_i32_expr t s"
  "tcgv_i64_expr t (tcg_emit_op opc args s) = tcgv_i64_expr t s"
  by (simp_all add: same_temps [of "tcg_emit_op opc args s" s] temp_arg_def temp_expr_def tcgv_i32_expr_def
      tcgv_i64_expr_def)

lemma emit_ops [simp]: "tcg_ops (tcg_emit_op opc args s) = tcg_ops s @ [TCGOp opc args]"
  by (simp add: tcg_emit_op_def)

lemma callN_expr:
  assumes "temp_live s t ty" "kind (temps s ! t) \<noteq> TEMP_CONST" "\<forall>a \<in> set args. a < nb_temps s"
  shows "tcg_gen_callN f (Some (t + 1)) args s =
    Some (tcg_emit_op (INDEX_op_call f) (TempArg (t + 1) # map (targ s) args) s)"
proof -
  have w: "writable s t (ty, False)" using assms(1,2) by (simp add: writable_def)
  have "those (map (\<lambda>a. temp_arg a s) args) = Some (map (targ s) args)"
    using assms(3) by (induction args) (simp_all add: temp_arg_targ)
  then show ?thesis
    using live_symbolic [OF assms(1)] temp_live_less [OF assms(1)] writable_arg(2) [OF w]
    by (simp add: tcg_gen_callN_def temp_arg_targ)
qed

lemma runs_emitted:
  assumes "St B ev \<sigma> b L A r s m" "lty L t = Some ty"
    and "x = Some s'" "tcg_ops s' = tcg_ops s @ new"
    and "temps s' = temps s" "free_temps s' = free_temps s" "const_table s' = const_table s"
    and "exec_ops B env new m = Some (Next, m')"
    and "\<And>w. w \<notin> {t, t + 1} \<Longrightarrow> slots m' w = slots m w" "mrt m' = r'"
    and "slots m' t = Num w" "slots m' (t + 1) = expr_val e" "result B ev \<sigma> w e v" "vty v = ty"
    and "\<And>s' m'. St B ev \<sigma> b L (A(t := v)) r' s' m' \<Longrightarrow> Q s' m'"
  shows "runs B env Next s m x Q"
proof -
  obtain f where t: "writable s t (ty, f)" using St_wr [OF assms(1,2)] by blast
  then have "targ s' t = TempArg t" "targ s' (t + 1) = TempArg (t + 1)" "temp_live s' t ty"
    using writable_arg [OF t] by (simp_all add: same_temps [OF assms(5)] writable_def)
  then have "stands B ev \<sigma> s' m' t v"
    using assms(11-14) by (intro standsI) (auto simp: tnum_def texpr_def arg64_def argp_def)
  then have "St B ev \<sigma> b L (A(t := v)) r' s' m'"
    by (intro St_assign [OF assms(1,2)] assms(5-7,9,10)) auto
  then show ?thesis using assms(3,4,8,15) by (auto simp: runs_def)
qed

text \<open>The facts about an operand that evaluating an operation needs.\<close>

lemma operand:
  assumes "St B ev \<sigma> b L A r s m" "A t = v" "v \<noteq> Unk"
  obtains w e where "temp_live s t (vty v)" "arg64 m (targ s t) = Some w" "argp m (targ s (t + 1)) = Some e"
    "result B ev \<sigma> w e v"
  using St_stands [OF assms(1,2)] assms(3) by (auto simp: stands_def tnum_def texpr_def)

lemma target:
  assumes "St B ev \<sigma> b L A r s m" "lty L t = Some ty"
  obtains "temp_live s t ty" "kind (temps s ! t) \<noteq> TEMP_CONST" "targ s t = TempArg t" "targ s (t + 1) = TempArg (t + 1)"
proof -
  obtain f where t: "writable s t (ty, f)" using St_wr [OF assms] by blast
  from t writable_arg [OF t] show thesis by (intro that) (simp_all add: writable_def)
qed

lemma St_rt:
  assumes "St B ev \<sigma> b L A r s m"
  shows "(set_slot t v m)\<lparr>mrt := r\<rparr> = set_slot t v m"
  using assms by (auto simp: St_def set_slot_def)

text \<open>Writing the expression of a temporary leaves the numbers and the other expressions.\<close>

lemma arg_set_expr:
  assumes "temp_live s u ty" "temp_live s t ty'"
  shows "arg64 (set_slot (t + 1) v m) (targ s u) = arg64 m (targ s u)"
    and "u \<noteq> t \<Longrightarrow> argp (set_slot (t + 1) v m) (targ s (u + 1)) = argp m (targ s (u + 1))"
    and "u \<noteq> t \<Longrightarrow> arg64 (set_slot t (Num w) m) (targ s u) = arg64 m (targ s u)"
    and "argp (set_slot t (Num w) m) (targ s (u + 1)) = argp m (targ s (u + 1))"
  using live_disjoint [OF assms] by (simp_all add: targ_def arg64_def argp_def)

declare exec_call_def [opsem] exec_op_def [opsem] ret_expr_def [opsem] ret_expr_rt_def [opsem]
  ret_num_def [opsem] next_op_def [opsem]

subsection \<open>An operation beside its expression\<close>

text \<open>A helper call that computes the expression and an operation that computes the number, in both
  orders.\<close>

lemma runs_expr_op:
  assumes st: "St B ev \<sigma> b L A r s m" "lty L t = Some ty"
    and "x = Some (tcg_emit_op opc (TempArg t # oargs) (tcg_emit_op (INDEX_op_call h) (TempArg (t + 1) # eargs) s))"
    and "exec_call B env h (TempArg (t + 1) # eargs) m = Some (set_slot (t + 1) (expr_val e) m)"
    and "exec_op B env (TCGOp opc (TempArg t # oargs)) (set_slot (t + 1) (expr_val e) m) =
      Some (Next, set_slot t (Num w) (set_slot (t + 1) (expr_val e) m))"
    and "result B ev \<sigma> w e v" "vty v = ty"
    and Q: "\<And>s' m'. St B ev \<sigma> b L (A(t := v)) r s' m' \<Longrightarrow> Q s' m'"
  shows "runs B env Next s m x Q"
proof (rule runs_emitted [OF st assms(3) _ _ _ _ _ _ _ _ _ assms(6,7) Q])
  show "exec_ops B env [TCGOp (INDEX_op_call h) (TempArg (t + 1) # eargs), TCGOp opc (TempArg t # oargs)] m =
      Some (Next, set_slot t (Num w) (set_slot (t + 1) (expr_val e) m))"
    using assms(4,5) by (simp add: exec_op_def [of B env "TCGOp (INDEX_op_call h) _"] next_op_def)
qed (use st(1) in \<open>simp_all add: St_def\<close>)

lemma runs_op_expr:
  assumes st: "St B ev \<sigma> b L A r s m" "lty L t = Some ty"
    and "x = Some (tcg_emit_op (INDEX_op_call h) (TempArg (t + 1) # eargs) (tcg_emit_op opc (TempArg t # oargs) s))"
    and "exec_op B env (TCGOp opc (TempArg t # oargs)) m = Some (Next, set_slot t (Num w) m)"
    and "exec_call B env h (TempArg (t + 1) # eargs) (set_slot t (Num w) m) =
      Some (set_slot (t + 1) (expr_val e) ((set_slot t (Num w) m)\<lparr>mrt := r'\<rparr>))"
    and "result B ev \<sigma> w e v" "vty v = ty"
    and Q: "\<And>s' m'. St B ev \<sigma> b L (A(t := v)) r' s' m' \<Longrightarrow> Q s' m'"
  shows "runs B env Next s m x Q"
proof (rule runs_emitted [OF st assms(3) _ _ _ _ _ _ _ _ _ assms(6,7) Q])
  show "exec_ops B env [TCGOp opc (TempArg t # oargs), TCGOp (INDEX_op_call h) (TempArg (t + 1) # eargs)] m =
      Some (Next, set_slot (t + 1) (expr_val e) ((set_slot t (Num w) m)\<lparr>mrt := r'\<rparr>))"
    using assms(4,5) by (simp add: exec_op_def [of B env "TCGOp (INDEX_op_call h) _"] next_op_def)
qed simp_all

lemmas emit_defs = tcg_gen_op1_v_def tcg_gen_op1i_def tcg_gen_op2_v_def tcg_gen_op3_v_def tcg_gen_op3i_v_def
  tcg_gen_op4i_v_def tcg_gen_op4ii_v_def tcg_gen_op5_v_def tcg_gen_op5ii_v_def tcg_gen_op6i_v_def
  tcg_gen_op1_def tcg_gen_op2_def tcg_gen_op3_def tcg_gen_op4_def tcg_gen_op5_def tcg_gen_op6_def

lemma live_bounds: "temp_live s t ty \<Longrightarrow> t < nb_temps s" "temp_live s t ty \<Longrightarrow> Suc t < nb_temps s"
  by (auto dest: temp_live_less)

lemmas live_simps = live_arg live_expr live_bounds temp_expr_live

text \<open>The functions that all generators of one form share.\<close>

definition sym_binary :: "('e, 'm) backend \<Rightarrow> sym_helper \<Rightarrow> TCGType \<Rightarrow> u64 \<Rightarrow> 'e option \<Rightarrow> u64 \<Rightarrow> 'e option \<Rightarrow> 'e option option" where
  "sym_binary B k ty x p y q = (if ty = I32 then sym_binary_i32 B k (ucast x) p (ucast y) q else sym_binary_i64 B k x p y q)"

lemma gen_binary:
  assumes "temp_live s t ty" "kind (temps s ! t) \<noteq> TEMP_CONST" "temp_live s a ty1" "temp_live s c ty2"
  shows "SYM_HELPER_BINARY_64 k t a c s = Some (tcg_emit_op (INDEX_op_call (helper_sym_binary k I64))
      [TempArg (t + 1), targ s a, targ s (a + 1), targ s c, targ s (c + 1)] s)"
    and "SYM_HELPER_BINARY_32 k t a c s = Some (tcg_emit_op (INDEX_op_call (helper_sym_binary k I32))
      [TempArg (t + 1), targ s a, targ s (a + 1), targ s c, targ s (c + 1)] s)"
  using assms callN_expr [OF assms(1,2), of "[a, a + 1, c, c + 1]"] live_bounds [OF assms(3)] live_bounds [OF assms(4)]
  by (simp_all add: SYM_HELPER_BINARY_64_def SYM_HELPER_BINARY_32_def live_expr)

lemma runs_binary:
  assumes st: "St B ev \<sigma> b L A r s m" "lty L t = Some ty" "A a1 = v1" "A a2 = v2" "v1 \<noteq> Unk" "v2 \<noteq> Unk"
    and sem: "\<And>w1 e1 w2 e2. result B ev \<sigma> w1 e1 v1 \<Longrightarrow> result B ev \<sigma> w2 e2 v2 \<Longrightarrow>
      \<exists>w e. tci_rrr opc ty w1 w2 = Some w \<and> sym_binary B k ty w1 e1 w2 e2 = Some e \<and> result B ev \<sigma> w e v"
    and "vty v = ty" "hlp = (if ty = I32 then SYM_HELPER_BINARY_32 else SYM_HELPER_BINARY_64)" "ty \<in> {I32, I64}"
    and Q: "\<And>s' m'. St B ev \<sigma> b L (A(t := v)) r s' m' \<Longrightarrow> Q s' m'"
  shows "runs B env Next s m (Option.bind (hlp k t a1 a2 s) (tcg_gen_op3_v (op_rrr opc ty) t a1 a2)) Q"
    and "t \<noteq> a1 \<Longrightarrow> t \<noteq> a2 \<Longrightarrow>
      runs B env Next s m (Option.bind (tcg_gen_op3_v (op_rrr opc ty) t a1 a2 s) (hlp k t a1 a2)) Q"
proof -
  obtain w1 e1 where a1: "temp_live s a1 (vty v1)" "arg64 m (targ s a1) = Some w1" "argp m (targ s (a1 + 1)) = Some e1"
    "result B ev \<sigma> w1 e1 v1" using st(1,3,5) by (rule operand)
  obtain w2 e2 where a2: "temp_live s a2 (vty v2)" "arg64 m (targ s a2) = Some w2" "argp m (targ s (a2 + 1)) = Some e2"
    "result B ev \<sigma> w2 e2 v2" using st(1,4,6) by (rule operand)
  obtain t: "temp_live s t ty" "kind (temps s ! t) \<noteq> TEMP_CONST" "targ s t = TempArg t" using st(1,2) by (rule target)
  obtain w e where w: "tci_rrr opc ty w1 w2 = Some w" "sym_binary B k ty w1 e1 w2 e2 = Some e" "result B ev \<sigma> w e v"
    using sem [OF a1(4) a2(4)] by blast
  note frame = arg_set_expr [OF a1(1) t(1), simplified] arg_set_expr [OF a2(1) t(1), simplified]
  have gen: "Option.bind (hlp k t a1 a2 s) (tcg_gen_op3_v (op_rrr opc ty) t a1 a2) =
    Some (tcg_emit_op (op_rrr opc ty) [TempArg t, targ s a1, targ s a2]
      (tcg_emit_op (INDEX_op_call (helper_sym_binary k ty))
        [TempArg (t + 1), targ s a1, targ s (a1 + 1), targ s a2, targ s (a2 + 1)] s))"
    using t a1(1) a2(1) assms(9,10) by (auto simp: gen_binary emit_defs live_simps)
  show "runs B env Next s m (Option.bind (hlp k t a1 a2 s) (tcg_gen_op3_v (op_rrr opc ty) t a1 a2)) Q"
    by (rule runs_expr_op [OF st(1,2) gen _ _ w(3) assms(8) Q])
      (use a1 a2 w in \<open>simp_all add: opsem frame sym_binary_def\<close>)
  assume ne: "t \<noteq> a1" "t \<noteq> a2"
  have gen: "Option.bind (tcg_gen_op3_v (op_rrr opc ty) t a1 a2 s) (hlp k t a1 a2) =
    Some (tcg_emit_op (INDEX_op_call (helper_sym_binary k ty))
        [TempArg (t + 1), targ s a1, targ s (a1 + 1), targ s a2, targ s (a2 + 1)]
      (tcg_emit_op (op_rrr opc ty) [TempArg t, targ s a1, targ s a2] s))"
    using t a1(1) a2(1) assms(9,10) by (auto simp: gen_binary emit_defs live_simps)
  show "runs B env Next s m (Option.bind (tcg_gen_op3_v (op_rrr opc ty) t a1 a2 s) (hlp k t a1 a2)) Q"
    by (rule runs_op_expr [OF st(1,2) gen _ _ w(3) assms(8) Q])
      (use a1 a2 w ne in \<open>simp_all add: opsem frame sym_binary_def St_rt [OF st(1)]\<close>)
qed

lemma runs_unary:
  assumes st: "St B ev \<sigma> b L A r s m" "lty L t = Some ty" "A a = v1" "v1 \<noteq> Unk"
    and sem: "\<And>w1 e1. result B ev \<sigma> w1 e1 v1 \<Longrightarrow>
      \<exists>w e. tci_rr opc ty' w1 = Some w \<and> run_sym_unary B u e1 = Some e \<and> result B ev \<sigma> w e v"
    and "vty v = ty"
    and Q: "\<And>s' m'. St B ev \<sigma> b L (A(t := v)) r s' m' \<Longrightarrow> Q s' m'"
  shows "runs B env Next s m (Option.bind (gen_helper_sym_unary u t a s) (tcg_gen_op2_v (op_rr opc ty') t a)) Q"
proof -
  obtain w1 e1 where a: "temp_live s a (vty v1)" "arg64 m (targ s a) = Some w1" "argp m (targ s (a + 1)) = Some e1"
    "result B ev \<sigma> w1 e1 v1" using st(1,3,4) by (rule operand)
  obtain t: "temp_live s t ty" "kind (temps s ! t) \<noteq> TEMP_CONST" "targ s t = TempArg t" using st(1,2) by (rule target)
  obtain w e where w: "tci_rr opc ty' w1 = Some w" "run_sym_unary B u e1 = Some e" "result B ev \<sigma> w e v"
    using sem [OF a(4)] by blast
  note frame = arg_set_expr [OF a(1) t(1), simplified]
  have gen: "Option.bind (gen_helper_sym_unary u t a s) (tcg_gen_op2_v (op_rr opc ty') t a) =
    Some (tcg_emit_op (op_rr opc ty') [TempArg t, targ s a]
      (tcg_emit_op (INDEX_op_call (helper_sym_unary u)) [TempArg (t + 1), targ s (a + 1)] s))"
    using t a(1) callN_expr [OF t(1,2), of "[a + 1]"]
    by (auto simp: gen_helper_sym_unary_def emit_defs live_simps)
  have "arg_val (set_slot (t + 1) (expr_val e) m) (targ s a) = Some (Num w1)"
    using a(2) frame(1) [of "expr_val e" m] unfolding arg64_def by (auto simp: bind_eq_Some_conv elim!: as_num.elims)
  moreover have "w = w1" if "opc = INDEX_op_mov" using w(1) that by (simp add: tci_rr_def)
  ultimately show ?thesis
    by (intro runs_expr_op [OF st(1,2) gen _ _ w(3) assms(6) Q])
      (use a w in \<open>simp_all add: opsem frame\<close>)
qed

lemma runs_length:
  assumes st: "St B ev \<sigma> b L A r s m" "lty L t = Some ty" "A a = v1" "v1 \<noteq> Unk" "2 \<le> b"
    and sem: "\<And>w1 e1. result B ev \<sigma> w1 e1 v1 \<Longrightarrow> \<exists>e. run_sym_length B u e1 n = Some e \<and> result B ev \<sigma> (f w1) e v"
    and "vty v = ty"
    and op: "fin = tcg_gen_op2_v (op_rr opc ty') t a \<and> opc \<noteq> INDEX_op_mov \<and> (\<forall>w. tci_rr opc ty' w = Some (f w)) \<or>
      fin = tcg_gen_op3i_v (op_bswap opb ty') t a fl \<and> f = (\<lambda>w. tci_bswap opb ty' w fl)"
    and Q: "\<And>s' m'. St B ev \<sigma> (b - 2) L (A(t := v)) r s' m' \<Longrightarrow> Q s' m'"
  shows "runs B env Next s m (Option.bind (gen_helper_sym_length u t a n s) fin) Q"
  unfolding gen_helper_sym_length_def tcg_constant_i64_def bind_assoc case_prod_beta'
proof (rule runs_const [OF st(1,5), unfolded case_prod_beta'], simp)
  fix c s' A'
  assume c: "A' c = cval I64 n" "\<And>u. A u \<noteq> Unk \<Longrightarrow> A' u = A u" and st': "St B ev \<sigma> (b - 2) L A' r s' m"
  obtain w1 e1 where a: "temp_live s' a (vty v1)" "arg64 m (targ s' a) = Some w1" "argp m (targ s' (a + 1)) = Some e1"
    "result B ev \<sigma> w1 e1 v1" using operand [OF st', of a v1] c(2) [of a] st(3,4) by auto
  have c1: "temp_live s' c I64" "arg64 m (targ s' c) = Some n" using operand [OF st' c(1)] by (auto simp: cval_def)
  obtain t: "temp_live s' t ty" "kind (temps s' ! t) \<noteq> TEMP_CONST" "targ s' t = TempArg t" using st' st(2) by (rule target)
  obtain e where w: "run_sym_length B u e1 n = Some e" "result B ev \<sigma> (f w1) e v" using sem [OF a(4)] by blast
  note frame = arg_set_expr [OF a(1) t(1), simplified]
  have Q': "Q s m" if "St B ev \<sigma> (b - 2) L (A'(t := v)) r s m" for s m
    by (rule Q, rule St_weaken [OF that]) (auto simp: c(2) split: if_splits)
  let ?call = "tcg_emit_op (INDEX_op_call (helper_sym_length u)) [TempArg (t + 1), targ s' (a + 1), targ s' c] s'"
  have gen: "Option.bind (temp_expr s' t) (\<lambda>er. Option.bind (temp_expr s' a)
      (\<lambda>ea. Option.bind (tcg_gen_callN (helper_sym_length u) (Some er) [ea, c] s') g)) = g ?call" for g :: "ctx \<Rightarrow> ctx option"
    using t a(1) c1(1) callN_expr [OF t(1,2), of "[a + 1, c]"] by (simp add: live_simps)
  show "runs B env Next s' m (Option.bind (temp_expr s' t) (\<lambda>er. Option.bind (temp_expr s' a)
      (\<lambda>ea. Option.bind (tcg_gen_callN (helper_sym_length u) (Some er) [ea, c] s') fin))) Q"
    unfolding gen using op
  proof (elim disjE conjE)
    assume fin: "fin = tcg_gen_op2_v (op_rr opc ty') t a" "opc \<noteq> INDEX_op_mov" "\<forall>w. tci_rr opc ty' w = Some (f w)"
    have "fin ?call = Some (tcg_emit_op (op_rr opc ty') [TempArg t, targ s' a] ?call)"
      using fin(1) t a(1) by (simp add: emit_defs live_simps)
    then show "runs B env Next s' m (fin ?call) Q"
      by (rule runs_expr_op [OF st' st(2) _ _ _ w(2) assms(7) Q'])
        (use a w c1 fin in \<open>simp_all add: opsem frame\<close>)
  next
    assume fin: "fin = tcg_gen_op3i_v (op_bswap opb ty') t a fl" "f = (\<lambda>w. tci_bswap opb ty' w fl)"
    have "fin ?call = Some (tcg_emit_op (op_bswap opb ty') [TempArg t, targ s' a, ImmArg fl] ?call)"
      using fin(1) t a(1) by (simp add: emit_defs live_simps)
    then show "runs B env Next s' m (fin ?call) Q"
      by (rule runs_expr_op [OF st' st(2) _ _ _ w(2) assms(7) Q'])
        (use a w c1 fin in \<open>simp_all add: opsem frame\<close>)
  qed
qed

text \<open>A move copies the expression and the number.\<close>

lemma expr_arg_val: "argp m a = Some e \<Longrightarrow> arg_val m a = Some (expr_val e)"
  unfolding argp_def by (auto simp: bind_eq_Some_conv expr_val_def elim!: as_expr.elims split: if_splits)

lemma num_arg_val: "arg64 m a = Some w \<Longrightarrow> arg_val m a = Some (Num w)"
  unfolding arg64_def by (auto simp: bind_eq_Some_conv elim!: as_num.elims)

lemma runs_moves:
  assumes st: "St B ev \<sigma> b L A r s m" "lty L t = Some ty" "A a = v" "vty v = ty" "v \<noteq> Unk" "t \<noteq> a"
    and Q: "\<And>s' m'. St B ev \<sigma> b L (A(t := v)) r s' m' \<Longrightarrow> Q s' m'"
  shows "runs B env Next s m
    (Option.bind (tcg_gen_op2_v (op_rr INDEX_op_mov ty') (t + 1) (a + 1) s) (tcg_gen_op2_v (op_rr INDEX_op_mov ty'') t a)) Q"
proof -
  obtain w e where a: "temp_live s a (vty v)" "arg64 m (targ s a) = Some w" "argp m (targ s (a + 1)) = Some e"
    "result B ev \<sigma> w e v" using st(1,3,5) by (rule operand)
  obtain t: "temp_live s t ty" "targ s t = TempArg t" "targ s (t + 1) = TempArg (t + 1)" using st(1,2) by (rule target)
  note frame = arg_set_expr [OF a(1) t(1), simplified]
  have "arg_val m (targ s (a + 1)) = Some (expr_val e)"
    "arg_val (set_slot (t + 1) (expr_val e) m) (targ s a) = Some (Num w)"
    using a(2,3) frame(1) [of "expr_val e" m] by (simp_all add: expr_arg_val num_arg_val)
  then have exec: "exec_ops B env [TCGOp (op_rr INDEX_op_mov ty') [TempArg (t + 1), targ s (a + 1)],
      TCGOp (op_rr INDEX_op_mov ty'') [TempArg t, targ s a]] m =
      Some (Next, set_slot t (Num w) (set_slot (t + 1) (expr_val e) m))"
    by (simp add: opsem)
  have gen: "Option.bind (tcg_gen_op2_v (op_rr INDEX_op_mov ty') (t + 1) (a + 1) s) (tcg_gen_op2_v (op_rr INDEX_op_mov ty'') t a)
    = Some (tcg_emit_op (op_rr INDEX_op_mov ty'') [TempArg t, targ s a]
        (tcg_emit_op (op_rr INDEX_op_mov ty') [TempArg (t + 1), targ s (a + 1)] s))"
    using t a(1) by (simp add: emit_defs live_simps)
  show ?thesis
    by (rule runs_emitted [OF st(1,2) gen _ _ _ _ exec _ _ _ _ a(4) st(4) Q])
      (use st(1) in \<open>simp_all add: St_def\<close>)
qed

lemma tcg_gen_mov_i64 [vcg]:
  assumes "St B ev \<sigma> b L A r s m" "lty L t = Some I64" "A a = V64 c x"
    and Q: "\<And>s' m'. St B ev \<sigma> b L (A(t := V64 c x)) r s' m' \<Longrightarrow> Q s' m'"
  shows "runs B env Next s m (tcg_gen_mov_i64 t a s) Q"
proof (cases "t = a")
  case True
  then show ?thesis using assms by (auto simp: tcg_gen_mov_i64_def tcg_gen_mov_i64_internal_def fun_upd_idem intro!: runs_return)
next
  case False
  obtain "temp_live s a I64" "temp_live s t I64"
    using operand [OF assms(1,3)] target [OF assms(1,2)] by (metis aval.distinct(3) vty.simps(2))
  then show ?thesis
    unfolding tcg_gen_mov_i64_def tcg_gen_mov_i64_internal_def using False
    by (simp add: live_simps runs_moves [OF assms(1-3) _ _ False Q, simplified])
qed

lemma tcg_gen_mov_i32 [vcg]:
  assumes "St B ev \<sigma> b L A r s m" "lty L t = Some I32" "A a = V32 c x"
    and Q: "\<And>s' m'. St B ev \<sigma> b L (A(t := V32 c x)) r s' m' \<Longrightarrow> Q s' m'"
  shows "runs B env Next s m (tcg_gen_mov_i32 t a s) Q"
proof (cases "t = a")
  case True
  then show ?thesis using assms by (auto simp: tcg_gen_mov_i32_def tcg_gen_mov_i32_internal_def fun_upd_idem intro!: runs_return)
next
  case False
  obtain "temp_live s a I32" "temp_live s t I32"
    using operand [OF assms(1,3)] target [OF assms(1,2)] by (metis aval.distinct(1) vty.simps(1))
  then show ?thesis
    unfolding tcg_gen_mov_i32_def tcg_gen_mov_i32_internal_def using False
    by (simp add: live_simps runs_moves [OF assms(1-3) _ _ False Q, simplified])
qed

subsection \<open>Concrete results\<close>

text \<open>A temporary whose expression is set to null first and whose number is computed then.\<close>

fun conc :: "aval \<Rightarrow> aval" where
  "conc (V32 c x) = V32 c c"
| "conc (V64 c x) = V64 c c"
| "conc Unk = Unk"

lemma conc_simps [simp]: "vty (conc v) = vty v" "conc v = Unk \<longleftrightarrow> v = Unk"
  by (cases v; simp)+

lemma result_conc: "result B ev \<sigma> w e v \<Longrightarrow> result B ev \<sigma> w None (conc v)"
  by (cases v) simp_all

lemma runs_null_expr:
  assumes st: "St B ev \<sigma> b L A r s m" "lty L t = Some ty" "A z = V64 0 x"
    and Q: "\<And>s' m'. St B ev \<sigma> b L (A(t := conc (A t))) r s' m' \<Longrightarrow> slots m' (t + 1) = Num 0 \<Longrightarrow> Q s' m'"
  shows "runs B env Next s m (tcg_gen_op2_v (op_rr INDEX_op_mov ty') (t + 1) z s) Q"
    and "runs B env Next s m (tcg_gen_mov_i64_concrete (t + 1) z s) Q"
proof -
  obtain w where z: "temp_live s z I64" "arg64 m (targ s z) = Some 0" using operand [OF st(1,3)] by auto
  obtain t: "temp_live s t ty" "targ s t = TempArg t" "targ s (t + 1) = TempArg (t + 1)" using st(1,2) by (rule target)
  let ?m = "set_slot (t + 1) (Num 0) m"
  have "stands B ev \<sigma> s ?m t (conc (A t))"
  proof (cases "A t = Unk")
    case False
    then obtain w e where "temp_live s t (vty (A t))" "arg64 m (targ s t) = Some w" "result B ev \<sigma> w e (A t)"
      using operand [OF st(1) refl] by metis
    then show ?thesis
      using t by (intro standsI [of _ _ _ _ w None]) (auto simp: tnum_def texpr_def arg64_def argp_def result_conc)
  qed simp
  then have "Q (tcg_emit_op (op_rr INDEX_op_mov ty') [TempArg (t + 1), targ s z] s) ?m" for ty'
    by (intro Q St_assign [OF st(1,2)]) (use st(1) in \<open>simp_all add: St_def stands_def tnum_def texpr_def\<close>)
  then have run: "runs B env Next s m (tcg_gen_op2_v (op_rr INDEX_op_mov ty') (t + 1) z s) Q" for ty'
    using t z num_arg_val [OF z(2)] by (auto simp: emit_defs live_simps opsem intro!: runs_emit)
  then show "runs B env Next s m (tcg_gen_op2_v (op_rr INDEX_op_mov ty') (t + 1) z s) Q" .
  show "runs B env Next s m (tcg_gen_mov_i64_concrete (t + 1) z s) Q"
    using run live_disjoint [OF z(1) t(1)] by (simp add: tcg_gen_mov_i64_concrete_def tcg_gen_mov_i64_internal_def)
qed

lemma runs_number:
  assumes st: "St B ev \<sigma> b L A r s m" "lty L t = Some ty" "slots m (t + 1) = Num 0"
    and "x = Some (tcg_emit_op opc (TempArg t # args) s)"
    and "exec_op B env (TCGOp opc (TempArg t # args)) m = Some (Next, set_slot t (Num w) m)"
    and "result B ev \<sigma> w None v" "vty v = ty"
    and Q: "\<And>s' m'. St B ev \<sigma> b L (A(t := v)) r s' m' \<Longrightarrow> Q s' m'"
  shows "runs B env Next s m x Q"
proof (rule runs_emitted [OF st(1,2) assms(4) _ _ _ _ _ _ _ _ _ assms(6,7) Q])
  show "exec_ops B env [TCGOp opc (TempArg t # args)] m = Some (Next, set_slot t (Num w) m)" using assms(5) by simp
qed (use st in \<open>simp_all add: St_def expr_val_def\<close>)

lemma those_args: "\<forall>a \<in> set args. a < nb_temps s \<Longrightarrow> those (map (\<lambda>t. temp_arg t s) args) = Some (map (targ s) args)"
  by (induction args) (simp_all add: temp_arg_targ)

text \<open>A helper that computes a number, called on \<open>args\<close>.\<close>

definition number_call ::
  "('e, 'm) backend \<Rightarrow> ('i \<Rightarrow> 'e \<Rightarrow> int) \<Rightarrow> 'i \<Rightarrow> CPUArchState \<Rightarrow> TCGHelper \<Rightarrow> aval list \<Rightarrow> aval \<Rightarrow> bool" where
  "number_call B ev \<sigma> env h vs v \<longleftrightarrow> (\<forall>t args m. list_all2 (\<lambda>a u. \<exists>w. arg64 m a = Some w \<and> result B ev \<sigma> w None (conc u)) args vs \<longrightarrow>
     (\<exists>w. exec_call B env h (TempArg t # args) m = Some (set_slot t (Num w) m) \<and> result B ev \<sigma> w None v))"

lemma runs_callN_number:
  assumes st: "St B ev \<sigma> b L A r s m" "lty L t = Some ty" "2 \<le> b" "\<forall>a \<in> set args. A a \<noteq> Unk"
    and sem: "number_call B ev \<sigma> env h (map A args) v" and "vty v = ty"
    and Q: "\<And>s' m'. St B ev \<sigma> (b - 2) L (A(t := v)) r s' m' \<Longrightarrow> Q s' m'"
  shows "runs B env Next s m (tcg_gen_callN h (Some t) args s) Q"
proof -
  obtain t: "temp_live s t ty" using st(1,2) by (rule target)
  have eq: "tcg_gen_callN h (Some t) args s = Option.bind
     (Option.bind (tcg_constant_internal I64 0 s) (case_prod (\<lambda>z. tcg_gen_mov_i64_concrete (t + 1) z)))
     (\<lambda>s. Option.bind (temp_arg t s) (\<lambda>d. Option.bind (those (map (\<lambda>t. temp_arg t s) args))
       (\<lambda>ins. Some (tcg_emit_op (INDEX_op_call h) (d # ins) s))))"
    using live_bounds(1) [OF t] live_symbolic [OF t] temp_expr_live [OF t]
    by (simp add: tcg_gen_callN_def map_option_case split: option.split bind_split)
  show ?thesis
    unfolding eq
  proof (rule runs_bind, rule runs_const [OF st(1,3)], simp, rule runs_null_expr(2) [OF _ st(2)], assumption, simp add: cval_def)
    fix z s1 A' s' m'
    assume A': "\<And>u. A u \<noteq> Unk \<Longrightarrow> A' u = A u"
      and st': "St B ev \<sigma> (b - 2) L (A'(t := conc (A' t))) r s' m'" "slots m' (t + 1) = Num 0"
    have arg: "a < nb_temps s' \<and> (\<exists>w. arg64 m' (targ s' a) = Some w \<and> result B ev \<sigma> w None (conc (A a)))"
      if "a \<in> set args" for a
    proof -
      let ?v = "(A'(t := conc (A' t))) a"
      have v: "?v \<noteq> Unk" "conc ?v = conc (A a)" using A' [of a] st(4) that by (cases "A a"; auto)+
      obtain w e where "temp_live s' a (vty ?v)" "arg64 m' (targ s' a) = Some w" "result B ev \<sigma> w e ?v"
        using operand [OF st'(1) refl v(1)] by metis
      then show ?thesis using result_conc [of B ev \<sigma> w e ?v] live_bounds(1) unfolding v(2) by blast
    qed
    then have "list_all2 (\<lambda>a u. \<exists>w. arg64 m' a = Some w \<and> result B ev \<sigma> w None (conc u)) (map (targ s') args) (map A args)"
      by (auto simp: list_all2_conv_all_nth)
    then obtain w where w: "exec_call B env h (TempArg t # map (targ s') args) m' = Some (set_slot t (Num w) m')"
      "result B ev \<sigma> w None v" using sem unfolding number_call_def by blast
    obtain t: "temp_live s' t ty" "targ s' t = TempArg t" using st'(1) st(2) by (rule target)
    have gen: "Option.bind (temp_arg t s') (\<lambda>d. Option.bind (those (map (\<lambda>t. temp_arg t s') args))
       (\<lambda>ins. Some (tcg_emit_op (INDEX_op_call h) (d # ins) s'))) =
      Some (tcg_emit_op (INDEX_op_call h) (TempArg t # map (targ s') args) s')"
      using arg t by (simp add: those_args live_simps)
    have Q': "Q s m" if "St B ev \<sigma> (b - 2) L ((A'(t := conc (A' t)))(t := v)) r s m" for s m
      by (rule Q, rule St_weaken [OF that]) (use A' in \<open>auto split: if_splits\<close>)
    show "runs B env Next s' m' (Option.bind (temp_arg t s') (\<lambda>d. Option.bind (those (map (\<lambda>t. temp_arg t s') args))
       (\<lambda>ins. Some (tcg_emit_op (INDEX_op_call h) (d # ins) s')))) Q"
      by (rule runs_number [OF st'(1) st(2) st'(2) gen _ w(2) assms(6) Q']) (use w(1) in \<open>simp_all add: opsem\<close>)
  qed
qed

subsection \<open>Bit fields\<close>

text \<open>The helpers for bit fields take the position and the length as constants of the type of the
  operation; \<open>te\<close> is the lookup of an expression at that type.\<close>

lemma runs_extract:
  assumes st: "St B ev \<sigma> b L A r s m" "lty L t = Some ty" "A a = v1" "v1 \<noteq> Unk" "A k = vk" "A n = vn" "vk \<noteq> Unk" "vn \<noteq> Unk"
    and sem: "\<And>w1 e1 wk ek wn en. result B ev \<sigma> w1 e1 v1 \<Longrightarrow> result B ev \<sigma> wk ek vk \<Longrightarrow> result B ev \<sigma> wn en vn \<Longrightarrow>
      \<exists>w e. f w1 = Some w \<and> g e1 wk wn = Some e \<and> result B ev \<sigma> w e v"
    and op: "(h, opc, f, g) = (helper_sym_extract ty, INDEX_op_extract ty, \<lambda>x. tci_extract ty x ofs len,
        \<lambda>p k n. if ty = I32 then sym_extract_i32 B p (ucast k) (ucast n) else sym_extract_i64 B p k n) \<or>
      (h, opc, f, g) = (helper_sym_sextract ty, INDEX_op_sextract ty, \<lambda>x. tci_sextract ty x ofs len,
        \<lambda>p k n. if ty = I32 then sym_sextract_i32 B p (ucast k) (ucast n) else sym_sextract_i64 B p k n)"
    and "vty v = ty" "te = tcgv_i32_expr \<or> te = tcgv_i64_expr"
    and Q: "\<And>s' m'. St B ev \<sigma> b L (A(t := v)) r s' m' \<Longrightarrow> Q s' m'"
  shows "runs B env Next s m (Option.bind (te t s) (\<lambda>er. Option.bind (te a s) (\<lambda>ea.
    Option.bind (tcg_gen_callN h (Some er) [ea, k, n] s) (tcg_gen_op4ii_v opc t a ofs len)))) Q"
proof -
  obtain w1 e1 where a: "temp_live s a (vty v1)" "arg64 m (targ s a) = Some w1" "argp m (targ s (a + 1)) = Some e1"
    "result B ev \<sigma> w1 e1 v1" using st(1,3,4) by (rule operand)
  obtain wk ek where k: "temp_live s k (vty vk)" "arg64 m (targ s k) = Some wk" "result B ev \<sigma> wk ek vk"
    using st(1,5,7) by (rule operand)
  obtain wn en where n: "temp_live s n (vty vn)" "arg64 m (targ s n) = Some wn" "result B ev \<sigma> wn en vn"
    using st(1,6,8) by (rule operand)
  obtain t: "temp_live s t ty" "kind (temps s ! t) \<noteq> TEMP_CONST" "targ s t = TempArg t" using st(1,2) by (rule target)
  obtain w e where w: "f w1 = Some w" "g e1 wk wn = Some e" "result B ev \<sigma> w e v"
    using sem [OF a(4) k(3) n(3)] by blast
  note frame = arg_set_expr [OF a(1) t(1), simplified]
  have gen: "Option.bind (te t s) (\<lambda>er. Option.bind (te a s) (\<lambda>ea.
    Option.bind (tcg_gen_callN h (Some er) [ea, k, n] s) (tcg_gen_op4ii_v opc t a ofs len))) =
    Some (tcg_emit_op opc [TempArg t, targ s a, ImmArg ofs, ImmArg len]
      (tcg_emit_op (INDEX_op_call h) [TempArg (t + 1), targ s (a + 1), targ s k, targ s n] s))"
    using t a(1) k(1) n(1) assms(12) callN_expr [OF t(1,2), of "[a + 1, k, n]"] by (auto simp: emit_defs live_simps)
  show ?thesis
    by (rule runs_expr_op [OF st(1,2) gen _ _ w(3) assms(11) Q])
      (use a k n w op in \<open>auto simp: opsem frame\<close>)
qed

lemma runs_deposit:
  assumes st: "St B ev \<sigma> b L A r s m" "lty L t = Some ty" "A a1 = v1" "A a2 = v2" "v1 \<noteq> Unk" "v2 \<noteq> Unk"
      "A k = vk" "A n = vn" "vk \<noteq> Unk" "vn \<noteq> Unk"
    and sem: "\<And>w1 e1 w2 e2 wk ek wn en. result B ev \<sigma> w1 e1 v1 \<Longrightarrow> result B ev \<sigma> w2 e2 v2 \<Longrightarrow>
      result B ev \<sigma> wk ek vk \<Longrightarrow> result B ev \<sigma> wn en vn \<Longrightarrow>
      \<exists>w e. tci_deposit ty w1 w2 ofs len = Some w \<and>
        (if ty = I32 then sym_deposit_i32 B (ucast w1) e1 (ucast w2) e2 (ucast wk) (ucast wn)
         else sym_deposit_i64 B w1 e1 w2 e2 wk wn) = Some e \<and> result B ev \<sigma> w e v"
    and "vty v = ty" "te = tcgv_i32_expr \<or> te = tcgv_i64_expr"
    and Q: "\<And>s' m'. St B ev \<sigma> b L (A(t := v)) r s' m' \<Longrightarrow> Q s' m'"
  shows "runs B env Next s m (Option.bind (te t s) (\<lambda>er. Option.bind (te a1 s) (\<lambda>e1. Option.bind (te a2 s) (\<lambda>e2.
    Option.bind (tcg_gen_callN (helper_sym_deposit ty) (Some er) [a1, e1, a2, e2, k, n] s)
      (tcg_gen_op5ii_v (INDEX_op_deposit ty) t a1 a2 ofs len))))) Q"
proof -
  obtain w1 e1 where a1: "temp_live s a1 (vty v1)" "arg64 m (targ s a1) = Some w1" "argp m (targ s (a1 + 1)) = Some e1"
    "result B ev \<sigma> w1 e1 v1" using st(1,3,5) by (rule operand)
  obtain w2 e2 where a2: "temp_live s a2 (vty v2)" "arg64 m (targ s a2) = Some w2" "argp m (targ s (a2 + 1)) = Some e2"
    "result B ev \<sigma> w2 e2 v2" using st(1,4,6) by (rule operand)
  obtain wk ek where k: "temp_live s k (vty vk)" "arg64 m (targ s k) = Some wk" "result B ev \<sigma> wk ek vk"
    using st(1,7,9) by (rule operand)
  obtain wn en where n: "temp_live s n (vty vn)" "arg64 m (targ s n) = Some wn" "result B ev \<sigma> wn en vn"
    using st(1,8,10) by (rule operand)
  obtain t: "temp_live s t ty" "kind (temps s ! t) \<noteq> TEMP_CONST" "targ s t = TempArg t" using st(1,2) by (rule target)
  obtain w e where w: "tci_deposit ty w1 w2 ofs len = Some w"
    "(if ty = I32 then sym_deposit_i32 B (ucast w1) e1 (ucast w2) e2 (ucast wk) (ucast wn)
      else sym_deposit_i64 B w1 e1 w2 e2 wk wn) = Some e" "result B ev \<sigma> w e v"
    using sem [OF a1(4) a2(4) k(3) n(3)] by blast
  note frame = arg_set_expr [OF a1(1) t(1), simplified] arg_set_expr [OF a2(1) t(1), simplified]
  have gen: "Option.bind (te t s) (\<lambda>er. Option.bind (te a1 s) (\<lambda>e1. Option.bind (te a2 s) (\<lambda>e2.
    Option.bind (tcg_gen_callN (helper_sym_deposit ty) (Some er) [a1, e1, a2, e2, k, n] s)
      (tcg_gen_op5ii_v (INDEX_op_deposit ty) t a1 a2 ofs len)))) =
    Some (tcg_emit_op (INDEX_op_deposit ty) [TempArg t, targ s a1, targ s a2, ImmArg ofs, ImmArg len]
      (tcg_emit_op (INDEX_op_call (helper_sym_deposit ty))
        [TempArg (t + 1), targ s a1, targ s (a1 + 1), targ s a2, targ s (a2 + 1), targ s k, targ s n] s))"
    using t a1(1) a2(1) k(1) n(1) assms(13) callN_expr [OF t(1,2), of "[a1, a1 + 1, a2, a2 + 1, k, n]"]
    by (auto simp: emit_defs live_simps)
  show ?thesis
    by (rule runs_expr_op [OF st(1,2) gen _ _ w(3) assms(12) Q])
      (use a1 a2 k n w in \<open>simp_all add: opsem frame\<close>)
qed

lemma runs_extract2:
  assumes st: "St B ev \<sigma> b L A r s m" "lty L t = Some ty" "A al = v1" "A ah = v2" "v1 \<noteq> Unk" "v2 \<noteq> Unk"
      "A k = vk" "vk \<noteq> Unk"
    and sem: "\<And>w1 e1 w2 e2 wk ek. result B ev \<sigma> w1 e1 v1 \<Longrightarrow> result B ev \<sigma> w2 e2 v2 \<Longrightarrow> result B ev \<sigma> wk ek vk \<Longrightarrow>
      \<exists>w e. op_extract2 ty w1 w2 ofs = Some w \<and>
        (if ty = I32 then sym_extract2_i32 B (ucast w2) e2 (ucast w1) e1 wk
         else sym_extract2_i64 B w2 e2 w1 e1 wk) = Some e \<and> result B ev \<sigma> w e v"
    and "vty v = ty" "te = tcgv_i32_expr \<or> te = tcgv_i64_expr"
    and Q: "\<And>s' m'. St B ev \<sigma> b L (A(t := v)) r s' m' \<Longrightarrow> Q s' m'"
  shows "runs B env Next s m (Option.bind (te t s) (\<lambda>er. Option.bind (te ah s) (\<lambda>eh. Option.bind (te al s) (\<lambda>el.
    Option.bind (tcg_gen_callN (helper_sym_extract2 ty) (Some er) [ah, eh, al, el, k] s)
      (tcg_gen_op4i_v (INDEX_op_extract2 ty) t al ah ofs))))) Q"
proof -
  obtain w1 e1 where a1: "temp_live s al (vty v1)" "arg64 m (targ s al) = Some w1" "argp m (targ s (al + 1)) = Some e1"
    "result B ev \<sigma> w1 e1 v1" using st(1,3,5) by (rule operand)
  obtain w2 e2 where a2: "temp_live s ah (vty v2)" "arg64 m (targ s ah) = Some w2" "argp m (targ s (ah + 1)) = Some e2"
    "result B ev \<sigma> w2 e2 v2" using st(1,4,6) by (rule operand)
  obtain wk ek where k: "temp_live s k (vty vk)" "arg64 m (targ s k) = Some wk" "result B ev \<sigma> wk ek vk"
    using st(1,7,8) by (rule operand)
  obtain t: "temp_live s t ty" "kind (temps s ! t) \<noteq> TEMP_CONST" "targ s t = TempArg t" using st(1,2) by (rule target)
  obtain w e where w: "op_extract2 ty w1 w2 ofs = Some w"
    "(if ty = I32 then sym_extract2_i32 B (ucast w2) e2 (ucast w1) e1 wk
      else sym_extract2_i64 B w2 e2 w1 e1 wk) = Some e" "result B ev \<sigma> w e v"
    using sem [OF a1(4) a2(4) k(3)] by blast
  note frame = arg_set_expr [OF a1(1) t(1), simplified] arg_set_expr [OF a2(1) t(1), simplified]
  have gen: "Option.bind (te t s) (\<lambda>er. Option.bind (te ah s) (\<lambda>eh. Option.bind (te al s) (\<lambda>el.
    Option.bind (tcg_gen_callN (helper_sym_extract2 ty) (Some er) [ah, eh, al, el, k] s)
      (tcg_gen_op4i_v (INDEX_op_extract2 ty) t al ah ofs)))) =
    Some (tcg_emit_op (INDEX_op_extract2 ty) [TempArg t, targ s al, targ s ah, ImmArg ofs]
      (tcg_emit_op (INDEX_op_call (helper_sym_extract2 ty))
        [TempArg (t + 1), targ s ah, targ s (ah + 1), targ s al, targ s (al + 1), targ s k] s))"
    using t a1(1) a2(1) k(1) assms(11) callN_expr [OF t(1,2), of "[ah, ah + 1, al, al + 1, k]"]
    by (auto simp: emit_defs live_simps)
  show ?thesis
    by (rule runs_expr_op [OF st(1,2) gen _ _ w(3) assms(10) Q])
      (use a1 a2 k w in \<open>simp_all add: opsem frame\<close>)
qed

subsection \<open>Number first, expression later\<close>

lemma runs_stale:
  assumes st: "St B ev \<sigma> b L A r s m" "lty L t = Some ty"
    and "x = Some (tcg_emit_op opc (TempArg t # args) s)"
    and "exec_op B env (TCGOp opc (TempArg t # args)) m = Some (Next, set_slot t (Num w) m)"
    and Q: "\<And>s' m'. St B ev \<sigma> b L (A(t := Unk)) r s' m' \<Longrightarrow> slots m' t = Num w \<Longrightarrow> Q s' m'"
  shows "runs B env Next s m x Q"
  unfolding assms(3)
proof (rule runs_emit [OF assms(4)], rule Q)
  show "St B ev \<sigma> b L (A(t := Unk)) r (tcg_emit_op opc (TempArg t # args) s) (set_slot t (Num w) m)"
    by (rule St_assign [OF st]) (use st(1) in \<open>simp_all add: St_def\<close>)
qed simp

lemma runs_expr:
  assumes st: "St B ev \<sigma> b L A r s m" "lty L t = Some ty" "slots m t = Num w"
    and "x = Some (tcg_emit_op (INDEX_op_call h) (TempArg (t + 1) # eargs) s)"
    and "exec_call B env h (TempArg (t + 1) # eargs) m = Some (set_slot (t + 1) (expr_val e) (m\<lparr>mrt := r'\<rparr>))"
    and "result B ev \<sigma> w e v" "vty v = ty"
    and Q: "\<And>s' m'. St B ev \<sigma> b L (A(t := v)) r' s' m' \<Longrightarrow> Q s' m'"
  shows "runs B env Next s m x Q"
proof (rule runs_emitted [OF st(1,2) assms(4) _ _ _ _ _ _ _ _ _ assms(6,7) Q])
  show "exec_ops B env [TCGOp (INDEX_op_call h) (TempArg (t + 1) # eargs)] m =
      Some (Next, set_slot (t + 1) (expr_val e) (m\<lparr>mrt := r'\<rparr>))"
    using assms(5) by (simp add: exec_op_def next_op_def)
qed (use st in simp_all)

lemma runs_expr_stale:
  assumes st: "St B ev \<sigma> b L A r s m" "lty L t = Some ty"
    and "x = Some (tcg_emit_op (INDEX_op_call h) (TempArg (t + 1) # eargs) s)"
    and "exec_call B env h (TempArg (t + 1) # eargs) m = Some (set_slot (t + 1) (expr_val e) m)"
    and Q: "\<And>s' m'. St B ev \<sigma> b L (A(t := Unk)) r s' m' \<Longrightarrow> Q s' m'"
  shows "runs B env Next s m x Q"
  unfolding assms(3)
proof (rule runs_emit)
  show "exec_op B env (TCGOp (INDEX_op_call h) (TempArg (t + 1) # eargs)) m = Some (Next, set_slot (t + 1) (expr_val e) m)"
    using assms(4) by (simp add: exec_op_def next_op_def)
  show "Q (tcg_emit_op (INDEX_op_call h) (TempArg (t + 1) # eargs) s) (set_slot (t + 1) (expr_val e) m)"
    by (rule Q, rule St_assign [OF st]) (use st(1) in \<open>simp_all add: St_def\<close>)
qed

lemma St_mrt: "St B ev \<sigma> b L A r s m \<Longrightarrow> m\<lparr>mrt := r\<rparr> = m"
  by (auto simp: St_def)

text \<open>A binary helper beside a number that is there already.\<close>

lemma runs_shadow:
  assumes st: "St B ev \<sigma> b L A r s m" "lty L t = Some ty" "A t = v0" "A a1 = v1" "A a2 = v2"
      "v0 \<noteq> Unk" "v1 \<noteq> Unk" "v2 \<noteq> Unk"
    and sem: "\<And>w e0 w1 e1 w2 e2. result B ev \<sigma> w e0 v0 \<Longrightarrow> result B ev \<sigma> w1 e1 v1 \<Longrightarrow> result B ev \<sigma> w2 e2 v2 \<Longrightarrow>
      \<exists>e. sym_binary B k ty w1 e1 w2 e2 = Some e \<and> result B ev \<sigma> w e v"
    and "vty v = ty" "hlp = (if ty = I32 then SYM_HELPER_BINARY_32 else SYM_HELPER_BINARY_64)" "ty \<in> {I32, I64}"
    and Q: "\<And>s' m'. St B ev \<sigma> b L (A(t := v)) r s' m' \<Longrightarrow> Q s' m'"
  shows "runs B env Next s m (hlp k t a1 a2 s) Q"
proof -
  obtain w e0 where v0: "arg64 m (targ s t) = Some w" "result B ev \<sigma> w e0 v0" using st(1,3,6) by (rule operand)
  obtain w1 e1 where a1: "temp_live s a1 (vty v1)" "arg64 m (targ s a1) = Some w1" "argp m (targ s (a1 + 1)) = Some e1"
    "result B ev \<sigma> w1 e1 v1" using st(1,4,7) by (rule operand)
  obtain w2 e2 where a2: "temp_live s a2 (vty v2)" "arg64 m (targ s a2) = Some w2" "argp m (targ s (a2 + 1)) = Some e2"
    "result B ev \<sigma> w2 e2 v2" using st(1,5,8) by (rule operand)
  obtain t: "temp_live s t ty" "kind (temps s ! t) \<noteq> TEMP_CONST" "targ s t = TempArg t" using st(1,2) by (rule target)
  obtain e where e: "sym_binary B k ty w1 e1 w2 e2 = Some e" "result B ev \<sigma> w e v"
    using sem [OF v0(2) a1(4) a2(4)] by blast
  have slot: "slots m t = Num w" using num_arg_val [OF v0(1)] t(3) by simp
  have gen: "hlp k t a1 a2 s = Some (tcg_emit_op (INDEX_op_call (helper_sym_binary k ty))
      [TempArg (t + 1), targ s a1, targ s (a1 + 1), targ s a2, targ s (a2 + 1)] s)"
    using t a1(1) a2(1) assms(11,12) by (auto simp: gen_binary)
  show ?thesis
    by (rule runs_expr [OF st(1,2) slot gen _ e(2) assms(10) Q])
      (use a1 a2 e in \<open>simp_all add: opsem sym_binary_def St_mrt [OF st(1)]\<close>)
qed

subsection \<open>Conditions\<close>

text \<open>\<open>follows\<close>: an input satisfies the path constraints that the runtime recorded. \<open>branched\<close>: the runtime
  recorded a branch whose concrete outcome is \<open>cd\<close> and whose outcome on the input \<open>\<sigma>\<close> is \<open>xd\<close>; it need not
  record one that does not depend on the input.\<close>

definition follows :: "('i \<Rightarrow> 'e \<Rightarrow> bool) \<Rightarrow> 'i \<Rightarrow> ('e, 'm) rt \<Rightarrow> bool" where
  "follows evb \<sigma> r \<longleftrightarrow> list_all (\<lambda>(e, taken, loc). evb \<sigma> e = taken) (rt_path r)"

definition branched ::
  "('i \<Rightarrow> 'e \<Rightarrow> bool) \<Rightarrow> 'i \<Rightarrow> bool \<Rightarrow> bool \<Rightarrow> u64 \<Rightarrow> ('e, 'm) rt \<Rightarrow> ('e, 'm) rt \<Rightarrow> bool" where
  "branched evb \<sigma> cd xd pc r r' \<longleftrightarrow> r' = r \<and> xd = cd \<or>
     (\<exists>e. r' = r\<lparr>rt_path := rt_path r @ [(e, cd, pc)]\<rparr> \<and> evb \<sigma> e = xd)"

lemma branched_follows: "branched evb \<sigma> cd xd pc r r' \<Longrightarrow> follows evb \<sigma> r' \<longleftrightarrow> follows evb \<sigma> r \<and> xd = cd"
  by (auto simp: branched_def follows_def)

definition sym_setcond ::
  "('e, 'm) backend \<Rightarrow> CPUArchState \<Rightarrow> TCGType \<Rightarrow> u64 \<Rightarrow> 'e option \<Rightarrow> u64 \<Rightarrow> 'e option \<Rightarrow> u64 \<Rightarrow> u64 \<Rightarrow>
   ('e, 'm) rt \<Rightarrow> ('e option \<times> ('e, 'm) rt) option" where
  "sym_setcond B env ty x p y q k t r = (if ty = I32
     then sym_setcond_i32 B env (ucast x) p (ucast y) q (ucast k) (ucast t) r
     else sym_setcond_i64 B env x p y q (ucast k) t r)"

lemma ucast_ucast_32 [simp]: "ucast (ucast (v :: u32) :: u64) = v"
  by (simp add: ucast_up_down)

lemma ucast_scast_32 [simp]: "ucast (scast (v :: u32) :: u64) = v"
  by (intro bit_word_eqI) (simp add: bit_simps)

lemma runs_setcond_call:
  assumes st: "St B ev \<sigma> b L A r s m" "lty L t = Some ty" "slots m t = Num w"
    and a1: "temp_live s a1 ty1" "arg64 m (targ s a1) = Some w1" "argp m (targ s (a1 + 1)) = Some e1"
    and a2: "temp_live s a2 ty2" "arg64 m (targ s a2) = Some w2" "argp m (targ s (a2 + 1)) = Some e2"
    and k: "temp_live s k I32" "arg64 m (targ s k) = Some wk" "ucast wk = c"
    and e: "sym_setcond B env ty w1 e1 w2 e2 (ucast (c :: u32)) w r = Some (e, r')" "result B ev \<sigma> w e v" "vty v = ty"
    and te: "te = tcgv_i32_expr \<or> te = tcgv_i64_expr"
    and Q: "\<And>s' m'. St B ev \<sigma> b L (A(t := v)) r' s' m' \<Longrightarrow> Q s' m'"
  shows "runs B env Next s m (Option.bind (te t s) (\<lambda>er. Option.bind (te a1 s) (\<lambda>e1. Option.bind (te a2 s) (\<lambda>e2.
     tcg_gen_callN (helper_sym_setcond ty) (Some er) [tcg_env, a1, e1, a2, e2, k, t] s)))) Q"
proof -
  obtain t: "temp_live s t ty" "kind (temps s ! t) \<noteq> TEMP_CONST" "targ s t = TempArg t" using st(1,2) by (rule target)
  have "tcg_env < nb_temps s" using live_bounds(1) [OF t(1)] unfolding tcg_env_def by linarith
  then have gen: "Option.bind (te t s) (\<lambda>er. Option.bind (te a1 s) (\<lambda>e1. Option.bind (te a2 s) (\<lambda>e2.
     tcg_gen_callN (helper_sym_setcond ty) (Some er) [tcg_env, a1, e1, a2, e2, k, t] s))) =
    Some (tcg_emit_op (INDEX_op_call (helper_sym_setcond ty)) [TempArg (t + 1), targ s tcg_env, targ s a1, targ s (a1 + 1),
      targ s a2, targ s (a2 + 1), targ s k, TempArg t] s)"
    using t a1(1) a2(1) k(1) te callN_expr [OF t(1,2), of "[tcg_env, a1, a1 + 1, a2, a2 + 1, k, t]"]
    by (auto simp: live_simps)
  have "arg64 m (TempArg t) = Some w" using st(3) by (simp add: arg64_def)
  moreover have "mrt m = r" using st(1) by (simp add: St_def)
  ultimately show ?thesis
    using a1 a2 k e by (intro runs_expr [OF st gen _ e(2,3) Q]) (auto simp: opsem sym_setcond_def)
qed

lemma runs_setcond_helper:
  assumes st: "St B ev \<sigma> b L A r s m" "lty L t = Some ty" "A a1 = v1" "A a2 = v2" "v1 \<noteq> Unk" "v2 \<noteq> Unk"
      "A k = V32 c c" "slots m t = Num w"
    and sem: "\<And>w1 e1 w2 e2. result B ev \<sigma> w1 e1 v1 \<Longrightarrow> result B ev \<sigma> w2 e2 v2 \<Longrightarrow>
      \<exists>e r'. sym_setcond B env ty w1 e1 w2 e2 (ucast c) w r = Some (e, r') \<and> R r' \<and> result B ev \<sigma> w e v"
    and "vty v = ty" "te = tcgv_i32_expr \<or> te = tcgv_i64_expr"
    and Q: "\<And>s' m' r'. R r' \<Longrightarrow> St B ev \<sigma> b L (A(t := v)) r' s' m' \<Longrightarrow> Q s' m'"
  shows "runs B env Next s m (Option.bind (te t s) (\<lambda>er. Option.bind (te a1 s) (\<lambda>e1. Option.bind (te a2 s) (\<lambda>e2.
     tcg_gen_callN (helper_sym_setcond ty) (Some er) [tcg_env, a1, e1, a2, e2, k, t] s)))) Q"
proof -
  obtain w1 e1 where a1: "temp_live s a1 (vty v1)" "arg64 m (targ s a1) = Some w1" "argp m (targ s (a1 + 1)) = Some e1"
    "result B ev \<sigma> w1 e1 v1" using st(1,3,5) by (rule operand)
  obtain w2 e2 where a2: "temp_live s a2 (vty v2)" "arg64 m (targ s a2) = Some w2" "argp m (targ s (a2 + 1)) = Some e2"
    "result B ev \<sigma> w2 e2 v2" using st(1,4,6) by (rule operand)
  obtain wk where k: "temp_live s k I32" "arg64 m (targ s k) = Some wk" "ucast wk = c"
    using operand [OF st(1,7)] by auto
  obtain e r' where e: "sym_setcond B env ty w1 e1 w2 e2 (ucast c) w r = Some (e, r')" "R r'" "result B ev \<sigma> w e v"
    using sem [OF a1(4) a2(4)] by blast
  show ?thesis by (rule runs_setcond_call [OF st(1,2,8) a1(1-3) a2(1-3) k e(1,3) assms(10,11) Q [OF e(2)]])
qed

lemma runs_setcond:
  assumes st: "St B ev \<sigma> b L A r s m" "lty L t = Some ty" "A a1 = v1" "A a2 = v2" "v1 \<noteq> Unk" "v2 \<noteq> Unk"
      "t \<noteq> a1" "t \<noteq> a2" "2 \<le> b"
    and sem: "\<And>w1 e1 w2 e2. result B ev \<sigma> w1 e1 v1 \<Longrightarrow> result B ev \<sigma> w2 e2 v2 \<Longrightarrow>
      \<exists>e r'. tci_setcond ty w1 w2 (ucast c) = Some cd \<and>
        sym_setcond B env ty w1 e1 w2 e2 (ucast c) (of_bool cd) r = Some (e, r') \<and>
        branched evb \<sigma> cd xd (get_pc env) r r' \<and> result B ev \<sigma> (of_bool cd) e v"
    and "vty v = ty" "te = tcgv_i32_expr \<or> te = tcgv_i64_expr"
    and Q: "\<And>s' m' r'. branched evb \<sigma> cd xd (get_pc env) r r' \<Longrightarrow> St B ev \<sigma> (b - 2) L (A(t := v)) r' s' m' \<Longrightarrow> Q s' m'"
  shows "runs B env Next s m (Option.bind (tcg_gen_op4i_v (INDEX_op_setcond ty) t a1 a2 (ucast c) s) (\<lambda>s.
     Option.bind (tcg_constant_i32 c s) (case_prod (\<lambda>k s. Option.bind (te t s) (\<lambda>er. Option.bind (te a1 s) (\<lambda>e1. Option.bind (te a2 s) (\<lambda>e2.
     tcg_gen_callN (helper_sym_setcond ty) (Some er) [tcg_env, a1, e1, a2, e2, k, t] s))))))) Q"
proof -
  obtain w1 e1 where a1: "temp_live s a1 (vty v1)" "arg64 m (targ s a1) = Some w1" "argp m (targ s (a1 + 1)) = Some e1"
    "result B ev \<sigma> w1 e1 v1" using st(1,3,5) by (rule operand)
  obtain w2 e2 where a2: "temp_live s a2 (vty v2)" "arg64 m (targ s a2) = Some w2" "argp m (targ s (a2 + 1)) = Some e2"
    "result B ev \<sigma> w2 e2 v2" using st(1,4,6) by (rule operand)
  obtain t: "temp_live s t ty" "targ s t = TempArg t" using st(1,2) by (rule target)
  have op: "tcg_gen_op4i_v (INDEX_op_setcond ty) t a1 a2 (ucast c) s =
      Some (tcg_emit_op (INDEX_op_setcond ty) [TempArg t, targ s a1, targ s a2, ImmArg (ucast c)] s)"
    using t a1(1) a2(1) by (simp add: emit_defs live_simps)
  have cd: "tci_setcond ty w1 w2 (ucast c) = Some cd" using sem [OF a1(4) a2(4)] by blast
  show ?thesis
    unfolding tcg_constant_i32_def
  proof (rule runs_bind, rule runs_stale [OF st(1,2) op, where w = "of_bool cd"],
      use a1 a2 cd in \<open>simp add: opsem\<close>, rule runs_const, assumption, rule st(9), simp)
    fix s1 m' k s' A'
    assume slot: "slots m' t = Num (of_bool cd)" and k: "A' k = cval I32 (scast c)"
      and A': "\<And>u. (A(t := Unk)) u \<noteq> Unk \<Longrightarrow> A' u = (A(t := Unk)) u" and st': "St B ev \<sigma> (b - 2) L A' r s' m'"
    have Q': "Q s m" if "branched evb \<sigma> cd xd (get_pc env) r r'" "St B ev \<sigma> (b - 2) L (A'(t := v)) r' s m" for s m r'
      by (rule Q [OF that(1)], rule St_weaken [OF that(2)]) (use A' in \<open>auto split: if_splits\<close>)
    show "runs B env Next s' m' (Option.bind (te t s') (\<lambda>er. Option.bind (te a1 s') (\<lambda>e1. Option.bind (te a2 s') (\<lambda>e2.
     tcg_gen_callN (helper_sym_setcond ty) (Some er) [tcg_env, a1, e1, a2, e2, k, t] s')))) Q"
      by (rule runs_setcond_helper [OF st' st(2) _ _ st(5,6) _ slot _ assms(11,12) Q'])
        (use A' st(3-8) k sem in \<open>auto simp: cval_def\<close>)
  qed
qed

subsection \<open>Rules for the control structure and for temporaries\<close>

lemma runs_if: "(P \<Longrightarrow> runs B env fl s m x Q) \<Longrightarrow> (\<not> P \<Longrightarrow> runs B env fl s m y Q) \<Longrightarrow>
    runs B env fl s m (if P then x else y) Q"
  by simp

lemma runs_assert: "P \<Longrightarrow> runs B env fl s m (f ()) Q \<Longrightarrow> runs B env fl s m (Option.bind (c_assert P) f) Q"
  by simp

lemma runs_let: "runs B env fl s m (f v) Q \<Longrightarrow> runs B env fl s m (Let v f) Q"
  by simp

lemma runs_new_i32 [vcg]:
  assumes "St B ev \<sigma> b L A r s m" and "2 \<le> b"
    and "\<And>t s'. (\<And>u. A u \<noteq> Unk \<Longrightarrow> u \<noteq> t \<and> t \<noteq> u) \<Longrightarrow> (\<And>u. lty L u \<noteq> None \<Longrightarrow> u \<noteq> t \<and> t \<noteq> u) \<Longrightarrow> A t = Unk \<Longrightarrow> L t = None \<Longrightarrow>
      St B ev \<sigma> (b - 2) (L(t \<mapsto> (I32, True))) A r s' m \<Longrightarrow> runs B env fl s' m (g t s') Q"
  shows "runs B env fl s m (Option.bind (tcg_temp_ebb_new_i32 s) (case_prod g)) Q"
    and "runs B env fl s m (Option.bind (tcg_temp_new_i32 s) (case_prod g)) Q"
  unfolding tcg_temp_ebb_new_i32_def tcg_temp_new_i32_def by (rule runs_new [OF assms(1,2) _ _ assms(3)]; simp)+

lemma runs_new_i64 [vcg]:
  assumes "St B ev \<sigma> b L A r s m" and "2 \<le> b"
    and "\<And>t s'. (\<And>u. A u \<noteq> Unk \<Longrightarrow> u \<noteq> t \<and> t \<noteq> u) \<Longrightarrow> (\<And>u. lty L u \<noteq> None \<Longrightarrow> u \<noteq> t \<and> t \<noteq> u) \<Longrightarrow> A t = Unk \<Longrightarrow> L t = None \<Longrightarrow>
      St B ev \<sigma> (b - 2) (L(t \<mapsto> (I64, True))) A r s' m \<Longrightarrow> runs B env fl s' m (g t s') Q"
  shows "runs B env fl s m (Option.bind (tcg_temp_ebb_new_i64 s) (case_prod g)) Q"
    and "runs B env fl s m (Option.bind (tcg_temp_new_i64 s) (case_prod g)) Q"
  unfolding tcg_temp_ebb_new_i64_def tcg_temp_new_i64_def by (rule runs_new [OF assms(1,2) _ _ assms(3)]; simp)+

lemma runs_const_i32 [vcg]:
  assumes "St B ev \<sigma> b L A r s m" and "2 \<le> b"
    and "\<And>c s' A'. A' c = V32 v v \<Longrightarrow> (\<And>u. A u \<noteq> Unk \<Longrightarrow> A' u = A u) \<Longrightarrow> (\<And>X. weaker X A \<Longrightarrow> weaker X A') \<Longrightarrow>
      (\<And>u. lty L u \<noteq> None \<Longrightarrow> u \<noteq> c \<and> c \<noteq> u) \<Longrightarrow> L c = None \<Longrightarrow>
      St B ev \<sigma> (b - 2) L A' r s' m \<Longrightarrow> runs B env fl s' m (g c s') Q"
  shows "runs B env fl s m (Option.bind (tcg_constant_i32 v s) (case_prod g)) Q"
  unfolding tcg_constant_i32_def
  by (rule runs_const [OF assms(1,2) _ assms(3)]) (auto simp: cval_def weaker_def)

lemma runs_const_i64 [vcg]:
  assumes "St B ev \<sigma> b L A r s m" and "2 \<le> b"
    and "\<And>c s' A'. A' c = V64 v v \<Longrightarrow> (\<And>u. A u \<noteq> Unk \<Longrightarrow> A' u = A u) \<Longrightarrow> (\<And>X. weaker X A \<Longrightarrow> weaker X A') \<Longrightarrow>
      (\<And>u. lty L u \<noteq> None \<Longrightarrow> u \<noteq> c \<and> c \<noteq> u) \<Longrightarrow> L c = None \<Longrightarrow>
      St B ev \<sigma> (b - 2) L A' r s' m \<Longrightarrow> runs B env fl s' m (g c s') Q"
  shows "runs B env fl s m (Option.bind (tcg_constant_i64 v s) (case_prod g)) Q"
  unfolding tcg_constant_i64_def
  by (rule runs_const [OF assms(1,2) _ assms(3)]) (auto simp: cval_def weaker_def)

lemma runs_free_i32 [vcg]:
  assumes "St B ev \<sigma> b L A r s m" and "L t = Some (I32, True)"
    and "\<And>s'. St B ev \<sigma> b (L(t := None)) (A(t := Unk)) r s' m \<Longrightarrow> Q s' m"
  shows "runs B env Next s m (tcg_temp_free_i32 t s) Q"
  unfolding tcg_temp_free_i32_def by (rule runs_free [OF assms(1,2)], erule assms(3))

lemma runs_free_i64 [vcg]:
  assumes "St B ev \<sigma> b L A r s m" and "L t = Some (I64, True)"
    and "\<And>s'. St B ev \<sigma> b (L(t := None)) (A(t := Unk)) r s' m \<Longrightarrow> Q s' m"
  shows "runs B env Next s m (tcg_temp_free_i64 t s) Q"
  unfolding tcg_temp_free_i64_def by (rule runs_free [OF assms(1,2)], erule assms(3))

lemma runs_bind_if: "(P \<Longrightarrow> runs B env fl s m (Option.bind x f) Q) \<Longrightarrow> (\<not> P \<Longrightarrow> runs B env fl s m (Option.bind y f) Q) \<Longrightarrow>
    runs B env fl s m (Option.bind (if P then x else y) f) Q"
  by simp

lemmas runs_control = runs_bind runs_if runs_let runs_assert runs_return

subsection \<open>Branches\<close>

lemma St_same:
  assumes "St B ev \<sigma> b L A r s m" "temps s' = temps s" "free_temps s' = free_temps s" "const_table s' = const_table s"
  shows "St B ev \<sigma> b L A r s' m"
  using assms wf_temps_same [of s s'] same_temps [OF assms(2)]
  by (auto simp: St_def stands_def tnum_def texpr_def)

lemma runs_brcond:
  assumes st: "St B ev \<sigma> b L A r s m" "A a1 = v1" "A a2 = v2" "v1 \<noteq> Unk" "v2 \<noteq> Unk"
    and sem: "\<And>w1 e1 w2 e2. result B ev \<sigma> w1 e1 v1 \<Longrightarrow> result B ev \<sigma> w2 e2 v2 \<Longrightarrow> tci_setcond ty w1 w2 c = Some cd"
    and Q: "\<And>s'. St B ev \<sigma> b L A r s' m \<Longrightarrow> Q s' m"
  shows "runs B env (if cd then Jump (of_nat l) else Next) s m
    (Option.bind (tcg_gen_op4ii_v (INDEX_op_brcond ty) a1 a2 c (of_nat l) s) (\<lambda>s. Some (add_last_as_label_use l s))) Q"
proof -
  obtain w1 e1 where a1: "temp_live s a1 (vty v1)" "arg64 m (targ s a1) = Some w1" "result B ev \<sigma> w1 e1 v1"
    using st(1,2,4) by (rule operand)
  obtain w2 e2 where a2: "temp_live s a2 (vty v2)" "arg64 m (targ s a2) = Some w2" "result B ev \<sigma> w2 e2 v2"
    using st(1,3,5) by (rule operand)
  let ?args = "[targ s a1, targ s a2, ImmArg c, ImmArg (of_nat l)]"
  let ?s = "add_last_as_label_use l (tcg_emit_op (INDEX_op_brcond ty) ?args s)"
  have "St B ev \<sigma> b L A r ?s m" by (rule St_same [OF st(1)]) (simp_all add: add_last_as_label_use_def)
  then have "Q ?s m" by (rule Q)
  moreover have "exec_op B env (TCGOp (INDEX_op_brcond ty) ?args) m = Some (if cd then Jump (of_nat l) else Next, m)"
    using a1 a2 sem [OF a1(3) a2(3)] by (simp add: opsem)
  ultimately show ?thesis
    using a1(1) a2(1) unfolding runs_def
    by (intro exI [of _ ?s] exI [of _ "[TCGOp (INDEX_op_brcond ty) ?args]"] exI [of _ m])
      (simp add: emit_defs live_simps add_last_as_label_use_def)
qed

lemma runs_br:
  assumes "St B ev \<sigma> b L A r s m" and "\<And>s'. St B ev \<sigma> b L A r s' m \<Longrightarrow> Q s' m"
  shows "runs B env (Jump (of_nat l)) s m (tcg_gen_br l s) Q"
proof -
  let ?s = "add_last_as_label_use l (tcg_emit_op INDEX_op_br [ImmArg (of_nat l)] s)"
  have "St B ev \<sigma> b L A r ?s m" by (rule St_same [OF assms(1)]) (simp_all add: add_last_as_label_use_def)
  then show ?thesis
    using assms(2) unfolding runs_def tcg_gen_br_def
    by (intro exI [of _ ?s] exI [of _ "[TCGOp INDEX_op_br [ImmArg (of_nat l)]]"] exI [of _ m])
      (simp add: emit_defs opsem add_last_as_label_use_def)
qed

lemma branched_same: "branched evb \<sigma> cd cd pc r r"
  by (simp add: branched_def)

lemma St_post_branched:
  assumes "\<And>r' s' m'. branched evb \<sigma> cd xd pc r r' \<Longrightarrow> St B ev \<sigma> b' L' A' r' s' m' \<Longrightarrow> Q s' m'"
    and "branched evb \<sigma> cd xd pc r r'" "St B ev \<sigma> b L A r' s m"
    and "b' \<le> b" "L' \<subseteq>\<^sub>m L" "weaker A' A"
  shows "Q s m"
  by (rule St_post [OF assms(1) [OF assms(2)] assms(3-6)])

end
