(* ===== verification/Gen_Words.thy ===== *)
theory Gen_Words
  imports Gen_Logic
begin

unbundle bit_operations_syntax

section \<open>Word arithmetic of emitted code\<close>

text \<open>
  Equations between words that the correctness of the generators needs: what the sequences of shifts
  and masks compute that a generator emits when the host lacks an operation, and the arithmetic of shift
  counts and of bit-field positions.
\<close>

lemma shift_count: "unat d < 64 \<Longrightarrow> d AND 63 = (d :: u64)"
proof -
  assume "unat d < 64"
  moreover have "d AND 63 = take_bit 6 d" by (simp add: take_bit_eq_mask mask_eq_exp_minus_1)
  ultimately show ?thesis by (simp add: word_unat_eq_iff unsigned_take_bit_eq take_bit_nat_eq_self)
qed

lemma sint_small: "unat k < n \<Longrightarrow> n \<le> 2 ^ (LENGTH('a) - 1) \<Longrightarrow> sint (k :: 'a::len word) = int (unat k)"
proof -
  assume "unat k < n" "n \<le> 2 ^ (LENGTH('a) - 1)"
  then have "int (unat k) < 2 ^ (LENGTH('a) - 1)" by (metis of_nat_less_iff of_nat_numeral of_nat_power order_less_le_trans)
  moreover have "- (2 ^ (LENGTH('a) - 1)) \<le> int (unat k)" by (rule order_trans [of _ 0]) simp_all
  ultimately show ?thesis by (simp add: sint_uint signed_take_bit_int_eq_self)
qed

lemma count_ok: "unat k < n \<Longrightarrow> n \<le> 2 ^ (LENGTH('a) - 1) \<Longrightarrow> 0 \<le> sint (k :: 'a::len word) \<and> sint k < int n"
  by (frule (1) sint_small) linarith

lemma ctz_bit:
  assumes "k \<noteq> (0 :: 'a::len word)"
  shows "builtin_ctz k < LENGTH('a)" "bit k (builtin_ctz k)" "i < builtin_ctz k \<Longrightarrow> \<not> bit k i"
proof -
  let ?p = "\<lambda>i. \<not> bit k i" and ?xs = "[0..<LENGTH('a)]"
  obtain j where j: "bit k j" "j < LENGTH('a)" using assms by (metis bit_word_eqI bit_0_eq bot_apply bot_bool_def bit_imp_le_length)
  then have lt: "length (takeWhile ?p ?xs) < length ?xs"
    by (metis atLeastLessThan_iff length_upt length_takeWhile_le le_neq_implies_less minus_nat.diff_0 set_upt takeWhile_eq_all_conv takeWhile_eq_take take_all_iff linorder_le_less_linear zero_le)
  then show "builtin_ctz k < LENGTH('a)" by (simp add: builtin_ctz_def)
  show "bit k (builtin_ctz k)" using nth_length_takeWhile [OF lt] lt by (simp add: builtin_ctz_def)
  assume "i < builtin_ctz k"
  then have "i \<in> set (takeWhile ?p ?xs)"
    using lt nth_mem [of i "takeWhile ?p ?xs"] takeWhile_nth [of i ?p ?xs] by (simp add: builtin_ctz_def)
  then show "\<not> bit k i" by (auto dest: set_takeWhileD)
qed

lemma power_of_2:
  assumes "k AND (k - 1) = 0" "k \<noteq> (0 :: 'a::len word)"
  shows "k = push_bit (builtin_ctz k) 1"
proof -
  define n where "n = builtin_ctz k"
  define rest where "rest = k AND NOT (mask (Suc n))"
  note n = ctz_bit [OF assms(2), folded n_def]
  have k: "rest AND push_bit n 1 = 0" "k = rest OR push_bit n 1"
    using n by (auto intro!: bit_word_eqI simp: rest_def bit_simps less_Suc_eq)
  have disj: "rest AND mask n = 0" by (intro bit_word_eqI) (auto simp: rest_def bit_simps)
  have "k = rest + push_bit n 1" "rest + mask n = rest OR mask n"
    using disj k by (simp_all add: disjunctive_add_eq_or)
  then have "k - 1 = rest OR mask n" by (metis add_diff_eq mask_eq_exp_minus_1 mult_1 push_bit_eq_mult)
  moreover have "rest AND ((rest OR p) AND (rest OR q)) = rest" for p q
    by (intro bit_word_eqI) (auto simp: bit_simps)
  ultimately have "rest AND (k AND (k - 1)) = rest" using k(2) by metis
  then have "rest = 0" using assms(1) by simp
  then have "k = push_bit n 1" using k(2) by (simp only: or.left_neutral)
  then show ?thesis unfolding n_def .
qed

lemma mult_power_of_2:
  assumes "k AND (k - 1) = 0" "k \<noteq> (0 :: 'a::len word)"
  shows "c * k = push_bit (builtin_ctz k) c"
  using power_of_2 [OF assms] by (metis mult_1 push_bit_eq_mult)

lemma mask_simps: "mask 8 = (0xff :: 'a::len word)" "mask 16 = (0xffff :: 'a::len word)" "mask 32 = (0xffffffff :: 'a::len word)"
  by (simp_all add: mask_eq_exp_minus_1)

lemma ext_words:
  fixes w :: u64
  shows "ucast (ucast w :: u8) = take_bit 8 w" "ucast (ucast w :: u16) = take_bit 16 w" "ucast (ucast w :: u32) = take_bit 32 w"
    "scast (ucast w :: u8) = signed_take_bit 7 w" "scast (ucast w :: u16) = signed_take_bit 15 w"
    "scast (ucast w :: u32) = signed_take_bit 31 w"
  by (intro bit_word_eqI; auto simp: bit_simps min_def not_le less_Suc_eq_le)+

lemma take_bit_and: "take_bit 8 c = c AND 0xff" "take_bit 16 c = c AND 0xffff" "take_bit 32 c = c AND 0xffffffff"
  for c :: "'a::len word"
  by (simp_all add: take_bit_eq_mask mask_simps)

lemma sext_shifts: "n < LENGTH('a) \<Longrightarrow> signed_drop_bit (LENGTH('a) - Suc n) (push_bit (LENGTH('a) - Suc n) c) = signed_take_bit n c"
  for c :: "'a::len word"
  using sextract_shifts [of "Suc n" 0 c] by simp

lemma rotl_rotr: "0 < k \<Longrightarrow> k < LENGTH('a) \<Longrightarrow> word_rotl (LENGTH('a) - k) x = word_rotr k (x :: 'a::len word)"
  using rotl_shifts [of "LENGTH('a) - k" x] rotr_shifts [of k x] by (simp add: or.commute)

lemma count_compl:
  "unat (k :: u64) \<le> 64 \<Longrightarrow> unat (64 - k) = 64 - unat k"
  "unat (l :: u32) \<le> 32 \<Longrightarrow> unat (32 - l) = 32 - unat l"
  by (simp_all add: unat_sub word_le_nat_alt)

lemma rot_count: "unat k < 64 \<Longrightarrow> unat (ucast (k AND 63) mod 64 :: u32) = unat (k :: u64)"
  by (simp add: shift_count unat_mod_distrib unsigned_ucast_eq take_bit_nat_eq_self)

lemma word_rot_0 [simp]: "word_rotr 0 x = x" "word_rotl 0 x = x"
  by (intro bit_word_eqI; simp add: bit_simps)+

lemma rot_shifts_i64:
  fixes x :: u64
  assumes "unat (k :: u64) < 64"
  shows "push_bit (unat k) x OR drop_bit (64 - unat k) x = word_rotl (unat k) x"
    and "drop_bit (unat k) x OR push_bit (64 - unat k) x = word_rotr (unat k) x"
    and "k \<noteq> 0 \<Longrightarrow> word_rotl (64 - unat k) x = word_rotr (unat k) x"
  using assms rotl_shifts [of "unat k" x] rotr_shifts [of "unat k" x] rotl_rotr [of "unat k" x] by (simp_all add: unat_gt_0)

lemma sext_shifts_i64:
  fixes x :: u64
  shows "signed_drop_bit 56 (push_bit 56 x) = signed_take_bit 7 x" "signed_drop_bit 48 (push_bit 48 x) = signed_take_bit 15 x"
    "signed_drop_bit 32 (push_bit 32 x) = signed_take_bit 31 x"
  using sext_shifts [of 7 x] sext_shifts [of 15 x] sext_shifts [of 31 x] by simp_all

lemma and_exp_minus_1 [simp]: "c AND (2 ^ n - 1) = take_bit n (c :: 'a::len word)"
  by (simp add: take_bit_eq_mask mask_eq_exp_minus_1)

lemma unat_ucast_64 [simp]: "unat (ucast (k :: u32) :: u64) = unat k"
  by (simp add: unsigned_ucast_eq take_bit_nat_eq_self order_less_trans [OF unsigned_less [of k]])

lemma field_facts64:
  fixes ofs len :: u32
  assumes "0 < unat len" "unat ofs + unat len \<le> 64"
  shows "field_assert 64 ofs len = Some ()"
    and "unat (64 - len) = 64 - unat len" "unat (64 - len - ofs) = 64 - unat len - unat ofs"
    and "ofs = 0 \<longleftrightarrow> unat ofs = 0" "len = 64 \<longleftrightarrow> unat len = 64" "ofs + len = 64 \<longleftrightarrow> unat ofs + unat len = 64"
      "ofs + len < 64 \<longleftrightarrow> unat ofs + unat len < 64"
      "ofs + len = 32 \<longleftrightarrow> unat ofs + unat len = 32" "ofs + len = 16 \<longleftrightarrow> unat ofs + unat len = 16"
      "ofs + len = 8 \<longleftrightarrow> unat ofs + unat len = 8" "len = 32 \<longleftrightarrow> unat len = 32" "len = 16 \<longleftrightarrow> unat len = 16"
      "len = 8 \<longleftrightarrow> unat len = 8" "1 \<le> len \<and> len \<le> 8 \<longleftrightarrow> unat len \<le> 8"
proof -
  have add: "unat (ofs + len) = unat ofs + unat len" using assms by (simp add: unat_word_ariths)
  show "unat (64 - len) = 64 - unat len" "unat (64 - len - ofs) = 64 - unat len - unat ofs"
    using assms by (simp_all add: unat_sub word_le_nat_alt)
  show "field_assert 64 ofs len = Some ()"
    using assms add by (simp add: field_assert_def word_less_nat_alt word_le_nat_alt)
qed (use assms in \<open>simp_all add: word_unat_eq_iff word_less_nat_alt word_le_nat_alt unat_word_ariths\<close>)

lemma extract_words:
  fixes c :: "'a::len word"
  assumes "0 < n" "k + n \<le> LENGTH('a)"
  shows "k + n = w \<Longrightarrow> drop_bit k (take_bit w c) = take_bit n (drop_bit k c)"
    and "k + n = LENGTH('a) \<Longrightarrow> drop_bit (LENGTH('a) - n) c = take_bit n (drop_bit k c)"
    and "drop_bit (LENGTH('a) - n) (push_bit (LENGTH('a) - n - k) c) = take_bit n (drop_bit k c)"
proof -
  show sh: "drop_bit (LENGTH('a) - n) (push_bit (LENGTH('a) - n - k) c) = take_bit n (drop_bit k c)"
  proof (rule bit_word_eqI)
    fix i assume "i < LENGTH('a)"
    have "LENGTH('a) - n + i - (LENGTH('a) - n - k) = k + i" using assms by simp
    then show "bit (drop_bit (LENGTH('a) - n) (push_bit (LENGTH('a) - n - k) c)) i = bit (take_bit n (drop_bit k c)) i"
      using assms by (auto simp: bit_simps add.commute)
  qed
  show "k + n = LENGTH('a) \<Longrightarrow> drop_bit (LENGTH('a) - n) c = take_bit n (drop_bit k c)" using sh by auto
  show "k + n = w \<Longrightarrow> drop_bit k (take_bit w c) = take_bit n (drop_bit k c)" by (auto simp: drop_bit_take_bit)
qed

lemma sextract_words:
  fixes c :: "'a::len word"
  assumes "0 < n" "k + n \<le> LENGTH('a)"
  shows "k + n = LENGTH('a) \<Longrightarrow> signed_drop_bit (LENGTH('a) - n) c = signed_take_bit (n - 1) (drop_bit k c)"
    and "signed_drop_bit (LENGTH('a) - n) (push_bit (LENGTH('a) - n - k) c) = signed_take_bit (n - 1) (drop_bit k c)"
  using sextract_shifts [OF assms, of c] by auto

lemma sextract_signed:
  fixes c :: "'a::len word"
  assumes "0 < n" "k + n = Suc w" "w < LENGTH('a)"
  shows "signed_drop_bit k (signed_take_bit w c) = signed_take_bit (n - 1) (drop_bit k c)"
  using assms by (intro bit_word_eqI) (auto simp: bit_simps add.commute min_def)

lemma deposit_words:
  fixes c d :: "'a::len word"
  shows "(c AND NOT (push_bit k (mask n))) OR push_bit k (take_bit n d) = deposit_word c k n d"
    and "k + n = LENGTH('a) \<Longrightarrow> (c AND NOT (push_bit k (mask n))) OR push_bit k d = deposit_word c k n d"
    and "k + n = LENGTH('a) \<Longrightarrow> extract2_word d (push_bit n c) n = deposit_word c k n d"
    and "n < LENGTH('a) \<Longrightarrow> word_rotl n (extract2_word d c n) = deposit_word c 0 n d"
    and "n = LENGTH('a) \<Longrightarrow> deposit_word c 0 n d = d"
proof -
  show "(c AND NOT (push_bit k (mask n))) OR push_bit k (take_bit n d) = deposit_word c k n d"
    by (simp add: deposit_word_def)
  show "(c AND NOT (push_bit k (mask n))) OR push_bit k d = deposit_word c k n d" if "k + n = LENGTH('a)"
    using that by (intro bit_word_eqI) (auto simp: bit_deposit_word bit_simps dest: bit_imp_le_length)
  show "extract2_word d (push_bit n c) n = deposit_word c k n d" if "k + n = LENGTH('a)"
  proof -
    have "LENGTH('a) - n = k" using that by simp
    then show ?thesis using that
      by (intro bit_word_eqI) (auto simp: bit_deposit_word extract2_word_def bit_simps dest: bit_imp_le_length)
  qed
  show "word_rotl n (extract2_word d c n) = deposit_word c 0 n d" if "n < LENGTH('a)"
  proof (subst rotl_shifts [OF that, symmetric], rule bit_word_eqI)
    fix i assume i: "i < LENGTH('a)"
    show "bit (push_bit n (extract2_word d c n) OR drop_bit (LENGTH('a) - n) (extract2_word d c n)) i = bit (deposit_word c 0 n d) i"
    proof (cases "n \<le> i")
      case True
      then have "\<not> LENGTH('a) - n \<le> i - n" "\<not> LENGTH('a) - n + i < LENGTH('a)" using i that by simp_all
      with True i show ?thesis by (auto simp: bit_deposit_word extract2_word_def bit_simps dest: bit_imp_le_length)
    next
      case False
      then have "LENGTH('a) - n + i < LENGTH('a)" "\<not> n + (LENGTH('a) - n + i) < LENGTH('a)" using that by simp_all
      with False i that show ?thesis by (auto simp: bit_deposit_word extract2_word_def bit_simps dest: bit_imp_le_length)
    qed
  qed
  show "deposit_word c 0 n d = d" if "n = LENGTH('a)"
    using that by (intro bit_word_eqI) (auto simp: bit_deposit_word)
qed

lemma deposit_z_words:
  fixes c :: "'a::len word"
  shows "k + n = LENGTH('a) \<Longrightarrow> push_bit k c = push_bit k (take_bit n c)"
    and "k + n = w \<Longrightarrow> take_bit w (push_bit k c) = push_bit k (take_bit n c)"
    and "deposit_word 0 k n c = push_bit k (take_bit n c)"
  by (auto intro!: bit_word_eqI simp: deposit_word_def bit_simps dest: bit_imp_le_length)

lemma extract2_same: "k < LENGTH('a) \<Longrightarrow> extract2_word c c k = word_rotr k (c :: 'a::len word)"
  by (simp add: extract2_word_def rotr_shifts)

lemma extract2_ends: "extract2_word d c 0 = c" "extract2_word d c LENGTH('a) = d" for c d :: "'a::len word"
  by (auto intro!: bit_word_eqI simp: extract2_word_def bit_simps dest: bit_imp_le_length)

lemma field_ok64: "0 < unat len \<Longrightarrow> unat ofs + unat len \<le> 64 \<Longrightarrow>
    field_ok 64 (uint (ucast (ofs :: u32) :: u64)) (uint (ucast (len :: u32) :: u64))"
  using unat_ucast_64 [of ofs] unat_ucast_64 [of len] unfolding field_ok_def uint_nat by linarith

lemma extract2_facts64:
  fixes ofs :: u32
  assumes "unat ofs \<le> 64"
  shows "ofs \<le> 64" "ofs = 0 \<longleftrightarrow> unat ofs = 0" "ofs = 64 \<longleftrightarrow> unat ofs = 64" "unat (64 - ofs) = 64 - unat ofs"
  using assms by (simp_all add: word_le_nat_alt word_unat_eq_iff unat_sub)

lemma extract2_words64:
  fixes c d :: u64
  shows "extract2_word d c 0 = c" "extract2_word d c 64 = d" "k < 64 \<Longrightarrow> extract2_word c c k = word_rotr k c"
    "0 < k \<Longrightarrow> k < 64 \<Longrightarrow> deposit_word (drop_bit k c) (64 - k) k d = extract2_word d c k"
  using extract2_ends [of d c] extract2_same [of k c] deposit_shifted [of k c d] by simp_all

lemma deposit_words64:
  fixes c d :: u64
  assumes "0 < n" "k + n \<le> 64" "n < 64"
  shows "(c AND NOT (push_bit k (2 ^ n - 1))) OR push_bit k (take_bit n d) = deposit_word c k n d"
    and "k + n = 64 \<Longrightarrow> (c AND NOT (push_bit k (2 ^ n - 1))) OR push_bit k d = deposit_word c k n d"
    and "k + n = 64 \<Longrightarrow> extract2_word d (push_bit n c) n = deposit_word c k n d"
    and "word_rotl n (extract2_word d c n) = deposit_word c 0 n d"
  using assms deposit_words(1) [of c k n d] deposit_words(2) [of k n c d] deposit_words(3) [of k n d c] deposit_words(4) [of n d c]
  by (simp_all add: mask_eq_exp_minus_1)

lemma deposit_z_words64:
  fixes c :: u64
  shows "k + n = 64 \<Longrightarrow> push_bit k (take_bit n c) = push_bit k c"
    and "k + n = w \<Longrightarrow> take_bit w (push_bit k c) = push_bit k (take_bit n c)"
    and "deposit_word 0 k n c = push_bit k (take_bit n c)"
  using deposit_z_words(1) [of k n c] deposit_z_words(2) [of k n w c] deposit_z_words(3) [of k n c] by simp_all

lemma sext_bswap32_blocks:
  fixes x :: u64
  defines "f \<equiv> (drop_bit 8 x AND 0x00ff00ff) OR push_bit 8 (x AND 0x00ff00ff)"
  shows "drop_bit 16 f OR signed_drop_bit 32 (push_bit 48 f) = scast (bswap32 (ucast x))"
proof (rule bit_word_eqI)
  fix n assume "n < LENGTH(64)"
  then have "n \<in> set [0..<64]" by simp
  then show "bit (drop_bit 16 f OR signed_drop_bit 32 (push_bit 48 f)) n = bit (scast (bswap32 (ucast x)) :: u64) n"
    unfolding f_def bswap32_def
    by (simp add: upt_rec; elim disjE; simp add: bit_simps; (simp add: eval_nat_numeral)?)
qed

definition hswap64 :: "u64 \<Rightarrow> u64" where
  "hswap64 x = push_bit 48 (x AND 0xffff) OR push_bit 32 (drop_bit 16 x AND 0xffff)
     OR push_bit 16 (drop_bit 32 x AND 0xffff) OR (drop_bit 48 x AND 0xffff)"

lemma hswap64_blocks:
  fixes x :: u64
  defines "y \<equiv> word_rotl 32 x"
  shows "push_bit 16 (y AND 0x0000ffff0000ffff) OR (drop_bit 16 y AND 0x0000ffff0000ffff) = hswap64 x"
proof (rule bit_word_eqI)
  fix n assume "n < LENGTH(64)"
  then have "n \<in> set [0..<64]" by simp
  then show "bit (push_bit 16 (y AND 0x0000ffff0000ffff) OR (drop_bit 16 y AND 0x0000ffff0000ffff)) n = bit (hswap64 x) n"
    unfolding y_def hswap64_def
    by (simp add: upt_rec; elim disjE; simp add: bit_simps; (simp add: eval_nat_numeral)?)
qed

lemma bswap16_word:
  fixes x :: "'a::len word"
  assumes "take_bit 16 x = x" "16 \<le> LENGTH('a)"
  shows "push_bit 8 (take_bit 8 x) OR drop_bit 8 x = ucast (bswap16 (ucast x))"
proof -
  have "8 + k < 16" if "bit x (8 + k)" for k using assms(1) that by (metis bit_take_bit_iff)
  then have "k < 8" if "bit x (8 + k)" for k using that by fastforce
  then show ?thesis
    using assms(2) unfolding bswap16_def mask_simps(1) [symmetric] take_bit_eq_mask [symmetric]
    by (intro bit_word_eqI) (auto simp: bit_simps)
qed

lemma sign_fill: "signed_drop_bit (LENGTH('a) - 1) c = (if c <s 0 then - 1 else 0)" for c :: "'a::len word"
proof -
  have "c <s 0 \<longleftrightarrow> bit c (LENGTH('a) - 1)" by (simp add: word_sless_alt bit_last_iff)
  then show ?thesis by (auto intro!: bit_word_eqI simp: bit_simps Suc_le_eq split: if_splits)
qed

lemma abs_word: "(c XOR signed_drop_bit (LENGTH('a) - 1) c) - signed_drop_bit (LENGTH('a) - 1) c = (if c <s 0 then - c else c)"
  for c :: "'a::len word"
  unfolding sign_fill by (simp add: not_eq_complement)

definition concat64 :: "u32 \<Rightarrow> u32 \<Rightarrow> u64" where
  "concat64 lo hi = ucast lo OR push_bit 32 (ucast hi)"

lemma concat64_deposit: "deposit_word (ucast lo) 32 32 (ucast hi) = concat64 lo hi"
proof -
  have "\<not> bit lo n" if "32 \<le> n" for n using bit_imp_le_length [of lo n] that by auto
  then show ?thesis by (auto intro!: bit_word_eqI simp: concat64_def bit_deposit_word bit_simps split: if_splits)
qed

subsection \<open>Double words of 128 bits\<close>

definition concat128 :: "u64 \<Rightarrow> u64 \<Rightarrow> 128 word" where
  "concat128 lo hi = of_nat (unat lo + 2 ^ 64 * unat hi)"

lemma unat_less64: "unat (w :: u64) < 2 ^ 64"
  using unsigned_less [of w, where ?'a = nat] by simp

lemma unat_concat128: "unat (concat128 lo hi) = unat lo + 2 ^ 64 * unat hi"
proof -
  have "unat lo + 2 ^ 64 * unat hi < 2 ^ 128"
    using unat_less64 [of lo] unat_less64 [of hi] by simp
  then show ?thesis by (simp add: concat128_def unsigned_of_nat take_bit_nat_eq_self del: of_nat_add)
qed

lemma carry_word: "(unat c + unat e) div 2 ^ 64 = of_bool (c + e < c)" for c e :: u64
proof -
  have "c + e < c \<longleftrightarrow> \<not> unat c + unat e < 2 ^ 64"
    using no_olen_add_nat [of c e] not_le [of c "c + e"] by simp
  then show ?thesis
    using unat_less64 [of c] unat_less64 [of e] by (intro div_nat_eqI) (cases "c + e < c"; simp)+
qed

lemma mod_div_64: "(x mod 2 ^ 128) div 2 ^ 64 = (x div 2 ^ 64) mod 2 ^ 64" for x :: nat
  using mod_mult2_eq [of x "2 ^ 64" "2 ^ 64"] by simp

lemma add128:
  "ucast (concat128 c d + concat128 e f) = c + e"
  "ucast (drop_bit 64 (concat128 c d + concat128 e f)) = d + f + of_bool (c + e < c)"
proof -
  let ?s = "unat c + unat e + 2 ^ 64 * (unat d + unat f)"
  have s: "unat (concat128 c d + concat128 e f) = ?s mod 2 ^ 128"
    unfolding unat_word_ariths(1) unat_concat128 by (simp only: distrib_left ac_simps) simp
  have "?s mod 2 ^ 128 mod 2 ^ 64 = ?s mod 2 ^ 64" by (rule mod_mod_cancel) simp
  also have "\<dots> = (unat c + unat e) mod 2 ^ 64" by (rule mod_mult_self2)
  finally have "unat (ucast (concat128 c d + concat128 e f) :: u64) = unat (c + e)"
    unfolding unsigned_ucast_eq take_bit_eq_mod s unat_word_ariths(1) [of c e] by simp
  then show "ucast (concat128 c d + concat128 e f) = c + e" by (simp only: word_unat_eq_iff)
  have "?s div 2 ^ 64 = of_bool (c + e < c) + (unat d + unat f)" unfolding carry_word [symmetric] by (subst div_mult_self2) simp_all
  then have "unat (ucast (drop_bit 64 (concat128 c d + concat128 e f)) :: u64) =
      (of_bool (c + e < c) + (unat d + unat f)) mod 2 ^ 64"
    unfolding unsigned_ucast_eq take_bit_eq_mod unsigned_drop_bit_eq drop_bit_eq_div [where 'a = nat] s by (simp add: mod_div_64 [simplified])
  also have "\<dots> = unat (d + f + of_bool (c + e < c))"
    unfolding unat_word_ariths(1) by (cases "c + e < c") (simp_all add: mod_simps)
  finally show "ucast (drop_bit 64 (concat128 c d + concat128 e f)) = d + f + of_bool (c + e < c)" by (simp only: word_unat_eq_iff)
qed

lemma concat128_parts: "ucast (concat128 c d) = c" "ucast (drop_bit 64 (concat128 c d)) = d"
  using add128 [of c d 0 0] by (simp_all add: concat128_def)

lemma concat128_eqI:
  fixes x :: "128 word"
  assumes "ucast x = c" "ucast (drop_bit 64 x) = d"
  shows "x = concat128 c d"
proof -
  have "unat x < 2 ^ 64 * 2 ^ 64" using unsigned_less [of x, where ?'a = nat] by simp
  then have "unat x div 2 ^ 64 < 2 ^ 64" by (rule less_mult_imp_div_less)
  then have "unat c = unat x mod 2 ^ 64" "unat d = unat x div 2 ^ 64"
    unfolding assms [symmetric] unsigned_ucast_eq take_bit_eq_mod unsigned_drop_bit_eq drop_bit_eq_div [where 'a = nat] by simp_all
  then have "unat x = unat (concat128 c d)" unfolding unat_concat128 by simp
  then show ?thesis by (simp only: word_unat_eq_iff)
qed

lemma sub128:
  "ucast (concat128 c d - concat128 e f) = c - e"
  "ucast (drop_bit 64 (concat128 c d - concat128 e f)) = d - f - of_bool (c < e)"
proof -
  have "c - e + e < c - e \<longleftrightarrow> c < e" using word_sub_le_iff [of c e] by (simp flip: not_le)
  then have "concat128 c d = concat128 (c - e) (d - f - of_bool (c < e)) + concat128 e f"
    by (intro concat128_eqI [symmetric]) (simp_all add: add128)
  then have "concat128 c d - concat128 e f = concat128 (c - e) (d - f - of_bool (c < e))" by simp
  then show "ucast (concat128 c d - concat128 e f) = c - e"
    "ucast (drop_bit 64 (concat128 c d - concat128 e f)) = d - f - of_bool (c < e)"
    by (simp_all add: concat128_parts)
qed

end
