(* ===== verification/Gen_Correct64.thy ===== *)
theory Gen_Correct64
  imports Gen_Words
begin

unbundle bit_operations_syntax

section \<open>Generators of 64-bit operations: correctness\<close>

text \<open>
  What the code does that the 64-bit generators emit, one rule per generator, over any symbolic backend:
  the rule says that the generator succeeds, how many temporaries it may allocate, and that the number
  and the value of the expression of the result are the same function of the numbers and of the values
  of the expressions of the operands. Rules are in continuation form, so that the rule of a generator
  composes the rules of those it calls.
\<close>

lemma resultI: 
  "shadow_result B ev e c f \<Longrightarrow> f \<sigma> = x \<Longrightarrow> result B ev \<sigma> c e (V64 c x)"
  "shadow_result B ev e' c' f' \<Longrightarrow> f' \<sigma> = x' \<Longrightarrow> ucast w = c' \<Longrightarrow> result B ev \<sigma> w e' (V32 c' x')"
  by (auto simp: shadow_result_def)

lemma runs_field: "field_assert w ofs len = Some () \<Longrightarrow> runs B env fl s m (f ()) Q \<Longrightarrow>
    runs B env fl s m (Option.bind (field_assert w ofs len) f) Q"
  by simp

lemma result64_num: "result B ev \<sigma> w e (V64 k y) \<Longrightarrow> w = k"
  by simp

context sym_backend
begin

lemma binary_result64:
  assumes "result B ev \<sigma> w1 e1 (V64 c x)" "result B ev \<sigma> w2 e2 (V64 d y)" "sym_helper_defined k y"
  shows "\<exists>e. sym_binary B k I64 w1 e1 w2 e2 = Some e \<and>
    result B ev \<sigma> (sym_helper_sem k c d) e (V64 (sym_helper_sem k c d) (sym_helper_sem k x y))"
  using binary_correct [of e1 e2 k c d] assms by (fastforce simp: sym_binary_def)

lemma binary_result32:
  assumes "result B ev \<sigma> w1 e1 (V32 c x)" "result B ev \<sigma> w2 e2 (V32 d y)" "sym_helper_defined k y"
    and "ucast w = sym_helper_sem k c d"
  shows "\<exists>e. sym_binary B k I32 w1 e1 w2 e2 = Some e \<and>
    result B ev \<sigma> w e (V32 (sym_helper_sem k c d) (sym_helper_sem k x y))"
  using binary_correct [of e1 e2 k c d] assms by (fastforce simp: sym_binary_def sym_binary_i32_def)

lemma runs_binary64:
  assumes st: "St B ev \<sigma> b L A r s m" "lty L t = Some I64" "A a1 = V64 c x" "A a2 = V64 d y"
    and op: "tci_rrr opc I64 c d = Some (sym_helper_sem k c d)" "sym_helper_defined k y"
    and Q: "\<And>s' m'. St B ev \<sigma> b L (A(t := V64 (sym_helper_sem k c d) (sym_helper_sem k x y))) r s' m' \<Longrightarrow> Q s' m'"
  shows "runs B env Next s m (Option.bind (SYM_HELPER_BINARY_64 k t a1 a2 s) (tcg_gen_op3_v (op_rrr opc I64) t a1 a2)) Q"
    and "t \<noteq> a1 \<Longrightarrow> t \<noteq> a2 \<Longrightarrow>
      runs B env Next s m (Option.bind (tcg_gen_op3_v (op_rrr opc I64) t a1 a2 s) (SYM_HELPER_BINARY_64 k t a1 a2)) Q"
  using binary_result64 [OF _ _ op(2)] op(1)
  by (intro runs_binary [OF st _ _ _ _ _ _ Q]; fastforce)+

lemma tcg_gen_arith_i64 [vcg]:
  assumes "St B ev \<sigma> b L A r s m" "lty L t = Some I64" "A a1 = V64 c x" "A a2 = V64 d y"
  shows "(\<And>s' m'. St B ev \<sigma> b L (A(t := V64 (c + d) (x + y))) r s' m' \<Longrightarrow> Q s' m') \<Longrightarrow>
      runs B env Next s m (tcg_gen_add_i64 t a1 a2 s) Q"
    and "(\<And>s' m'. St B ev \<sigma> b L (A(t := V64 (c - d) (x - y))) r s' m' \<Longrightarrow> Q s' m') \<Longrightarrow>
      runs B env Next s m (tcg_gen_sub_i64 t a1 a2 s) Q"
    and "(\<And>s' m'. St B ev \<sigma> b L (A(t := V64 (c * d) (x * y))) r s' m' \<Longrightarrow> Q s' m') \<Longrightarrow>
      runs B env Next s m (tcg_gen_mul_i64 t a1 a2 s) Q"
    and "(\<And>s' m'. St B ev \<sigma> b L (A(t := V64 (c AND d) (x AND y))) r s' m' \<Longrightarrow> Q s' m') \<Longrightarrow>
      runs B env Next s m (tcg_gen_and_i64 t a1 a2 s) Q"
    and "(\<And>s' m'. St B ev \<sigma> b L (A(t := V64 (c OR d) (x OR y))) r s' m' \<Longrightarrow> Q s' m') \<Longrightarrow>
      runs B env Next s m (tcg_gen_or_i64 t a1 a2 s) Q"
    and "(\<And>s' m'. St B ev \<sigma> b L (A(t := V64 (c XOR d) (x XOR y))) r s' m' \<Longrightarrow> Q s' m') \<Longrightarrow>
      runs B env Next s m (tcg_gen_xor_i64 t a1 a2 s) Q"
  unfolding tcg_gen_add_i64_def tcg_gen_sub_i64_def tcg_gen_mul_i64_def tcg_gen_and_i64_def tcg_gen_or_i64_def
    tcg_gen_xor_i64_def
  by (rule runs_binary64 [OF assms]; simp add: tci_rrr_def)+

lemma tcg_gen_shift_i64 [vcg]:
  assumes "St B ev \<sigma> b L A r s m" "lty L t = Some I64" "A a1 = V64 c x" "A a2 = V64 d y" "unat d < 64"
  shows "(\<And>s' m'. St B ev \<sigma> b L (A(t := V64 (push_bit (unat d) c) (push_bit (unat y) x))) r s' m' \<Longrightarrow> Q s' m') \<Longrightarrow>
      runs B env Next s m (tcg_gen_shl_i64 t a1 a2 s) Q"
    and "(\<And>s' m'. St B ev \<sigma> b L (A(t := V64 (drop_bit (unat d) c) (drop_bit (unat y) x))) r s' m' \<Longrightarrow> Q s' m') \<Longrightarrow>
      runs B env Next s m (tcg_gen_shr_i64 t a1 a2 s) Q"
    and "(\<And>s' m'. St B ev \<sigma> b L (A(t := V64 (signed_drop_bit (unat d) c) (signed_drop_bit (unat y) x))) r s' m' \<Longrightarrow> Q s' m') \<Longrightarrow>
      runs B env Next s m (tcg_gen_sar_i64 t a1 a2 s) Q"
  unfolding tcg_gen_shl_i64_def tcg_gen_shr_i64_def tcg_gen_sar_i64_def
  by (rule runs_binary64 [OF assms(1-4)]; simp add: tci_rrr_def tci_rrr_64_def shift_count assms(5))+

lemma tcg_gen_neg_i64 [vcg]:
  assumes "St B ev \<sigma> b L A r s m" "lty L t = Some I64" "A a = V64 c x"
    "\<And>s' m'. St B ev \<sigma> b L (A(t := V64 (- c) (- x))) r s' m' \<Longrightarrow> Q s' m'"
  shows "runs B env Next s m (tcg_gen_neg_i64 t a s) Q"
  unfolding tcg_gen_neg_i64_def
  by (rule runs_unary [OF assms(1-3) _ _ _ assms(4)])
    (use unary_correct(1) [where 'a = 64] in \<open>fastforce simp: tci_rr_def run_sym_unary_def intro!: resultI(1)\<close>)+

lemma not_op_i64 [vcg]:
  assumes "St B ev \<sigma> b L A r s m" "lty L t = Some I64" "A a = V64 c x"
    "\<And>s' m'. St B ev \<sigma> b L (A(t := V64 (NOT c) (NOT x))) r s' m' \<Longrightarrow> Q s' m'"
  shows "runs B env Next s m (Option.bind (gen_helper_sym_unary unary_not t a s) (tcg_gen_op2_v (op_rr INDEX_op_not I64) t a)) Q"
  by (rule runs_unary [OF assms(1-3) _ _ _ assms(4)])
    (use unary_correct(2) [where 'a = 64] in \<open>fastforce simp: tci_rr_def run_sym_unary_def intro!: resultI(1)\<close>)+

lemma tcg_gen_movi_i64 [vcg]:
  assumes "St B ev \<sigma> b L A r s m" "lty L t = Some I64" "2 \<le> b"
    and "\<And>s' m'. St B ev \<sigma> (b - 2) L (A(t := V64 k k)) r s' m' \<Longrightarrow> Q s' m'"
  shows "runs B env Next s m (tcg_gen_movi_i64 t k s) Q"
  unfolding tcg_gen_movi_i64_def
  by (insert assms, (erule vcg | rule runs_control | (simp (no_asm_simp) del: aval.inject; fail) |
    (erule St_post, assumption; (simp; fail)))+)

lemma tcg_gen_imm_i64 [vcg]:
  assumes "St B ev \<sigma> b L A r s m" "lty L t = Some I64" "A a = V64 c x" "2 \<le> b"
  shows "(\<And>s' m'. St B ev \<sigma> (b - 2) L (A(t := V64 (c + k) (x + k))) r s' m' \<Longrightarrow> Q s' m') \<Longrightarrow>
      runs B env Next s m (tcg_gen_addi_i64 t a k s) Q"
    and "(\<And>s' m'. St B ev \<sigma> (b - 2) L (A(t := V64 (c - k) (x - k))) r s' m' \<Longrightarrow> Q s' m') \<Longrightarrow>
      runs B env Next s m (tcg_gen_subi_i64 t a k s) Q"
    and "(\<And>s' m'. St B ev \<sigma> (b - 2) L (A(t := V64 (k - c) (k - x))) r s' m' \<Longrightarrow> Q s' m') \<Longrightarrow>
      runs B env Next s m (tcg_gen_subfi_i64 t k a s) Q"
    and "(\<And>s' m'. St B ev \<sigma> (b - 2) L (A(t := V64 (c OR k) (x OR k))) r s' m' \<Longrightarrow> Q s' m') \<Longrightarrow>
      runs B env Next s m (tcg_gen_ori_i64 t a k s) Q"
    and "(\<And>s' m'. St B ev \<sigma> (b - 2) L (A(t := V64 (c XOR k) (x XOR k))) r s' m' \<Longrightarrow> Q s' m') \<Longrightarrow>
      runs B env Next s m (tcg_gen_xori_i64 H t a k s) Q"
  unfolding tcg_gen_addi_i64_def tcg_gen_subi_i64_def tcg_gen_subfi_i64_def tcg_gen_ori_i64_def tcg_gen_xori_i64_def
  by (insert assms, (erule vcg | rule runs_control | (simp (no_asm_simp) del: aval.inject; fail) |
    (erule St_post, assumption; (simp; fail)))+)

lemma tcg_gen_shifti_i64 [vcg]:
  assumes "St B ev \<sigma> b L A r s m" "lty L t = Some I64" "A a = V64 c x" "2 \<le> b" "unat k < 64"
  shows "(\<And>s' m'. St B ev \<sigma> (b - 2) L (A(t := V64 (push_bit (unat k) c) (push_bit (unat k) x))) r s' m' \<Longrightarrow> Q s' m') \<Longrightarrow>
      runs B env Next s m (tcg_gen_shli_i64 t a k s) Q"
    and "(\<And>s' m'. St B ev \<sigma> (b - 2) L (A(t := V64 (drop_bit (unat k) c) (drop_bit (unat k) x))) r s' m' \<Longrightarrow> Q s' m') \<Longrightarrow>
      runs B env Next s m (tcg_gen_shri_i64 t a k s) Q"
    and "(\<And>s' m'. St B ev \<sigma> (b - 2) L (A(t := V64 (signed_drop_bit (unat k) c) (signed_drop_bit (unat k) x))) r s' m' \<Longrightarrow> Q s' m') \<Longrightarrow>
      runs B env Next s m (tcg_gen_sari_i64 t a k s) Q"
  unfolding tcg_gen_shli_i64_def tcg_gen_shri_i64_def tcg_gen_sari_i64_def
  by (insert assms count_ok [OF assms(5), simplified], (erule vcg | rule runs_control | (simp (no_asm_simp) del: aval.inject; fail) |
    (erule St_post, assumption; (simp; fail)))+)

lemma tcg_gen_muli_i64 [vcg]:
  assumes "St B ev \<sigma> b L A r s m" "lty L t = Some I64" "A a = V64 c x" "2 \<le> b"
  shows "(\<And>s' m'. St B ev \<sigma> (b - 2) L (A(t := V64 (c * k) (x * k))) r s' m' \<Longrightarrow> Q s' m') \<Longrightarrow>
      runs B env Next s m (tcg_gen_muli_i64 t a k s) Q"
  unfolding tcg_gen_muli_i64_def is_power_of_2_def ctz64_def
  by (insert assms mult_power_of_2 [of k] ctz_bit(1) [of k],
    (erule vcg | rule runs_control | (simp add: unat_of_nat del: aval.inject; fail) |
    (erule St_post, assumption; (simp add: unat_of_nat; fail)))+)

lemma length_result64:
  assumes "result B ev \<sigma> w e1 (V64 c x)"
  shows "\<exists>e. run_sym_length B length_zext e1 1 = Some e \<and> result B ev \<sigma> (take_bit 8 w) e (V64 (take_bit 8 c) (take_bit 8 x))"
    and "\<exists>e. run_sym_length B length_zext e1 2 = Some e \<and> result B ev \<sigma> (take_bit 16 w) e (V64 (take_bit 16 c) (take_bit 16 x))"
    and "\<exists>e. run_sym_length B length_zext e1 4 = Some e \<and> result B ev \<sigma> (take_bit 32 w) e (V64 (take_bit 32 c) (take_bit 32 x))"
    and "\<exists>e. run_sym_length B length_sext e1 1 = Some e \<and> result B ev \<sigma> (signed_take_bit 7 w) e (V64 (signed_take_bit 7 c) (signed_take_bit 7 x))"
    and "\<exists>e. run_sym_length B length_sext e1 2 = Some e \<and> result B ev \<sigma> (signed_take_bit 15 w) e (V64 (signed_take_bit 15 c) (signed_take_bit 15 x))"
    and "\<exists>e. run_sym_length B length_sext e1 4 = Some e \<and> result B ev \<sigma> (signed_take_bit 31 w) e (V64 (signed_take_bit 31 c) (signed_take_bit 31 x))"
  using assms zext_correct [of e1 1 c] zext_correct [of e1 2 c] zext_correct [of e1 4 c]
    sext_correct [of e1 1 c] sext_correct [of e1 2 c] sext_correct [of e1 4 c]
  by (force simp: run_sym_length_def shadow_result_def)+

lemma length_op_i64:
  assumes "St B ev \<sigma> b L A r s m" "lty L t = Some I64" "A a = V64 c x" "2 \<le> b"
    and "\<And>w1 e1. result B ev \<sigma> w1 e1 (V64 c x) \<Longrightarrow> \<exists>e. run_sym_length B u e1 n = Some e \<and> result B ev \<sigma> (f w1) e (V64 (f c) (f x))"
    and "\<And>s' m'. St B ev \<sigma> (b - 2) L (A(t := V64 (f c) (f x))) r s' m' \<Longrightarrow> Q s' m'"
  shows "opc \<noteq> INDEX_op_mov \<Longrightarrow> (\<And>w. tci_rr opc I64 w = Some (f w)) \<Longrightarrow>
      runs B env Next s m (Option.bind (gen_helper_sym_length u t a n s) (tcg_gen_op2_v (op_rr opc I64) t a)) Q"
    and "f = (\<lambda>w. tci_bswap opb I64 w fl) \<Longrightarrow>
      runs B env Next s m (Option.bind (gen_helper_sym_length u t a n s) (tcg_gen_op3i_v (op_bswap opb I64) t a fl)) Q"
  by (rule runs_length [OF assms(1-3) _ assms(4) assms(5) _ _ assms(6)]; auto)+

lemma zext_op_i64 [vcg]:
  assumes "St B ev \<sigma> b L A r s m" "lty L t = Some I64" "A a = V64 c x" "2 \<le> b"
  shows "(\<And>s' m'. St B ev \<sigma> (b - 2) L (A(t := V64 (take_bit 8 c) (take_bit 8 x))) r s' m' \<Longrightarrow> Q s' m') \<Longrightarrow>
      runs B env Next s m (Option.bind (gen_helper_sym_length length_zext t a 1 s) (tcg_gen_op2_v (op_rr INDEX_op_ext8u I64) t a)) Q"
    and "(\<And>s' m'. St B ev \<sigma> (b - 2) L (A(t := V64 (take_bit 16 c) (take_bit 16 x))) r s' m' \<Longrightarrow> Q s' m') \<Longrightarrow>
      runs B env Next s m (Option.bind (gen_helper_sym_length length_zext t a 2 s) (tcg_gen_op2_v (op_rr INDEX_op_ext16u I64) t a)) Q"
    and "(\<And>s' m'. St B ev \<sigma> (b - 2) L (A(t := V64 (take_bit 32 c) (take_bit 32 x))) r s' m' \<Longrightarrow> Q s' m') \<Longrightarrow>
      runs B env Next s m (Option.bind (gen_helper_sym_length length_zext t a 4 s) (tcg_gen_op2_v (op_rr INDEX_op_ext32u I64) t a)) Q"
  by (rule length_op_i64(1) [OF assms], erule length_result64; simp add: tci_rr_def ext_words)+

lemma sext_op_i64 [vcg]:
  assumes "St B ev \<sigma> b L A r s m" "lty L t = Some I64" "A a = V64 c x" "2 \<le> b"
  shows "(\<And>s' m'. St B ev \<sigma> (b - 2) L (A(t := V64 (signed_take_bit 7 c) (signed_take_bit 7 x))) r s' m' \<Longrightarrow> Q s' m') \<Longrightarrow>
      runs B env Next s m (Option.bind (gen_helper_sym_length length_sext t a 1 s) (tcg_gen_op2_v (op_rr INDEX_op_ext8s I64) t a)) Q"
    and "(\<And>s' m'. St B ev \<sigma> (b - 2) L (A(t := V64 (signed_take_bit 15 c) (signed_take_bit 15 x))) r s' m' \<Longrightarrow> Q s' m') \<Longrightarrow>
      runs B env Next s m (Option.bind (gen_helper_sym_length length_sext t a 2 s) (tcg_gen_op2_v (op_rr INDEX_op_ext16s I64) t a)) Q"
    and "(\<And>s' m'. St B ev \<sigma> (b - 2) L (A(t := V64 (signed_take_bit 31 c) (signed_take_bit 31 x))) r s' m' \<Longrightarrow> Q s' m') \<Longrightarrow>
      runs B env Next s m (Option.bind (gen_helper_sym_length length_sext t a 4 s) (tcg_gen_op2_v (op_rr INDEX_op_ext32s I64) t a)) Q"
  by (rule length_op_i64(1) [OF assms], erule length_result64; simp add: tci_rr_def ext_words)+

lemma extu_native_i64:
  assumes "St B ev \<sigma> b L A r s m" "lty L t = Some I64" "A a = V64 c x" "2 \<le> b"
  shows "(\<And>s' m'. St B ev \<sigma> (b - 2) L (A(t := V64 (take_bit 8 c) (take_bit 8 x))) r s' m' \<Longrightarrow> Q s' m') \<Longrightarrow> HAS_ext8u H I64 \<Longrightarrow>
      runs B env Next s m (tcg_gen_ext8u_i64 H t a s) Q"
    and "(\<And>s' m'. St B ev \<sigma> (b - 2) L (A(t := V64 (take_bit 16 c) (take_bit 16 x))) r s' m' \<Longrightarrow> Q s' m') \<Longrightarrow> HAS_ext16u H I64 \<Longrightarrow>
      runs B env Next s m (tcg_gen_ext16u_i64 H t a s) Q"
    and "(\<And>s' m'. St B ev \<sigma> (b - 2) L (A(t := V64 (take_bit 32 c) (take_bit 32 x))) r s' m' \<Longrightarrow> Q s' m') \<Longrightarrow> HAS_ext32u H I64 \<Longrightarrow>
      runs B env Next s m (tcg_gen_ext32u_i64 H t a s) Q"
  unfolding tcg_gen_ext8u_i64.simps tcg_gen_ext16u_i64.simps tcg_gen_ext32u_i64.simps
  by (simp_all add: zext_op_i64 [OF assms])

lemma tcg_gen_andi_i64 [vcg]:
  assumes "St B ev \<sigma> b L A r s m" "lty L t = Some I64" "A a = V64 c x" "2 \<le> b"
    and "\<And>s' m'. St B ev \<sigma> (b - 2) L (A(t := V64 (c AND k) (x AND k))) r s' m' \<Longrightarrow> Q s' m'"
  shows "runs B env Next s m (tcg_gen_andi_i64 H t a k s) Q"
  unfolding tcg_gen_andi_i64.simps
  by (insert assms, (erule vcg extu_native_i64 | rule runs_control | (simp (no_asm_simp) del: aval.inject; fail) |
    (erule St_post, assumption; (simp add: take_bit_and; fail)))+)

lemma tcg_gen_extu_i64 [vcg]:
  assumes "St B ev \<sigma> b L A r s m" "lty L t = Some I64" "A a = V64 c x" "2 \<le> b"
  shows "(\<And>s' m'. St B ev \<sigma> (b - 2) L (A(t := V64 (take_bit 8 c) (take_bit 8 x))) r s' m' \<Longrightarrow> Q s' m') \<Longrightarrow>
      runs B env Next s m (tcg_gen_ext8u_i64 H t a s) Q"
    and "(\<And>s' m'. St B ev \<sigma> (b - 2) L (A(t := V64 (take_bit 16 c) (take_bit 16 x))) r s' m' \<Longrightarrow> Q s' m') \<Longrightarrow>
      runs B env Next s m (tcg_gen_ext16u_i64 H t a s) Q"
    and "(\<And>s' m'. St B ev \<sigma> (b - 2) L (A(t := V64 (take_bit 32 c) (take_bit 32 x))) r s' m' \<Longrightarrow> Q s' m') \<Longrightarrow>
      runs B env Next s m (tcg_gen_ext32u_i64 H t a s) Q"
  unfolding tcg_gen_ext8u_i64.simps tcg_gen_ext16u_i64.simps tcg_gen_ext32u_i64.simps
  by (insert assms, (erule vcg | rule runs_control | (simp (no_asm_simp) del: aval.inject; fail) |
    (erule St_post, assumption; (simp add: take_bit_and; fail)))+)

lemma tcg_gen_exts_i64 [vcg]:
  assumes "St B ev \<sigma> b L A r s m" "lty L t = Some I64" "A a = V64 c x" "4 \<le> b"
  shows "(\<And>s' m'. St B ev \<sigma> (b - 4) L (A(t := V64 (signed_take_bit 7 c) (signed_take_bit 7 x))) r s' m' \<Longrightarrow> Q s' m') \<Longrightarrow>
      runs B env Next s m (tcg_gen_ext8s_i64 H t a s) Q"
    and "(\<And>s' m'. St B ev \<sigma> (b - 4) L (A(t := V64 (signed_take_bit 15 c) (signed_take_bit 15 x))) r s' m' \<Longrightarrow> Q s' m') \<Longrightarrow>
      runs B env Next s m (tcg_gen_ext16s_i64 H t a s) Q"
    and "(\<And>s' m'. St B ev \<sigma> (b - 4) L (A(t := V64 (signed_take_bit 31 c) (signed_take_bit 31 x))) r s' m' \<Longrightarrow> Q s' m') \<Longrightarrow>
      runs B env Next s m (tcg_gen_ext32s_i64 H t a s) Q"
  unfolding tcg_gen_ext8s_i64_def tcg_gen_ext16s_i64_def tcg_gen_ext32s_i64_def
  by (insert assms, (erule vcg | rule runs_control | (simp (no_asm_simp) del: aval.inject; fail) |
    (erule St_post, assumption; (simp add: sext_shifts_i64; fail)))+)

lemma tcg_gen_not_i64 [vcg]:
  assumes "St B ev \<sigma> b L A r s m" "lty L t = Some I64" "A a = V64 c x" "2 \<le> b"
    and "\<And>s' m'. St B ev \<sigma> (b - 2) L (A(t := V64 (NOT c) (NOT x))) r s' m' \<Longrightarrow> Q s' m'"
  shows "runs B env Next s m (tcg_gen_not_i64 H t a s) Q"
  unfolding tcg_gen_not_i64_def
  by (insert assms, (erule vcg | rule runs_control | (simp (no_asm_simp) del: aval.inject; fail) |
    (erule St_post, assumption; (simp; fail)))+)

lemma rot_op_i64 [vcg]:
  assumes "St B ev \<sigma> b L A r s m" "lty L t = Some I64" "A a1 = V64 c x" "A a2 = V64 d y" "unat d < 64" "unat y < 64"
  shows "(\<And>s' m'. St B ev \<sigma> b L (A(t := V64 (word_rotl (unat d) c) (word_rotl (unat y) x))) r s' m' \<Longrightarrow> Q s' m') \<Longrightarrow>
      runs B env Next s m (Option.bind (SYM_HELPER_BINARY_64 sym_rotate_left t a1 a2 s) (tcg_gen_op3_v (op_rrr INDEX_op_rotl I64) t a1 a2)) Q"
    and "(\<And>s' m'. St B ev \<sigma> b L (A(t := V64 (word_rotr (unat d) c) (word_rotr (unat y) x))) r s' m' \<Longrightarrow> Q s' m') \<Longrightarrow>
      runs B env Next s m (Option.bind (SYM_HELPER_BINARY_64 sym_rotate_right t a1 a2 s) (tcg_gen_op3_v (op_rrr INDEX_op_rotr I64) t a1 a2)) Q"
  by (rule runs_binary64 [OF assms(1-4)]; simp add: tci_rrr_def tci_rrr_64_def rot64_eq rot_count assms(5,6))+

lemma tcg_gen_rot_i64 [vcg]:
  assumes "St B ev \<sigma> b L A r s m" "lty L t = Some I64" "A a1 = V64 c x" "A a2 = V64 d y" "unat d < 64" "unat y < 64"
    "\<not> HAS_rot H I64 \<Longrightarrow> d \<noteq> 0" "6 \<le> b"
  shows "(\<And>s' m'. St B ev \<sigma> (b - 6) L (A(t := V64 (word_rotl (unat d) c) (word_rotl (unat y) x))) r s' m' \<Longrightarrow> Q s' m') \<Longrightarrow>
      runs B env Next s m (tcg_gen_rotl_i64 H t a1 a2 s) Q"
    and "(\<And>s' m'. St B ev \<sigma> (b - 6) L (A(t := V64 (word_rotr (unat d) c) (word_rotr (unat y) x))) r s' m' \<Longrightarrow> Q s' m') \<Longrightarrow>
      runs B env Next s m (tcg_gen_rotr_i64 H t a1 a2 s) Q"
  unfolding tcg_gen_rotl_i64_def tcg_gen_rotr_i64_def
  by (insert assms count_compl(1) [OF less_imp_le [OF assms(5)]] count_compl(1) [OF less_imp_le [OF assms(6)]],
    (erule vcg | rule runs_control | (simp (no_asm_simp) add: unat_gt_0 del: aval.inject; fail) |
    (erule St_post, assumption; (simp add: rot_shifts_i64; fail)))+)

lemma tcg_gen_rotli_i64 [vcg]:
  assumes "St B ev \<sigma> b L A r s m" "lty L t = Some I64" "A a = V64 c x" "unat k < 64" "8 \<le> b"
    and "\<And>s' m'. St B ev \<sigma> (b - 8) L (A(t := V64 (word_rotl (unat k) c) (word_rotl (unat k) x))) r s' m' \<Longrightarrow> Q s' m'"
  shows "runs B env Next s m (tcg_gen_rotli_i64 H t a k s) Q"
  unfolding tcg_gen_rotli_i64_def
  by (insert assms count_ok [OF assms(4), simplified] count_compl(1) [OF less_imp_le [OF assms(4)]],
    (erule vcg | rule runs_control | (simp (no_asm_simp) add: unat_gt_0 del: aval.inject; fail) |
    (erule St_post, assumption; (simp add: rot_shifts_i64; fail)))+)

lemma tcg_gen_rotri_i64 [vcg]:
  assumes "St B ev \<sigma> b L A r s m" "lty L t = Some I64" "A a = V64 c x" "unat k < 64" "8 \<le> b"
    and "\<And>s' m'. St B ev \<sigma> (b - 8) L (A(t := V64 (word_rotr (unat k) c) (word_rotr (unat k) x))) r s' m' \<Longrightarrow> Q s' m'"
  shows "runs B env Next s m (tcg_gen_rotri_i64 H t a k s) Q"
  unfolding tcg_gen_rotri_i64_def
  by (insert assms count_ok [OF assms(4), simplified] count_compl(1) [OF less_imp_le [OF assms(4)]],
    (erule vcg | rule runs_control | (simp (no_asm_simp) add: unat_gt_0 del: aval.inject; fail) |
    (erule St_post, assumption; (simp add: rot_shifts_i64; fail)))+)

lemma extract_result64:
  assumes "result B ev \<sigma> w1 e1 (V64 c x)" "0 < unat (len :: u32)" "unat (ofs :: u32) + unat len \<le> 64"
  shows "\<exists>w e. tci_extract I64 w1 (ucast ofs) (ucast len) = Some w \<and> sym_extract_i64 B e1 (ucast ofs) (ucast len) = Some e \<and>
      result B ev \<sigma> w e (V64 (take_bit (unat len) (drop_bit (unat ofs) c)) (take_bit (unat len) (drop_bit (unat ofs) x)))"
    and "\<exists>w e. tci_sextract I64 w1 (ucast ofs) (ucast len) = Some w \<and> sym_sextract_i64 B e1 (ucast ofs) (ucast len) = Some e \<and>
      result B ev \<sigma> w e (V64 (signed_take_bit (unat len - 1) (drop_bit (unat ofs) c)) (signed_take_bit (unat len - 1) (drop_bit (unat ofs) x)))"
  using assms extract_correct [where 'a = 64 and c = c and ofs = "ucast ofs" and n = "ucast len" and oe = e1]
    extract_eq(2) [OF field_ok64 [OF assms(2,3)]] sextract_eq(2) [OF field_ok64 [OF assms(2,3)]]
  by (auto simp: tci_extract_def tci_sextract_def shadow_result_def unat_eq_nat_uint [symmetric])

lemma extract_op_i64 [vcg]:
  assumes "St B ev \<sigma> b L A r s m" "lty L t = Some I64" "A a = V64 c x"
    "A k = V64 (ucast ofs) yk" "A n = V64 (ucast len) yn" "0 < unat (len :: u32)" "unat (ofs :: u32) + unat len \<le> 64"
    and Q: "\<And>s' m'. St B ev \<sigma> b L (A(t := V64 (take_bit (unat len) (drop_bit (unat ofs) c)) (take_bit (unat len) (drop_bit (unat ofs) x)))) r s' m' \<Longrightarrow> Q s' m'"
  shows "runs B env Next s m (Option.bind (tcgv_i64_expr t s) (\<lambda>er. Option.bind (tcgv_i64_expr a s) (\<lambda>ea.
        Option.bind (tcg_gen_callN (helper_sym_extract I64) (Some er) [ea, k, n] s)
          (tcg_gen_op4ii_v (INDEX_op_extract I64) t a (ucast ofs) (ucast len))))) Q"
proof (rule runs_extract [where f = "\<lambda>w. tci_extract I64 w (ucast ofs) (ucast len)" and g = "sym_extract_i64 B",
      OF assms(1-3) _ assms(4,5) _ _ _ _ _ _ Q])
  fix w1 e1 wk ek wn en
  assume res: "result B ev \<sigma> w1 e1 (V64 c x)" and "result B ev \<sigma> wk ek (V64 (ucast ofs) yk)" "result B ev \<sigma> wn en (V64 (ucast len) yn)"
  then show "\<exists>w e. tci_extract I64 w1 (ucast ofs) (ucast len) = Some w \<and> sym_extract_i64 B e1 wk wn = Some e \<and>
      result B ev \<sigma> w e (V64 (take_bit (unat len) (drop_bit (unat ofs) c)) (take_bit (unat len) (drop_bit (unat ofs) x)))"
    using extract_result64(1) [OF res assms(6,7)] by (simp only: result.simps)
qed simp_all

lemma sextract_op_i64 [vcg]:
  assumes "St B ev \<sigma> b L A r s m" "lty L t = Some I64" "A a = V64 c x"
    "A k = V64 (ucast ofs) yk" "A n = V64 (ucast len) yn" "0 < unat (len :: u32)" "unat (ofs :: u32) + unat len \<le> 64"
    and Q: "\<And>s' m'. St B ev \<sigma> b L (A(t := V64 (signed_take_bit (unat len - 1) (drop_bit (unat ofs) c)) (signed_take_bit (unat len - 1) (drop_bit (unat ofs) x)))) r s' m' \<Longrightarrow> Q s' m'"
  shows "runs B env Next s m (Option.bind (tcgv_i64_expr t s) (\<lambda>er. Option.bind (tcgv_i64_expr a s) (\<lambda>ea.
        Option.bind (tcg_gen_callN (helper_sym_sextract I64) (Some er) [ea, k, n] s)
          (tcg_gen_op4ii_v (INDEX_op_sextract I64) t a (ucast ofs) (ucast len))))) Q"
proof (rule runs_extract [where f = "\<lambda>w. tci_sextract I64 w (ucast ofs) (ucast len)" and g = "sym_sextract_i64 B",
      OF assms(1-3) _ assms(4,5) _ _ _ _ _ _ Q])
  fix w1 e1 wk ek wn en
  assume res: "result B ev \<sigma> w1 e1 (V64 c x)" and "result B ev \<sigma> wk ek (V64 (ucast ofs) yk)" "result B ev \<sigma> wn en (V64 (ucast len) yn)"
  then show "\<exists>w e. tci_sextract I64 w1 (ucast ofs) (ucast len) = Some w \<and> sym_sextract_i64 B e1 wk wn = Some e \<and>
      result B ev \<sigma> w e (V64 (signed_take_bit (unat len - 1) (drop_bit (unat ofs) c)) (signed_take_bit (unat len - 1) (drop_bit (unat ofs) x)))"
    using extract_result64(2) [OF res assms(6,7)] by (simp only: result.simps)
qed simp_all

lemma tcg_gen_extract_i64 [vcg]:
  assumes "St B ev \<sigma> b L A r s m" "lty L t = Some I64" "A a = V64 c x" "0 < unat len" "unat ofs + unat len \<le> 64" "4 \<le> b"
    and "\<And>s' m'. St B ev \<sigma> (b - 4) L (A(t := V64 (take_bit (unat len) (drop_bit (unat ofs) c)) (take_bit (unat len) (drop_bit (unat ofs) x)))) r s' m' \<Longrightarrow> Q s' m'"
  shows "runs B env Next s m (tcg_gen_extract_i64 H t a ofs len s) Q"
  unfolding tcg_gen_extract_i64_def
  by (insert assms,
    (erule vcg | rule runs_control runs_field | (simp (no_asm_simp) add: field_facts64 [OF assms(4,5)] del: aval.inject; fail) |
    (simp add: field_facts64 [OF assms(4,5)] del: aval.inject; fail) |
    (erule St_post, assumption; (simp add: field_facts64 [OF assms(4,5)] extract_words [where k = "unat ofs" and 'a = 64, simplified, OF assms(4,5)]; fail)))+)

lemma tcg_gen_sextract_i64 [vcg]:
  assumes "St B ev \<sigma> b L A r s m" "lty L t = Some I64" "A a = V64 c x" "0 < unat len" "unat ofs + unat len \<le> 64" "6 \<le> b"
    and "\<And>s' m'. St B ev \<sigma> (b - 6) L (A(t := V64 (signed_take_bit (unat len - 1) (drop_bit (unat ofs) c)) (signed_take_bit (unat len - 1) (drop_bit (unat ofs) x)))) r s' m' \<Longrightarrow> Q s' m'"
  shows "runs B env Next s m (tcg_gen_sextract_i64 H t a ofs len s) Q"
  unfolding tcg_gen_sextract_i64_def
  by (insert assms,
    (erule vcg | rule runs_control runs_field | (simp (no_asm_simp) add: field_facts64 [OF assms(4,5)] del: aval.inject; fail) |
    (simp add: field_facts64 [OF assms(4,5)] del: aval.inject; fail) |
    (erule St_post, assumption; (simp add: field_facts64 [OF assms(4,5)] sextract_words [where k = "unat ofs" and 'a = 64, simplified, OF assms(4,5)]
       sextract_signed [where k = "unat ofs" and n = "unat len" and 'a = 64]; fail)))+)

lemma deposit_result64:
  assumes "result B ev \<sigma> w1 e1 (V64 c x)" "result B ev \<sigma> w2 e2 (V64 d y)"
    and "0 < unat (len :: u32)" "unat (ofs :: u32) + unat len \<le> 64" "unat len < 64"
  shows "\<exists>w e. tci_deposit I64 w1 w2 (ucast ofs) (ucast len) = Some w \<and>
      sym_deposit_i64 B w1 e1 w2 e2 (ucast ofs) (ucast len) = Some e \<and>
      result B ev \<sigma> w e (V64 (deposit_word c (unat ofs) (unat len) d) (deposit_word x (unat ofs) (unat len) y))"
  using assms deposit64_correct [of e1 e2 "ucast ofs" "ucast len" c d] deposit_eq(2) [OF field_ok64 [OF assms(3,4)]]
  by (auto simp: tci_deposit_def shadow_result_def unat_eq_nat_uint [symmetric])

lemma deposit_op_i64 [vcg]:
  assumes "St B ev \<sigma> b L A r s m" "lty L t = Some I64" "A a1 = V64 c x" "A a2 = V64 d y"
    "A k = V64 (ucast ofs) yk" "A n = V64 (ucast len) yn" "0 < unat (len :: u32)" "unat (ofs :: u32) + unat len \<le> 64" "unat len < 64"
    and Q: "\<And>s' m'. St B ev \<sigma> b L (A(t := V64 (deposit_word c (unat ofs) (unat len) d) (deposit_word x (unat ofs) (unat len) y))) r s' m' \<Longrightarrow> Q s' m'"
  shows "runs B env Next s m (Option.bind (tcgv_i64_expr t s) (\<lambda>er. Option.bind (tcgv_i64_expr a1 s) (\<lambda>e1. Option.bind (tcgv_i64_expr a2 s) (\<lambda>e2.
        Option.bind (tcg_gen_callN (helper_sym_deposit I64) (Some er) [a1, e1, a2, e2, k, n] s)
          (tcg_gen_op5ii_v (INDEX_op_deposit I64) t a1 a2 (ucast ofs) (ucast len)))))) Q"
  by (rule runs_deposit [OF assms(1-4) _ _ assms(5,6) _ _ _ _ _ Q])
    (simp_all del: result.simps, metis result64_num deposit_result64 [OF _ _ assms(7-9)])

lemma extract2_result64:
  assumes "result B ev \<sigma> w1 e1 (V64 c x)" "result B ev \<sigma> w2 e2 (V64 d y)" "0 < unat (ofs :: u32)" "unat ofs < 64"
  shows "\<exists>w e. op_extract2 I64 w1 w2 (ucast ofs) = Some w \<and> sym_extract2_i64 B w2 e2 w1 e1 (ucast ofs) = Some e \<and>
      result B ev \<sigma> w e (V64 (extract2_word d c (unat ofs)) (extract2_word y x (unat ofs)))"
  using assms extract2_i64_correct [of e2 e1 "ucast ofs" d c]
  by (auto simp: op_extract2_def shadow_result_def extract2_word_def word_less_nat_alt)

lemma extract2_op_i64 [vcg]:
  assumes "St B ev \<sigma> b L A r s m" "lty L t = Some I64" "A al = V64 c x" "A ah = V64 d y"
    "A k = V64 (ucast ofs) yk" "0 < unat (ofs :: u32)" "unat ofs < 64"
    and Q: "\<And>s' m'. St B ev \<sigma> b L (A(t := V64 (extract2_word d c (unat ofs)) (extract2_word y x (unat ofs)))) r s' m' \<Longrightarrow> Q s' m'"
  shows "runs B env Next s m (Option.bind (tcgv_i64_expr t s) (\<lambda>er. Option.bind (tcgv_i64_expr ah s) (\<lambda>eh. Option.bind (tcgv_i64_expr al s) (\<lambda>el.
        Option.bind (tcg_gen_callN (helper_sym_extract2 I64) (Some er) [ah, eh, al, el, k] s)
          (tcg_gen_op4i_v (INDEX_op_extract2 I64) t al ah (ucast ofs)))))) Q"
  by (rule runs_extract2 [OF assms(1-4) _ _ assms(5) _ _ _ _ Q])
    (simp_all del: result.simps, metis result64_num extract2_result64 [OF _ _ assms(6,7)])

lemma extract2_native_i64:
  assumes "St B ev \<sigma> b L A r s m" "lty L t = Some I64" "A al = V64 c x" "A ah = V64 d y" "unat ofs \<le> 64" "8 \<le> b"
    and "\<And>s' m'. St B ev \<sigma> (b - 8) L (A(t := V64 (extract2_word d c (unat ofs)) (extract2_word y x (unat ofs)))) r s' m' \<Longrightarrow> Q s' m'"
    and "HAS_extract2 H I64"
  shows "runs B env Next s m (tcg_gen_extract2_i64 H t al ah ofs s) Q"
  unfolding tcg_gen_extract2_i64.simps
  by (insert assms extract2_facts64 [OF assms(5)],
    (erule vcg | rule runs_control | (simp (no_asm_simp) del: aval.inject; fail)  | (simp del: aval.inject; fail) |
    (erule St_post, assumption; (simp add: extract2_words64; fail)))+)

lemma tcg_gen_deposit_i64 [vcg]:
  assumes "St B ev \<sigma> b L A r s m" "lty L t = Some I64" "A a1 = V64 c x" "A a2 = V64 d y"
    "0 < unat len" "unat ofs + unat len \<le> 64" "18 \<le> b"
    and "\<And>s' m'. St B ev \<sigma> (b - 18) L (A(t := V64 (deposit_word c (unat ofs) (unat len) d) (deposit_word x (unat ofs) (unat len) y))) r s' m' \<Longrightarrow> Q s' m'"
  shows "runs B env Next s m (tcg_gen_deposit_i64 H t a1 a2 ofs len s) Q"
proof (cases "unat len = 64")
  case True
  then have "unat ofs = 0" using assms(6) by simp
  show ?thesis unfolding tcg_gen_deposit_i64.simps
    by (insert assms True \<open>unat ofs = 0\<close>,
      (erule vcg | rule runs_control runs_field | (simp (no_asm_simp) add: field_facts64 [OF assms(5,6)] del: aval.inject; fail)  | (simp add: field_facts64 [OF assms(5,6)] del: aval.inject; fail) |
      (erule St_post, assumption; (simp add: field_facts64 [OF assms(5,6)] deposit_words(5); fail)))+)
next
  case False
  then have n: "unat len < 64" using assms(6) by simp
  show ?thesis unfolding tcg_gen_deposit_i64.simps
    by (insert assms n,
      (erule vcg extract2_native_i64 | rule runs_control runs_field | (simp (no_asm_simp) add: field_facts64 [OF assms(5,6)] del: aval.inject; fail)  | (simp add: field_facts64 [OF assms(5,6)] del: aval.inject; fail) |
      (erule St_post, assumption; (simp add: field_facts64 [OF assms(5,6)] deposit_words64 [OF assms(5,6) n]; fail)))+)
qed

lemma tcg_gen_extract2_i64 [vcg]:
  assumes "St B ev \<sigma> b L A r s m" "lty L t = Some I64" "A al = V64 c x" "A ah = V64 d y" "unat ofs \<le> 64" "22 \<le> b"
    and "\<And>s' m'. St B ev \<sigma> (b - 22) L (A(t := V64 (extract2_word d c (unat ofs)) (extract2_word y x (unat ofs)))) r s' m' \<Longrightarrow> Q s' m'"
  shows "runs B env Next s m (tcg_gen_extract2_i64 H t al ah ofs s) Q"
  unfolding tcg_gen_extract2_i64.simps
  by (insert assms extract2_facts64 [OF assms(5)],
    (erule vcg | rule runs_control | (simp (no_asm_simp) del: aval.inject; fail)  | (simp del: aval.inject; fail) |
    (erule St_post, assumption; (simp add: extract2_words64; fail)))+)

lemma tcg_gen_deposit_z_i64 [vcg]:
  assumes "St B ev \<sigma> b L A r s m" "lty L t = Some I64" "A a = V64 c x" "0 < unat len" "unat ofs + unat len \<le> 64" "6 \<le> b"
    and "\<And>s' m'. St B ev \<sigma> (b - 6) L (A(t := V64 (push_bit (unat ofs) (take_bit (unat len) c)) (push_bit (unat ofs) (take_bit (unat len) x)))) r s' m' \<Longrightarrow> Q s' m'"
  shows "runs B env Next s m (tcg_gen_deposit_z_i64 H t a ofs len s) Q"
  unfolding tcg_gen_deposit_z_i64_def
  by (insert assms,
    (erule vcg | rule runs_control runs_field | (simp (no_asm_simp) add: field_facts64 [OF assms(4,5)] del: aval.inject; fail)  | (simp add: field_facts64 [OF assms(4,5)] del: aval.inject; fail) |
    (erule St_post, assumption; (simp add: field_facts64 [OF assms(4,5)] deposit_z_words64 [where k = "unat ofs" and n = "unat len"]; fail)))+)

lemma bswap_result64:
  assumes "result B ev \<sigma> w e1 (V64 c x)"
  shows "\<exists>e. run_sym_length B length_bswap e1 8 = Some e \<and> result B ev \<sigma> (bswap64 w) e (V64 (bswap64 c) (bswap64 x))"
    and "\<exists>e. run_sym_length B length_bswap e1 4 = Some e \<and>
      result B ev \<sigma> (ucast (bswap32 (ucast w))) e (V64 (ucast (bswap32 (ucast c))) (ucast (bswap32 (ucast x))))"
    and "\<exists>e. run_sym_length B length_bswap e1 2 = Some e \<and> result B ev \<sigma> (push_bit 8 (take_bit 8 w) OR drop_bit 8 w) e
      (V64 (push_bit 8 (take_bit 8 c) OR drop_bit 8 c) (push_bit 8 (take_bit 8 x) OR drop_bit 8 x))"
  using assms bswap8_correct [of e1 c] bswap4_i64_correct [of e1 c] bswap2_correct [of e1 c]
  by (force simp: run_sym_length_def shadow_result_def)+

lemma bswap_op_i64 [vcg]:
  assumes "St B ev \<sigma> b L A r s m" "lty L t = Some I64" "A a = V64 c x" "2 \<le> b"
  shows "(\<And>s' m'. St B ev \<sigma> (b - 2) L (A(t := V64 (bswap64 c) (bswap64 x))) r s' m' \<Longrightarrow> Q s' m') \<Longrightarrow>
      runs B env Next s m (Option.bind (gen_helper_sym_length length_bswap t a 8 s) (tcg_gen_op3i_v (op_bswap INDEX_op_bswap64 I64) t a fl)) Q"
    and "fl AND TCG_BSWAP_OS = 0 \<Longrightarrow>
      (\<And>s' m'. St B ev \<sigma> (b - 2) L (A(t := V64 (ucast (bswap32 (ucast c))) (ucast (bswap32 (ucast x))))) r s' m' \<Longrightarrow> Q s' m') \<Longrightarrow>
      runs B env Next s m (Option.bind (gen_helper_sym_length length_bswap t a 4 s) (tcg_gen_op3i_v (op_bswap INDEX_op_bswap32 I64) t a fl)) Q"
  by (rule length_op_i64(2) [OF assms], erule bswap_result64; simp add: tci_bswap_def fun_eq_iff)+

lemma bswap16_op_i64 [vcg]:
  assumes "St B ev \<sigma> b L A r s m" "lty L t = Some I64" "A a = V64 c x" "2 \<le> b"
    "take_bit 16 c = c" "take_bit 16 x = x" "fl AND TCG_BSWAP_OS = 0"
    and Q: "\<And>s' m'. St B ev \<sigma> (b - 2) L (A(t := V64 (ucast (bswap16 (ucast c))) (ucast (bswap16 (ucast x))))) r s' m' \<Longrightarrow> Q s' m'"
  shows "runs B env Next s m (Option.bind (gen_helper_sym_length length_bswap t a 2 s) (tcg_gen_op3i_v (op_bswap INDEX_op_bswap16 I64) t a fl)) Q"
proof (rule runs_length [OF assms(1-3) _ assms(4) _ _ _ Q, where f = "\<lambda>w. tci_bswap INDEX_op_bswap16 I64 w fl"])
  fix w1 e1 assume r: "result B ev \<sigma> w1 e1 (V64 c x)"
  show "\<exists>e. run_sym_length B length_bswap e1 2 = Some e \<and>
      result B ev \<sigma> (tci_bswap INDEX_op_bswap16 I64 w1 fl) e (V64 (ucast (bswap16 (ucast c))) (ucast (bswap16 (ucast x))))"
    using bswap_result64(3) [OF r] r assms(7) bswap16_word [OF assms(5)] bswap16_word [OF assms(6)]
    by (simp add: tci_bswap_def)
qed auto

lemma tcg_gen_bswap64_i64 [vcg]:
  assumes "St B ev \<sigma> b L A r s m" "lty L t = Some I64" "A a = V64 c x" "22 \<le> b"
  shows "(\<And>s' m'. St B ev \<sigma> (b - 22) L (A(t := V64 (bswap64 c) (bswap64 x))) r s' m' \<Longrightarrow> Q s' m') \<Longrightarrow>
      runs B env Next s m (tcg_gen_bswap64_i64 H t a s) Q"
  unfolding tcg_gen_bswap64_i64_def
  by (insert assms, (erule vcg | rule runs_control | (simp (no_asm_simp) del: aval.inject; fail) | (simp del: aval.inject; fail) |
    (erule St_post, assumption; (simp add: bswap64_blocks [simplified]; fail)))+)

lemma tcg_gen_bswap32_i64 [vcg]:
  assumes "St B ev \<sigma> b L A r s m" "lty L t = Some I64" "A a = V64 c x" "16 \<le> b" "fl AND TCG_BSWAP_OS = 0"
  shows "(\<And>s' m'. St B ev \<sigma> (b - 16) L (A(t := V64 (ucast (bswap32 (ucast c))) (ucast (bswap32 (ucast x))))) r s' m' \<Longrightarrow> Q s' m') \<Longrightarrow>
      runs B env Next s m (tcg_gen_bswap32_i64 H t a fl s) Q"
  unfolding tcg_gen_bswap32_i64_def
  by (insert assms, (erule vcg | rule runs_control | (simp (no_asm_simp) del: aval.inject; fail) | (simp del: aval.inject; fail) |
    (erule St_post, assumption; (simp add: bswap32_blocks_i64 [simplified]; fail)))+)

lemma tcg_gen_bswap16_i64 [vcg]:
  assumes "St B ev \<sigma> b L A r s m" "lty L t = Some I64" "A a = V64 c x" "12 \<le> b" "take_bit 16 c = c" "take_bit 16 x = x" "fl AND TCG_BSWAP_OS = 0" "fl AND TCG_BSWAP_OZ \<noteq> 0"
  shows "(\<And>s' m'. St B ev \<sigma> (b - 12) L (A(t := V64 (ucast (bswap16 (ucast c))) (ucast (bswap16 (ucast x))))) r s' m' \<Longrightarrow> Q s' m') \<Longrightarrow>
      runs B env Next s m (tcg_gen_bswap16_i64 H t a fl s) Q"
  unfolding tcg_gen_bswap16_i64_def
  by (insert assms, (erule vcg | rule runs_control | (simp (no_asm_simp) del: aval.inject; fail) | (simp del: aval.inject; fail) |
    (erule St_post, assumption; (simp add: take_bit_drop_bit bswap16_word [symmetric] or.commute; fail)))+)

lemma tcg_gen_hswap_i64 [vcg]:
  assumes "St B ev \<sigma> b L A r s m" "lty L t = Some I64" "A a = V64 c x" "20 \<le> b"
  shows "(\<And>s' m'. St B ev \<sigma> (b - 20) L (A(t := V64 (hswap64 c) (hswap64 x))) r s' m' \<Longrightarrow> Q s' m') \<Longrightarrow>
      runs B env Next s m (tcg_gen_hswap_i64 H t a s) Q"
  unfolding tcg_gen_hswap_i64_def
  by (insert assms, (erule vcg | rule runs_control | (simp (no_asm_simp) del: aval.inject; fail) | (simp del: aval.inject; fail) |
    (erule St_post, assumption; (simp add: hswap64_blocks [simplified]; fail)))+)

lemma tcg_gen_wswap_i64 [vcg]:
  assumes "St B ev \<sigma> b L A r s m" "lty L t = Some I64" "A a = V64 c x" "8 \<le> b"
  shows "(\<And>s' m'. St B ev \<sigma> (b - 8) L (A(t := V64 (word_rotl 32 c) (word_rotl 32 x))) r s' m' \<Longrightarrow> Q s' m') \<Longrightarrow>
      runs B env Next s m (tcg_gen_wswap_i64 H t a s) Q"
  unfolding tcg_gen_wswap_i64_def
  by (insert assms, (erule vcg | rule runs_control | (simp (no_asm_simp) del: aval.inject; fail) | (simp del: aval.inject; fail) |
    (erule St_post, assumption; (simp; fail)))+)

lemma tcg_gen_abs_i64 [vcg]:
  assumes "St B ev \<sigma> b L A r s m" "lty L t = Some I64" "A a = V64 c x" "4 \<le> b"
  shows "(\<And>s' m'. St B ev \<sigma> (b - 4) L (A(t := V64 (if c <s 0 then - c else c) (if x <s 0 then - x else x))) r s' m' \<Longrightarrow> Q s' m') \<Longrightarrow>
      runs B env Next s m (tcg_gen_abs_i64 t a s) Q"
  unfolding tcg_gen_abs_i64_def
  by (insert assms, (erule vcg | rule runs_control | (simp (no_asm_simp) del: aval.inject; fail) | (simp del: aval.inject; fail) |
    (erule St_post, assumption; (simp add: abs_word [where 'a = 64, simplified]; fail)))+)

lemma resize_result:
  shows "result B ev \<sigma> w e1 (V64 c x) \<Longrightarrow> \<exists>e. run_sym_unary B unary_trunc_i64_i32 e1 = Some e \<and> result B ev \<sigma> w e (V32 (ucast c) (ucast x))"
    and "result B ev \<sigma> w e2 (V32 d y) \<Longrightarrow> \<exists>e. run_sym_unary B unary_zext_i32_i64 e2 = Some e \<and> result B ev \<sigma> (ucast (ucast w :: u32)) e (V64 (ucast d) (ucast y))"
    and "result B ev \<sigma> w e2 (V32 d y) \<Longrightarrow> \<exists>e. run_sym_unary B unary_sext_i32_i64 e2 = Some e \<and> result B ev \<sigma> (scast (ucast w :: u32)) e (V64 (scast d) (scast y))"
  using trunc_correct [of e1 c] widen_correct [of e2 d] by (auto simp: run_sym_unary_def shadow_result_def)

lemma St_types:
  assumes "St B ev \<sigma> b L A r s m" "lty L t = Some I32" "A a = V64 c x"
  shows "t \<noteq> a" "a \<noteq> t"
proof -
  have "temp_live s t I32" "temp_live s a I64" using target [OF assms(1,2)] operand [OF assms(1,3)] by auto
  then show "t \<noteq> a" by (auto simp: temp_live_def)
  then show "a \<noteq> t" by simp
qed

lemma trunc_bind_i64 [vcg]:
  assumes "St B ev \<sigma> b L A r s m" "lty L t = Some I32" "A a = V64 c x"
    and Q: "\<And>s' m'. St B ev \<sigma> b L (A(t := V32 (ucast c) (ucast x))) r s' m' \<Longrightarrow> runs B env fl s' m' (f s') Q"
  shows "runs B env fl s m (Option.bind (gen_helper_sym_unary unary_trunc_i64_i32 t a s)
      (\<lambda>s. Option.bind (tcg_gen_mov_i32_concrete t a s) f)) Q"
proof -
  have eq: "tcg_gen_mov_i32_concrete t a = tcg_gen_op2_v (op_rr INDEX_op_mov I32) t a"
    using St_types(1) [OF assms(1-3)] by (simp add: tcg_gen_mov_i32_concrete_def tcg_gen_mov_i32_internal_def [abs_def])
  show ?thesis unfolding eq bind_assoc [symmetric]
    by (rule runs_bind, rule runs_unary [OF assms(1-3) _ _ _ Q])
      (use resize_result(1) [of \<sigma> _ _ c x] in \<open>simp_all add: tci_rr_def del: result.simps\<close>)
qed

lemma tcg_gen_extrl_i64_i32 [vcg]:
  assumes "St B ev \<sigma> b L A r s m" "lty L t = Some I32" "A a = V64 c x"
    and Q: "\<And>s' m'. St B ev \<sigma> b L (A(t := V32 (ucast c) (ucast x))) r s' m' \<Longrightarrow> Q s' m'"
  shows "runs B env Next s m (tcg_gen_extrl_i64_i32 t a s) Q"
  unfolding tcg_gen_extrl_i64_i32_def
  using trunc_bind_i64 [OF assms(1-3), where f = Some] by (simp add: Q runs_return)

lemma tcg_gen_widen_i32_i64 [vcg]:
  assumes "St B ev \<sigma> b L A r s m" "lty L t = Some I64" "A a = V32 c x"
  shows "(\<And>s' m'. St B ev \<sigma> b L (A(t := V64 (ucast c) (ucast x))) r s' m' \<Longrightarrow> Q s' m') \<Longrightarrow>
      runs B env Next s m (tcg_gen_extu_i32_i64 t a s) Q"
    and "(\<And>s' m'. St B ev \<sigma> b L (A(t := V64 (scast c) (scast x))) r s' m' \<Longrightarrow> Q s' m') \<Longrightarrow>
      runs B env Next s m (tcg_gen_ext_i32_i64 t a s) Q"
  unfolding tcg_gen_extu_i32_i64_def tcg_gen_ext_i32_i64_def
  by (rule runs_unary [OF assms], simp, simp add: tci_rr_def del: result.simps, erule resize_result, simp, assumption)+

lemma tcg_gen_extrh_i64_i32 [vcg]:
  assumes "St B ev \<sigma> b L A r s m" "lty L t = Some I32" "A a = V64 c x" "4 \<le> b"
  shows "(\<And>s' m'. St B ev \<sigma> (b - 4) L (A(t := V32 (ucast (drop_bit 32 c)) (ucast (drop_bit 32 x)))) r s' m' \<Longrightarrow> Q s' m') \<Longrightarrow>
      runs B env Next s m (tcg_gen_extrh_i64_i32 t a s) Q"
  unfolding tcg_gen_extrh_i64_i32_def
  by (insert assms, (erule vcg | rule runs_control | (simp (no_asm_simp) del: aval.inject; fail) | (simp del: aval.inject; fail) |
    (erule St_post, assumption; (simp; fail)))+)

lemma tcg_gen_extr_i64_i32 [vcg]:
  assumes "St B ev \<sigma> b L A r s m" "lty L lo = Some I32" "lty L hi = Some I32" "A a = V64 c x" "4 \<le> b"
  shows "(\<And>s' m'. St B ev \<sigma> (b - 4) L (A(lo := V32 (ucast c) (ucast x), hi := V32 (ucast (drop_bit 32 c)) (ucast (drop_bit 32 x)))) r s' m' \<Longrightarrow> Q s' m') \<Longrightarrow>
      runs B env Next s m (tcg_gen_extr_i64_i32 lo hi a s) Q"
  unfolding tcg_gen_extr_i64_i32_def
  by (insert assms St_types [OF assms(1,2,4)], (erule vcg | rule runs_control | (simp (no_asm_simp) del: aval.inject; fail) | (simp del: aval.inject; fail) |
    (erule St_post, assumption; (simp; fail)))+)

lemma tcg_gen_concat_i32_i64 [vcg]:
  assumes "St B ev \<sigma> b L A r s m" "lty L t = Some I64" "A lo = V32 c x" "A hi = V32 d y" "20 \<le> b"
  shows "(\<And>s' m'. St B ev \<sigma> (b - 20) L (A(t := V64 (concat64 c d) (concat64 x y))) r s' m' \<Longrightarrow> Q s' m') \<Longrightarrow>
      runs B env Next s m (tcg_gen_concat_i32_i64 H t lo hi s) Q"
  unfolding tcg_gen_concat_i32_i64_def
  by (insert assms, (erule vcg | rule runs_control | (simp (no_asm_simp) del: aval.inject; fail) | (simp del: aval.inject; fail) |
    (erule St_post, assumption; (simp add: concat64_deposit concat64_def [symmetric]; fail)))+)

lemma tcg_gen_extr32_i64 [vcg]:
  assumes "St B ev \<sigma> b L A r s m" "lty L lo = Some I64" "lty L hi = Some I64" "lo \<noteq> a" "A a = V64 c x" "4 \<le> b"
  shows "(\<And>s' m'. St B ev \<sigma> (b - 4) L (A(lo := V64 (take_bit 32 c) (take_bit 32 x), hi := V64 (drop_bit 32 c) (drop_bit 32 x))) r s' m' \<Longrightarrow> Q s' m') \<Longrightarrow>
      runs B env Next s m (tcg_gen_extr32_i64 H lo hi a s) Q"
  unfolding tcg_gen_extr32_i64_def
  by (insert assms, (erule vcg | rule runs_control | (simp (no_asm_simp) del: aval.inject; fail) | (simp del: aval.inject; fail) |
    (erule St_post, assumption; (simp; fail)))+)

text \<open>When the low half goes to the operand itself, it is overwritten before the high half is taken from it.\<close>

lemma tcg_gen_extr32_same:
  assumes "St B ev \<sigma> b L A r s m" "lty L lo = Some I64" "lty L hi = Some I64" "A lo = V64 c x" "4 \<le> b"
  shows "(\<And>s' m'. St B ev \<sigma> (b - 4) L (A(lo := V64 (take_bit 32 c) (take_bit 32 x), hi := V64 0 0)) r s' m' \<Longrightarrow> Q s' m') \<Longrightarrow>
      runs B env Next s m (tcg_gen_extr32_i64 H lo hi lo s) Q"
  unfolding tcg_gen_extr32_i64_def
  by (insert assms, (erule vcg | rule runs_control | (simp (no_asm_simp) del: aval.inject; fail) | (simp del: aval.inject; fail) |
    (erule St_post, assumption; (simp add: drop_bit_take_bit; fail)))+)

lemma tcg_gen_concat32_i64 [vcg]:
  assumes "St B ev \<sigma> b L A r s m" "lty L t = Some I64" "A lo = V64 c x" "A hi = V64 d y" "18 \<le> b"
  shows "(\<And>s' m'. St B ev \<sigma> (b - 18) L (A(t := V64 (deposit_word c 32 32 d) (deposit_word x 32 32 y))) r s' m' \<Longrightarrow> Q s' m') \<Longrightarrow>
      runs B env Next s m (tcg_gen_concat32_i64 H t lo hi s) Q"
  unfolding tcg_gen_concat32_i64_def
  by (insert assms, (erule vcg | rule runs_control | (simp (no_asm_simp) del: aval.inject; fail) | (simp del: aval.inject; fail) |
    (erule St_post, assumption; (simp; fail)))+)

lemma tcg_gen_add2_i32 [vcg]:
  assumes "St B ev \<sigma> b L A r s m" "lty L rl = Some I32" "lty L rh = Some I32" "A al = V32 c x" "A ah = V32 d y" "A bl = V32 e z" "A bh = V32 f u" "48 \<le> b"
  shows "(\<And>s' m'. St B ev \<sigma> (b - 48) L (A(rl := V32 (ucast (concat64 c d + concat64 e f)) (ucast (concat64 x y + concat64 z u)),
        rh := V32 (ucast (drop_bit 32 (concat64 c d + concat64 e f))) (ucast (drop_bit 32 (concat64 x y + concat64 z u))))) r s' m' \<Longrightarrow> Q s' m') \<Longrightarrow>
      runs B env Next s m (tcg_gen_add2_i32 H rl rh al ah bl bh s) Q"
  unfolding tcg_gen_add2_i32_def
  by (insert assms, (erule vcg | rule runs_control | (simp (no_asm_simp) del: aval.inject; fail) | (simp del: aval.inject; fail) |
    (erule St_post, assumption; (simp; fail)))+)

lemma tcg_gen_sub2_i32 [vcg]:
  assumes "St B ev \<sigma> b L A r s m" "lty L rl = Some I32" "lty L rh = Some I32" "A al = V32 c x" "A ah = V32 d y" "A bl = V32 e z" "A bh = V32 f u" "48 \<le> b"
  shows "(\<And>s' m'. St B ev \<sigma> (b - 48) L (A(rl := V32 (ucast (concat64 c d - concat64 e f)) (ucast (concat64 x y - concat64 z u)),
        rh := V32 (ucast (drop_bit 32 (concat64 c d - concat64 e f))) (ucast (drop_bit 32 (concat64 x y - concat64 z u))))) r s' m' \<Longrightarrow> Q s' m') \<Longrightarrow>
      runs B env Next s m (tcg_gen_sub2_i32 H rl rh al ah bl bh s) Q"
  unfolding tcg_gen_sub2_i32_def
  by (insert assms, (erule vcg | rule runs_control | (simp (no_asm_simp) del: aval.inject; fail) | (simp del: aval.inject; fail) |
    (erule St_post, assumption; (simp; fail)))+)

lemma tcg_gen_mulu2_i32 [vcg]:
  assumes "St B ev \<sigma> b L A r s m" "lty L rl = Some I32" "lty L rh = Some I32" "A a1 = V32 c x" "A a2 = V32 d y" "8 \<le> b"
  shows "(\<And>s' m'. St B ev \<sigma> (b - 8) L (A(rl := V32 (ucast (ucast c * ucast d :: u64)) (ucast (ucast x * ucast y :: u64)),
        rh := V32 (ucast (drop_bit 32 (ucast c * ucast d :: u64))) (ucast (drop_bit 32 (ucast x * ucast y :: u64))))) r s' m' \<Longrightarrow> Q s' m') \<Longrightarrow>
      runs B env Next s m (tcg_gen_mulu2_i32 rl rh a1 a2 s) Q"
  unfolding tcg_gen_mulu2_i32_def
  by (insert assms, (erule vcg | rule runs_control | (simp (no_asm_simp) del: aval.inject; fail) | (simp del: aval.inject; fail) |
    (erule St_post, assumption; (simp; fail)))+)

lemma tcg_gen_muls2_i32 [vcg]:
  assumes "St B ev \<sigma> b L A r s m" "lty L rl = Some I32" "lty L rh = Some I32" "A a1 = V32 c x" "A a2 = V32 d y" "8 \<le> b"
  shows "(\<And>s' m'. St B ev \<sigma> (b - 8) L (A(rl := V32 (ucast (scast c * scast d :: u64)) (ucast (scast x * scast y :: u64)),
        rh := V32 (ucast (drop_bit 32 (scast c * scast d :: u64))) (ucast (drop_bit 32 (scast x * scast y :: u64))))) r s' m' \<Longrightarrow> Q s' m') \<Longrightarrow>
      runs B env Next s m (tcg_gen_muls2_i32 rl rh a1 a2 s) Q"
  unfolding tcg_gen_muls2_i32_def
  by (insert assms, (erule vcg | rule runs_control | (simp (no_asm_simp) del: aval.inject; fail) | (simp del: aval.inject; fail) |
    (erule St_post, assumption; (simp; fail)))+)

lemma tcg_gen_mulsu2_i32 [vcg]:
  assumes "St B ev \<sigma> b L A r s m" "lty L rl = Some I32" "lty L rh = Some I32" "A a1 = V32 c x" "A a2 = V32 d y" "8 \<le> b"
  shows "(\<And>s' m'. St B ev \<sigma> (b - 8) L (A(rl := V32 (ucast (scast c * ucast d :: u64)) (ucast (scast x * ucast y :: u64)),
        rh := V32 (ucast (drop_bit 32 (scast c * ucast d :: u64))) (ucast (drop_bit 32 (scast x * ucast y :: u64))))) r s' m' \<Longrightarrow> Q s' m') \<Longrightarrow>
      runs B env Next s m (tcg_gen_mulsu2_i32 rl rh a1 a2 s) Q"
  unfolding tcg_gen_mulsu2_i32_def
  by (insert assms, (erule vcg | rule runs_control | (simp (no_asm_simp) del: aval.inject; fail) | (simp del: aval.inject; fail) |
    (erule St_post, assumption; (simp; fail)))+)

end

end
