(* ===== verification/Gen_Cond64.thy ===== *)
theory Gen_Cond64
  imports Gen_Correct64
begin

unbundle bit_operations_syntax

section \<open>Generators of 64-bit conditions, branches and compound operations: correctness\<close>

text \<open>
  The rules for the generators whose helpers record path constraints (set on condition, branch on
  condition, double-word arithmetic with its carry), for those that compute the number before the
  expression (compound logic, division), and for those that leave a concrete result (bit counts, the high
  half of a product).
\<close>

text \<open>What a condition says of two words, the two trivial conditions included.\<close>

definition cond_eval :: "TCGCond \<Rightarrow> 'a::len word \<Rightarrow> 'a word \<Rightarrow> bool" where
  "cond_eval c x y \<longleftrightarrow> c = TCG_COND_ALWAYS \<or> c \<noteq> TCG_COND_NEVER \<and> tci_compare x y c = Some True"

lemma cond_eval_simps [simp]:
  "cond_eval TCG_COND_ALWAYS x y" "\<not> cond_eval TCG_COND_NEVER x y"
  by (simp_all add: cond_eval_def)

lemma cond_eval_compare: "is_compare c \<Longrightarrow> tci_compare x y c = Some (cond_eval c x y)"
  using tci_compare_defined [of x y c] by (auto simp: cond_eval_def is_compare_def)

lemma cond_eval_ltu [simp]: "cond_eval TCG_COND_LTU x y \<longleftrightarrow> x < y"
  by (simp add: cond_eval_def tci_compare_def)

lemma is_cond_ltu [simp]: "is_cond TCG_COND_LTU"
  by (simp add: is_cond_def tcg_conds_def)

lemma is_compareI: "is_cond c \<Longrightarrow> c \<noteq> TCG_COND_ALWAYS \<Longrightarrow> c \<noteq> TCG_COND_NEVER \<Longrightarrow> is_compare c"
  by (simp add: is_compare_def)

lemma number_call_i64:
  "run_helper_i64 h c d = Some k \<Longrightarrow> number_call B ev \<sigma> env (helper_i64 h) [V64 c x, V64 d y] (V64 k k)"
  "run_helper_i64 h c 0 = Some k \<Longrightarrow> number_call B ev \<sigma> env (helper_i64 h) [V64 c x] (V64 k k)"
  by (auto simp: number_call_def list_all2_Cons2 opsem)

lemma c_div_defined:
  "c_sdiv c d = Some k \<Longrightarrow> k = sym_helper_sem sym_div c d" "c_smod c d = Some k \<Longrightarrow> k = sym_helper_sem sym_rem c d"
  "c_udiv c d = Some k \<Longrightarrow> k = sym_helper_sem sym_divu c d" "c_umod c d = Some k \<Longrightarrow> k = sym_helper_sem sym_remu c d"
  by (auto simp: c_sdiv_def c_smod_def c_udiv_def c_umod_def split: if_splits)

text \<open>What a helper that is called after the operation finds for the operand \<open>u\<close>, whose value for the input was \<open>x\<close>:
  the number \<open>w\<close> that the operation wrote, if \<open>u\<close> is the target \<open>t\<close> and has no expression.\<close>

definition overwritten :: "ctx \<Rightarrow> ('e, 'm) machine \<Rightarrow> nat \<Rightarrow> u64 \<Rightarrow> nat \<Rightarrow> u64 \<Rightarrow> u64" where
  "overwritten s m t w u x = (if u = t \<and> texpr s m u = Some None then w else x)"

context sym_backend
begin

lemma setcond_taken64:
  assumes "result B ev \<sigma> w1 e1 (V64 w1 x)" "result B ev \<sigma> w2 e2 (V64 w2 y)" "is_compare k" "e1 \<noteq> None \<or> e2 \<noteq> None"
  shows "\<exists>e r'. sym_setcond B env I64 w1 e1 w2 e2 (ucast k) (of_bool cd) r = Some (e, r') \<and>
      branched evb \<sigma> cd (cond_eval k x y) (get_pc env) r r' \<and>
      result B ev \<sigma> (of_bool cd) e (V64 (of_bool cd) (of_bool (cond_eval k x y)))"
proof -
  let ?t = "of_bool cd :: u64"
  have typed: "shadow_typed B 64 e1" "shadow_typed B 64 e2"
    and xy: "shadow_word ev \<sigma> w1 e1 = x" "shadow_word ev \<sigma> w2 e2 = y" using assms(1,2) by auto
  have taken: "(ucast ?t :: u8) \<noteq> 0 \<longleftrightarrow> cd" by simp
  show ?thesis
    using typed assms(3)
  proof (cases rule: setcond_correct [where n = 64 and ea = e1 and eb = e2 and c = k and env = env and a = w1 and b = w2 and taken = ?t and rt = r, simplified, consumes 3])
    case (2 e s)
    have s: "evb \<sigma> s = cond_eval k x y" using 2(3) [of \<sigma>] cond_eval_compare [OF assms(3), of x y] xy by simp
    then have "result B ev \<sigma> ?t (Some e) (V64 ?t (of_bool (cond_eval k x y)))"
      using 2(4) rep_shadow [OF 2(4) [of \<sigma>]] by (simp add: represents_def)
    moreover have "branched evb \<sigma> cd (cond_eval k x y) (get_pc env) r (sym_push_path_constraint s cd (get_pc env) r)"
      using s by (auto simp: branched_def sym_push_path_constraint_def)
    ultimately show ?thesis using 2(2) taken by (auto simp: sym_setcond_def sym_setcond_i64_def)
  qed (use assms(4) in simp)
qed

lemma setcond_result64:
  assumes "result B ev \<sigma> w1 e1 (V64 c x)" "result B ev \<sigma> w2 e2 (V64 d y)" "is_compare k"
  shows "\<exists>e r'. tci_setcond I64 w1 w2 (ucast k) = Some (cond_eval k c d) \<and>
      sym_setcond B env I64 w1 e1 w2 e2 (ucast k) (of_bool (cond_eval k c d)) r = Some (e, r') \<and>
      branched evb \<sigma> (cond_eval k c d) (cond_eval k x y) (get_pc env) r r' \<and>
      result B ev \<sigma> (of_bool (cond_eval k c d)) e (V64 (of_bool (cond_eval k c d)) (of_bool (cond_eval k x y)))"
proof -
  have w: "w1 = c" "w2 = d" and xy: "shadow_word ev \<sigma> c e1 = x" "shadow_word ev \<sigma> d e2 = y"
    and res: "result B ev \<sigma> w1 e1 (V64 w1 x)" "result B ev \<sigma> w2 e2 (V64 w2 y)" using assms(1,2) by auto
  have cmp: "tci_setcond I64 w1 w2 (ucast k) = Some (cond_eval k c d)"
    by (simp add: tci_setcond_def w cond_eval_compare [OF assms(3)])
  show ?thesis
  proof (cases "e1 = None \<and> e2 = None")
    case True
    have "sym_setcond_i64 B env c None d None k (of_bool (cond_eval k c d)) r = Some (None, r)"
      by (rule setcond_correct [where n = 64 and ea = None and eb = None and c = k and env = env and a = c and b = d and taken = "of_bool (cond_eval k c d)" and rt = r])
        (simp_all add: assms(3) sym_setcond_i64_def)
    then show ?thesis using True cmp xy w by (auto simp: sym_setcond_def branched_same)
  next
    case False
    then have "e1 \<noteq> None \<or> e2 \<noteq> None" by auto
    from setcond_taken64 [OF res assms(3) this, where env = env and cd = "cond_eval k c d" and r = r] cmp w
    show ?thesis by simp
  qed
qed

lemma tcg_gen_setcond_i64 [vcg]:
  assumes "St B ev \<sigma> b L A r s m" "lty L t = Some I64" "A a1 = V64 c x" "A a2 = V64 d y" "t \<noteq> a1" "t \<noteq> a2" "is_cond k" "2 \<le> b"
    and Q: "\<And>r' s' m'. branched evb \<sigma> (cond_eval k c d) (cond_eval k x y) (get_pc env) r r' \<Longrightarrow>
      St B ev \<sigma> (b - 2) L (A(t := V64 (of_bool (cond_eval k c d)) (of_bool (cond_eval k x y)))) r' s' m' \<Longrightarrow> Q s' m'"
  shows "runs B env Next s m (tcg_gen_setcond_i64 k t a1 a2 s) Q"
proof -
  consider "k = TCG_COND_ALWAYS" | "k = TCG_COND_NEVER" | "is_compare k" "k \<noteq> TCG_COND_ALWAYS" "k \<noteq> TCG_COND_NEVER"
    using is_compareI [OF assms(7)] by blast
  then show ?thesis
  proof cases
    case 3
    show ?thesis
      unfolding tcg_gen_setcond_i64_def if_not_P [OF 3(2)] if_not_P [OF 3(3)]
      by (rule runs_setcond [OF assms(1-4) _ _ assms(5,6,8) setcond_result64 [OF _ _ 3(1)] _ _ Q])
        (assumption | simp)+
  qed (auto simp: tcg_gen_setcond_i64_def branched_same intro!: tcg_gen_movi_i64 [OF assms(1,2,8)] Q)
qed

text \<open>The exact effect for every choice of the target, when one of the operands has an expression: the helper runs
  after the operation, so an operand that is the target and has no expression counts with its new number.\<close>

lemma runs_setcond_alias:
  assumes st: "St B ev \<sigma> b L A r s m" "lty L t = Some I64" "A a1 = V64 c x" "A a2 = V64 d y" "is_compare k" "2 \<le> b"
    and sym: "texpr s m a1 \<noteq> Some None \<or> texpr s m a2 \<noteq> Some None"
    and cd: "cd = cond_eval k c d"
    and xd: "xd = cond_eval k (overwritten s m t (of_bool cd) a1 x) (overwritten s m t (of_bool cd) a2 y)"
    and Q: "\<And>r' s' m'. branched evb \<sigma> cd xd (get_pc env) r r' \<Longrightarrow>
      St B ev \<sigma> (b - 2) L (A(t := V64 (of_bool cd) (of_bool xd))) r' s' m' \<Longrightarrow> Q s' m'"
  shows "runs B env Next s m (tcg_gen_setcond_i64 k t a1 a2 s) Q"
proof -
  obtain e1 where a1: "temp_live s a1 I64" "arg64 m (targ s a1) = Some c" "argp m (targ s (a1 + 1)) = Some e1"
    "result B ev \<sigma> c e1 (V64 c x)" using operand [OF st(1,3)] by auto
  obtain e2 where a2: "temp_live s a2 I64" "arg64 m (targ s a2) = Some d" "argp m (targ s (a2 + 1)) = Some e2"
    "result B ev \<sigma> d e2 (V64 d y)" using operand [OF st(1,4)] by auto
  obtain t: "temp_live s t I64" "kind (temps s ! t) \<noteq> TEMP_CONST" "targ s t = TempArg t" using st(1,2) by (rule target)
  let ?o = "of_bool cd :: u64" and ?m = "set_slot t (Num (of_bool cd)) m"
  let ?s = "tcg_emit_op (INDEX_op_setcond I64) [TempArg t, targ s a1, targ s a2, ImmArg (ucast k)] s"
  let ?c = "if a1 = t then ?o else c" and ?d = "if a2 = t then ?o else d"
  let ?x = "overwritten s m t ?o a1 x" and ?y = "overwritten s m t ?o a2 y"
  have k: "k \<noteq> TCG_COND_ALWAYS" "k \<noteq> TCG_COND_NEVER" using assms(5) by (auto simp: is_compare_def)
  have op: "tcg_gen_op4i_v (INDEX_op_setcond I64) t a1 a2 (ucast k) s = Some ?s"
    using t a1(1) a2(1) by (simp add: emit_defs live_simps)
  have "tci_setcond I64 c d (ucast k) = Some cd" by (simp add: tci_setcond_def cond_eval_compare [OF assms(5)] cd)
  then have ex: "exec_op B env (TCGOp (INDEX_op_setcond I64) [TempArg t, targ s a1, targ s a2, ImmArg (ucast k)]) m = Some (Next, ?m)"
    using a1 a2 by (simp add: opsem)
  have st1: "St B ev \<sigma> b L (A(t := Unk)) r ?s ?m"
    by (rule St_assign [OF st(1,2)]) (use st(1) in \<open>simp_all add: St_def\<close>)
  have e: "texpr s m a1 = Some e1" "texpr s m a2 = Some e2" using a1(3) a2(3) by (simp_all add: texpr_def)
  have res: "result B ev \<sigma> ?c e1 (V64 ?c ?x)" "result B ev \<sigma> ?d e2 (V64 ?d ?y)"
    using a1(4) a2(4) e by (cases e1; cases e2; auto simp: overwritten_def shadow_word_def)+
  have "e1 \<noteq> None \<or> e2 \<noteq> None" using sym e by auto
  from setcond_taken64 [OF res assms(5) this, where env = env and cd = cd and r = r]
  obtain e r' where h: "sym_setcond B env I64 ?c e1 ?d e2 (ucast k) ?o r = Some (e, r')" "branched evb \<sigma> cd xd (get_pc env) r r'"
    "result B ev \<sigma> ?o e (V64 ?o (of_bool xd))"
    unfolding xd by blast
  show ?thesis
    unfolding tcg_gen_setcond_i64_def if_not_P [OF k(1)] if_not_P [OF k(2)] tcg_constant_i32_def op
  proof (rule runs_bind, rule runs_emit [OF ex], rule kept_const [OF st1 assms(6)])
    fix kt s'
    assume kept: "temps_kept {} ?s s'" and kt: "const_temp I32 (scast k) s' kt" and st': "St B ev \<sigma> (b - 2) L (A(t := Unk)) r s' ?m"
    have keep: "temp_live s' u I64" "targ s' u = targ s u" "targ s' (u + 1) = targ s (u + 1)" if "temp_live s u I64" for u
    proof -
      have "temp_live ?s u I64" using that same_temps [of ?s s] by simp
      then show "temp_live s' u I64" "targ s' u = targ s u" "targ s' (u + 1) = targ s (u + 1)"
        using temp_live_kept [OF kept, of u I64] kept by (auto simp: temps_kept_def targ_def)
    qed
    have kl: "temp_live s' kt I32" "arg64 ?m (targ s' kt) = Some (scast k)"
      using kt by (auto simp: const_temp_def targ_def arg64_def)
    note args = keep [OF a1(1)] keep [OF a2(1)] arg_set_expr(3,4) [OF a1(1) t(1)] arg_set_expr(3,4) [OF a2(1) t(1)]
    have "slots ?m t = Num ?o" by simp
    from st' st(2) this show "runs B env Next s' ?m (Option.bind (tcgv_i64_expr t s') (\<lambda>er. Option.bind (tcgv_i64_expr a1 s') (\<lambda>e1. Option.bind (tcgv_i64_expr a2 s') (\<lambda>e2.
      tcg_gen_callN (helper_sym_setcond I64) (Some er) [tcg_env, a1, e1, a2, e2, kt, t] s')))) Q"
    proof (rule runs_setcond_call [OF _ _ _ args(1) _ _ args(4) _ _ kl _ h(1,3)])
      show "arg64 ?m (targ s' a1) = Some ?c" unfolding args(2) using a1(2) t(3) by (cases "a1 = t") (simp_all add: args(7), simp_all add: arg64_def)
      show "arg64 ?m (targ s' a2) = Some ?d" unfolding args(5) using a2(2) t(3) by (cases "a2 = t") (simp_all add: args(9), simp_all add: arg64_def)
      show "argp ?m (targ s' (a1 + 1)) = Some e1" using a1(3) by (simp only: args(3,8))
      show "argp ?m (targ s' (a2 + 1)) = Some e2" using a2(3) by (simp only: args(6,10))
    qed (simp_all add: Q [OF h(2)])
  qed simp
qed

lemma tcg_gen_setcondi_i64 [vcg]:
  assumes "St B ev \<sigma> b L A r s m" "lty L t = Some I64" "A a = V64 c x" "t \<noteq> a" "is_cond k" "4 \<le> b"
    and Q: "\<And>r' s' m'. branched evb \<sigma> (cond_eval k c d) (cond_eval k x d) (get_pc env) r r' \<Longrightarrow>
      St B ev \<sigma> (b - 4) L (A(t := V64 (of_bool (cond_eval k c d)) (of_bool (cond_eval k x d)))) r' s' m' \<Longrightarrow> Q s' m'"
  shows "runs B env Next s m (tcg_gen_setcondi_i64 k t a d s) Q"
  unfolding tcg_gen_setcondi_i64_def
  by (insert assms, (erule vcg | rule runs_control | (simp (no_asm_simp) del: aval.inject; fail) | (simp del: aval.inject; fail) |
    (erule St_post_branched, assumption, assumption; (simp; fail)))+)

lemma tcg_gen_brcond_i64 [vcg]:
  assumes "St B ev \<sigma> b L A r s m" "A a1 = V64 c x" "A a2 = V64 d y" "is_cond k" "4 \<le> b"
    and Q: "\<And>r' s' m'. branched evb \<sigma> (cond_eval k c d) (cond_eval k x y) (get_pc env) r r' \<Longrightarrow>
      St B ev \<sigma> (b - 4) L A r' s' m' \<Longrightarrow> Q s' m'"
  shows "runs B env (if cond_eval k c d then Jump (of_nat l) else Next) s m (tcg_gen_brcond_i64 k a1 a2 l s) Q"
proof -
  consider "k = TCG_COND_ALWAYS" | "k = TCG_COND_NEVER" | "is_compare k" "k \<noteq> TCG_COND_ALWAYS" "k \<noteq> TCG_COND_NEVER"
    using is_compareI [OF assms(4)] by blast
  then show ?thesis
  proof cases
    case 3
    show ?thesis
      unfolding tcg_gen_brcond_i64_def if_not_P [OF 3(2)] if_P [OF 3(3)]
      by (insert assms cond_eval_compare [OF 3(1), of c d], (erule vcg runs_brcond | rule runs_bind | (simp (no_asm_simp) del: aval.inject; fail) | (simp add: tci_setcond_def; fail) |
        (erule St_post_branched, assumption, assumption; (simp; fail)))+)
  next
    case 1
    have "runs B env (Jump (of_nat l)) s m (tcg_gen_br l s) Q"
    proof (rule runs_br [OF assms(1)])
      fix s' assume st: "St B ev \<sigma> b L A r s' m"
      show "Q s' m" by (rule Q [of r], simp add: 1 branched_same, rule St_weaken [OF st]) simp_all
    qed
    then show ?thesis by (simp add: tcg_gen_brcond_i64_def 1)
  next
    case 2
    have "runs B env Next s m (Some s) Q"
      by (rule runs_return, rule Q [of r], simp add: 2 branched_same, rule St_weaken [OF assms(1)]) simp_all
    then show ?thesis by (simp add: tcg_gen_brcond_i64_def 2)
  qed
qed

lemma tcg_gen_brcondi_i64 [vcg]:
  assumes "St B ev \<sigma> b L A r s m" "A a = V64 c x" "is_cond k" "6 \<le> b"
    and Q: "\<And>r' s' m'. branched evb \<sigma> (cond_eval k c d) (cond_eval k x d) (get_pc env) r r' \<Longrightarrow> St B ev \<sigma> (b - 6) L A r' s' m' \<Longrightarrow> Q s' m'"
  shows "runs B env (if cond_eval k c d then Jump (of_nat l) else Next) s m (tcg_gen_brcondi_i64 k a d l s) Q"
  unfolding tcg_gen_brcondi_i64_def
  by (insert assms, (erule vcg | rule runs_control | (simp (no_asm_simp) del: aval.inject; fail) | (simp del: aval.inject; fail) |
    (erule St_post_branched, assumption, assumption; (simp; fail)))+)

lemma tcg_gen_negsetcond_i64 [vcg]:
  assumes "St B ev \<sigma> b L A r s m" "lty L t = Some I64" "A a1 = V64 c x" "A a2 = V64 d y" "t \<noteq> a1" "t \<noteq> a2" "is_cond k" "2 \<le> b"
    "\<not> HAS_negsetcond H I64"
    and Q: "\<And>r' s' m'. branched evb \<sigma> (cond_eval k c d) (cond_eval k x y) (get_pc env) r r' \<Longrightarrow>
      St B ev \<sigma> (b - 2) L (A(t := V64 (- of_bool (cond_eval k c d)) (- of_bool (cond_eval k x y)))) r' s' m' \<Longrightarrow> Q s' m'"
  shows "runs B env Next s m (tcg_gen_negsetcond_i64 H k t a1 a2 s) Q"
proof -
  consider "k = TCG_COND_ALWAYS" | "k = TCG_COND_NEVER" | "k \<noteq> TCG_COND_ALWAYS" "k \<noteq> TCG_COND_NEVER" by blast
  then show ?thesis
  proof cases
    case 3
    show ?thesis
      unfolding tcg_gen_negsetcond_i64_def if_not_P [OF 3(1)] if_not_P [OF 3(2)] if_not_P [OF assms(9)]
    by (insert assms, (erule vcg | rule runs_control | (simp (no_asm_simp) del: aval.inject; fail) | (simp del: aval.inject; fail) |
    (erule St_post_branched, assumption, assumption; (simp; fail)))+)
  qed (auto simp: tcg_gen_negsetcond_i64_def branched_same intro!: tcg_gen_movi_i64 [OF assms(1,2,8)] Q)
qed

lemma tcg_gen_add2_i64 [vcg]:
  assumes "St B ev \<sigma> b L A r s m" "lty L rl = Some I64" "lty L rh = Some I64" "rl \<noteq> rh" "A al = V64 c x" "A ah = V64 d y" "A bl = V64 e z" "A bh = V64 f u" "6 \<le> b"
    and Q: "\<And>r' s' m'. branched evb \<sigma> (c + e < c) (x + z < x) (get_pc env) r r' \<Longrightarrow>
      St B ev \<sigma> (b - 6) L (A(rl := V64 (ucast (concat128 c d + concat128 e f)) (ucast (concat128 x y + concat128 z u)),
        rh := V64 (ucast (drop_bit 64 (concat128 c d + concat128 e f))) (ucast (drop_bit 64 (concat128 x y + concat128 z u))))) r' s' m' \<Longrightarrow> Q s' m'"
  shows "runs B env Next s m (tcg_gen_add2_i64 rl rh al ah bl bh s) Q"
  unfolding tcg_gen_add2_i64_def
  by (insert assms [unfolded add128], (erule vcg | rule runs_control | (simp (no_asm_simp) del: aval.inject; fail) | (simp del: aval.inject; fail) |
    (erule St_post_branched, simp (no_asm_use) only: cond_eval_ltu, assumption; (simp; fail)))+)

lemma tcg_gen_sub2_i64 [vcg]:
  assumes "St B ev \<sigma> b L A r s m" "lty L rl = Some I64" "lty L rh = Some I64" "rl \<noteq> rh" "A al = V64 c x" "A ah = V64 d y" "A bl = V64 e z" "A bh = V64 f u" "6 \<le> b"
    and Q: "\<And>r' s' m'. branched evb \<sigma> (c < e) (x < z) (get_pc env) r r' \<Longrightarrow>
      St B ev \<sigma> (b - 6) L (A(rl := V64 (ucast (concat128 c d - concat128 e f)) (ucast (concat128 x y - concat128 z u)),
        rh := V64 (ucast (drop_bit 64 (concat128 c d - concat128 e f))) (ucast (drop_bit 64 (concat128 x y - concat128 z u))))) r' s' m' \<Longrightarrow> Q s' m'"
  shows "runs B env Next s m (tcg_gen_sub2_i64 rl rh al ah bl bh s) Q"
  unfolding tcg_gen_sub2_i64_def
  by (insert assms [unfolded sub128], (erule vcg | rule runs_control | (simp (no_asm_simp) del: aval.inject; fail) | (simp del: aval.inject; fail) |
    (erule St_post_branched, simp (no_asm_use) only: cond_eval_ltu, assumption; (simp; fail)))+)

lemma shadow_i64:
  assumes "St B ev \<sigma> b L A r s m" "lty L t = Some I64" "A t = V64 c0 x0" "A a1 = V64 c x" "A a2 = V64 d y"
    "c0 = sym_helper_sem k c d" "sym_helper_defined k y"
    and Q: "\<And>s' m'. St B ev \<sigma> b L (A(t := V64 (sym_helper_sem k c d) (sym_helper_sem k x y))) r s' m' \<Longrightarrow> Q s' m'"
  shows "runs B env Next s m (SYM_HELPER_BINARY_64 k t a1 a2 s) Q"
proof (rule runs_shadow [OF assms(1-5) _ _ _ _ _ _ _ Q])
  fix w e0 w1 e1 w2 e2
  assume "result B ev \<sigma> w e0 (V64 c0 x0)" "result B ev \<sigma> w1 e1 (V64 c x)" "result B ev \<sigma> w2 e2 (V64 d y)"
  with binary_result64 [OF this(2,3) assms(7)] assms(6)
  show "\<exists>e. sym_binary B k I64 w1 e1 w2 e2 = Some e \<and> result B ev \<sigma> w e (V64 (sym_helper_sem k c d) (sym_helper_sem k x y))"
    by simp
qed simp_all

lemma tcg_gen_logic_i64 [vcg]:
  assumes "St B ev \<sigma> b L A r s m" "lty L t = Some I64" "A a1 = V64 c x" "A a2 = V64 d y" "t \<noteq> a1" "t \<noteq> a2" "4 \<le> b"
  shows "(\<And>s' m'. St B ev \<sigma> (b - 4) L (A(t := V64 (c AND NOT d) (x AND NOT y))) r s' m' \<Longrightarrow> Q s' m') \<Longrightarrow>
      runs B env Next s m (tcg_gen_andc_i64 H t a1 a2 s) Q"
    and "(\<And>s' m'. St B ev \<sigma> (b - 4) L (A(t := V64 (c OR NOT d) (x OR NOT y))) r s' m' \<Longrightarrow> Q s' m') \<Longrightarrow>
      runs B env Next s m (tcg_gen_orc_i64 H t a1 a2 s) Q"
    and "(\<And>s' m'. St B ev \<sigma> (b - 4) L (A(t := V64 (NOT (c XOR d)) (NOT (x XOR y)))) r s' m' \<Longrightarrow> Q s' m') \<Longrightarrow>
      runs B env Next s m (tcg_gen_eqv_i64 H t a1 a2 s) Q"
    and "(\<And>s' m'. St B ev \<sigma> (b - 4) L (A(t := V64 (NOT (c AND d)) (NOT (x AND y)))) r s' m' \<Longrightarrow> Q s' m') \<Longrightarrow>
      runs B env Next s m (tcg_gen_nand_i64 H t a1 a2 s) Q"
    and "(\<And>s' m'. St B ev \<sigma> (b - 4) L (A(t := V64 (NOT (c OR d)) (NOT (x OR y)))) r s' m' \<Longrightarrow> Q s' m') \<Longrightarrow>
      runs B env Next s m (tcg_gen_nor_i64 H t a1 a2 s) Q"
  unfolding tcg_gen_andc_i64_def tcg_gen_orc_i64_def tcg_gen_eqv_i64_def tcg_gen_nand_i64_def tcg_gen_nor_i64_def
  by (insert assms,
   (erule vcg runs_binary64(2) shadow_i64 | rule runs_bind_if runs_control | (simp (no_asm_simp) add: tci_rrr_def del: aval.inject; fail) | (simp del: aval.inject; fail) |
    (erule St_post, assumption; (simp; fail)))+)

lemma callN_i64 [vcg]:
  assumes "St B ev \<sigma> b L A r s m" "lty L t = Some I64" "A a1 = V64 c x" "2 \<le> b"
    and Q: "\<And>s' m'. St B ev \<sigma> (b - 2) L (A(t := V64 k k)) r s' m' \<Longrightarrow> Q s' m'"
  shows "A a2 = V64 d y \<Longrightarrow> run_helper_i64 h c d = Some k \<Longrightarrow> runs B env Next s m (tcg_gen_callN (helper_i64 h) (Some t) [a1, a2] s) Q"
    and "run_helper_i64 h c 0 = Some k \<Longrightarrow> runs B env Next s m (tcg_gen_callN (helper_i64 h) (Some t) [a1] s) Q"
  using assms(3) by (auto intro!: runs_callN_number [OF assms(1,2,4) _ _ _ Q] number_call_i64)


lemma tcg_gen_div_i64 [vcg]:
  assumes "St B ev \<sigma> b L A r s m" "lty L t = Some I64" "A a1 = V64 c x" "A a2 = V64 d y" "t \<noteq> a1" "t \<noteq> a2"
    "c_sdiv c d = Some k" "y \<noteq> 0" "2 \<le> b" "HAS_div H I64 \<or> \<not> HAS_div H I64 \<and> \<not> HAS_div2 H I64"
    and "\<And>s' m'. St B ev \<sigma> (b - 2) L (A(t := V64 k (sym_helper_sem sym_div x y))) r s' m' \<Longrightarrow> Q s' m'"
  shows "runs B env Next s m (tcg_gen_div_i64 H t a1 a2 s) Q"
  unfolding tcg_gen_div_i64_def
  by (insert assms, (elim disjE conjE)?,
    (erule (1) notE | erule callN_i64(1) runs_binary64(2) shadow_i64 | rule runs_bind_if runs_control |
    (simp (no_asm_simp) add: tci_rrr_def tci_rrr_64_def run_helper_i64_def c_div_defined(1) [OF assms(7), symmetric] del: aval.inject sym_helper_sem.simps; fail) |
    (erule St_post, assumption; (simp (no_asm_simp) add: c_div_defined(1) [OF assms(7)]; fail)))+)

lemma tcg_gen_rem_i64 [vcg]:
  assumes "St B ev \<sigma> b L A r s m" "lty L t = Some I64" "A a1 = V64 c x" "A a2 = V64 d y" "t \<noteq> a1" "t \<noteq> a2"
    "c_smod c d = Some k" "y \<noteq> 0" "2 \<le> b" "HAS_rem H I64 \<or> \<not> HAS_rem H I64 \<and> \<not> HAS_div H I64 \<and> \<not> HAS_div2 H I64"
    and "\<And>s' m'. St B ev \<sigma> (b - 2) L (A(t := V64 k (sym_helper_sem sym_rem x y))) r s' m' \<Longrightarrow> Q s' m'"
  shows "runs B env Next s m (tcg_gen_rem_i64 H t a1 a2 s) Q"
  unfolding tcg_gen_rem_i64_def
  by (insert assms, (elim disjE conjE)?,
    (erule (1) notE | erule callN_i64(1) runs_binary64(2) shadow_i64 | rule runs_bind_if runs_control |
    (simp (no_asm_simp) add: tci_rrr_def tci_rrr_64_def run_helper_i64_def c_div_defined(2) [OF assms(7), symmetric] del: aval.inject sym_helper_sem.simps; fail) |
    (erule St_post, assumption; (simp (no_asm_simp) add: c_div_defined(2) [OF assms(7)]; fail)))+)

lemma tcg_gen_divu_i64 [vcg]:
  assumes "St B ev \<sigma> b L A r s m" "lty L t = Some I64" "A a1 = V64 c x" "A a2 = V64 d y" "t \<noteq> a1" "t \<noteq> a2"
    "c_udiv c d = Some k" "y \<noteq> 0" "2 \<le> b" "HAS_div H I64 \<or> \<not> HAS_div H I64 \<and> \<not> HAS_div2 H I64"
    and "\<And>s' m'. St B ev \<sigma> (b - 2) L (A(t := V64 k (sym_helper_sem sym_divu x y))) r s' m' \<Longrightarrow> Q s' m'"
  shows "runs B env Next s m (tcg_gen_divu_i64 H t a1 a2 s) Q"
  unfolding tcg_gen_divu_i64_def
  by (insert assms, (elim disjE conjE)?,
    (erule (1) notE | erule callN_i64(1) runs_binary64(2) shadow_i64 | rule runs_bind_if runs_control |
    (simp (no_asm_simp) add: tci_rrr_def tci_rrr_64_def run_helper_i64_def c_div_defined(3) [OF assms(7), symmetric] del: aval.inject sym_helper_sem.simps; fail) |
    (erule St_post, assumption; (simp (no_asm_simp) add: c_div_defined(3) [OF assms(7)]; fail)))+)

lemma muluh_stale [vcg]:
  assumes "St B ev \<sigma> b L A r s m" "lty L t = Some I64" "A a1 = V64 c x" "A a2 = V64 d y"
    and Q: "\<And>s' m'. St B ev \<sigma> b L (A(t := Unk)) r s' m' \<Longrightarrow> runs B env fl s' m' (f s') Q"
  shows "runs B env fl s m (Option.bind (tcgv_i64_expr t s) (\<lambda>er. Option.bind (tcgv_i64_expr a1 s) (\<lambda>e1. Option.bind (tcgv_i64_expr a2 s) (\<lambda>e2.
     Option.bind (tcg_gen_callN helper_sym_muluh_i64 (Some er) [a1, e1, a2, e2] s) f)))) Q"
proof -
  obtain e1 where a1: "temp_live s a1 I64" "arg64 m (targ s a1) = Some c" "argp m (targ s (a1 + 1)) = Some e1" "shadow_typed B 64 e1"
    using operand [OF assms(1,3)] by auto
  obtain e2 where a2: "temp_live s a2 I64" "arg64 m (targ s a2) = Some d" "argp m (targ s (a2 + 1)) = Some e2" "shadow_typed B 64 e2"
    using operand [OF assms(1,4)] by auto
  obtain t: "temp_live s t I64" "kind (temps s ! t) \<noteq> TEMP_CONST" "targ s t = TempArg t" using assms(1,2) by (rule target)
  obtain e where e: "sym_muluh_i64 B c e1 d e2 = Some e" using muluh_correct [OF a1(4) a2(4)] by blast
  let ?s = "tcg_emit_op (INDEX_op_call helper_sym_muluh_i64) [TempArg (t + 1), targ s a1, targ s (a1 + 1), targ s a2, targ s (a2 + 1)] s"
  have gen: "Option.bind (tcgv_i64_expr t s) (\<lambda>er. Option.bind (tcgv_i64_expr a1 s) (\<lambda>e1. Option.bind (tcgv_i64_expr a2 s) (\<lambda>e2.
     Option.bind (tcg_gen_callN helper_sym_muluh_i64 (Some er) [a1, e1, a2, e2] s) f))) = Option.bind (Some ?s) f"
    using t a1(1) a2(1) callN_expr [OF t(1,2), of "[a1, a1 + 1, a2, a2 + 1]"] by (simp add: live_simps)
  show ?thesis
    unfolding gen
    by (rule runs_bind, rule runs_expr_stale [OF assms(1,2) refl _ Q]) (use a1 a2 e in \<open>simp_all add: opsem\<close>)
qed

lemma muluh_number:
  assumes "St B ev \<sigma> b L A r s m" "lty L t = Some I64" "A t = V64 c0 x0" "A a1 = V64 c x" "A a2 = V64 d y"
    and Q: "\<And>s' m' z. St B ev \<sigma> b L (A(t := V64 c0 z)) r s' m' \<Longrightarrow> runs B env fl s' m' (f s') Q"
  shows "runs B env fl s m (Option.bind (tcgv_i64_expr t s) (\<lambda>er. Option.bind (tcgv_i64_expr a1 s) (\<lambda>e1. Option.bind (tcgv_i64_expr a2 s) (\<lambda>e2.
     Option.bind (tcg_gen_callN helper_sym_muluh_i64 (Some er) [a1, e1, a2, e2] s) f)))) Q"
proof -
  obtain e1 where a1: "temp_live s a1 I64" "arg64 m (targ s a1) = Some c" "argp m (targ s (a1 + 1)) = Some e1" "shadow_typed B 64 e1"
    using operand [OF assms(1,4)] by auto
  obtain e2 where a2: "temp_live s a2 I64" "arg64 m (targ s a2) = Some d" "argp m (targ s (a2 + 1)) = Some e2" "shadow_typed B 64 e2"
    using operand [OF assms(1,5)] by auto
  obtain t: "temp_live s t I64" "kind (temps s ! t) \<noteq> TEMP_CONST" "targ s t = TempArg t" using assms(1,2) by (rule target)
  have "arg64 m (targ s t) = Some c0" using operand [OF assms(1,3)] by auto
  then have slot: "slots m t = Num c0" using num_arg_val t(3) by fastforce
  obtain e where e: "sym_muluh_i64 B c e1 d e2 = Some e" "shadow_typed B 64 e" using muluh_correct [OF a1(4) a2(4), of c d] by (auto simp: shadow_result_def)
  have res: "result B ev \<sigma> c0 e (V64 c0 (shadow_word ev \<sigma> c0 e))" using e(2) by simp
  let ?s = "tcg_emit_op (INDEX_op_call helper_sym_muluh_i64) [TempArg (t + 1), targ s a1, targ s (a1 + 1), targ s a2, targ s (a2 + 1)] s"
  have gen: "Option.bind (tcgv_i64_expr t s) (\<lambda>er. Option.bind (tcgv_i64_expr a1 s) (\<lambda>e1. Option.bind (tcgv_i64_expr a2 s) (\<lambda>e2.
     Option.bind (tcg_gen_callN helper_sym_muluh_i64 (Some er) [a1, e1, a2, e2] s) f))) = Option.bind (Some ?s) f"
    using t a1(1) a2(1) callN_expr [OF t(1,2), of "[a1, a1 + 1, a2, a2 + 1]"] by (simp add: live_simps)
  show ?thesis
    unfolding gen
    by (rule runs_bind, rule runs_expr [OF assms(1,2) slot refl _ res _ Q]) (use a1 a2 e in \<open>simp_all add: opsem St_mrt [OF assms(1)]\<close>)
qed

lemma callN_muluh:
  assumes "St B ev \<sigma> b L A r s m" "lty L t = Some I64" "A a1 = V64 c x" "A a2 = V64 d y" "2 \<le> b"
    and "\<And>s' m'. St B ev \<sigma> (b - 2) L (A(t := V64 (snd (mulu64 c d)) (snd (mulu64 c d)))) r s' m' \<Longrightarrow> Q s' m'"
  shows "runs B env Next s m (tcg_gen_callN (helper_i64 helper_muluh_i64) (Some t) [a1, a2] s) Q"
  by (rule callN_i64(1) [OF assms(1-3,5,6,4)]) (simp_all add: run_helper_i64_def)

lemma mulu2_alias:
  assumes "St B ev \<sigma> b L A r s m" "lty L rl = Some I64" "lty L rh = Some I64" "a1 = rh \<or> a2 = rh"
    "A a1 = V64 c x" "A a2 = V64 d y" "4 \<le> b"
    and "\<And>s' m'. St B ev \<sigma> (b - 4) L (A(rh := V64 (snd (mulu64 c d)) (snd (mulu64 c d)), rl := V64 (c * d) (x * y))) r s' m' \<Longrightarrow> Q s' m'"
  shows "runs B env Next s m (tcg_gen_mulu2_i64 rl rh a1 a2 s) Q"
  unfolding tcg_gen_mulu2_i64_def
  by (insert assms, cases "a1 = rh"; cases "a2 = rh"; (hypsubst)?,
    (erule (1) notE | erule muluh_number callN_muluh vcg | rule runs_control | (simp (no_asm_simp) del: aval.inject; fail) | (simp del: aval.inject; fail) |
    (erule St_post, assumption; (simp; fail)))+)

lemma mulu2_fresh:
  assumes "St B ev \<sigma> b L A r s m" "lty L rl = Some I64" "lty L rh = Some I64" "a1 \<noteq> rh" "a2 \<noteq> rh"
    "A a1 = V64 c x" "A a2 = V64 d y" "4 \<le> b"
    and "\<And>s' m'. St B ev \<sigma> (b - 4) L (A(rh := V64 (snd (mulu64 c d)) (snd (mulu64 c d)), rl := V64 (c * d) (x * y))) r s' m' \<Longrightarrow> Q s' m'"
  shows "runs B env Next s m (tcg_gen_mulu2_i64 rl rh a1 a2 s) Q"
  unfolding tcg_gen_mulu2_i64_def
  by (insert assms, (erule callN_muluh vcg | rule runs_control | (simp (no_asm_simp) del: aval.inject; fail) | (simp del: aval.inject; fail) |
    (erule St_post, assumption; (simp; fail)))+)

lemma tcg_gen_mulu2_i64 [vcg]:
  assumes "St B ev \<sigma> b L A r s m" "lty L rl = Some I64" "lty L rh = Some I64" "A a1 = V64 c x" "A a2 = V64 d y" "4 \<le> b"
    and "\<And>s' m'. St B ev \<sigma> (b - 4) L (A(rh := V64 (snd (mulu64 c d)) (snd (mulu64 c d)), rl := V64 (c * d) (x * y))) r s' m' \<Longrightarrow> Q s' m'"
  shows "runs B env Next s m (tcg_gen_mulu2_i64 rl rh a1 a2 s) Q"
proof (cases "a1 = rh \<or> a2 = rh")
  case True
  then show ?thesis by (rule mulu2_alias [OF assms(1-3) _ assms(4-7)])
next
  case False
  then show ?thesis by (intro mulu2_fresh [OF assms(1-3) _ _ assms(4-7)]) simp_all
qed

lemma tcg_gen_count_i64 [vcg]:
  assumes "St B ev \<sigma> b L A r s m" "lty L t = Some I64" "A a1 = V64 c x" "2 \<le> b"
  shows "A a2 = V64 d y \<Longrightarrow> \<not> HAS_clz H I64 \<Longrightarrow>
      (\<And>s' m'. St B ev \<sigma> (b - 2) L (A(t := V64 (if c \<noteq> 0 then of_nat (clz64 c) else d) (if c \<noteq> 0 then of_nat (clz64 c) else d))) r s' m' \<Longrightarrow> Q s' m') \<Longrightarrow>
      runs B env Next s m (tcg_gen_clz_i64 H t a1 a2 s) Q"
    and "A a2 = V64 d y \<Longrightarrow> \<not> HAS_ctz H I64 \<Longrightarrow> \<not> HAS_clz H I64 \<Longrightarrow> \<not> HAS_ctpop H I64 \<Longrightarrow>
      (\<And>s' m'. St B ev \<sigma> (b - 2) L (A(t := V64 (if c \<noteq> 0 then of_nat (ctz64 c) else d) (if c \<noteq> 0 then of_nat (ctz64 c) else d))) r s' m' \<Longrightarrow> Q s' m') \<Longrightarrow>
      runs B env Next s m (tcg_gen_ctz_i64 H t a1 a2 s) Q"
    and "\<not> HAS_ctpop H I64 \<Longrightarrow> (\<And>s' m'. St B ev \<sigma> (b - 2) L (A(t := V64 (of_nat (ctpop64 c)) (of_nat (ctpop64 c)))) r s' m' \<Longrightarrow> Q s' m') \<Longrightarrow>
      runs B env Next s m (tcg_gen_ctpop_i64 H t a1 s) Q"
    and "\<not> HAS_clz H I64 \<Longrightarrow> \<not> HAS_clz H I32 \<Longrightarrow>
      (\<And>s' m'. St B ev \<sigma> (b - 2) L (A(t := V64 (of_int (clrsb64 c)) (of_int (clrsb64 c)))) r s' m' \<Longrightarrow> Q s' m') \<Longrightarrow>
      runs B env Next s m (tcg_gen_clrsb_i64 H t a1 s) Q"
  unfolding tcg_gen_clz_i64_def tcg_gen_ctz_i64_def tcg_gen_ctpop_i64_def tcg_gen_clrsb_i64_def
  using assms(4) by (simp_all only: if_False simp_thms)
   (rule callN_i64 [OF assms(1-3)]; simp add: run_helper_i64_def)+

subsection \<open>The unsigned remainder\<close>

text \<open>\<open>tcg_gen_remu_i64\<close> calls the helper of the signed remainder, so its rule needs to know that there is an expression to
  build.\<close>

lemma binary_some:
  assumes "shadow_typed B 64 e1" "shadow_typed B 64 e2" "e1 \<noteq> None \<or> e2 \<noteq> None"
    and "sym_helper_defined k (shadow_word ev \<sigma> d e2)"
  obtains e where "sym_binary_i64 B k c e1 d e2 = Some (Some e)" "shadow_typed B 64 (Some e)"
    "word_of_int (ev \<sigma> e) = sym_helper_sem k (shadow_word ev \<sigma> c e1) (shadow_word ev \<sigma> d e2)"
proof -
  obtain u where u: "sym_binary_i64 B k c e1 d e2 = Some u" "shadow_typed B 64 u" "u = None \<longleftrightarrow> e1 = None \<and> e2 = None"
    "shadow_word ev \<sigma> (sym_helper_sem k c d) u = sym_helper_sem k (shadow_word ev \<sigma> c e1) (shadow_word ev \<sigma> d e2)"
    using binary_correct [of e1 e2 k c d] assms(1,2,4) by auto
  from u(3) assms(3) obtain e where "u = Some e" by auto
  with u show thesis by (intro that [of e]) simp_all
qed

lemma runs_remu_i64:
  assumes st: "St B ev \<sigma> b L A r s m" "lty L t = Some I64" "A a1 = V64 c x" "A a2 = V64 d y" "t \<noteq> a1" "t \<noteq> a2"
    and "d \<noteq> 0" "y \<noteq> 0" "HAS_rem H I64" and sym: "texpr s m a1 \<noteq> Some None \<or> texpr s m a2 \<noteq> Some None"
    and Q: "\<And>s' m'. St B ev \<sigma> b L (A(t := V64 (c mod d) (sym_helper_sem sym_rem x y))) r s' m' \<Longrightarrow> Q s' m'"
  shows "runs B env Next s m (tcg_gen_remu_i64 H t a1 a2 s) Q"
proof -
  obtain e1 where a1: "temp_live s a1 I64" "arg64 m (targ s a1) = Some c" "argp m (targ s (a1 + 1)) = Some e1"
    "shadow_typed B 64 e1" "shadow_word ev \<sigma> c e1 = x" using operand [OF st(1,3)] by auto
  obtain e2 where a2: "temp_live s a2 I64" "arg64 m (targ s a2) = Some d" "argp m (targ s (a2 + 1)) = Some e2"
    "shadow_typed B 64 e2" "shadow_word ev \<sigma> d e2 = y" using operand [OF st(1,4)] by auto
  obtain t: "temp_live s t I64" "kind (temps s ! t) \<noteq> TEMP_CONST" "targ s t = TempArg t" using st(1,2) by (rule target)
  obtain e where e: "sym_binary_i64 B sym_rem c e1 d e2 = Some (Some e)" "shadow_typed B 64 (Some e)"
      "word_of_int (ev \<sigma> e) = sym_helper_sem sym_rem x y"
    by (rule binary_some [OF a1(4) a2(4), of sym_rem \<sigma> d c]) (use sym a1(3,5) a2(3,5) assms(8) in \<open>auto simp: texpr_def simp del: sym_helper_sem.simps\<close>)
  note frame = arg_set_expr [OF a1(1) t(1), simplified] arg_set_expr [OF a2(1) t(1), simplified]
  have gen: "tcg_gen_remu_i64 H t a1 a2 s = Some (tcg_emit_op (INDEX_op_call (helper_sym_binary sym_rem I64))
        [TempArg (t + 1), targ s a1, targ s (a1 + 1), targ s a2, targ s (a2 + 1)]
      (tcg_emit_op (op_rrr INDEX_op_remu I64) [TempArg t, targ s a1, targ s a2] s))"
    unfolding tcg_gen_remu_i64_def if_P [OF assms(9)]
    using t a1(1) a2(1) by (auto simp: gen_binary emit_defs live_simps)
  have res: "result B ev \<sigma> (c mod d) (Some e) (V64 (c mod d) (sym_helper_sem sym_rem x y))"
    using e(2,3) by simp
  show ?thesis
  proof (rule runs_op_expr [OF st(1,2) gen _ _ res _ Q])
    show "exec_op B env (TCGOp (op_rrr INDEX_op_remu I64) [TempArg t, targ s a1, targ s a2]) m = Some (Next, set_slot t (Num (c mod d)) m)"
      using a1(2) a2(2) assms(7) by (simp add: opsem tci_rrr_def tci_rrr_64_def c_umod_def)
    show "exec_call B env (helper_sym_binary sym_rem I64) [TempArg (t + 1), targ s a1, targ s (a1 + 1), targ s a2, targ s (a2 + 1)] (set_slot t (Num (c mod d)) m) =
      Some (set_slot (t + 1) (expr_val (Some e)) ((set_slot t (Num (c mod d)) m)\<lparr>mrt := r\<rparr>))"
      using a1(2,3) a2(2,3) assms(5,6) e(1)
      by (simp add: opsem frame sym_binary_def St_rt [OF st(1)])
  qed simp
qed

end

end
