(* ===== verification/Gen_Correct32.thy ===== *)
theory Gen_Correct32
  imports Gen_Cond64
begin

unbundle bit_operations_syntax

section \<open>Generators of 32-bit operations: correctness\<close>

text \<open>
  The rules of the 32-bit generators, in the same form as those of the 64-bit ones. A register holds a
  32-bit value in its low half; the high half of the number is not specified, and no rule depends on it.
\<close>

lemma shift_count32: "unat d < 32 \<Longrightarrow> d AND 31 = (d :: u32)"
proof -
  assume "unat d < 32"
  moreover have "d AND 31 = take_bit 5 d" by (simp add: take_bit_eq_mask mask_eq_exp_minus_1)
  ultimately show ?thesis by (simp add: word_unat_eq_iff unsigned_take_bit_eq take_bit_nat_eq_self)
qed

lemma count_i32: "ucast w = (d :: u32) \<Longrightarrow> unat d < 32 \<Longrightarrow> unat ((w :: u64) AND 31) = unat d"
proof -
  assume w: "ucast w = d" "unat d < 32"
  have "w AND 31 = take_bit 5 w" "d AND 31 = take_bit 5 d" by (simp_all add: take_bit_eq_mask mask_eq_exp_minus_1)
  moreover have "take_bit 5 w = ucast (take_bit 5 d)" unfolding w(1) [symmetric] by (intro bit_word_eqI) (auto simp: bit_simps)
  ultimately show ?thesis using shift_count32 [OF w(2)] by simp
qed

lemma ext_words32:
  fixes w :: u64
  shows "ucast (ucast (ucast w :: u8) :: u64) = take_bit 8 (ucast w :: u32)" "ucast (ucast (ucast w :: u16) :: u64) = take_bit 16 (ucast w :: u32)"
    "ucast (scast (ucast w :: u8) :: u64) = signed_take_bit 7 (ucast w :: u32)" "ucast (scast (ucast w :: u16) :: u64) = signed_take_bit 15 (ucast w :: u32)"
  by (intro bit_word_eqI; auto simp: bit_simps min_def not_le less_Suc_eq_le)+

lemma rot_count32: "ucast w = (d :: u32) \<Longrightarrow> unat d < 32 \<Longrightarrow> unat (ucast ((w :: u64) AND 31) mod 32 :: u32) = unat d"
  using count_i32 [of w d] by (simp add: unat_mod_distrib unsigned_ucast_eq take_bit_nat_eq_self)

lemma rot_shifts_i32:
  fixes x :: u32
  assumes "unat (k :: u32) < 32"
  shows "push_bit (unat k) x OR drop_bit (32 - unat k) x = word_rotl (unat k) x"
    and "drop_bit (unat k) x OR push_bit (32 - unat k) x = word_rotr (unat k) x"
    and "k \<noteq> 0 \<Longrightarrow> word_rotl (32 - unat k) x = word_rotr (unat k) x"
  using assms rotl_shifts [of "unat k" x] rotr_shifts [of "unat k" x] rotl_rotr [of "unat k" x] by (simp_all add: unat_gt_0)

lemma sext_shifts_i32:
  fixes x :: u32
  shows "signed_drop_bit 24 (push_bit 24 x) = signed_take_bit 7 x" "signed_drop_bit 16 (push_bit 16 x) = signed_take_bit 15 x"
  using sext_shifts [of 7 x] sext_shifts [of 15 x] by simp_all

lemma low_word:
  fixes v w :: u64
  shows "ucast (v + w) = (ucast v + ucast w :: u32)" "ucast (v - w) = (ucast v - ucast w :: u32)" "ucast (v * w) = (ucast v * ucast w :: u32)"
    "ucast (- w) = (- ucast w :: u32)"
  by (simp_all add: word_uint_eq_iff uint_word_ariths unsigned_ucast_eq take_bit_eq_mod mod_simps mod_mod_cancel)
lemma low_word_bits:
  fixes v w :: u64
  shows
    "ucast (v AND w) = (ucast v AND ucast w :: u32)" "ucast (v OR w) = (ucast v OR ucast w :: u32)"
    "ucast (v XOR w) = (ucast v XOR ucast w :: u32)" "ucast (NOT w) = (NOT (ucast w) :: u32)" 
  by (intro bit_word_eqI; simp add: bit_simps)+

lemma power_of_2_scast: "is_power_of_2 (scast (k :: u32)) \<Longrightarrow> k AND (k - 1) = 0"
proof -
  assume "is_power_of_2 (scast k)"
  then have "ucast (scast k AND (scast k - 1) :: u64) = (0 :: u32)" by (simp add: is_power_of_2_def split: if_splits)
  then show ?thesis by (simp only: low_word low_word_bits ucast_scast_32) simp
qed

lemma field_facts32:
  fixes ofs len :: u32
  assumes "0 < unat len" "unat ofs + unat len \<le> 32"
  shows "field_assert 32 ofs len = Some ()"
    and "unat (32 - len) = 32 - unat len" "unat (32 - len - ofs) = 32 - unat len - unat ofs"
    and "ofs = 0 \<longleftrightarrow> unat ofs = 0" "len = 32 \<longleftrightarrow> unat len = 32" "ofs + len = 32 \<longleftrightarrow> unat ofs + unat len = 32"
      "ofs + len < 32 \<longleftrightarrow> unat ofs + unat len < 32"
      "ofs + len = 16 \<longleftrightarrow> unat ofs + unat len = 16"
      "ofs + len = 8 \<longleftrightarrow> unat ofs + unat len = 8" "len = 16 \<longleftrightarrow> unat len = 16"
      "len = 8 \<longleftrightarrow> unat len = 8" "1 \<le> len \<and> len \<le> 8 \<longleftrightarrow> unat len \<le> 8"
proof -
  have add: "unat (ofs + len) = unat ofs + unat len" using assms by (simp add: unat_word_ariths)
  show "unat (32 - len) = 32 - unat len" "unat (32 - len - ofs) = 32 - unat len - unat ofs"
    using assms by (simp_all add: unat_sub word_le_nat_alt)
  show "field_assert 32 ofs len = Some ()"
    using assms add by (simp add: field_assert_def word_less_nat_alt word_le_nat_alt)
qed (use assms in \<open>simp_all add: word_unat_eq_iff word_less_nat_alt word_le_nat_alt unat_word_ariths\<close>)

lemma extract2_facts32:
  fixes ofs :: u32
  assumes "unat ofs \<le> 32"
  shows "ofs \<le> 32" "ofs = 0 \<longleftrightarrow> unat ofs = 0" "ofs = 32 \<longleftrightarrow> unat ofs = 32" "unat (32 - ofs) = 32 - unat ofs"
  using assms by (simp_all add: word_le_nat_alt word_unat_eq_iff unat_sub)

lemma extract2_words32:
  fixes c d :: u32
  shows "extract2_word d c 0 = c" "extract2_word d c 32 = d" "k < 32 \<Longrightarrow> extract2_word c c k = word_rotr k c"
    "0 < k \<Longrightarrow> k < 32 \<Longrightarrow> deposit_word (drop_bit k c) (32 - k) k d = extract2_word d c k"
  using extract2_ends [of d c] extract2_same [of k c] deposit_shifted [of k c d] by simp_all

lemma deposit_words32:
  fixes c d :: u32
  assumes "0 < n" "k + n \<le> 32" "n < 32"
  shows "(c AND NOT (push_bit k (2 ^ n - 1))) OR push_bit k (take_bit n d) = deposit_word c k n d"
    and "k + n = 32 \<Longrightarrow> (c AND NOT (push_bit k (2 ^ n - 1))) OR push_bit k d = deposit_word c k n d"
    and "k + n = 32 \<Longrightarrow> extract2_word d (push_bit n c) n = deposit_word c k n d"
    and "word_rotl n (extract2_word d c n) = deposit_word c 0 n d"
  using assms deposit_words(1) [of c k n d] deposit_words(2) [of k n c d] deposit_words(3) [of k n d c] deposit_words(4) [of n d c]
  by (simp_all add: mask_eq_exp_minus_1)

lemma deposit_z_words32:
  fixes c :: u32
  shows "k + n = 32 \<Longrightarrow> push_bit k (take_bit n c) = push_bit k c"
    and "k + n = w \<Longrightarrow> take_bit w (push_bit k c) = push_bit k (take_bit n c)"
    and "deposit_word 0 k n c = push_bit k (take_bit n c)"
  using deposit_z_words(1) [of k n c] deposit_z_words(2) [of k n w c] deposit_z_words(3) [of k n c] by simp_all

lemma field_ok32: "0 < unat len \<Longrightarrow> unat ofs + unat len \<le> 32 \<Longrightarrow>
    field_ok 32 (uint (ucast (ofs :: u32) :: u64)) (uint (ucast (len :: u32) :: u64))"
  using unat_ucast_64 [of ofs] unat_ucast_64 [of len] unfolding field_ok_def uint_nat by linarith

lemma ucast_16_32: "ucast (ucast (w :: u64) :: u32) = (ucast w :: u16)"
  by (intro bit_word_eqI) (auto simp: bit_simps)

lemma ucast_ucast_16: "ucast (ucast (w :: u16) :: u64) = (ucast w :: u32)"
  by (intro bit_word_eqI) (auto simp: bit_simps)

context sym_backend
begin

lemma runs_binary32:
  assumes st: "St B ev \<sigma> b L A r s m" "lty L t = Some I32" "A a1 = V32 c x" "A a2 = V32 d y"
    and op: "\<And>w1 w2. ucast w1 = c \<Longrightarrow> ucast w2 = d \<Longrightarrow> \<exists>w. tci_rrr opc I32 w1 w2 = Some w \<and> ucast w = sym_helper_sem k c d"
      "sym_helper_defined k y"
    and Q: "\<And>s' m'. St B ev \<sigma> b L (A(t := V32 (sym_helper_sem k c d) (sym_helper_sem k x y))) r s' m' \<Longrightarrow> Q s' m'"
  shows "runs B env Next s m (Option.bind (SYM_HELPER_BINARY_32 k t a1 a2 s) (tcg_gen_op3_v (op_rrr opc I32) t a1 a2)) Q"
    and "t \<noteq> a1 \<Longrightarrow> t \<noteq> a2 \<Longrightarrow>
      runs B env Next s m (Option.bind (tcg_gen_op3_v (op_rrr opc I32) t a1 a2 s) (SYM_HELPER_BINARY_32 k t a1 a2)) Q"
proof -
  have sem: "\<exists>w e. tci_rrr opc I32 w1 w2 = Some w \<and> sym_binary B k I32 w1 e1 w2 e2 = Some e \<and>
      result B ev \<sigma> w e (V32 (sym_helper_sem k c d) (sym_helper_sem k x y))"
    if "result B ev \<sigma> w1 e1 (V32 c x)" "result B ev \<sigma> w2 e2 (V32 d y)" for w1 e1 w2 e2
    using binary_result32 [OF that op(2)] op(1) [of w1 w2] that by fastforce
  show "runs B env Next s m (Option.bind (SYM_HELPER_BINARY_32 k t a1 a2 s) (tcg_gen_op3_v (op_rrr opc I32) t a1 a2)) Q"
    by (rule runs_binary(1) [OF st _ _ sem _ _ _ Q]) simp_all
  show "runs B env Next s m (Option.bind (tcg_gen_op3_v (op_rrr opc I32) t a1 a2 s) (SYM_HELPER_BINARY_32 k t a1 a2)) Q"
    if "t \<noteq> a1" "t \<noteq> a2"
    by (rule runs_binary(2) [OF st _ _ sem _ _ _ Q that]) simp_all
qed

lemma tcg_gen_arith_i32 [vcg]:
  assumes "St B ev \<sigma> b L A r s m" "lty L t = Some I32" "A a1 = V32 c x" "A a2 = V32 d y"
  shows "(\<And>s' m'. St B ev \<sigma> b L (A(t := V32 (c + d) (x + y))) r s' m' \<Longrightarrow> Q s' m') \<Longrightarrow>
      runs B env Next s m (tcg_gen_add_i32 t a1 a2 s) Q"
    and "(\<And>s' m'. St B ev \<sigma> b L (A(t := V32 (c - d) (x - y))) r s' m' \<Longrightarrow> Q s' m') \<Longrightarrow>
      runs B env Next s m (tcg_gen_sub_i32 t a1 a2 s) Q"
    and "(\<And>s' m'. St B ev \<sigma> b L (A(t := V32 (c * d) (x * y))) r s' m' \<Longrightarrow> Q s' m') \<Longrightarrow>
      runs B env Next s m (tcg_gen_mul_i32 t a1 a2 s) Q"
    and "(\<And>s' m'. St B ev \<sigma> b L (A(t := V32 (c AND d) (x AND y))) r s' m' \<Longrightarrow> Q s' m') \<Longrightarrow>
      runs B env Next s m (tcg_gen_and_i32 t a1 a2 s) Q"
    and "(\<And>s' m'. St B ev \<sigma> b L (A(t := V32 (c OR d) (x OR y))) r s' m' \<Longrightarrow> Q s' m') \<Longrightarrow>
      runs B env Next s m (tcg_gen_or_i32 t a1 a2 s) Q"
    and "(\<And>s' m'. St B ev \<sigma> b L (A(t := V32 (c XOR d) (x XOR y))) r s' m' \<Longrightarrow> Q s' m') \<Longrightarrow>
      runs B env Next s m (tcg_gen_xor_i32 t a1 a2 s) Q"
  unfolding tcg_gen_add_i32_def tcg_gen_sub_i32_def tcg_gen_mul_i32_def tcg_gen_and_i32_def tcg_gen_or_i32_def
    tcg_gen_xor_i32_def
  by (rule runs_binary32 [OF assms]; auto simp: tci_rrr_def low_word low_word_bits)+

lemma tcg_gen_shift_i32 [vcg]:
  assumes "St B ev \<sigma> b L A r s m" "lty L t = Some I32" "A a1 = V32 c x" "A a2 = V32 d y" "unat d < 32"
  shows "(\<And>s' m'. St B ev \<sigma> b L (A(t := V32 (push_bit (unat d) c) (push_bit (unat y) x))) r s' m' \<Longrightarrow> Q s' m') \<Longrightarrow>
      runs B env Next s m (tcg_gen_shl_i32 t a1 a2 s) Q"
    and "(\<And>s' m'. St B ev \<sigma> b L (A(t := V32 (drop_bit (unat d) c) (drop_bit (unat y) x))) r s' m' \<Longrightarrow> Q s' m') \<Longrightarrow>
      runs B env Next s m (tcg_gen_shr_i32 t a1 a2 s) Q"
    and "(\<And>s' m'. St B ev \<sigma> b L (A(t := V32 (signed_drop_bit (unat d) c) (signed_drop_bit (unat y) x))) r s' m' \<Longrightarrow> Q s' m') \<Longrightarrow>
      runs B env Next s m (tcg_gen_sar_i32 t a1 a2 s) Q"
  unfolding tcg_gen_shl_i32_def tcg_gen_shr_i32_def tcg_gen_sar_i32_def
  by (rule runs_binary32 [OF assms(1-4)]; simp add: tci_rrr_def tci_rrr_32_def count_i32 assms(5))+

lemma unary_result32:
  assumes "result B ev \<sigma> w e1 (V32 c x)"
  shows "\<exists>e. run_sym_unary B unary_neg e1 = Some e \<and> result B ev \<sigma> (- w) e (V32 (- c) (- x))"
    and "\<exists>e. run_sym_unary B unary_not e1 = Some e \<and> result B ev \<sigma> (NOT w) e (V32 (NOT c) (NOT x))"
  using assms unary_correct [of e1 c] by (auto simp: run_sym_unary_def shadow_result_def low_word low_word_bits)

lemma tcg_gen_neg_i32 [vcg]:
  assumes "St B ev \<sigma> b L A r s m" "lty L t = Some I32" "A a = V32 c x"
    "\<And>s' m'. St B ev \<sigma> b L (A(t := V32 (- c) (- x))) r s' m' \<Longrightarrow> Q s' m'"
  shows "runs B env Next s m (tcg_gen_neg_i32 t a s) Q"
  unfolding tcg_gen_neg_i32_def
  by (rule runs_unary [OF assms(1-3) _ _ _ assms(4)])
    (simp_all add: tci_rr_def unary_result32 del: result.simps)

lemma not_op_i32 [vcg]:
  assumes "St B ev \<sigma> b L A r s m" "lty L t = Some I32" "A a = V32 c x"
    "\<And>s' m'. St B ev \<sigma> b L (A(t := V32 (NOT c) (NOT x))) r s' m' \<Longrightarrow> Q s' m'"
  shows "runs B env Next s m (Option.bind (gen_helper_sym_unary unary_not t a s) (tcg_gen_op2_v (op_rr INDEX_op_not I32) t a)) Q"
  by (rule runs_unary [OF assms(1-3) _ _ _ assms(4)])
    (simp_all add: tci_rr_def unary_result32 del: result.simps)

lemma runs_mov_const:
  assumes st: "St B ev \<sigma> b L A r s m" "lty L t = Some I32" "slots m (t + 1) = Num 0" "A c = V32 k k"
    and Q: "\<And>s' m'. St B ev \<sigma> b L (A(t := V32 k k)) r s' m' \<Longrightarrow> Q s' m'"
  shows "runs B env Next s m (tcg_gen_op2_v (op_rr INDEX_op_mov I32) t c s) Q"
proof -
  obtain w where c: "temp_live s c I32" "arg64 m (targ s c) = Some w" "ucast w = k" using operand [OF st(1,4)] by auto
  obtain t: "temp_live s t I32" "targ s t = TempArg t" using st(1,2) by (rule target)
  have gen: "tcg_gen_op2_v (op_rr INDEX_op_mov I32) t c s = Some (tcg_emit_op (op_rr INDEX_op_mov I32) [TempArg t, targ s c] s)"
    using t c(1) by (simp add: emit_defs live_simps)
  show ?thesis
    by (rule runs_number [OF st(1-3) gen _ _ _ Q]) (use c num_arg_val [OF c(2)] in \<open>simp_all add: opsem\<close>)
qed

lemma tcg_gen_movi_i32 [vcg]:
  assumes "St B ev \<sigma> b L A r s m" "lty L t = Some I32" "4 \<le> b"
    and Q: "\<And>s' m'. St B ev \<sigma> (b - 4) L (A(t := V32 k k)) r s' m' \<Longrightarrow> Q s' m'"
  shows "runs B env Next s m (tcg_gen_movi_i32 t k s) Q"
  unfolding tcg_gen_movi_i32_def
proof (rule runs_const_i64(1) [OF assms(1)])
  fix z s1 A1 assume z: "A1 z = V64 0 0" "\<And>X. weaker X A \<Longrightarrow> weaker X A1" and st: "St B ev \<sigma> (b - 2) L A1 r s1 m"
  have e: "tcgv_i32_expr t s1 = Some (t + 1)" using target [OF st assms(2)] by (metis live_expr(1))
  show "runs B env Next s1 m (Option.bind (tcgv_i32_expr t s1) (\<lambda>er.
      Option.bind (tcg_gen_op2_v (op_rr INDEX_op_mov I64) er z s1) (\<lambda>s.
      Option.bind (tcg_constant_i32 k s) (\<lambda>(c, s). tcg_gen_op2_v (op_rr INDEX_op_mov I32) t c s)))) Q"
    unfolding e bind.bind_lunit
    by (rule runs_bind, rule runs_null_expr(1) [OF st assms(2) z(1)], erule vcg)
      (use assms(3) in simp, erule runs_mov_const [OF _ assms(2)], assumption, assumption, rule St_post, erule Q, assumption, simp_all add: z(2))
qed (use assms(3) in simp)

lemma tcg_gen_imm_i32 [vcg]:
  assumes "St B ev \<sigma> b L A r s m" "lty L t = Some I32" "A a = V32 c x" "4 \<le> b"
  shows "(\<And>s' m'. St B ev \<sigma> (b - 4) L (A(t := V32 (c + k) (x + k))) r s' m' \<Longrightarrow> Q s' m') \<Longrightarrow>
      runs B env Next s m (tcg_gen_addi_i32 t a k s) Q"
    and "(\<And>s' m'. St B ev \<sigma> (b - 4) L (A(t := V32 (c - k) (x - k))) r s' m' \<Longrightarrow> Q s' m') \<Longrightarrow>
      runs B env Next s m (tcg_gen_subi_i32 t a k s) Q"
    and "(\<And>s' m'. St B ev \<sigma> (b - 4) L (A(t := V32 (k - c) (k - x))) r s' m' \<Longrightarrow> Q s' m') \<Longrightarrow>
      runs B env Next s m (tcg_gen_subfi_i32 t k a s) Q"
    and "(\<And>s' m'. St B ev \<sigma> (b - 4) L (A(t := V32 (c OR k) (x OR k))) r s' m' \<Longrightarrow> Q s' m') \<Longrightarrow>
      runs B env Next s m (tcg_gen_ori_i32 t a k s) Q"
    and "(\<And>s' m'. St B ev \<sigma> (b - 4) L (A(t := V32 (c XOR k) (x XOR k))) r s' m' \<Longrightarrow> Q s' m') \<Longrightarrow>
      runs B env Next s m (tcg_gen_xori_i32 H t a k s) Q"
  unfolding tcg_gen_addi_i32_def tcg_gen_subi_i32_def tcg_gen_subfi_i32_def tcg_gen_ori_i32_def tcg_gen_xori_i32_def
  by (insert assms, (erule vcg | rule runs_control | (simp (no_asm_simp) del: aval.inject; fail) |
    (erule St_post, assumption; (simp; fail)))+)

lemma tcg_gen_shifti_i32 [vcg]:
  assumes "St B ev \<sigma> b L A r s m" "lty L t = Some I32" "A a = V32 c x" "2 \<le> b" "unat k < 32"
  shows "(\<And>s' m'. St B ev \<sigma> (b - 2) L (A(t := V32 (push_bit (unat k) c) (push_bit (unat k) x))) r s' m' \<Longrightarrow> Q s' m') \<Longrightarrow>
      runs B env Next s m (tcg_gen_shli_i32 t a k s) Q"
    and "(\<And>s' m'. St B ev \<sigma> (b - 2) L (A(t := V32 (drop_bit (unat k) c) (drop_bit (unat k) x))) r s' m' \<Longrightarrow> Q s' m') \<Longrightarrow>
      runs B env Next s m (tcg_gen_shri_i32 t a k s) Q"
    and "(\<And>s' m'. St B ev \<sigma> (b - 2) L (A(t := V32 (signed_drop_bit (unat k) c) (signed_drop_bit (unat k) x))) r s' m' \<Longrightarrow> Q s' m') \<Longrightarrow>
      runs B env Next s m (tcg_gen_sari_i32 t a k s) Q"
  unfolding tcg_gen_shli_i32_def tcg_gen_shri_i32_def tcg_gen_sari_i32_def
  by (insert assms count_ok [OF assms(5), simplified], (erule vcg | rule runs_control | (simp (no_asm_simp) del: aval.inject; fail) |
    (erule St_post, assumption; (simp; fail)))+)

lemma tcg_gen_muli_i32 [vcg]:
  assumes "St B ev \<sigma> b L A r s m" "lty L t = Some I32" "A a = V32 c x" "4 \<le> b"
  shows "(\<And>s' m'. St B ev \<sigma> (b - 4) L (A(t := V32 (c * k) (x * k))) r s' m' \<Longrightarrow> Q s' m') \<Longrightarrow>
      runs B env Next s m (tcg_gen_muli_i32 t a k s) Q"
  unfolding tcg_gen_muli_i32_def
  by (insert assms mult_power_of_2 [OF power_of_2_scast, of k] ctz_bit(1) [of k],
    (erule vcg | rule runs_control | (simp add: ctz32_def unat_of_nat del: aval.inject; fail) |
    (erule St_post, assumption; (simp add: ctz32_def unat_of_nat; fail)))+)

lemma length_result32:
  assumes "result B ev \<sigma> w e1 (V32 c x)"
  shows "\<exists>e. run_sym_length B length_zext e1 1 = Some e \<and> result B ev \<sigma> (ucast (ucast w :: u8)) e (V32 (take_bit 8 c) (take_bit 8 x))"
    and "\<exists>e. run_sym_length B length_zext e1 2 = Some e \<and> result B ev \<sigma> (ucast (ucast w :: u16)) e (V32 (take_bit 16 c) (take_bit 16 x))"
    and "\<exists>e. run_sym_length B length_sext e1 1 = Some e \<and> result B ev \<sigma> (scast (ucast w :: u8)) e (V32 (signed_take_bit 7 c) (signed_take_bit 7 x))"
    and "\<exists>e. run_sym_length B length_sext e1 2 = Some e \<and> result B ev \<sigma> (scast (ucast w :: u16)) e (V32 (signed_take_bit 15 c) (signed_take_bit 15 x))"
  using assms zext_correct [of e1 1 c] zext_correct [of e1 2 c] sext_correct [of e1 1 c] sext_correct [of e1 2 c]
  by (force simp: run_sym_length_def shadow_result_def ext_words32)+

lemma length_op_i32:
  assumes "St B ev \<sigma> b L A r s m" "lty L t = Some I32" "A a = V32 c x" "2 \<le> b"
    and "\<And>w1 e1. result B ev \<sigma> w1 e1 (V32 c x) \<Longrightarrow> \<exists>e. run_sym_length B u e1 n = Some e \<and> result B ev \<sigma> (f w1) e (V32 k y)"
    and "\<And>s' m'. St B ev \<sigma> (b - 2) L (A(t := V32 k y)) r s' m' \<Longrightarrow> Q s' m'"
  shows "opc \<noteq> INDEX_op_mov \<Longrightarrow> (\<And>w. tci_rr opc I32 w = Some (f w)) \<Longrightarrow>
      runs B env Next s m (Option.bind (gen_helper_sym_length u t a n s) (tcg_gen_op2_v (op_rr opc I32) t a)) Q"
    and "f = (\<lambda>w. tci_bswap opb I32 w fl) \<Longrightarrow>
      runs B env Next s m (Option.bind (gen_helper_sym_length u t a n s) (tcg_gen_op3i_v (op_bswap opb I32) t a fl)) Q"
  by (rule runs_length [OF assms(1-3) _ assms(4) assms(5) _ _ assms(6)]; auto)+


lemma zext_op_i32 [vcg]:
  assumes "St B ev \<sigma> b L A r s m" "lty L t = Some I32" "A a = V32 c x" "2 \<le> b"
  shows "(\<And>s' m'. St B ev \<sigma> (b - 2) L (A(t := V32 (take_bit 8 c) (take_bit 8 x))) r s' m' \<Longrightarrow> Q s' m') \<Longrightarrow>
      runs B env Next s m (Option.bind (gen_helper_sym_length length_zext t a 1 s) (tcg_gen_op2_v (op_rr INDEX_op_ext8u I32) t a)) Q"
    and "(\<And>s' m'. St B ev \<sigma> (b - 2) L (A(t := V32 (take_bit 16 c) (take_bit 16 x))) r s' m' \<Longrightarrow> Q s' m') \<Longrightarrow>
      runs B env Next s m (Option.bind (gen_helper_sym_length length_zext t a 2 s) (tcg_gen_op2_v (op_rr INDEX_op_ext16u I32) t a)) Q"
  by (rule length_op_i32(1) [OF assms], erule length_result32; simp add: tci_rr_def)+

lemma sext_op_i32 [vcg]:
  assumes "St B ev \<sigma> b L A r s m" "lty L t = Some I32" "A a = V32 c x" "2 \<le> b"
  shows "(\<And>s' m'. St B ev \<sigma> (b - 2) L (A(t := V32 (signed_take_bit 7 c) (signed_take_bit 7 x))) r s' m' \<Longrightarrow> Q s' m') \<Longrightarrow>
      runs B env Next s m (Option.bind (gen_helper_sym_length length_sext t a 1 s) (tcg_gen_op2_v (op_rr INDEX_op_ext8s I32) t a)) Q"
    and "(\<And>s' m'. St B ev \<sigma> (b - 2) L (A(t := V32 (signed_take_bit 15 c) (signed_take_bit 15 x))) r s' m' \<Longrightarrow> Q s' m') \<Longrightarrow>
      runs B env Next s m (Option.bind (gen_helper_sym_length length_sext t a 2 s) (tcg_gen_op2_v (op_rr INDEX_op_ext16s I32) t a)) Q"
  by (rule length_op_i32(1) [OF assms], erule length_result32; simp add: tci_rr_def)+

lemma extu_native_i32:
  assumes "St B ev \<sigma> b L A r s m" "lty L t = Some I32" "A a = V32 c x" "2 \<le> b"
  shows "(\<And>s' m'. St B ev \<sigma> (b - 2) L (A(t := V32 (take_bit 8 c) (take_bit 8 x))) r s' m' \<Longrightarrow> Q s' m') \<Longrightarrow> HAS_ext8u H I32 \<Longrightarrow>
      runs B env Next s m (tcg_gen_ext8u_i32 H t a s) Q"
    and "(\<And>s' m'. St B ev \<sigma> (b - 2) L (A(t := V32 (take_bit 16 c) (take_bit 16 x))) r s' m' \<Longrightarrow> Q s' m') \<Longrightarrow> HAS_ext16u H I32 \<Longrightarrow>
      runs B env Next s m (tcg_gen_ext16u_i32 H t a s) Q"
  unfolding tcg_gen_ext8u_i32.simps tcg_gen_ext16u_i32.simps
  by (simp_all add: zext_op_i32 [OF assms])

lemma tcg_gen_andi_i32 [vcg]:
  assumes "St B ev \<sigma> b L A r s m" "lty L t = Some I32" "A a = V32 c x" "4 \<le> b"
    and "\<And>s' m'. St B ev \<sigma> (b - 4) L (A(t := V32 (c AND k) (x AND k))) r s' m' \<Longrightarrow> Q s' m'"
  shows "runs B env Next s m (tcg_gen_andi_i32 H t a k s) Q"
  unfolding tcg_gen_andi_i32.simps
  by (insert assms, (erule vcg extu_native_i32 | rule runs_control | (simp (no_asm_simp) del: aval.inject; fail) |
    (erule St_post, assumption; (simp add: take_bit_and; fail)))+)

lemma tcg_gen_extu_i32 [vcg]:
  assumes "St B ev \<sigma> b L A r s m" "lty L t = Some I32" "A a = V32 c x" "4 \<le> b"
  shows "(\<And>s' m'. St B ev \<sigma> (b - 4) L (A(t := V32 (take_bit 8 c) (take_bit 8 x))) r s' m' \<Longrightarrow> Q s' m') \<Longrightarrow>
      runs B env Next s m (tcg_gen_ext8u_i32 H t a s) Q"
    and "(\<And>s' m'. St B ev \<sigma> (b - 4) L (A(t := V32 (take_bit 16 c) (take_bit 16 x))) r s' m' \<Longrightarrow> Q s' m') \<Longrightarrow>
      runs B env Next s m (tcg_gen_ext16u_i32 H t a s) Q"
  unfolding tcg_gen_ext8u_i32.simps tcg_gen_ext16u_i32.simps
  by (insert assms, (erule vcg | rule runs_control | (simp (no_asm_simp) del: aval.inject; fail) |
    (erule St_post, assumption; (simp add: take_bit_and; fail)))+)

lemma tcg_gen_exts_i32 [vcg]:
  assumes "St B ev \<sigma> b L A r s m" "lty L t = Some I32" "A a = V32 c x" "4 \<le> b"
  shows "(\<And>s' m'. St B ev \<sigma> (b - 4) L (A(t := V32 (signed_take_bit 7 c) (signed_take_bit 7 x))) r s' m' \<Longrightarrow> Q s' m') \<Longrightarrow>
      runs B env Next s m (tcg_gen_ext8s_i32 H t a s) Q"
    and "(\<And>s' m'. St B ev \<sigma> (b - 4) L (A(t := V32 (signed_take_bit 15 c) (signed_take_bit 15 x))) r s' m' \<Longrightarrow> Q s' m') \<Longrightarrow>
      runs B env Next s m (tcg_gen_ext16s_i32 H t a s) Q"
  unfolding tcg_gen_ext8s_i32_def tcg_gen_ext16s_i32_def
  by (insert assms, (erule vcg | rule runs_control | (simp (no_asm_simp) del: aval.inject; fail) |
    (erule St_post, assumption; (simp add: sext_shifts_i32; fail)))+)

lemma tcg_gen_not_i32 [vcg]:
  assumes "St B ev \<sigma> b L A r s m" "lty L t = Some I32" "A a = V32 c x" "4 \<le> b"
    and "\<And>s' m'. St B ev \<sigma> (b - 4) L (A(t := V32 (NOT c) (NOT x))) r s' m' \<Longrightarrow> Q s' m'"
  shows "runs B env Next s m (tcg_gen_not_i32 H t a s) Q"
  unfolding tcg_gen_not_i32_def
  by (insert assms, (erule vcg | rule runs_control | (simp (no_asm_simp) del: aval.inject; fail) |
    (erule St_post, assumption; (simp; fail)))+)

lemma rot_op_i32 [vcg]:
  assumes "St B ev \<sigma> b L A r s m" "lty L t = Some I32" "A a1 = V32 c x" "A a2 = V32 d y" "unat d < 32" "unat y < 32"
  shows "(\<And>s' m'. St B ev \<sigma> b L (A(t := V32 (word_rotl (unat d) c) (word_rotl (unat y) x))) r s' m' \<Longrightarrow> Q s' m') \<Longrightarrow>
      runs B env Next s m (Option.bind (SYM_HELPER_BINARY_32 sym_rotate_left t a1 a2 s) (tcg_gen_op3_v (op_rrr INDEX_op_rotl I32) t a1 a2)) Q"
    and "(\<And>s' m'. St B ev \<sigma> b L (A(t := V32 (word_rotr (unat d) c) (word_rotr (unat y) x))) r s' m' \<Longrightarrow> Q s' m') \<Longrightarrow>
      runs B env Next s m (Option.bind (SYM_HELPER_BINARY_32 sym_rotate_right t a1 a2 s) (tcg_gen_op3_v (op_rrr INDEX_op_rotr I32) t a1 a2)) Q"
  by (rule runs_binary32 [OF assms(1-4)]; simp add: tci_rrr_def tci_rrr_32_def rot32_eq rot_count32 assms(5,6))+

lemma tcg_gen_rot_i32 [vcg]:
  assumes "St B ev \<sigma> b L A r s m" "lty L t = Some I32" "A a1 = V32 c x" "A a2 = V32 d y" "unat d < 32" "unat y < 32"
    "\<not> HAS_rot H I32 \<Longrightarrow> d \<noteq> 0" "8 \<le> b"
  shows "(\<And>s' m'. St B ev \<sigma> (b - 8) L (A(t := V32 (word_rotl (unat d) c) (word_rotl (unat y) x))) r s' m' \<Longrightarrow> Q s' m') \<Longrightarrow>
      runs B env Next s m (tcg_gen_rotl_i32 H t a1 a2 s) Q"
    and "(\<And>s' m'. St B ev \<sigma> (b - 8) L (A(t := V32 (word_rotr (unat d) c) (word_rotr (unat y) x))) r s' m' \<Longrightarrow> Q s' m') \<Longrightarrow>
      runs B env Next s m (tcg_gen_rotr_i32 H t a1 a2 s) Q"
  unfolding tcg_gen_rotl_i32_def tcg_gen_rotr_i32_def
  by (insert assms count_compl(2) [OF less_imp_le [OF assms(5)]] count_compl(2) [OF less_imp_le [OF assms(6)]],
    (erule vcg | rule runs_control | (simp (no_asm_simp) add: unat_gt_0 del: aval.inject; fail) |
    (erule St_post, assumption; (simp add: rot_shifts_i32; fail)))+)

lemma tcg_gen_rotli_i32 [vcg]:
  assumes "St B ev \<sigma> b L A r s m" "lty L t = Some I32" "A a = V32 c x" "unat k < 32" "10 \<le> b"
    and "\<And>s' m'. St B ev \<sigma> (b - 10) L (A(t := V32 (word_rotl (unat k) c) (word_rotl (unat k) x))) r s' m' \<Longrightarrow> Q s' m'"
  shows "runs B env Next s m (tcg_gen_rotli_i32 H t a k s) Q"
  unfolding tcg_gen_rotli_i32_def
  by (insert assms count_ok [OF assms(4), simplified] count_compl(2) [OF less_imp_le [OF assms(4)]],
    (erule vcg | rule runs_control | (simp (no_asm_simp) add: unat_gt_0 del: aval.inject; fail) |
    (erule St_post, assumption; (simp add: rot_shifts_i32; fail)))+)

lemma tcg_gen_rotri_i32 [vcg]:
  assumes "St B ev \<sigma> b L A r s m" "lty L t = Some I32" "A a = V32 c x" "unat k < 32" "10 \<le> b"
    and "\<And>s' m'. St B ev \<sigma> (b - 10) L (A(t := V32 (word_rotr (unat k) c) (word_rotr (unat k) x))) r s' m' \<Longrightarrow> Q s' m'"
  shows "runs B env Next s m (tcg_gen_rotri_i32 H t a k s) Q"
  unfolding tcg_gen_rotri_i32_def
  by (insert assms count_ok [OF assms(4), simplified] count_compl(2) [OF less_imp_le [OF assms(4)]],
    (erule vcg | rule runs_control | (simp (no_asm_simp) add: unat_gt_0 del: aval.inject; fail) |
    (erule St_post, assumption; (simp add: rot_shifts_i32; fail)))+)

lemma extract_result32:
  assumes "result B ev \<sigma> w1 e1 (V32 c x)" "0 < unat (len :: u32)" "unat (ofs :: u32) + unat len \<le> 32"
  shows "\<exists>w e. tci_extract I32 w1 (ucast ofs) (ucast len) = Some w \<and> sym_extract_i32 B e1 ofs len = Some e \<and>
      result B ev \<sigma> w e (V32 (take_bit (unat len) (drop_bit (unat ofs) c)) (take_bit (unat len) (drop_bit (unat ofs) x)))"
    and "\<exists>w e. tci_sextract I32 w1 (ucast ofs) (ucast len) = Some w \<and> sym_sextract_i32 B e1 ofs len = Some e \<and>
      result B ev \<sigma> w e (V32 (signed_take_bit (unat len - 1) (drop_bit (unat ofs) c)) (signed_take_bit (unat len - 1) (drop_bit (unat ofs) x)))"
  using assms extract_correct [where 'a = 32 and c = c and ofs = "ucast ofs" and n = "ucast len" and oe = e1]
    extract_eq(1) [OF field_ok32 [OF assms(2,3)]] sextract_eq(1) [OF field_ok32 [OF assms(2,3)]]
  by (auto simp: tci_extract_def tci_sextract_def shadow_result_def unat_eq_nat_uint [symmetric] sym_extract_i32_def sym_sextract_i32_def)

lemma extract_op_i32 [vcg]:
  assumes "St B ev \<sigma> b L A r s m" "lty L t = Some I32" "A a = V32 c x"
    "A k = V32 ofs yk" "A n = V32 len yn" "0 < unat (len :: u32)" "unat (ofs :: u32) + unat len \<le> 32"
    and Q: "\<And>s' m'. St B ev \<sigma> b L (A(t := V32 (take_bit (unat len) (drop_bit (unat ofs) c)) (take_bit (unat len) (drop_bit (unat ofs) x)))) r s' m' \<Longrightarrow> Q s' m'"
  shows "runs B env Next s m (Option.bind (tcgv_i32_expr t s) (\<lambda>er. Option.bind (tcgv_i32_expr a s) (\<lambda>ea.
        Option.bind (tcg_gen_callN (helper_sym_extract I32) (Some er) [ea, k, n] s)
          (tcg_gen_op4ii_v (INDEX_op_extract I32) t a (ucast ofs) (ucast len))))) Q"
proof (rule runs_extract [where f = "\<lambda>w. tci_extract I32 w (ucast ofs) (ucast len)" and g = "\<lambda>p k n. sym_extract_i32 B p (ucast k) (ucast n)",
      OF assms(1-3) _ assms(4,5) _ _ _ _ _ _ Q])
  fix w1 e1 wk ek wn en
  assume res: "result B ev \<sigma> w1 e1 (V32 c x)" and "result B ev \<sigma> wk ek (V32 ofs yk)" "result B ev \<sigma> wn en (V32 len yn)"
  then show "\<exists>w e. tci_extract I32 w1 (ucast ofs) (ucast len) = Some w \<and> sym_extract_i32 B e1 (ucast wk) (ucast wn) = Some e \<and>
      result B ev \<sigma> w e (V32 (take_bit (unat len) (drop_bit (unat ofs) c)) (take_bit (unat len) (drop_bit (unat ofs) x)))"
    using extract_result32(1) [OF res assms(6,7)] by (simp only: result.simps)
qed simp_all

lemma sextract_op_i32 [vcg]:
  assumes "St B ev \<sigma> b L A r s m" "lty L t = Some I32" "A a = V32 c x"
    "A k = V32 ofs yk" "A n = V32 len yn" "0 < unat (len :: u32)" "unat (ofs :: u32) + unat len \<le> 32"
    and Q: "\<And>s' m'. St B ev \<sigma> b L (A(t := V32 (signed_take_bit (unat len - 1) (drop_bit (unat ofs) c)) (signed_take_bit (unat len - 1) (drop_bit (unat ofs) x)))) r s' m' \<Longrightarrow> Q s' m'"
  shows "runs B env Next s m (Option.bind (tcgv_i32_expr t s) (\<lambda>er. Option.bind (tcgv_i32_expr a s) (\<lambda>ea.
        Option.bind (tcg_gen_callN (helper_sym_sextract I32) (Some er) [ea, k, n] s)
          (tcg_gen_op4ii_v (INDEX_op_sextract I32) t a (ucast ofs) (ucast len))))) Q"
proof (rule runs_extract [where f = "\<lambda>w. tci_sextract I32 w (ucast ofs) (ucast len)" and g = "\<lambda>p k n. sym_sextract_i32 B p (ucast k) (ucast n)",
      OF assms(1-3) _ assms(4,5) _ _ _ _ _ _ Q])
  fix w1 e1 wk ek wn en
  assume res: "result B ev \<sigma> w1 e1 (V32 c x)" and "result B ev \<sigma> wk ek (V32 ofs yk)" "result B ev \<sigma> wn en (V32 len yn)"
  then show "\<exists>w e. tci_sextract I32 w1 (ucast ofs) (ucast len) = Some w \<and> sym_sextract_i32 B e1 (ucast wk) (ucast wn) = Some e \<and>
      result B ev \<sigma> w e (V32 (signed_take_bit (unat len - 1) (drop_bit (unat ofs) c)) (signed_take_bit (unat len - 1) (drop_bit (unat ofs) x)))"
    using extract_result32(2) [OF res assms(6,7)] by (simp only: result.simps)
qed simp_all

lemma tcg_gen_extract_i32 [vcg]:
  assumes "St B ev \<sigma> b L A r s m" "lty L t = Some I32" "A a = V32 c x" "0 < unat len" "unat ofs + unat len \<le> 32" "8 \<le> b"
    and "\<And>s' m'. St B ev \<sigma> (b - 8) L (A(t := V32 (take_bit (unat len) (drop_bit (unat ofs) c)) (take_bit (unat len) (drop_bit (unat ofs) x)))) r s' m' \<Longrightarrow> Q s' m'"
  shows "runs B env Next s m (tcg_gen_extract_i32 H t a ofs len s) Q"
  unfolding tcg_gen_extract_i32_def
  by (insert assms,
    (erule vcg | rule runs_control runs_field | (simp (no_asm_simp) add: field_facts32 [OF assms(4,5)] del: aval.inject; fail) |
    (simp add: field_facts32 [OF assms(4,5)] del: aval.inject; fail) |
    (erule St_post, assumption; (simp add: field_facts32 [OF assms(4,5)] extract_words [where k = "unat ofs" and 'a = 32, simplified, OF assms(4,5)]; fail)))+)

lemma tcg_gen_sextract_i32 [vcg]:
  assumes "St B ev \<sigma> b L A r s m" "lty L t = Some I32" "A a = V32 c x" "0 < unat len" "unat ofs + unat len \<le> 32" "8 \<le> b"
    and "\<And>s' m'. St B ev \<sigma> (b - 8) L (A(t := V32 (signed_take_bit (unat len - 1) (drop_bit (unat ofs) c)) (signed_take_bit (unat len - 1) (drop_bit (unat ofs) x)))) r s' m' \<Longrightarrow> Q s' m'"
  shows "runs B env Next s m (tcg_gen_sextract_i32 H t a ofs len s) Q"
  unfolding tcg_gen_sextract_i32_def
  by (insert assms,
    (erule vcg | rule runs_control runs_field | (simp (no_asm_simp) add: field_facts32 [OF assms(4,5)] del: aval.inject; fail) |
    (simp add: field_facts32 [OF assms(4,5)] del: aval.inject; fail) |
    (erule St_post, assumption; (simp add: field_facts32 [OF assms(4,5)] sextract_words [where k = "unat ofs" and 'a = 32, simplified, OF assms(4,5)]
       sextract_signed [where k = "unat ofs" and n = "unat len" and 'a = 32]; fail)))+)

lemma deposit_result32:
  assumes "result B ev \<sigma> w1 e1 (V32 c x)" "result B ev \<sigma> w2 e2 (V32 d y)"
    and "0 < unat (len :: u32)" "unat (ofs :: u32) + unat len \<le> 32" "unat len < 32"
  shows "\<exists>w e. tci_deposit I32 w1 w2 (ucast ofs) (ucast len) = Some w \<and>
      sym_deposit_i32 B (ucast w1) e1 (ucast w2) e2 ofs len = Some e \<and>
      result B ev \<sigma> w e (V32 (deposit_word c (unat ofs) (unat len) d) (deposit_word x (unat ofs) (unat len) y))"
  using assms deposit32_correct [of e1 e2 ofs len c d] deposit_eq(1) [OF field_ok32 [OF assms(3,4)]]
  by (auto simp: tci_deposit_def shadow_result_def unat_eq_nat_uint [symmetric])

lemma deposit_op_i32 [vcg]:
  assumes "St B ev \<sigma> b L A r s m" "lty L t = Some I32" "A a1 = V32 c x" "A a2 = V32 d y"
    "A k = V32 ofs yk" "A n = V32 len yn" "0 < unat (len :: u32)" "unat (ofs :: u32) + unat len \<le> 32" "unat len < 32"
    and Q: "\<And>s' m'. St B ev \<sigma> b L (A(t := V32 (deposit_word c (unat ofs) (unat len) d) (deposit_word x (unat ofs) (unat len) y))) r s' m' \<Longrightarrow> Q s' m'"
  shows "runs B env Next s m (Option.bind (tcgv_i32_expr t s) (\<lambda>er. Option.bind (tcgv_i32_expr a1 s) (\<lambda>e1. Option.bind (tcgv_i32_expr a2 s) (\<lambda>e2.
        Option.bind (tcg_gen_callN (helper_sym_deposit I32) (Some er) [a1, e1, a2, e2, k, n] s)
          (tcg_gen_op5ii_v (INDEX_op_deposit I32) t a1 a2 (ucast ofs) (ucast len)))))) Q"
proof (rule runs_deposit [OF assms(1-4) _ _ assms(5,6) _ _ _ _ _ Q])
  fix w1 e1 w2 e2 wk ek wn en
  assume res: "result B ev \<sigma> w1 e1 (V32 c x)" "result B ev \<sigma> w2 e2 (V32 d y)"
    and "result B ev \<sigma> wk ek (V32 ofs yk)" "result B ev \<sigma> wn en (V32 len yn)"
  then have "ucast wk = ofs" "ucast wn = len" by simp_all
  then show "\<exists>w e. tci_deposit I32 w1 w2 (ucast ofs) (ucast len) = Some w \<and>
      (if I32 = I32 then sym_deposit_i32 B (ucast w1) e1 (ucast w2) e2 (ucast wk) (ucast wn) else sym_deposit_i64 B w1 e1 w2 e2 wk wn) = Some e \<and>
      result B ev \<sigma> w e (V32 (deposit_word c (unat ofs) (unat len) d) (deposit_word x (unat ofs) (unat len) y))"
    using deposit_result32 [OF res assms(7-9)] by (simp only: if_True refl)
qed simp_all

lemma extract2_result32:
  assumes "result B ev \<sigma> w1 e1 (V32 c x)" "result B ev \<sigma> w2 e2 (V32 d y)" "0 < unat (ofs :: u32)" "unat ofs < 32"
  shows "\<exists>w e. op_extract2 I32 w1 w2 (ucast ofs) = Some w \<and> sym_extract2_i32 B (ucast w2) e2 (ucast w1) e1 (ucast ofs) = Some e \<and>
      result B ev \<sigma> w e (V32 (extract2_word d c (unat ofs)) (extract2_word y x (unat ofs)))"
  using assms extract2_i32_correct [of e2 e1 "ucast ofs" d c]
  by (auto simp: op_extract2_def shadow_result_def extract2_word_def word_less_nat_alt)

lemma extract2_op_i32 [vcg]:
  assumes "St B ev \<sigma> b L A r s m" "lty L t = Some I32" "A al = V32 c x" "A ah = V32 d y"
    "A k = V64 (ucast ofs) yk" "0 < unat (ofs :: u32)" "unat ofs < 32"
    and Q: "\<And>s' m'. St B ev \<sigma> b L (A(t := V32 (extract2_word d c (unat ofs)) (extract2_word y x (unat ofs)))) r s' m' \<Longrightarrow> Q s' m'"
  shows "runs B env Next s m (Option.bind (tcgv_i32_expr t s) (\<lambda>er. Option.bind (tcgv_i32_expr ah s) (\<lambda>eh. Option.bind (tcgv_i32_expr al s) (\<lambda>el.
        Option.bind (tcg_gen_callN (helper_sym_extract2 I32) (Some er) [ah, eh, al, el, k] s)
          (tcg_gen_op4i_v (INDEX_op_extract2 I32) t al ah (ucast ofs)))))) Q"
proof (rule runs_extract2 [OF assms(1-4) _ _ assms(5) _ _ _ _ Q])
  fix w1 e1 w2 e2 wk ek
  assume res: "result B ev \<sigma> w1 e1 (V32 c x)" "result B ev \<sigma> w2 e2 (V32 d y)" and "result B ev \<sigma> wk ek (V64 (ucast ofs) yk)"
  then have "wk = ucast ofs" by simp
  then show "\<exists>w e. op_extract2 I32 w1 w2 (ucast ofs) = Some w \<and>
      (if I32 = I32 then sym_extract2_i32 B (ucast w2) e2 (ucast w1) e1 wk else sym_extract2_i64 B w2 e2 w1 e1 wk) = Some e \<and>
      result B ev \<sigma> w e (V32 (extract2_word d c (unat ofs)) (extract2_word y x (unat ofs)))"
    using extract2_result32 [OF res assms(6,7)] by (simp only: if_True refl)
qed simp_all

lemma extract2_native_i32:
  assumes "St B ev \<sigma> b L A r s m" "lty L t = Some I32" "A al = V32 c x" "A ah = V32 d y" "unat ofs \<le> 32" "12 \<le> b"
    and "\<And>s' m'. St B ev \<sigma> (b - 12) L (A(t := V32 (extract2_word d c (unat ofs)) (extract2_word y x (unat ofs)))) r s' m' \<Longrightarrow> Q s' m'"
    and "HAS_extract2 H I32"
  shows "runs B env Next s m (tcg_gen_extract2_i32 H t al ah ofs s) Q"
  unfolding tcg_gen_extract2_i32.simps
  by (insert assms extract2_facts32 [OF assms(5)],
    (erule vcg | rule runs_control | (simp (no_asm_simp) del: aval.inject; fail)  | (simp del: aval.inject; fail) |
    (erule St_post, assumption; (simp add: extract2_words32; fail)))+)

lemma tcg_gen_deposit_i32 [vcg]:
  assumes "St B ev \<sigma> b L A r s m" "lty L t = Some I32" "A a1 = V32 c x" "A a2 = V32 d y"
    "0 < unat len" "unat ofs + unat len \<le> 32" "26 \<le> b"
    and "\<And>s' m'. St B ev \<sigma> (b - 26) L (A(t := V32 (deposit_word c (unat ofs) (unat len) d) (deposit_word x (unat ofs) (unat len) y))) r s' m' \<Longrightarrow> Q s' m'"
  shows "runs B env Next s m (tcg_gen_deposit_i32 H t a1 a2 ofs len s) Q"
proof (cases "unat len = 32")
  case True
  then have "unat ofs = 0" using assms(6) by simp
  show ?thesis unfolding tcg_gen_deposit_i32.simps
    by (insert assms True \<open>unat ofs = 0\<close>,
      (erule vcg | rule runs_control runs_field | (simp (no_asm_simp) add: field_facts32 [OF assms(5,6)] del: aval.inject; fail)  | (simp add: field_facts32 [OF assms(5,6)] del: aval.inject; fail) |
      (erule St_post, assumption; (simp add: field_facts32 [OF assms(5,6)] deposit_words(5); fail)))+)
next
  case False
  then have n: "unat len < 32" using assms(6) by simp
  show ?thesis unfolding tcg_gen_deposit_i32.simps
    by (insert assms n,
      (erule vcg extract2_native_i32 | rule runs_control runs_field | (simp (no_asm_simp) add: field_facts32 [OF assms(5,6)] del: aval.inject; fail)  | (simp add: field_facts32 [OF assms(5,6)] del: aval.inject; fail) |
      (erule St_post, assumption; (simp add: field_facts32 [OF assms(5,6)] deposit_words32 [OF assms(5,6) n]; fail)))+)
qed

lemma tcg_gen_extract2_i32 [vcg]:
  assumes "St B ev \<sigma> b L A r s m" "lty L t = Some I32" "A al = V32 c x" "A ah = V32 d y" "unat ofs \<le> 32" "30 \<le> b"
    and "\<And>s' m'. St B ev \<sigma> (b - 30) L (A(t := V32 (extract2_word d c (unat ofs)) (extract2_word y x (unat ofs)))) r s' m' \<Longrightarrow> Q s' m'"
  shows "runs B env Next s m (tcg_gen_extract2_i32 H t al ah ofs s) Q"
  unfolding tcg_gen_extract2_i32.simps
  by (insert assms extract2_facts32 [OF assms(5)],
    (erule vcg | rule runs_control | (simp (no_asm_simp) del: aval.inject; fail)  | (simp del: aval.inject; fail) |
    (erule St_post, assumption; (simp add: extract2_words32; fail)))+)

lemma tcg_gen_deposit_z_i32 [vcg]:
  assumes "St B ev \<sigma> b L A r s m" "lty L t = Some I32" "A a = V32 c x" "0 < unat len" "unat ofs + unat len \<le> 32" "8 \<le> b"
    and "\<And>s' m'. St B ev \<sigma> (b - 8) L (A(t := V32 (push_bit (unat ofs) (take_bit (unat len) c)) (push_bit (unat ofs) (take_bit (unat len) x)))) r s' m' \<Longrightarrow> Q s' m'"
  shows "runs B env Next s m (tcg_gen_deposit_z_i32 H t a ofs len s) Q"
  unfolding tcg_gen_deposit_z_i32_def
  by (insert assms,
    (erule vcg | rule runs_control runs_field | (simp (no_asm_simp) add: field_facts32 [OF assms(4,5)] del: aval.inject; fail)  | (simp add: field_facts32 [OF assms(4,5)] del: aval.inject; fail) |
    (erule St_post, assumption; (simp add: field_facts32 [OF assms(4,5)] deposit_z_words32 [where k = "unat ofs" and n = "unat len"]; fail)))+)

lemma bswap_result32:
  assumes "result B ev \<sigma> w e1 (V32 c x)"
  shows "\<exists>e. run_sym_length B length_bswap e1 4 = Some e \<and> result B ev \<sigma> (ucast (bswap32 (ucast w))) e (V32 (bswap32 c) (bswap32 x))"
    and "\<exists>e. run_sym_length B length_bswap e1 2 = Some e \<and> shadow_result B ev e (push_bit 8 (take_bit 8 c) OR drop_bit 8 c)
      (\<lambda>\<sigma>. push_bit 8 (take_bit 8 (shadow_word ev \<sigma> c e1)) OR drop_bit 8 (shadow_word ev \<sigma> c e1))"
  using assms bswap4_correct [of e1 c] bswap2_correct [of e1 c]
  by (force simp: run_sym_length_def shadow_result_def)+

lemma bswap_op_i32 [vcg]:
  assumes "St B ev \<sigma> b L A r s m" "lty L t = Some I32" "A a = V32 c x" "2 \<le> b"
    and "\<And>s' m'. St B ev \<sigma> (b - 2) L (A(t := V32 (bswap32 c) (bswap32 x))) r s' m' \<Longrightarrow> Q s' m'"
  shows "runs B env Next s m (Option.bind (gen_helper_sym_length length_bswap t a 4 s) (tcg_gen_op3i_v (op_bswap INDEX_op_bswap32 I32) t a fl)) Q"
  by (rule length_op_i32(2) [OF assms(1-4) _ assms(5)], erule bswap_result32(1)) (simp_all add: tci_bswap_def fun_eq_iff)

lemma bswap16_op_i32 [vcg]:
  assumes "St B ev \<sigma> b L A r s m" "lty L t = Some I32" "A a = V32 c x" "2 \<le> b"
    "take_bit 16 c = c" "take_bit 16 x = x" "fl AND TCG_BSWAP_OS = 0"
    and Q: "\<And>s' m'. St B ev \<sigma> (b - 2) L (A(t := V32 (ucast (bswap16 (ucast c))) (ucast (bswap16 (ucast x))))) r s' m' \<Longrightarrow> Q s' m'"
  shows "runs B env Next s m (Option.bind (gen_helper_sym_length length_bswap t a 2 s) (tcg_gen_op3i_v (op_bswap INDEX_op_bswap16 I32) t a fl)) Q"
proof (rule length_op_i32(2) [OF assms(1-4) _ Q refl])
  fix w1 e1 assume r: "result B ev \<sigma> w1 e1 (V32 c x)"
  then have "ucast w1 = (ucast c :: u16)" by (metis result.simps(1) ucast_16_32)
  then show "\<exists>e. run_sym_length B length_bswap e1 2 = Some e \<and>
      result B ev \<sigma> (tci_bswap INDEX_op_bswap16 I32 w1 fl) e (V32 (ucast (bswap16 (ucast c))) (ucast (bswap16 (ucast x))))"
    using bswap_result32(2) [OF r] r assms(7) bswap16_word [OF assms(5)] bswap16_word [OF assms(6)]
    by (auto simp: tci_bswap_def shadow_result_def ucast_ucast_16)
qed

lemma tcg_gen_bswap16_i32 [vcg]:
  assumes "St B ev \<sigma> b L A r s m" "lty L t = Some I32" "A a = V32 c x" "16 \<le> b" "take_bit 16 c = c" "take_bit 16 x = x" "fl AND TCG_BSWAP_OS = 0" "fl AND TCG_BSWAP_OZ \<noteq> 0"
  shows "(\<And>s' m'. St B ev \<sigma> (b - 16) L (A(t := V32 (ucast (bswap16 (ucast c))) (ucast (bswap16 (ucast x))))) r s' m' \<Longrightarrow> Q s' m') \<Longrightarrow>
      runs B env Next s m (tcg_gen_bswap16_i32 H t a fl s) Q"
  unfolding tcg_gen_bswap16_i32_def
  by (insert assms, (erule vcg | rule runs_control | (simp (no_asm_simp) del: aval.inject; fail) | (simp del: aval.inject; fail) |
    (erule St_post, assumption; (simp add: take_bit_drop_bit bswap16_word [symmetric] or.commute; fail)))+)

lemma tcg_gen_bswap32_i32 [vcg]:
  assumes "St B ev \<sigma> b L A r s m" "lty L t = Some I32" "A a = V32 c x" "16 \<le> b"
    and "\<And>s' m'. St B ev \<sigma> (b - 16) L (A(t := V32 (bswap32 c) (bswap32 x))) r s' m' \<Longrightarrow> Q s' m'"
  shows "runs B env Next s m (tcg_gen_bswap32_i32 H t a s) Q"
  unfolding tcg_gen_bswap32_i32_def
  by (insert assms, (erule vcg | rule runs_control | (simp (no_asm_simp) del: aval.inject; fail) | (simp del: aval.inject; fail) |
    (erule St_post, assumption; (simp add: bswap32_blocks [simplified]; fail)))+)

lemma tcg_gen_hswap_i32 [vcg]:
  assumes "St B ev \<sigma> b L A r s m" "lty L t = Some I32" "A a = V32 c x" "10 \<le> b"
    and "\<And>s' m'. St B ev \<sigma> (b - 10) L (A(t := V32 (word_rotl 16 c) (word_rotl 16 x))) r s' m' \<Longrightarrow> Q s' m'"
  shows "runs B env Next s m (tcg_gen_hswap_i32 H t a s) Q"
  unfolding tcg_gen_hswap_i32_def
  by (insert assms, (erule vcg | rule runs_control | (simp (no_asm_simp) del: aval.inject; fail) | (simp del: aval.inject; fail) |
    (erule St_post, assumption; (simp; fail)))+)

lemma tcg_gen_abs_i32 [vcg]:
  assumes "St B ev \<sigma> b L A r s m" "lty L t = Some I32" "A a = V32 c x" "4 \<le> b"
  shows "(\<And>s' m'. St B ev \<sigma> (b - 4) L (A(t := V32 (if c <s 0 then - c else c) (if x <s 0 then - x else x))) r s' m' \<Longrightarrow> Q s' m') \<Longrightarrow>
      runs B env Next s m (tcg_gen_abs_i32 t a s) Q"
  unfolding tcg_gen_abs_i32_def
  by (insert assms, (erule vcg | rule runs_control | (simp (no_asm_simp) del: aval.inject; fail) | (simp del: aval.inject; fail) |
    (erule St_post, assumption; (simp add: abs_word [where 'a = 32, simplified]; fail)))+)

end

end
