(* ===== verification/Gen_Cond32.thy ===== *)
theory Gen_Cond32
  imports Gen_Correct32
begin

unbundle bit_operations_syntax

section \<open>Generators of 32-bit conditions, branches and compound operations: correctness\<close>

text \<open>
  The rules for 32-bit set on condition, branch on condition, compound logic and division.
\<close>

lemma number_call_i32:
  "run_helper_i32 h c d = Some k \<Longrightarrow> number_call B ev \<sigma> env (helper_i32 h) [V32 c x, V32 d y] (V32 k k)"
  "run_helper_i32 h c 0 = Some k \<Longrightarrow> number_call B ev \<sigma> env (helper_i32 h) [V32 c x] (V32 k k)"
  by (auto simp: number_call_def list_all2_Cons2 opsem arg32_def)

context sym_backend
begin

lemma setcond_result32:
  assumes "result B ev \<sigma> w1 e1 (V32 c x)" "result B ev \<sigma> w2 e2 (V32 d y)" "is_compare k"
  shows "\<exists>e r'. tci_setcond I32 w1 w2 (ucast k) = Some (cond_eval k c d) \<and>
      sym_setcond B env I32 w1 e1 w2 e2 (ucast k) (of_bool (cond_eval k c d)) r = Some (e, r') \<and>
      branched evb \<sigma> (cond_eval k c d) (cond_eval k x y) (get_pc env) r r' \<and>
      result B ev \<sigma> (of_bool (cond_eval k c d)) e (V32 (of_bool (cond_eval k c d)) (of_bool (cond_eval k x y)))"
proof -
  let ?t = "of_bool (cond_eval k c d) :: u64"
  have w: "ucast w1 = c" "ucast w2 = d" and typed: "shadow_typed B 32 e1" "shadow_typed B 32 e2"
    and xy: "shadow_word ev \<sigma> c e1 = x" "shadow_word ev \<sigma> d e2 = y" using assms(1,2) by auto
  have cmp: "tci_setcond I32 w1 w2 (ucast k) = Some (cond_eval k c d)"
    by (simp add: tci_setcond_def w cond_eval_compare [OF assms(3)])
  have taken: "(ucast ?t :: u8) \<noteq> 0 \<longleftrightarrow> cond_eval k c d" by simp
  show ?thesis
    using typed assms(3)
  proof (cases rule: setcond_correct [where n = 32 and ea = e1 and eb = e2 and c = k and env = env and a = c and b = d and taken = ?t and rt = r, simplified, consumes 3])
    case 1
    then show ?thesis using cmp xy w by (auto simp: sym_setcond_def sym_setcond_i32_def branched_same)
  next
    case (2 e s)
    have "evb \<sigma> s = cond_eval k x y" using 2(3) [of \<sigma>] cond_eval_compare [OF assms(3), of x y] xy by simp
    then have "result B ev \<sigma> ?t (Some e) (V32 (of_bool (cond_eval k c d)) (of_bool (cond_eval k x y)))"
      using 2(4) rep_shadow [OF 2(4) [of \<sigma>]] by (simp add: represents_def)
    moreover have "branched evb \<sigma> (cond_eval k c d) (cond_eval k x y) (get_pc env) r
        (sym_push_path_constraint s (cond_eval k c d) (get_pc env) r)"
      using \<open>evb \<sigma> s = _\<close> by (auto simp: branched_def sym_push_path_constraint_def)
    ultimately show ?thesis using 2(2) cmp w taken by (auto simp: sym_setcond_def sym_setcond_i32_def)
  qed
qed


lemma tcg_gen_setcond_i32 [vcg]:
  assumes "St B ev \<sigma> b L A r s m" "lty L t = Some I32" "A a1 = V32 c x" "A a2 = V32 d y" "t \<noteq> a1" "t \<noteq> a2" "is_cond k" "4 \<le> b"
    and Q: "\<And>r' s' m'. branched evb \<sigma> (cond_eval k c d) (cond_eval k x y) (get_pc env) r r' \<Longrightarrow>
      St B ev \<sigma> (b - 4) L (A(t := V32 (of_bool (cond_eval k c d)) (of_bool (cond_eval k x y)))) r' s' m' \<Longrightarrow> Q s' m'"
  shows "runs B env Next s m (tcg_gen_setcond_i32 k t a1 a2 s) Q"
proof -
  consider "k = TCG_COND_ALWAYS" | "k = TCG_COND_NEVER" | "is_compare k" "k \<noteq> TCG_COND_ALWAYS" "k \<noteq> TCG_COND_NEVER"
    using is_compareI [OF assms(7)] by blast
  then show ?thesis
  proof cases
    case 3
    have "2 \<le> b" using assms(8) by simp
    show ?thesis
      unfolding tcg_gen_setcond_i32_def if_not_P [OF 3(2)] if_not_P [OF 3(3)]
      by (rule runs_setcond [OF assms(1-4) _ _ assms(5,6) \<open>2 \<le> b\<close> setcond_result32 [OF _ _ 3(1)] ])
        (assumption | simp | (rule St_post_branched, erule (1) Q, assumption))+
  qed (auto simp: tcg_gen_setcond_i32_def branched_same intro!: tcg_gen_movi_i32 [OF assms(1,2,8)] Q)
qed

lemma tcg_gen_setcondi_i32 [vcg]:
  assumes "St B ev \<sigma> b L A r s m" "lty L t = Some I32" "A a = V32 c x" "t \<noteq> a" "is_cond k" "6 \<le> b"
    and Q: "\<And>r' s' m'. branched evb \<sigma> (cond_eval k c d) (cond_eval k x d) (get_pc env) r r' \<Longrightarrow>
      St B ev \<sigma> (b - 6) L (A(t := V32 (of_bool (cond_eval k c d)) (of_bool (cond_eval k x d)))) r' s' m' \<Longrightarrow> Q s' m'"
  shows "runs B env Next s m (tcg_gen_setcondi_i32 k t a d s) Q"
  unfolding tcg_gen_setcondi_i32_def
  by (insert assms, (erule vcg | rule runs_control | (simp (no_asm_simp) del: aval.inject; fail) | (simp del: aval.inject; fail) |
    (erule St_post_branched, assumption, assumption; (simp; fail)))+)

lemma tcg_gen_brcond_i32 [vcg]:
  assumes "St B ev \<sigma> b L A r s m" "A a1 = V32 c x" "A a2 = V32 d y" "is_cond k" "6 \<le> b"
    and Q: "\<And>r' s' m'. branched evb \<sigma> (cond_eval k c d) (cond_eval k x y) (get_pc env) r r' \<Longrightarrow>
      St B ev \<sigma> (b - 6) L A r' s' m' \<Longrightarrow> Q s' m'"
  shows "runs B env (if cond_eval k c d then Jump (of_nat l) else Next) s m (tcg_gen_brcond_i32 k a1 a2 l s) Q"
proof -
  consider "k = TCG_COND_ALWAYS" | "k = TCG_COND_NEVER" | "is_compare k" "k \<noteq> TCG_COND_ALWAYS" "k \<noteq> TCG_COND_NEVER"
    using is_compareI [OF assms(4)] by blast
  then show ?thesis
  proof cases
    case 3
    show ?thesis
      unfolding tcg_gen_brcond_i32_def if_not_P [OF 3(2)] if_P [OF 3(3)]
      by (insert assms cond_eval_compare [OF 3(1), of c d], (erule vcg runs_brcond | rule runs_bind | (simp (no_asm_simp) del: aval.inject; fail) | (simp add: tci_setcond_def; fail) |
        (erule St_post_branched, assumption, assumption; (simp; fail)))+)
  next
    case 1
    have "runs B env (Jump (of_nat l)) s m (tcg_gen_br l s) Q"
    proof (rule runs_br [OF assms(1)])
      fix s' assume st: "St B ev \<sigma> b L A r s' m"
      show "Q s' m" by (rule Q [of r], simp add: 1 branched_same, rule St_weaken [OF st]) simp_all
    qed
    then show ?thesis by (simp add: tcg_gen_brcond_i32_def 1)
  next
    case 2
    have "runs B env Next s m (Some s) Q"
      by (rule runs_return, rule Q [of r], simp add: 2 branched_same, rule St_weaken [OF assms(1)]) simp_all
    then show ?thesis by (simp add: tcg_gen_brcond_i32_def 2)
  qed
qed

lemma tcg_gen_brcondi_i32 [vcg]:
  assumes "St B ev \<sigma> b L A r s m" "A a = V32 c x" "is_cond k" "8 \<le> b"
    and Q: "\<And>r' s' m'. branched evb \<sigma> (cond_eval k c d) (cond_eval k x d) (get_pc env) r r' \<Longrightarrow> St B ev \<sigma> (b - 8) L A r' s' m' \<Longrightarrow> Q s' m'"
  shows "runs B env (if cond_eval k c d then Jump (of_nat l) else Next) s m (tcg_gen_brcondi_i32 k a d l s) Q"
proof -
  have "runs B env (if cond_eval k c d then Jump (of_nat l) else Next) s m
      (Option.bind (tcg_constant_i32 d s) (\<lambda>(c, s). tcg_gen_brcond_i32 k a c l s)) Q"
    by (insert assms, (erule vcg | rule runs_control | (simp (no_asm_simp) del: aval.inject; fail) | (simp del: aval.inject; fail) |
      (erule St_post_branched, assumption, assumption; (simp; fail)))+)
  moreover have "runs B env (Jump (of_nat l)) s m (tcg_gen_br l s) Q" if "k = TCG_COND_ALWAYS"
  proof (rule runs_br [OF assms(1)])
    fix s' assume st: "St B ev \<sigma> b L A r s' m"
    show "Q s' m" by (rule Q [of r], simp add: that branched_same, rule St_weaken [OF st]) simp_all
  qed
  moreover have "runs B env Next s m (Some s) Q" if "k = TCG_COND_NEVER"
    by (rule runs_return, rule Q [of r], simp add: that branched_same, rule St_weaken [OF assms(1)]) simp_all
  ultimately show ?thesis by (auto simp: tcg_gen_brcondi_i32_def)
qed

lemma tcg_gen_negsetcond_i32 [vcg]:
  assumes "St B ev \<sigma> b L A r s m" "lty L t = Some I32" "A a1 = V32 c x" "A a2 = V32 d y" "t \<noteq> a1" "t \<noteq> a2" "is_cond k" "4 \<le> b"
    "\<not> HAS_negsetcond H I32"
    and Q: "\<And>r' s' m'. branched evb \<sigma> (cond_eval k c d) (cond_eval k x y) (get_pc env) r r' \<Longrightarrow>
      St B ev \<sigma> (b - 4) L (A(t := V32 (- of_bool (cond_eval k c d)) (- of_bool (cond_eval k x y)))) r' s' m' \<Longrightarrow> Q s' m'"
  shows "runs B env Next s m (tcg_gen_negsetcond_i32 H k t a1 a2 s) Q"
proof -
  consider "k = TCG_COND_ALWAYS" | "k = TCG_COND_NEVER" | "k \<noteq> TCG_COND_ALWAYS" "k \<noteq> TCG_COND_NEVER" by blast
  then show ?thesis
  proof cases
    case 3
    show ?thesis
      unfolding tcg_gen_negsetcond_i32_def if_not_P [OF 3(1)] if_not_P [OF 3(2)] if_not_P [OF assms(9)]
    by (insert assms, (erule vcg | rule runs_control | (simp (no_asm_simp) del: aval.inject; fail) | (simp del: aval.inject; fail) |
    (erule St_post_branched, assumption, assumption; (simp; fail)))+)
  qed (auto simp: tcg_gen_negsetcond_i32_def branched_same intro!: tcg_gen_movi_i32 [OF assms(1,2,8)] Q)
qed

lemma shadow_i32:
  assumes "St B ev \<sigma> b L A r s m" "lty L t = Some I32" "A t = V32 c0 x0" "A a1 = V32 c x" "A a2 = V32 d y"
    "c0 = sym_helper_sem k c d" "sym_helper_defined k y"
    and Q: "\<And>s' m'. St B ev \<sigma> b L (A(t := V32 (sym_helper_sem k c d) (sym_helper_sem k x y))) r s' m' \<Longrightarrow> Q s' m'"
  shows "runs B env Next s m (SYM_HELPER_BINARY_32 k t a1 a2 s) Q"
proof (rule runs_shadow [OF assms(1-5) _ _ _ _ _ _ _ Q])
  fix w e0 w1 e1 w2 e2
  assume "result B ev \<sigma> w e0 (V32 c0 x0)" "result B ev \<sigma> w1 e1 (V32 c x)" "result B ev \<sigma> w2 e2 (V32 d y)"
  with binary_result32 [OF this(2,3) assms(7), of w] assms(6)
  show "\<exists>e. sym_binary B k I32 w1 e1 w2 e2 = Some e \<and> result B ev \<sigma> w e (V32 (sym_helper_sem k c d) (sym_helper_sem k x y))"
    by simp
qed simp_all

lemma tcg_gen_logic_i32 [vcg]:
  assumes "St B ev \<sigma> b L A r s m" "lty L t = Some I32" "A a1 = V32 c x" "A a2 = V32 d y" "t \<noteq> a1" "t \<noteq> a2" "8 \<le> b"
  shows "(\<And>s' m'. St B ev \<sigma> (b - 8) L (A(t := V32 (c AND NOT d) (x AND NOT y))) r s' m' \<Longrightarrow> Q s' m') \<Longrightarrow>
      runs B env Next s m (tcg_gen_andc_i32 H t a1 a2 s) Q"
    and "(\<And>s' m'. St B ev \<sigma> (b - 8) L (A(t := V32 (c OR NOT d) (x OR NOT y))) r s' m' \<Longrightarrow> Q s' m') \<Longrightarrow>
      runs B env Next s m (tcg_gen_orc_i32 H t a1 a2 s) Q"
    and "(\<And>s' m'. St B ev \<sigma> (b - 8) L (A(t := V32 (NOT (c XOR d)) (NOT (x XOR y)))) r s' m' \<Longrightarrow> Q s' m') \<Longrightarrow>
      runs B env Next s m (tcg_gen_eqv_i32 H t a1 a2 s) Q"
    and "(\<And>s' m'. St B ev \<sigma> (b - 8) L (A(t := V32 (NOT (c AND d)) (NOT (x AND y)))) r s' m' \<Longrightarrow> Q s' m') \<Longrightarrow>
      runs B env Next s m (tcg_gen_nand_i32 H t a1 a2 s) Q"
    and "(\<And>s' m'. St B ev \<sigma> (b - 8) L (A(t := V32 (NOT (c OR d)) (NOT (x OR y)))) r s' m' \<Longrightarrow> Q s' m') \<Longrightarrow>
      runs B env Next s m (tcg_gen_nor_i32 H t a1 a2 s) Q"
  unfolding tcg_gen_andc_i32_def tcg_gen_orc_i32_def tcg_gen_eqv_i32_def tcg_gen_nand_i32_def tcg_gen_nor_i32_def
  by (insert assms,
   (erule vcg runs_binary32(2) shadow_i32 | rule runs_bind_if runs_control | (simp (no_asm_simp) add: tci_rrr_def low_word_bits del: aval.inject; fail) | (simp del: aval.inject; fail) |
    (erule St_post, assumption; (simp; fail)))+)

lemma callN_i32 [vcg]:
  assumes "St B ev \<sigma> b L A r s m" "lty L t = Some I32" "A a1 = V32 c x" "2 \<le> b"
    and Q: "\<And>s' m'. St B ev \<sigma> (b - 2) L (A(t := V32 k k)) r s' m' \<Longrightarrow> Q s' m'"
  shows "A a2 = V32 d y \<Longrightarrow> run_helper_i32 h c d = Some k \<Longrightarrow> runs B env Next s m (tcg_gen_callN (helper_i32 h) (Some t) [a1, a2] s) Q"
    and "run_helper_i32 h c 0 = Some k \<Longrightarrow> runs B env Next s m (tcg_gen_callN (helper_i32 h) (Some t) [a1] s) Q"
  using assms(3) by (auto intro!: runs_callN_number [OF assms(1,2,4) _ _ _ Q] number_call_i32)


lemma tcg_gen_div_i32 [vcg]:
  assumes "St B ev \<sigma> b L A r s m" "lty L t = Some I32" "A a1 = V32 c x" "A a2 = V32 d y" "t \<noteq> a1" "t \<noteq> a2"
    "c_sdiv c d = Some k" "y \<noteq> 0" "2 \<le> b" "HAS_div H I32 \<or> \<not> HAS_div H I32 \<and> \<not> HAS_div2 H I32"
    and "\<And>s' m'. St B ev \<sigma> (b - 2) L (A(t := V32 k (sym_helper_sem sym_div x y))) r s' m' \<Longrightarrow> Q s' m'"
  shows "runs B env Next s m (tcg_gen_div_i32 H t a1 a2 s) Q"
  unfolding tcg_gen_div_i32_def
  by (insert assms, (elim disjE conjE)?,
    (erule (1) notE | erule callN_i32(1) runs_binary32(2) shadow_i32 | rule runs_bind_if runs_control |
    (simp (no_asm_simp) add: tci_rrr_def tci_rrr_32_def run_helper_i32_def c_div_defined(1) [OF assms(7), symmetric] del: aval.inject sym_helper_sem.simps; fail) |
    (erule St_post, assumption; (simp (no_asm_simp) add: c_div_defined(1) [OF assms(7)]; fail)))+)

lemma tcg_gen_rem_i32 [vcg]:
  assumes "St B ev \<sigma> b L A r s m" "lty L t = Some I32" "A a1 = V32 c x" "A a2 = V32 d y" "t \<noteq> a1" "t \<noteq> a2"
    "c_smod c d = Some k" "y \<noteq> 0" "2 \<le> b" "HAS_rem H I32 \<or> \<not> HAS_rem H I32 \<and> \<not> HAS_div H I32 \<and> \<not> HAS_div2 H I32"
    and "\<And>s' m'. St B ev \<sigma> (b - 2) L (A(t := V32 k (sym_helper_sem sym_rem x y))) r s' m' \<Longrightarrow> Q s' m'"
  shows "runs B env Next s m (tcg_gen_rem_i32 H t a1 a2 s) Q"
  unfolding tcg_gen_rem_i32_def
  by (insert assms, (elim disjE conjE)?,
    (erule (1) notE | erule callN_i32(1) runs_binary32(2) shadow_i32 | rule runs_bind_if runs_control |
    (simp (no_asm_simp) add: tci_rrr_def tci_rrr_32_def run_helper_i32_def c_div_defined(2) [OF assms(7), symmetric] del: aval.inject sym_helper_sem.simps; fail) |
    (erule St_post, assumption; (simp (no_asm_simp) add: c_div_defined(2) [OF assms(7)]; fail)))+)

lemma tcg_gen_divu_i32 [vcg]:
  assumes "St B ev \<sigma> b L A r s m" "lty L t = Some I32" "A a1 = V32 c x" "A a2 = V32 d y" "t \<noteq> a1" "t \<noteq> a2"
    "c_udiv c d = Some k" "y \<noteq> 0" "2 \<le> b" "HAS_div H I32 \<or> \<not> HAS_div H I32 \<and> \<not> HAS_div2 H I32"
    and "\<And>s' m'. St B ev \<sigma> (b - 2) L (A(t := V32 k (sym_helper_sem sym_divu x y))) r s' m' \<Longrightarrow> Q s' m'"
  shows "runs B env Next s m (tcg_gen_divu_i32 H t a1 a2 s) Q"
  unfolding tcg_gen_divu_i32_def
  by (insert assms, (elim disjE conjE)?,
    (erule (1) notE | erule callN_i32(1) runs_binary32(2) shadow_i32 | rule runs_bind_if runs_control |
    (simp (no_asm_simp) add: tci_rrr_def tci_rrr_32_def run_helper_i32_def c_div_defined(3) [OF assms(7), symmetric] del: aval.inject sym_helper_sem.simps; fail) |
    (erule St_post, assumption; (simp (no_asm_simp) add: c_div_defined(3) [OF assms(7)]; fail)))+)

lemma tcg_gen_remu_i32 [vcg]:
  assumes "St B ev \<sigma> b L A r s m" "lty L t = Some I32" "A a1 = V32 c x" "A a2 = V32 d y" "t \<noteq> a1" "t \<noteq> a2"
    "c_umod c d = Some k" "y \<noteq> 0" "2 \<le> b" "HAS_rem H I32 \<or> \<not> HAS_rem H I32 \<and> \<not> HAS_div H I32 \<and> \<not> HAS_div2 H I32"
    and "\<And>s' m'. St B ev \<sigma> (b - 2) L (A(t := V32 k (sym_helper_sem sym_remu x y))) r s' m' \<Longrightarrow> Q s' m'"
  shows "runs B env Next s m (tcg_gen_remu_i32 H t a1 a2 s) Q"
  unfolding tcg_gen_remu_i32_def
  by (insert assms, (elim disjE conjE)?,
    (erule (1) notE | erule callN_i32(1) runs_binary32(2) shadow_i32 | rule runs_bind_if runs_control |
    (simp (no_asm_simp) add: tci_rrr_def tci_rrr_32_def run_helper_i32_def c_div_defined(4) [OF assms(7), symmetric] del: aval.inject sym_helper_sem.simps; fail) |
    (erule St_post, assumption; (simp (no_asm_simp) add: c_div_defined(4) [OF assms(7)]; fail)))+)

end

end
