(* ===== verification/Gen_Block.thy ===== *)
theory Gen_Block
  imports Gen_Cond32
begin

unbundle bit_operations_syntax

section \<open>Blocks of instructions\<close>

text \<open>
  A front end translates a guest instruction by calling generators one after the other. \<open>insn\<close> lists calls
  of 64-bit generators, \<open>gen_insns\<close> makes them in order and \<open>gen_block\<close> ends with a conditional branch.
  \<open>ref_insn\<close> is what an instruction means on a register file, and \<open>ref_conds\<close> the outcomes of the conditions
  that a sequence evaluates. The code that a block generates refines this meaning twice: on the concrete
  registers, and on the registers that another input would have led to.
\<close>

declare tcg_gen_andi_i64.simps [simp del] tcg_gen_ext8u_i64.simps [simp del] tcg_gen_ext16u_i64.simps [simp del]
  tcg_gen_ext32u_i64.simps [simp del] tcg_gen_deposit_i64.simps [simp del] tcg_gen_extract2_i64.simps [simp del]

datatype insn =
    Movi TCGv u64 | Mov TCGv TCGv | Add TCGv TCGv TCGv | Sub TCGv TCGv TCGv | Mul TCGv TCGv TCGv
  | And TCGv TCGv TCGv | Or TCGv TCGv TCGv | Xor TCGv TCGv TCGv | Neg TCGv TCGv | Not TCGv TCGv
  | Addi TCGv TCGv u64 | Andi TCGv TCGv u64 | Shli TCGv TCGv u64 | Shri TCGv TCGv u64 | Sari TCGv TCGv u64
  | Rotli TCGv TCGv u64 | Ext32s TCGv TCGv | Bswap64 TCGv TCGv | Extract TCGv TCGv u32 u32
  | Deposit TCGv TCGv TCGv u32 u32 | Ext32u TCGv TCGv | Andc TCGv TCGv TCGv
  | Setcond TCGCond TCGv TCGv TCGv

fun gen_insn :: "tcg_host \<Rightarrow> insn \<Rightarrow> ctx \<Rightarrow> ctx option" where
  "gen_insn H (Movi d k) = tcg_gen_movi_i64 d k"
| "gen_insn H (Mov d a) = tcg_gen_mov_i64 d a"
| "gen_insn H (Add d a b) = tcg_gen_add_i64 d a b"
| "gen_insn H (Sub d a b) = tcg_gen_sub_i64 d a b"
| "gen_insn H (Mul d a b) = tcg_gen_mul_i64 d a b"
| "gen_insn H (And d a b) = tcg_gen_and_i64 d a b"
| "gen_insn H (Or d a b) = tcg_gen_or_i64 d a b"
| "gen_insn H (Xor d a b) = tcg_gen_xor_i64 d a b"
| "gen_insn H (Neg d a) = tcg_gen_neg_i64 d a"
| "gen_insn H (Not d a) = tcg_gen_not_i64 H d a"
| "gen_insn H (Addi d a k) = tcg_gen_addi_i64 d a k"
| "gen_insn H (Andi d a k) = tcg_gen_andi_i64 H d a k"
| "gen_insn H (Shli d a k) = tcg_gen_shli_i64 d a k"
| "gen_insn H (Shri d a k) = tcg_gen_shri_i64 d a k"
| "gen_insn H (Sari d a k) = tcg_gen_sari_i64 d a k"
| "gen_insn H (Rotli d a k) = tcg_gen_rotli_i64 H d a k"
| "gen_insn H (Ext32s d a) = tcg_gen_ext32s_i64 H d a"
| "gen_insn H (Bswap64 d a) = tcg_gen_bswap64_i64 H d a"
| "gen_insn H (Extract d a ofs len) = tcg_gen_extract_i64 H d a ofs len"
| "gen_insn H (Deposit d a b ofs len) = tcg_gen_deposit_i64 H d a b ofs len"
| "gen_insn H (Ext32u d a) = tcg_gen_ext32u_i64 H d a"
| "gen_insn H (Andc d a b) = tcg_gen_andc_i64 H d a b"
| "gen_insn H (Setcond k d a b) = tcg_gen_setcond_i64 k d a b"

fun gen_insns :: "tcg_host \<Rightarrow> insn list \<Rightarrow> ctx \<Rightarrow> ctx option" where
  "gen_insns H [] s = Some s"
| "gen_insns H (i # is) s = Option.bind (gen_insn H i s) (gen_insns H is)"

type_synonym regs = "TCGv \<Rightarrow> u64"

fun ref_insn :: "insn \<Rightarrow> regs \<Rightarrow> regs" where
  "ref_insn (Movi d k) R = R(d := k)"
| "ref_insn (Mov d a) R = R(d := R a)"
| "ref_insn (Add d a b) R = R(d := R a + R b)"
| "ref_insn (Sub d a b) R = R(d := R a - R b)"
| "ref_insn (Mul d a b) R = R(d := R a * R b)"
| "ref_insn (And d a b) R = R(d := R a AND R b)"
| "ref_insn (Or d a b) R = R(d := R a OR R b)"
| "ref_insn (Xor d a b) R = R(d := R a XOR R b)"
| "ref_insn (Neg d a) R = R(d := - R a)"
| "ref_insn (Not d a) R = R(d := NOT (R a))"
| "ref_insn (Addi d a k) R = R(d := R a + k)"
| "ref_insn (Andi d a k) R = R(d := R a AND k)"
| "ref_insn (Shli d a k) R = R(d := push_bit (unat k) (R a))"
| "ref_insn (Shri d a k) R = R(d := drop_bit (unat k) (R a))"
| "ref_insn (Sari d a k) R = R(d := signed_drop_bit (unat k) (R a))"
| "ref_insn (Rotli d a k) R = R(d := word_rotl (unat k) (R a))"
| "ref_insn (Ext32s d a) R = R(d := signed_take_bit 31 (R a))"
| "ref_insn (Bswap64 d a) R = R(d := bswap64 (R a))"
| "ref_insn (Extract d a ofs len) R = R(d := take_bit (unat len) (drop_bit (unat ofs) (R a)))"
| "ref_insn (Deposit d a b ofs len) R = R(d := deposit_word (R a) (unat ofs) (unat len) (R b))"
| "ref_insn (Ext32u d a) R = R(d := take_bit 32 (R a))"
| "ref_insn (Andc d a b) R = R(d := R a AND NOT (R b))"
| "ref_insn (Setcond k d a b) R = R(d := of_bool (cond_eval k (R a) (R b)))"

fun ref_conds :: "insn list \<Rightarrow> regs \<Rightarrow> bool list" where
  "ref_conds [] R = []"
| "ref_conds (Setcond k d a b # is) R = cond_eval k (R a) (R b) # ref_conds is (ref_insn (Setcond k d a b) R)"
| "ref_conds (i # is) R = ref_conds is (ref_insn i R)"

fun insn_regs :: "insn \<Rightarrow> TCGv list" where
  "insn_regs (Movi d k) = [d]"
| "insn_regs (Mov d a) = [d, a]"
| "insn_regs (Add d a b) = [d, a, b]"
| "insn_regs (Sub d a b) = [d, a, b]"
| "insn_regs (Mul d a b) = [d, a, b]"
| "insn_regs (And d a b) = [d, a, b]"
| "insn_regs (Or d a b) = [d, a, b]"
| "insn_regs (Xor d a b) = [d, a, b]"
| "insn_regs (Neg d a) = [d, a]"
| "insn_regs (Not d a) = [d, a]"
| "insn_regs (Addi d a k) = [d, a]"
| "insn_regs (Andi d a k) = [d, a]"
| "insn_regs (Shli d a k) = [d, a]"
| "insn_regs (Shri d a k) = [d, a]"
| "insn_regs (Sari d a k) = [d, a]"
| "insn_regs (Rotli d a k) = [d, a]"
| "insn_regs (Ext32s d a) = [d, a]"
| "insn_regs (Bswap64 d a) = [d, a]"
| "insn_regs (Extract d a ofs len) = [d, a]"
| "insn_regs (Deposit d a b ofs len) = [d, a, b]"
| "insn_regs (Ext32u d a) = [d, a]"
| "insn_regs (Andc d a b) = [d, a, b]"
| "insn_regs (Setcond k d a b) = [d, a, b]"

fun insn_ok :: "insn \<Rightarrow> bool" where
  "insn_ok (Shli d a k) = (unat k < 64)"
| "insn_ok (Shri d a k) = (unat k < 64)"
| "insn_ok (Sari d a k) = (unat k < 64)"
| "insn_ok (Rotli d a k) = (unat k < 64)"
| "insn_ok (Extract d a ofs len) = (0 < unat len \<and> unat ofs + unat len \<le> 64)"
| "insn_ok (Deposit d a b ofs len) = (0 < unat len \<and> unat ofs + unat len \<le> 64)"
| "insn_ok (Andc d a b) = (d \<noteq> a \<and> d \<noteq> b)"
| "insn_ok (Setcond k d a b) = (is_cond k \<and> d \<noteq> a \<and> d \<noteq> b)"
| "insn_ok _ = True"

fun insn_temps :: "insn \<Rightarrow> nat" where
  "insn_temps (Rotli d a k) = 8"
| "insn_temps (Ext32s d a) = 4"
| "insn_temps (Bswap64 d a) = 22"
| "insn_temps (Extract d a ofs len) = 4"
| "insn_temps (Deposit d a b ofs len) = 18"
| "insn_temps (Andc d a b) = 4"
| "insn_temps _ = 2"

definition lockstep :: "TCGv set \<Rightarrow> regs \<Rightarrow> regs \<Rightarrow> TCGv \<Rightarrow> aval" where
  "lockstep D C X t = (if t \<in> D then V64 (C t) (X t) else Unk)"

lemma lockstep_in: "t \<in> D \<Longrightarrow> lockstep D C X t = V64 (C t) (X t)"
  by (simp add: lockstep_def)

lemma lockstep_upd: "t \<in> D \<Longrightarrow> (lockstep D C X)(t := V64 c x) = lockstep D (C(t := c)) (X(t := x))"
  by (auto simp: lockstep_def)

lemma follows_branched:
  "branched evb \<sigma> c x pc r r' \<Longrightarrow> follows evb \<sigma> r' \<longleftrightarrow> follows evb \<sigma> r \<and> c = x"
  using branched_follows by fastforce

lemma ref_conds_Cons: "ref_conds (i # is) C = ref_conds (i # is) X \<longleftrightarrow>
    ref_conds [i] C = ref_conds [i] X \<and> ref_conds is (ref_insn i C) = ref_conds is (ref_insn i X)"
  by (cases i) auto

definition gen_block :: "tcg_host \<Rightarrow> insn list \<Rightarrow> TCGCond \<Rightarrow> TCGv \<Rightarrow> TCGv \<Rightarrow> nat \<Rightarrow> ctx \<Rightarrow> ctx option" where
  "gen_block H is k a c l s = Option.bind (gen_insns H is s) (tcg_gen_brcond_i64 k a c l)"

definition block_conds :: "insn list \<Rightarrow> TCGCond \<Rightarrow> TCGv \<Rightarrow> TCGv \<Rightarrow> regs \<Rightarrow> bool list" where
  "block_conds is k a c R = ref_conds is R @ [let R' = fold ref_insn is R in cond_eval k (R' a) (R' c)]"

context sym_backend
begin

lemma runs_insn:
  assumes st: "St B ev \<sigma> b L (lockstep D C X) r s m" and D: "\<forall>t \<in> D. lty L t = Some I64"
    and ok: "set (insn_regs i) \<subseteq> D" "insn_ok i" "insn_temps i \<le> b"
    and Q: "\<And>r' s' m'. (follows evb \<sigma> r' \<longleftrightarrow> follows evb \<sigma> r \<and> ref_conds [i] C = ref_conds [i] X) \<Longrightarrow>
      St B ev \<sigma> (b - insn_temps i) L (lockstep D (ref_insn i C) (ref_insn i X)) r' s' m' \<Longrightarrow> Q s' m'"
  shows "runs B env Next s m (gen_insn H i s) Q"
proof (cases i)
  case (Setcond k d a c)
  show ?thesis
    unfolding Setcond gen_insn.simps
    by (rule tcg_gen_setcond_i64 [OF st], insert ok D, (simp add: Setcond lockstep_in)+, rule Q)
      (simp_all add: Setcond follows_branched lockstep_upd)
qed (insert Q [of r] st D ok, simp_all, (erule vcg | (simp (no_asm_simp) add: lockstep_in del: aval.inject; fail) | (simp add: lockstep_in del: aval.inject; fail) | (erule St_post, assumption; (simp add: lockstep_upd; fail)))+)

lemma runs_insns:
  assumes "St B ev \<sigma> b L (lockstep D C X) r s m" and D: "\<forall>t \<in> D. lty L t = Some I64"
    and "\<forall>i \<in> set is. set (insn_regs i) \<subseteq> D \<and> insn_ok i" "sum_list (map insn_temps is) \<le> b"
    and "\<And>r' s' m'. (follows evb \<sigma> r' \<longleftrightarrow> follows evb \<sigma> r \<and> ref_conds is C = ref_conds is X) \<Longrightarrow>
      St B ev \<sigma> (b - sum_list (map insn_temps is)) L (lockstep D (fold ref_insn is C) (fold ref_insn is X)) r' s' m' \<Longrightarrow> Q s' m'"
  shows "runs B env Next s m (gen_insns H is s) Q"
  using assms(1,3-5)
proof (induction "is" arbitrary: b C X r s m)
  case Nil
  then show ?case by (auto intro!: runs_return)
next
  case (Cons i "is")
  show ?case
    unfolding gen_insns.simps
  proof (rule runs_bind, rule runs_insn [OF Cons.prems(1) D])
    fix r' s' m'
    assume f: "follows evb \<sigma> r' \<longleftrightarrow> follows evb \<sigma> r \<and> ref_conds [i] C = ref_conds [i] X"
      and st: "St B ev \<sigma> (b - insn_temps i) L (lockstep D (ref_insn i C) (ref_insn i X)) r' s' m'"
    show "runs B env Next s' m' (gen_insns H is s') Q"
      by (rule Cons.IH [OF st], use Cons.prems(2) in simp, use Cons.prems(3) in simp, rule Cons.prems(4))
        (simp_all add: f ref_conds_Cons [of i "is" C X] diff_diff_left)
  qed (use Cons.prems in auto)
qed

lemma runs_block:
  assumes "St B ev \<sigma> b L (lockstep D C X) r s m" and D: "\<forall>t \<in> D. lty L t = Some I64"
    and i: "\<forall>i \<in> set is. set (insn_regs i) \<subseteq> D \<and> insn_ok i" and k: "is_cond k" "a \<in> D" "c \<in> D"
    and b: "sum_list (map insn_temps is) + 4 \<le> b"
  shows "runs B env (if last (block_conds is k a c C) then Jump (of_nat l) else Next) s m (gen_block H is k a c l s)
    (\<lambda>s' m'. \<exists>r'. (follows evb \<sigma> r' \<longleftrightarrow> follows evb \<sigma> r \<and> block_conds is k a c C = block_conds is k a c X) \<and>
      St B ev \<sigma> (b - (sum_list (map insn_temps is) + 4)) L (lockstep D (fold ref_insn is C) (fold ref_insn is X)) r' s' m')"
  unfolding gen_block_def
proof (rule runs_bind, rule runs_insns [OF assms(1) D i])
  let ?C = "fold ref_insn is C" and ?X = "fold ref_insn is X"
  fix r1 s1 m1
  assume f: "follows evb \<sigma> r1 \<longleftrightarrow> follows evb \<sigma> r \<and> ref_conds is C = ref_conds is X"
    and st: "St B ev \<sigma> (b - sum_list (map insn_temps is)) L (lockstep D ?C ?X) r1 s1 m1"
  have flow: "last (block_conds is k a c C) = cond_eval k (?C a) (?C c)" by (simp add: block_conds_def Let_def)
  show "runs B env (if last (block_conds is k a c C) then Jump (of_nat l) else Next) s1 m1 (tcg_gen_brcond_i64 k a c l s1)
    (\<lambda>s' m'. \<exists>r'. (follows evb \<sigma> r' \<longleftrightarrow> follows evb \<sigma> r \<and> block_conds is k a c C = block_conds is k a c X) \<and>
      St B ev \<sigma> (b - (sum_list (map insn_temps is) + 4)) L (lockstep D ?C ?X) r' s' m')"
    unfolding flow
  proof (rule tcg_gen_brcond_i64 [OF st lockstep_in [OF k(2)] lockstep_in [OF k(3)] k(1)], use b in simp)
    fix r' s' m'
    assume br: "branched evb \<sigma> (cond_eval k (?C a) (?C c)) (cond_eval k (?X a) (?X c)) (get_pc env) r1 r'"
      and st': "St B ev \<sigma> (b - sum_list (map insn_temps is) - 4) L (lockstep D ?C ?X) r' s' m'"
    have "follows evb \<sigma> r' \<longleftrightarrow> follows evb \<sigma> r \<and> block_conds is k a c C = block_conds is k a c X"
      using follows_branched [OF br] f by (auto simp: block_conds_def Let_def)
    then show "\<exists>r'. (follows evb \<sigma> r' \<longleftrightarrow> follows evb \<sigma> r \<and> block_conds is k a c C = block_conds is k a c X) \<and>
      St B ev \<sigma> (b - (sum_list (map insn_temps is) + 4)) L (lockstep D ?C ?X) r' s' m'"
      using st' by (auto simp: diff_diff_left)
  qed
qed (use b in simp)

end

end
