(* ===== verification/Gen_Demo.thy ===== *)
theory Gen_Demo
  imports Gen_Block
begin

unbundle bit_operations_syntax

section \<open>A sample translation context\<close>

text \<open>
  A context with four writable temporaries of 64 bits (2, 4, 6, 8) and four of 32 bits (10, 12, 14, 16), and
  a machine in which 2 and 10 hold 5 and are symbolic, 4 and 12 hold 3 and are not. At the input \<open>demo_input\<close>, which
  supplies 9 everywhere, the two symbolic temporaries evaluate to 9. \<open>demo_St\<close> says so in the terms of the program
  logic; the instances of the theorems on generators start from it.
\<close>

declare tcg_gen_andi_i32.simps [simp del] tcg_gen_ext8u_i32.simps [simp del] tcg_gen_ext16u_i32.simps [simp del]
  tcg_gen_deposit_i32.simps [simp del] tcg_gen_extract2_i32.simps [simp del]

definition demo_pair :: "TCGType \<Rightarrow> TCGTemp list" where
  "demo_pair ty = [zero_temp\<lparr>base_type := ty, temp_type := ty, kind := TEMP_TB, temp_allocated := True\<rparr>,
     zero_temp\<lparr>base_type := TCG_TYPE_PTR, temp_type := TCG_TYPE_PTR, kind := TEMP_TB, temp_allocated := True,
       symbolic_expression := True\<rparr>]"

definition demo_ctx :: ctx where
  "demo_ctx = \<lparr>temps = demo_pair I64 @ demo_pair I64 @ demo_pair I64 @ demo_pair I64 @ demo_pair I64 @
       demo_pair I32 @ demo_pair I32 @ demo_pair I32 @ demo_pair I32,
     nb_globals = 2, nb_indirects = 0, free_temps = \<lambda>_ _. False,
     const_table = \<lambda>_ _. None, tcg_ops = [], nb_labels = 0, label_present = \<lambda>_. False,
     label_uses = \<lambda>_. [], goto_tb_issue_mask = 0, gen_tb_cflags = 0\<rparr>"

definition demo_env :: CPUArchState where
  "demo_env = \<lparr>cpu_get_tb_cpu_state = (0x400000, 0, 0), tlb_vaddr_to_host = (\<lambda>a _ _. a)\<rparr>"

definition demo_rt :: "(sexpr, smem) rt" where
  "demo_rt = \<lparr>rt_path = [], rt_shadow = (\<lambda>_. None), rt_mem = (\<lambda>_. 0), rt_events = []\<rparr>"

definition demo_machine :: "(sexpr, smem) machine" where
  "demo_machine = \<lparr>slots = (\<lambda>_. Num 0)(2 := Num 5, 3 := Ptr (SInput 0 64), 4 := Num 3, 10 := Num 5, 11 := Ptr (SInput 1 32), 12 := Num 3),
     mrt = demo_rt\<rparr>"

definition demo_input :: "nat \<Rightarrow> int" where
  "demo_input = (\<lambda>_. 9)"

definition demo_regs :: "nat \<Rightarrow> (TCGType \<times> bool) option" where
  "demo_regs = [2 \<mapsto> (I64, True), 4 \<mapsto> (I64, True), 6 \<mapsto> (I64, True), 8 \<mapsto> (I64, True),
     10 \<mapsto> (I32, True), 12 \<mapsto> (I32, True), 14 \<mapsto> (I32, True), 16 \<mapsto> (I32, True)]"

definition demo_vals :: "nat \<Rightarrow> aval" where
  "demo_vals = (\<lambda>_. Unk)(2 := V64 5 9, 4 := V64 3 3, 6 := V64 0 0, 8 := V64 0 0, 10 := V32 5 9, 12 := V32 3 3, 14 := V32 0 0, 16 := V32 0 0)"

lemma demo_temps:
  "nb_temps demo_ctx = 18" "i < 9 \<Longrightarrow> temps demo_ctx ! (2 * i) = demo_pair (if i < 5 then I64 else I32) ! 0"
  "i < 9 \<Longrightarrow> temps demo_ctx ! (2 * i + 1) = demo_pair I64 ! 1"
proof -
  show "nb_temps demo_ctx = 18" by (simp add: demo_ctx_def demo_pair_def)
  assume "i < 9"
  then have "i \<in> set [0..<9]" by simp
  then show "temps demo_ctx ! (2 * i) = demo_pair (if i < 5 then I64 else I32) ! 0" "temps demo_ctx ! (2 * i + 1) = demo_pair I64 ! 1"
    by (simp_all add: upt_rec demo_ctx_def demo_pair_def; elim disjE; simp)+
qed

lemma demo_live: "i < 9 \<Longrightarrow> temp_live demo_ctx (2 * i) (if i < 5 then I64 else I32)" "i < 9 \<Longrightarrow> kind (temps demo_ctx ! (2 * i)) = TEMP_TB"
  using demo_temps(1) demo_temps(2,3) [of i] by (simp_all add: temp_live_def temp_pair_def demo_pair_def)

lemma demo_wf: "wf_temps demo_ctx"
proof -
  have "temp_pair demo_ctx i" if "i < 18" "\<not> symbolic_expression (temps demo_ctx ! i)" for i
  proof (cases "even i")
    case True
    then show ?thesis using demo_live(1) [of "i div 2"] that(1) by (simp add: temp_live_def)
  next
    case False
    then have "i = 2 * (i div 2) + 1" by simp
    then have "symbolic_expression (temps demo_ctx ! i)" using demo_temps(3) [of "i div 2"] that(1) by (simp add: demo_pair_def)
    then show ?thesis using that(2) by simp
  qed
  then show ?thesis
    by (auto simp: wf_temps_def demo_temps(1) TCG_MAX_TEMPS_def) (simp_all add: demo_ctx_def)
qed

lemma demo_stands:
  assumes "i < 9" "slots demo_machine (2 * i) = Num w" "slots demo_machine (2 * i + 1) = expr_val e"
    and "result term_backend sval demo_input w e v" "vty v = (if i < 5 then I64 else I32)"
  shows "stands term_backend sval demo_input demo_ctx demo_machine (2 * i) v"
  using demo_live [OF assms(1)] assms demo_temps(2,3) [OF assms(1)]
  by (intro standsI [OF _ _ _ assms(4)]) (auto simp: tnum_def texpr_def targ_def arg64_def argp_def demo_pair_def)

lemma demo_writable: "i < 9 \<Longrightarrow> writable demo_ctx (2 * i) (if i < 5 then I64 else I32, True)"
  using demo_live [of i] by (simp add: writable_def)

lemma demo_St: "St term_backend sval demo_input 400 demo_regs demo_vals demo_rt demo_ctx demo_machine"
proof -
  have "stands term_backend sval demo_input demo_ctx demo_machine t (demo_vals t)" for t
  proof -
    consider "t = 2" | "t = 4" | "t = 6" | "t = 8" | "t = 10" | "t = 12" | "t = 14" | "t = 16" | "demo_vals t = Unk"
      by (cases "t \<in> {2, 4, 6, 8, 10, 12, 14, 16}") (auto simp: demo_vals_def)
    then show ?thesis
    proof cases
      case 1 show ?thesis unfolding 1 using demo_stands [of 1 5 "Some (SInput 0 64)"] by (simp add: demo_vals_def demo_machine_def expr_val_def sym_width_def demo_input_def)
    next
      case 2 show ?thesis unfolding 2 using demo_stands [of 2 3 None] by (simp add: demo_vals_def demo_machine_def expr_val_def)
    next
      case 3 show ?thesis unfolding 3 using demo_stands [of 3 0 None] by (simp add: demo_vals_def demo_machine_def expr_val_def)
    next
      case 4 show ?thesis unfolding 4 using demo_stands [of 4 0 None] by (simp add: demo_vals_def demo_machine_def expr_val_def)
    next
      case 5 show ?thesis unfolding 5 using demo_stands [of 5 5 "Some (SInput 1 32)"] by (simp add: demo_vals_def demo_machine_def expr_val_def sym_width_def demo_input_def)
    next
      case 6 show ?thesis unfolding 6 using demo_stands [of 6 3 None] by (simp add: demo_vals_def demo_machine_def expr_val_def)
    next
      case 7 show ?thesis unfolding 7 using demo_stands [of 7 0 None] by (simp add: demo_vals_def demo_machine_def expr_val_def)
    next
      case 8 show ?thesis unfolding 8 using demo_stands [of 8 0 None] by (simp add: demo_vals_def demo_machine_def expr_val_def)
    qed simp
  qed
  moreover have "writable demo_ctx t p" if "demo_regs t = Some p" for t p
    using that demo_writable [of 1] demo_writable [of 2] demo_writable [of 3] demo_writable [of 4]
      demo_writable [of 5] demo_writable [of 6] demo_writable [of 7] demo_writable [of 8]
    by (auto simp: demo_regs_def split: if_splits)
  ultimately show ?thesis
    using demo_wf by (simp add: St_def demo_temps(1) TCG_MAX_TEMPS_def demo_machine_def)
qed

lemma demo_simps:
  "lty demo_regs 2 = Some I64" "lty demo_regs 4 = Some I64" "lty demo_regs 6 = Some I64" "lty demo_regs 8 = Some I64"
  "lty demo_regs 10 = Some I32" "lty demo_regs 12 = Some I32" "lty demo_regs 14 = Some I32" "lty demo_regs 16 = Some I32"
  "demo_vals 2 = V64 5 9" "demo_vals 4 = V64 3 3" "demo_vals 6 = V64 0 0" "demo_vals 8 = V64 0 0"
  "demo_vals 10 = V32 5 9" "demo_vals 12 = V32 3 3" "demo_vals 14 = V32 0 0" "demo_vals 16 = V32 0 0"
  by (simp_all add: demo_regs_def demo_vals_def lty_def)

text \<open>The same machine with another number in temporary 4.\<close>

lemma demo_texpr:
  "texpr demo_ctx (set_slot 4 (Num w) demo_machine) 2 = Some (Some (SInput 0 64))"
  "texpr demo_ctx (set_slot 4 (Num w) demo_machine) 4 = Some None"
  using demo_temps(3) [of 1] demo_temps(3) [of 2]
  by (simp_all add: texpr_def targ_def argp_def demo_pair_def demo_machine_def)

lemma demo_set:
  "St term_backend sval demo_input 400 demo_regs (demo_vals(4 := V64 w w)) demo_rt demo_ctx (set_slot 4 (Num w) demo_machine)"
proof (rule St_assign [OF demo_St, of 4 I64])
  show "stands term_backend sval demo_input demo_ctx (set_slot 4 (Num w) demo_machine) 4 (V64 w w)"
    using demo_live [of 2] by (intro standsI [OF _ _ demo_texpr(2)]) (auto simp: tnum_def targ_def arg64_def)
qed (simp_all add: demo_simps demo_machine_def)

end
