(* ===== verification/Gen_Props.thy ===== *)
theory Gen_Props
  imports Gen_Demo
begin

unbundle bit_operations_syntax

section \<open>What the generators guarantee\<close>

text \<open>
  The theorems on the code that the generators emit, stated over an arbitrary sound backend and assembled from the
  rules of \<open>Gen_Correct64\<close>, \<open>Gen_Cond64\<close>, \<open>Gen_Correct32\<close>, \<open>Gen_Cond32\<close> and \<open>Gen_Block\<close>. \<open>St B ev \<sigma> b L A r s m\<close> says of
  a context \<open>s\<close> and a machine \<open>m\<close> that the temporaries are well formed with room for \<open>b\<close> more, that those of \<open>L\<close>
  are writable at their type, that the runtime's state is \<open>r\<close>, and that a temporary \<open>t\<close> with \<open>A t = V64 c x\<close> holds
  the number \<open>c\<close> and an expression that evaluates to \<open>x\<close> at the input \<open>\<sigma>\<close>. \<open>runs B env fl s m gen Q\<close> says that the
  generator returned, that the operations it emitted run from \<open>m\<close> without error and leave with control flow \<open>fl\<close>,
  and that \<open>Q\<close> holds of the context and the machine afterwards.
\<close>

lemma St_less: "St B ev \<sigma> b L A r s m \<Longrightarrow> b' \<le> b \<Longrightarrow> St B ev \<sigma> b' L A r s m"
  by (rule St_weaken) simp_all

text \<open>C5: Let the temporaries \<open>a1\<close> and \<open>a2\<close> hold \<open>c\<close> and \<open>d\<close> and let their expressions evaluate to \<open>x\<close> and \<open>y\<close> at
  an input \<open>\<sigma>\<close>. The code that the generators of addition, subtraction, multiplication, AND, OR and XOR emit,
  for 32 and 64 bits, runs to its end without error on every sound backend, leaves \<open>f c d\<close> in the target and in
  its expression temporary an expression that evaluates to \<open>f x y\<close> (which is NULL only when the result does not
  depend on the input), keeps every other temporary and adds no path constraint. The target may be one of the
  operands.\<close>

theorem gen_arith_lockstep:
  assumes "sym_backend B ev evb" and "St B ev \<sigma> b L A r s m"
    and "lty L t = Some I64" "A a1 = V64 c x" "A a2 = V64 d y"
    and "lty L t' = Some I32" "A a1' = V32 c' x'" "A a2' = V32 d' y'"
  shows "list_all (\<lambda>(gen, f). runs B env Next s m (gen t a1 a2 s) (St B ev \<sigma> b L (A(t := V64 (f c d) (f x y))) r))
      [(tcg_gen_add_i64, (+)), (tcg_gen_sub_i64, (-)), (tcg_gen_mul_i64, (*)),
       (tcg_gen_and_i64, (AND)), (tcg_gen_or_i64, (OR)), (tcg_gen_xor_i64, (XOR))]
    \<and> list_all (\<lambda>(gen, f). runs B env Next s m (gen t' a1' a2' s) (St B ev \<sigma> b L (A(t' := V32 (f c' d') (f x' y'))) r))
      [(tcg_gen_add_i32, (+)), (tcg_gen_sub_i32, (-)), (tcg_gen_mul_i32, (*)),
       (tcg_gen_and_i32, (AND)), (tcg_gen_or_i32, (OR)), (tcg_gen_xor_i32, (XOR))]"
  by (simp add: sym_backend.tcg_gen_arith_i64 [OF assms(1-5)] sym_backend.tcg_gen_arith_i32 [OF assms(1,2,6-8)])

theorem gen_arith_witness:
  "runs term_backend demo_env Next demo_ctx demo_machine (tcg_gen_add_i64 6 2 4 demo_ctx)
     (St term_backend sval demo_input 400 demo_regs (demo_vals(6 := V64 8 12)) demo_rt)
   \<and> runs term_backend demo_env Next demo_ctx demo_machine (tcg_gen_mul_i32 10 10 12 demo_ctx)
     (St term_backend sval demo_input 400 demo_regs (demo_vals(10 := V32 15 27)) demo_rt)"
  using gen_arith_lockstep [OF tb.sym_backend_axioms demo_St, of 6 2 5 9 4 3 3 10 10 5 9 12 3 3 demo_env]
  by (simp add: demo_simps)

text \<open>C13: The same for the shifts and rotations by a variable count, with counts below the width for the
  number and for the input \<open>\<sigma>\<close>; on a host without rotations, where the generator emits shifts by the count and
  by the width minus the count, the count is not 0.\<close>

theorem gen_shift_lockstep:
  assumes "sym_backend B ev evb" and "St B ev \<sigma> b L A r s m" and "8 \<le> b"
    and "lty L t = Some I64" "A a1 = V64 c x" "A a2 = V64 d y" "unat d < 64" "unat y < 64" "HAS_rot H I64 \<or> d \<noteq> 0"
    and "lty L t' = Some I32" "A a1' = V32 c' x'" "A a2' = V32 d' y'" "unat d' < 32" "unat y' < 32" "HAS_rot H I32 \<or> d' \<noteq> 0"
  shows "list_all (\<lambda>(gen, f). runs B env Next s m (gen t a1 a2 s)
        (St B ev \<sigma> (b - 8) L (A(t := V64 (f (unat d) c) (f (unat y) x))) r))
      [(tcg_gen_shl_i64, push_bit), (tcg_gen_shr_i64, drop_bit), (tcg_gen_sar_i64, signed_drop_bit),
       (tcg_gen_rotl_i64 H, word_rotl), (tcg_gen_rotr_i64 H, word_rotr)]
    \<and> list_all (\<lambda>(gen, f). runs B env Next s m (gen t' a1' a2' s)
        (St B ev \<sigma> (b - 8) L (A(t' := V32 (f (unat d') c') (f (unat y') x'))) r))
      [(tcg_gen_shl_i32, push_bit), (tcg_gen_shr_i32, drop_bit), (tcg_gen_sar_i32, signed_drop_bit),
       (tcg_gen_rotl_i32 H, word_rotl), (tcg_gen_rotr_i32 H, word_rotr)]"
proof -
  note r64 = sym_backend.tcg_gen_shift_i64 [OF assms(1,2,4-6,7)] sym_backend.tcg_gen_rot_i64 [OF assms(1,2,4-6,7,8)]
  note r32 = sym_backend.tcg_gen_shift_i32 [OF assms(1,2,10-12,13)] sym_backend.tcg_gen_rot_i32 [OF assms(1,2,10-12,13,14)]
  show ?thesis
    using assms(3,9,15) by simp (intro conjI; rule r64 r32; (erule St_less)?; auto)
qed

theorem gen_shift_witness:
  "runs term_backend demo_env Next demo_ctx demo_machine (tcg_gen_shl_i64 6 2 4 demo_ctx)
     (St term_backend sval demo_input 392 demo_regs (demo_vals(6 := V64 40 72)) demo_rt)
   \<and> runs term_backend demo_env Next demo_ctx demo_machine (tcg_gen_rotl_i32 tci_host 14 10 12 demo_ctx)
     (St term_backend sval demo_input 392 demo_regs (demo_vals(14 := V32 (word_rotl 3 5) (word_rotl 3 9))) demo_rt)"
  using gen_shift_lockstep [OF tb.sym_backend_axioms demo_St _ _ _ _ _ _ _ _ _ _ _ _ _, of 6 2 5 9 4 3 3 tci_host 14 10 5 9 12 3 3 demo_env]
  by (simp add: demo_simps)

text \<open>C12: The generators with an immediate operand, on every host: whatever special case they choose (a move, a
  zero, an extension or a negation instead of the operation, a shift instead of a multiplication by a power of 2,
  no code at all), the result and its expression are those of the operation with the immediate \<open>k\<close>.\<close>

theorem gen_imm_lockstep:
  assumes "sym_backend B ev evb" and "St B ev \<sigma> b L A r s m" and "10 \<le> b"
    and "lty L t = Some I64" "A a = V64 c x" and "lty L t' = Some I32" "A a' = V32 c' x'"
  shows "list_all (\<lambda>(gen, f). runs B env Next s m (gen t a k s) (St B ev \<sigma> (b - 10) L (A(t := V64 (f c k) (f x k))) r))
      [(tcg_gen_addi_i64, (+)), (tcg_gen_subi_i64, (-)), (\<lambda>t a k. tcg_gen_subfi_i64 t k a, \<lambda>c k. k - c), (tcg_gen_muli_i64, (*)),
       (tcg_gen_andi_i64 H, (AND)), (tcg_gen_ori_i64, (OR)), (tcg_gen_xori_i64 H, (XOR))]
    \<and> (unat k < 64 \<longrightarrow> list_all (\<lambda>(gen, f). runs B env Next s m (gen t a k s)
        (St B ev \<sigma> (b - 10) L (A(t := V64 (f (unat k) c) (f (unat k) x))) r))
      [(tcg_gen_shli_i64, push_bit), (tcg_gen_shri_i64, drop_bit), (tcg_gen_sari_i64, signed_drop_bit),
       (tcg_gen_rotli_i64 H, word_rotl), (tcg_gen_rotri_i64 H, word_rotr)])
    \<and> list_all (\<lambda>(gen, f). runs B env Next s m (gen t' a' k' s) (St B ev \<sigma> (b - 10) L (A(t' := V32 (f c' k') (f x' k'))) r))
      [(tcg_gen_addi_i32, (+)), (tcg_gen_subi_i32, (-)), (\<lambda>t a k. tcg_gen_subfi_i32 t k a, \<lambda>c k. k - c), (tcg_gen_muli_i32, (*)),
       (tcg_gen_andi_i32 H, (AND)), (tcg_gen_ori_i32, (OR)), (tcg_gen_xori_i32 H, (XOR))]
    \<and> (unat k' < 32 \<longrightarrow> list_all (\<lambda>(gen, f). runs B env Next s m (gen t' a' k' s)
        (St B ev \<sigma> (b - 10) L (A(t' := V32 (f (unat k') c') (f (unat k') x'))) r))
      [(tcg_gen_shli_i32, push_bit), (tcg_gen_shri_i32, drop_bit), (tcg_gen_sari_i32, signed_drop_bit),
       (tcg_gen_rotli_i32 H, word_rotl), (tcg_gen_rotri_i32 H, word_rotr)])"
proof -
  note r64 = sym_backend.tcg_gen_imm_i64 [OF assms(1,2,4,5)] sym_backend.tcg_gen_muli_i64 [OF assms(1,2,4,5)]
    sym_backend.tcg_gen_andi_i64 [OF assms(1,2,4,5)]
  note s64 = sym_backend.tcg_gen_shifti_i64 [OF assms(1,2,4,5)]
    sym_backend.tcg_gen_rotli_i64 [OF assms(1,2,4,5)] sym_backend.tcg_gen_rotri_i64 [OF assms(1,2,4,5)]
  note r32 = sym_backend.tcg_gen_imm_i32 [OF assms(1,2,6,7)] sym_backend.tcg_gen_muli_i32 [OF assms(1,2,6,7)]
    sym_backend.tcg_gen_andi_i32 [OF assms(1,2,6,7)]
  note s32 = sym_backend.tcg_gen_shifti_i32 [OF assms(1,2,6,7)]
    sym_backend.tcg_gen_rotli_i32 [OF assms(1,2,6,7)] sym_backend.tcg_gen_rotri_i32 [OF assms(1,2,6,7)]
  show ?thesis
    using assms(3) by simp
      (intro conjI impI; rule r64 s64 r32 s32; (erule St_less)?; simp)
qed

theorem gen_imm_witness:
  "runs term_backend demo_env Next demo_ctx demo_machine (tcg_gen_muli_i64 6 2 8 demo_ctx)
     (St term_backend sval demo_input 390 demo_regs (demo_vals(6 := V64 40 72)) demo_rt)
   \<and> runs term_backend demo_env Next demo_ctx demo_machine (tcg_gen_shri_i32 10 10 1 demo_ctx)
     (St term_backend sval demo_input 390 demo_regs (demo_vals(10 := V32 2 4)) demo_rt)"
  using gen_imm_lockstep [OF tb.sym_backend_axioms demo_St _, of 6 2 5 9 10 10 5 9 demo_env 8 tci_host 1]
  by (simp add: demo_simps drop_bit_eq_div)

text \<open>C15: Moves, negation, complement, absolute value and all the sign and zero extensions within a width, on
  every host, whether it has the extension, composes it from shifts or masks: number and expression are updated in
  lockstep.\<close>

theorem gen_ext_lockstep:
  assumes "sym_backend B ev evb" and "St B ev \<sigma> b L A r s m" and "4 \<le> b"
    and "lty L t = Some I64" "A a = V64 c x" and "lty L t' = Some I32" "A a' = V32 c' x'"
  shows "list_all (\<lambda>(gen, f). runs B env Next s m (gen t a s) (St B ev \<sigma> (b - 4) L (A(t := V64 (f c) (f x))) r))
      [(tcg_gen_mov_i64, id), (tcg_gen_neg_i64, uminus), (tcg_gen_not_i64 H, NOT), (tcg_gen_abs_i64, \<lambda>c. if c <s 0 then - c else c),
       (tcg_gen_ext8u_i64 H, take_bit 8), (tcg_gen_ext16u_i64 H, take_bit 16), (tcg_gen_ext32u_i64 H, take_bit 32),
       (tcg_gen_ext8s_i64 H, signed_take_bit 7), (tcg_gen_ext16s_i64 H, signed_take_bit 15), (tcg_gen_ext32s_i64 H, signed_take_bit 31)]
    \<and> list_all (\<lambda>(gen, f). runs B env Next s m (gen t' a' s) (St B ev \<sigma> (b - 4) L (A(t' := V32 (f c') (f x'))) r))
      [(tcg_gen_mov_i32, id), (tcg_gen_neg_i32, uminus), (tcg_gen_not_i32 H, NOT), (tcg_gen_abs_i32, \<lambda>c. if c <s 0 then - c else c),
       (tcg_gen_ext8u_i32 H, take_bit 8), (tcg_gen_ext16u_i32 H, take_bit 16),
       (tcg_gen_ext8s_i32 H, signed_take_bit 7), (tcg_gen_ext16s_i32 H, signed_take_bit 15)]"
proof -
  note r64 = tcg_gen_mov_i64 [OF assms(2,4,5)] sym_backend.tcg_gen_neg_i64 [OF assms(1,2,4,5)] sym_backend.tcg_gen_not_i64 [OF assms(1,2,4,5)]
    sym_backend.tcg_gen_abs_i64 [OF assms(1,2,4,5)] sym_backend.tcg_gen_extu_i64 [OF assms(1,2,4,5)] sym_backend.tcg_gen_exts_i64 [OF assms(1,2,4,5)]
  note r32 = tcg_gen_mov_i32 [OF assms(2,6,7)] sym_backend.tcg_gen_neg_i32 [OF assms(1,2,6,7)] sym_backend.tcg_gen_not_i32 [OF assms(1,2,6,7)]
    sym_backend.tcg_gen_abs_i32 [OF assms(1,2,6,7)] sym_backend.tcg_gen_extu_i32 [OF assms(1,2,6,7)] sym_backend.tcg_gen_exts_i32 [OF assms(1,2,6,7)]
  show ?thesis
    using assms(3) by (simp only: list.pred_inject prod.case id_apply simp_thms) (intro conjI; rule r64 r32; (erule St_less)?; simp)
qed

theorem gen_ext_witness:
  "runs term_backend demo_env Next demo_ctx demo_machine (tcg_gen_neg_i64 2 2 demo_ctx)
     (St term_backend sval demo_input 396 demo_regs (demo_vals(2 := V64 (- 5) (- 9))) demo_rt)
   \<and> runs term_backend demo_env Next demo_ctx demo_machine (tcg_gen_ext8s_i32 tci_host 14 10 demo_ctx)
     (St term_backend sval demo_input 396 demo_regs (demo_vals(14 := V32 5 9)) demo_rt)"
  using gen_ext_lockstep [OF tb.sym_backend_axioms demo_St _, of 2 2 5 9 14 10 5 9 demo_env tci_host]
  by (simp add: demo_simps list.pred_inject signed_take_bit_eq_if_positive bit_numeral_iff take_bit_eq_mod)

text \<open>C6: Bit fields, on every host and for every choice of native instruction or fallback sequence:
  \<open>extract\<close>, \<open>sextract\<close>, \<open>deposit\<close>, \<open>deposit_z\<close> and \<open>extract2\<close> of 32 and 64 bits compute the field on the
  number and on the expression, for every field that lies in the word.\<close>

theorem gen_field_lockstep:
  assumes "sym_backend B ev evb" and "St B ev \<sigma> b L A r s m" and "30 \<le> b"
    and "lty L t = Some I64" "A a1 = V64 c x" "A a2 = V64 d y" "0 < unat len" "unat ofs + unat len \<le> 64"
    and "lty L t' = Some I32" "A a1' = V32 c' x'" "A a2' = V32 d' y'" "0 < unat len'" "unat ofs' + unat len' \<le> 32"
  shows "list_all (\<lambda>(gen, f). runs B env Next s m gen (St B ev \<sigma> (b - 30) L (A(t := V64 (f c d) (f x y))) r))
      [(tcg_gen_extract_i64 H t a1 ofs len s, \<lambda>c d. take_bit (unat len) (drop_bit (unat ofs) c)),
       (tcg_gen_sextract_i64 H t a1 ofs len s, \<lambda>c d. signed_take_bit (unat len - 1) (drop_bit (unat ofs) c)),
       (tcg_gen_deposit_i64 H t a1 a2 ofs len s, \<lambda>c d. deposit_word c (unat ofs) (unat len) d),
       (tcg_gen_deposit_z_i64 H t a1 ofs len s, \<lambda>c d. push_bit (unat ofs) (take_bit (unat len) c)),
       (tcg_gen_extract2_i64 H t a1 a2 ofs s, \<lambda>c d. extract2_word d c (unat ofs))]
    \<and> list_all (\<lambda>(gen, f). runs B env Next s m gen (St B ev \<sigma> (b - 30) L (A(t' := V32 (f c' d') (f x' y'))) r))
      [(tcg_gen_extract_i32 H t' a1' ofs' len' s, \<lambda>c d. take_bit (unat len') (drop_bit (unat ofs') c)),
       (tcg_gen_sextract_i32 H t' a1' ofs' len' s, \<lambda>c d. signed_take_bit (unat len' - 1) (drop_bit (unat ofs') c)),
       (tcg_gen_deposit_i32 H t' a1' a2' ofs' len' s, \<lambda>c d. deposit_word c (unat ofs') (unat len') d),
       (tcg_gen_deposit_z_i32 H t' a1' ofs' len' s, \<lambda>c d. push_bit (unat ofs') (take_bit (unat len') c)),
       (tcg_gen_extract2_i32 H t' a1' a2' ofs' s, \<lambda>c d. extract2_word d c (unat ofs'))]"
proof -
  note r64 = sym_backend.tcg_gen_extract_i64 [OF assms(1,2,4,5,7,8)] sym_backend.tcg_gen_sextract_i64 [OF assms(1,2,4,5,7,8)]
    sym_backend.tcg_gen_deposit_i64 [OF assms(1,2,4-6,7,8)] sym_backend.tcg_gen_deposit_z_i64 [OF assms(1,2,4,5,7,8)]
    sym_backend.tcg_gen_extract2_i64 [OF assms(1,2,4-6)]
  note r32 = sym_backend.tcg_gen_extract_i32 [OF assms(1,2,9,10,12,13)] sym_backend.tcg_gen_sextract_i32 [OF assms(1,2,9,10,12,13)]
    sym_backend.tcg_gen_deposit_i32 [OF assms(1,2,9-11,12,13)] sym_backend.tcg_gen_deposit_z_i32 [OF assms(1,2,9,10,12,13)]
    sym_backend.tcg_gen_extract2_i32 [OF assms(1,2,9-11)]
  show ?thesis
    using assms(3,8,13) by (simp only: list.pred_inject prod.case simp_thms) (intro conjI; rule r64 r32; (erule St_less)?; simp)
qed

theorem gen_field_witness:
  "runs term_backend demo_env Next demo_ctx demo_machine (tcg_gen_deposit_i64 tci_host 6 4 2 8 16 demo_ctx)
     (St term_backend sval demo_input 370 demo_regs (demo_vals(6 := V64 0x503 0x903)) demo_rt)
   \<and> runs term_backend demo_env Next demo_ctx demo_machine (tcg_gen_extract_i32 tci_host 10 10 2 1 demo_ctx)
     (St term_backend sval demo_input 370 demo_regs (demo_vals(10 := V32 1 0)) demo_rt)"
proof -
  have "deposit_word 3 8 16 5 = (0x503 :: u64)" "deposit_word 3 8 16 9 = (0x903 :: u64)"
    by (simp_all add: deposit_word_def mask_eq_exp_minus_1 push_bit_eq_mult take_bit_eq_mod)
  moreover have "take_bit 1 (drop_bit 2 5) = (1 :: u32)" "take_bit 1 (drop_bit 2 9) = (0 :: u32)"
    by (simp_all add: drop_bit_eq_div take_bit_eq_mod)
  ultimately show ?thesis
    using gen_field_lockstep [OF tb.sym_backend_axioms demo_St _, of 6 4 3 3 2 5 9 16 8 10 10 5 9 12 3 3 1 2 demo_env tci_host]
    by (simp add: demo_simps list.pred_inject)
qed

text \<open>C16: Byte, half-word and word swaps, native or composed from shifts and masks, reverse the number and the
  expression alike; \<open>bswap32_i64\<close> as long as its flags do not ask for a sign-extended result.\<close>

theorem gen_bswap_lockstep:
  assumes "sym_backend B ev evb" and "St B ev \<sigma> b L A r s m" and "22 \<le> b"
    and "lty L t = Some I64" "A a = V64 c x" and "lty L t' = Some I32" "A a' = V32 c' x'" and "fl AND TCG_BSWAP_OS = 0"
  shows "list_all (\<lambda>(gen, f). runs B env Next s m (gen t a s) (St B ev \<sigma> (b - 22) L (A(t := V64 (f c) (f x))) r))
      [(tcg_gen_bswap64_i64 H, bswap64), (\<lambda>t a. tcg_gen_bswap32_i64 H t a fl, \<lambda>c. ucast (bswap32 (ucast c))),
       (tcg_gen_hswap_i64 H, hswap64), (tcg_gen_wswap_i64 H, word_rotl 32)]
    \<and> list_all (\<lambda>(gen, f). runs B env Next s m (gen t' a' s) (St B ev \<sigma> (b - 22) L (A(t' := V32 (f c') (f x'))) r))
      [(tcg_gen_bswap32_i32 H, bswap32), (tcg_gen_hswap_i32 H, word_rotl 16)]"
proof -
  note r64 = sym_backend.tcg_gen_bswap64_i64 [OF assms(1,2,4,5)] sym_backend.tcg_gen_bswap32_i64 [OF assms(1,2,4,5)]
    sym_backend.tcg_gen_hswap_i64 [OF assms(1,2,4,5)] sym_backend.tcg_gen_wswap_i64 [OF assms(1,2,4,5)]
  note r32 = sym_backend.tcg_gen_bswap32_i32 [OF assms(1,2,6,7)] sym_backend.tcg_gen_hswap_i32 [OF assms(1,2,6,7)]
  show ?thesis
    using assms(3,8) by (simp only: list.pred_inject prod.case simp_thms) (intro conjI; rule r64 r32; (erule St_less)?; simp)
qed

theorem gen_bswap_witness:
  "runs term_backend demo_env Next demo_ctx demo_machine (tcg_gen_bswap64_i64 tci_host 6 2 demo_ctx)
     (St term_backend sval demo_input 378 demo_regs (demo_vals(6 := V64 (bswap64 5) (bswap64 9))) demo_rt)
   \<and> runs term_backend demo_env Next demo_ctx demo_machine (tcg_gen_hswap_i32 tci_host 14 10 demo_ctx)
     (St term_backend sval demo_input 378 demo_regs (demo_vals(14 := V32 (word_rotl 16 5) (word_rotl 16 9))) demo_rt)"
  using gen_bswap_lockstep [OF tb.sym_backend_axioms demo_St _, of 6 2 5 9 14 10 5 9 0 demo_env tci_host]
  by (simp add: demo_simps)

text \<open>C17: Conversions between 32 and 64 bits: truncation, high half, both extensions, concatenation of two words
  and splitting into two, for every choice of the targets. Number and expression change in lockstep. Splitting a 64-bit
  word into two 64-bit targets gives its halves when the first target is not the operand; when it is, the low half
  overwrites the operand first, and the second target becomes the constant 0 instead of the high half.\<close>

theorem gen_resize_lockstep:
  assumes "sym_backend B ev evb" and "St B ev \<sigma> b L A r s m" and "20 \<le> b"
    and "lty L t = Some I64" "A a = V64 c x" "A a2 = V64 d y" "lty L t2 = Some I64"
    and "lty L t' = Some I32" "A a' = V32 c' x'" "A a2' = V32 d' y'" "lty L t2' = Some I32"
  shows "list_all (\<lambda>(gen, A'). runs B env Next s m gen (St B ev \<sigma> (b - 20) L A' r))
      [(tcg_gen_extrl_i64_i32 t' a s, A(t' := V32 (ucast c) (ucast x))),
       (tcg_gen_extrh_i64_i32 t' a s, A(t' := V32 (ucast (drop_bit 32 c)) (ucast (drop_bit 32 x)))),
       (tcg_gen_extu_i32_i64 t a' s, A(t := V64 (ucast c') (ucast x'))),
       (tcg_gen_ext_i32_i64 t a' s, A(t := V64 (scast c') (scast x'))),
       (tcg_gen_concat_i32_i64 H t a' a2' s, A(t := V64 (concat64 c' d') (concat64 x' y'))),
       (tcg_gen_concat32_i64 H t a a2 s, A(t := V64 (deposit_word c 32 32 d) (deposit_word x 32 32 y))),
       (tcg_gen_extr_i64_i32 t' t2' a s, A(t' := V32 (ucast c) (ucast x), t2' := V32 (ucast (drop_bit 32 c)) (ucast (drop_bit 32 x)))),
       (tcg_gen_extr32_i64 H t t2 a s, if t = a then A(t := V64 (take_bit 32 c) (take_bit 32 x), t2 := V64 0 0)
          else A(t := V64 (take_bit 32 c) (take_bit 32 x), t2 := V64 (drop_bit 32 c) (drop_bit 32 x)))]"
proof -
  note r = sym_backend.tcg_gen_extrl_i64_i32 [OF assms(1,2,8,5)] sym_backend.tcg_gen_extrh_i64_i32 [OF assms(1,2,8,5)]
    sym_backend.tcg_gen_widen_i32_i64 [OF assms(1,2,4,9)] sym_backend.tcg_gen_concat_i32_i64 [OF assms(1,2,4,9,10)]
    sym_backend.tcg_gen_concat32_i64 [OF assms(1,2,4,5,6)] sym_backend.tcg_gen_extr_i64_i32 [OF assms(1,2,8,11,5)]
  have "runs B env Next s m (tcg_gen_extr32_i64 H t t2 a s) (St B ev \<sigma> (b - 20) L (if t = a then A(t := V64 (take_bit 32 c) (take_bit 32 x), t2 := V64 0 0)
          else A(t := V64 (take_bit 32 c) (take_bit 32 x), t2 := V64 (drop_bit 32 c) (drop_bit 32 x))) r)"
  proof (cases "t = a")
    case True
    then have "A t = V64 c x" using assms(5) by simp
    then show ?thesis unfolding if_P [OF True] unfolding True [symmetric]
      using assms(3) by (intro sym_backend.tcg_gen_extr32_same [OF assms(1,2,4,7)]) (auto elim: St_less)
  next
    case False
    show ?thesis unfolding if_not_P [OF False]
      using assms(3) by (intro sym_backend.tcg_gen_extr32_i64 [OF assms(1,2,4,7) False assms(5)]) (auto elim: St_less)
  qed
  then show ?thesis
    using assms(3) by (simp only: list.pred_inject prod.case simp_thms) (intro conjI; rule r; (erule St_less)?; simp)
qed

theorem gen_resize_witness:
  "runs term_backend demo_env Next demo_ctx demo_machine (tcg_gen_ext_i32_i64 6 10 demo_ctx)
     (St term_backend sval demo_input 380 demo_regs (demo_vals(6 := V64 5 9)) demo_rt)
   \<and> runs term_backend demo_env Next demo_ctx demo_machine (tcg_gen_extrl_i64_i32 14 2 demo_ctx)
     (St term_backend sval demo_input 380 demo_regs (demo_vals(14 := V32 5 9)) demo_rt)"
  using gen_resize_lockstep [OF tb.sym_backend_axioms demo_St _, of 6 2 5 9 4 3 3 8 14 10 5 9 12 3 3 16 demo_env tci_host]
  by (simp add: demo_simps)

text \<open>C18: Double-word arithmetic of 32 bits: \<open>add2\<close> and \<open>sub2\<close> compute the 64-bit sum and difference of the
  pairs, \<open>mulu2\<close> and \<open>muls2\<close> the full unsigned and signed products, on the numbers and on the expressions of
  both halves.\<close>

theorem gen_double_lockstep:
  assumes "sym_backend B ev evb" and "St B ev \<sigma> b L A r s m" and "48 \<le> b"
    and "lty L rl = Some I32" "lty L rh = Some I32" "A al = V32 c x" "A ah = V32 d y" "A bl = V32 e z" "A bh = V32 f u"
  shows "list_all (\<lambda>(gen, g). runs B env Next s m (gen rl rh al ah bl bh s)
        (St B ev \<sigma> (b - 48) L (A(rl := V32 (ucast (g (concat64 c d) (concat64 e f) :: u64)) (ucast (g (concat64 x y) (concat64 z u) :: u64)),
           rh := V32 (ucast (drop_bit 32 (g (concat64 c d) (concat64 e f)))) (ucast (drop_bit 32 (g (concat64 x y) (concat64 z u)))))) r))
      [(tcg_gen_add2_i32 H, (+)), (tcg_gen_sub2_i32 H, (-))]
    \<and> list_all (\<lambda>(gen, g). runs B env Next s m (gen rl rh al bl s)
        (St B ev \<sigma> (b - 48) L (A(rl := V32 (ucast (g c * g e :: u64)) (ucast (g x * g z :: u64)),
           rh := V32 (ucast (drop_bit 32 (g c * g e))) (ucast (drop_bit 32 (g x * g z))))) r))
      [(tcg_gen_mulu2_i32, ucast), (tcg_gen_muls2_i32, scast)]"
proof -
  note r = sym_backend.tcg_gen_add2_i32 [OF assms(1,2,4-9)] sym_backend.tcg_gen_sub2_i32 [OF assms(1,2,4-9)]
    sym_backend.tcg_gen_mulu2_i32 [OF assms(1,2,4,5,6,8)] sym_backend.tcg_gen_muls2_i32 [OF assms(1,2,4,5,6,8)]
  show ?thesis
    using assms(3) by (simp only: list.pred_inject prod.case simp_thms) (intro conjI; rule r; (erule St_less)?; simp)
qed

theorem gen_double_witness:
  "runs term_backend demo_env Next demo_ctx demo_machine (tcg_gen_mulu2_i32 14 16 10 12 demo_ctx)
     (St term_backend sval demo_input 352 demo_regs (demo_vals(14 := V32 15 27, 16 := V32 0 0)) demo_rt)"
  using gen_double_lockstep [OF tb.sym_backend_axioms demo_St _, of 14 16 10 5 9 12 3 3 12 3 3 10 5 9 demo_env tci_host]
  by (simp add: demo_simps drop_bit_eq_div)

text \<open>C19: Double-word arithmetic of 64 bits: \<open>add2_i64\<close> and \<open>sub2_i64\<close> compute the 128-bit sum and difference
  of the pairs on numbers and expressions. The carry comes from a comparison, so the code branches once: at most one
  path constraint is added, and it says whether there was a carry.\<close>

theorem gen_carry_lockstep:
  assumes "sym_backend B ev evb" and "St B ev \<sigma> b L A r s m" and "6 \<le> b"
    and "lty L rl = Some I64" "lty L rh = Some I64" "rl \<noteq> rh" "A al = V64 c x" "A ah = V64 d y" "A bl = V64 e z" "A bh = V64 f u"
  shows "list_all (\<lambda>(gen, g, carry). runs B env Next s m (gen rl rh al ah bl bh s)
        (\<lambda>s' m'. \<exists>r'. branched evb \<sigma> (carry c e) (carry x z) (get_pc env) r r' \<and>
          St B ev \<sigma> (b - 6) L (A(rl := V64 (ucast (g (concat128 c d) (concat128 e f))) (ucast (g (concat128 x y) (concat128 z u))),
            rh := V64 (ucast (drop_bit 64 (g (concat128 c d) (concat128 e f)))) (ucast (drop_bit 64 (g (concat128 x y) (concat128 z u)))))) r' s' m'))
      [(tcg_gen_add2_i64, (+), \<lambda>c e. c + e < c), (tcg_gen_sub2_i64, (-), \<lambda>c e. c < e)]"
  using assms(3) by (simp only: list.pred_inject prod.case simp_thms)
    (intro conjI; rule sym_backend.tcg_gen_add2_i64 [OF assms(1,2,4-10)] sym_backend.tcg_gen_sub2_i64 [OF assms(1,2,4-10)]; blast?)

theorem gen_carry_witness:
  "runs term_backend demo_env Next demo_ctx demo_machine (tcg_gen_add2_i64 6 8 2 4 4 2 demo_ctx)
     (\<lambda>s' m'. \<exists>r'. branched strue demo_input False False (get_pc demo_env) demo_rt r' \<and>
       St term_backend sval demo_input 394 demo_regs (demo_vals(6 := V64 8 12, 8 := V64 8 12)) r' s' m')"
proof -
  have n: "(147573952589676412936 :: u64) = 8" "(221360928884514619404 :: u64) = 12" by simp_all
  show ?thesis
    using gen_carry_lockstep [OF tb.sym_backend_axioms demo_St _, of 6 8 2 5 9 4 3 3 4 3 3 2 5 9 demo_env]
    by (simp add: demo_simps concat128_def drop_bit_eq_div n)
qed

lemma cond_eval_demo:
  "is_cond TCG_COND_EQ" "is_cond TCG_COND_GTU" "cond_eval TCG_COND_EQ v w \<longleftrightarrow> v = w" "cond_eval TCG_COND_GTU v w \<longleftrightarrow> w < v"
  by (simp_all add: cond_eval_def tci_compare_def is_cond_def tcg_conds_def)

lemma follows_demo: "follows strue \<sigma> demo_rt"
  by (simp add: follows_def demo_rt_def)

text \<open>C7: Set on condition, when the target is none of the operands: number and expression of the target are the
  outcomes of the comparison for the concrete operands and for the input \<open>\<sigma>\<close>, and \<open>\<sigma>\<close> satisfies the path
  constraints after it if and only if it satisfied them before and gives the comparison the outcome it had in this
  run.\<close>

theorem gen_setcond_sound:
  assumes "sym_backend B ev evb" and "St B ev \<sigma> b L A r s m" and "6 \<le> b" and "is_cond k"
    and "lty L t = Some I64" "A a1 = V64 c x" "A a2 = V64 d y" "t \<noteq> a1" "t \<noteq> a2"
    and "lty L t' = Some I32" "A a1' = V32 c' x'" "A a2' = V32 d' y'" "t' \<noteq> a1'" "t' \<noteq> a2'"
  shows "runs B env Next s m (tcg_gen_setcond_i64 k t a1 a2 s) (\<lambda>s' m'. \<exists>r'.
        (follows evb \<sigma> r' \<longleftrightarrow> follows evb \<sigma> r \<and> cond_eval k c d = cond_eval k x y) \<and>
        St B ev \<sigma> (b - 6) L (A(t := V64 (of_bool (cond_eval k c d)) (of_bool (cond_eval k x y)))) r' s' m')
    \<and> runs B env Next s m (tcg_gen_setcond_i32 k t' a1' a2' s) (\<lambda>s' m'. \<exists>r'.
        (follows evb \<sigma> r' \<longleftrightarrow> follows evb \<sigma> r \<and> cond_eval k c' d' = cond_eval k x' y') \<and>
        St B ev \<sigma> (b - 6) L (A(t' := V32 (of_bool (cond_eval k c' d')) (of_bool (cond_eval k x' y')))) r' s' m')
    \<and> (\<not> HAS_negsetcond H I64 \<longrightarrow> runs B env Next s m (tcg_gen_negsetcond_i64 H k t a1 a2 s) (\<lambda>s' m'. \<exists>r'.
        (follows evb \<sigma> r' \<longleftrightarrow> follows evb \<sigma> r \<and> cond_eval k c d = cond_eval k x y) \<and>
        St B ev \<sigma> (b - 6) L (A(t := V64 (- of_bool (cond_eval k c d)) (- of_bool (cond_eval k x y)))) r' s' m'))"
proof -
  note c64 = sym_backend.tcg_gen_setcond_i64 [OF assms(1,2,5-9,4)] sym_backend.tcg_gen_negsetcond_i64 [OF assms(1,2,5-9,4)]
  note c32 = sym_backend.tcg_gen_setcond_i32 [OF assms(1,2,10-14,4)]
  show ?thesis
    by (insert assms(3), intro conjI impI; rule c64 c32; (intro exI conjI, erule follows_branched, erule St_less)?; simp)
qed

theorem gen_setcond_witness:
  "runs term_backend demo_env Next demo_ctx demo_machine (tcg_gen_setcond_i64 TCG_COND_LTU 6 2 4 demo_ctx) (\<lambda>s' m'. \<exists>r'.
     follows strue demo_input r' \<and> St term_backend sval demo_input 394 demo_regs (demo_vals(6 := V64 0 0)) r' s' m')
   \<and> runs term_backend demo_env Next demo_ctx demo_machine (tcg_gen_setcond_i32 TCG_COND_EQ 14 10 12 demo_ctx) (\<lambda>s' m'. \<exists>r'.
     follows strue demo_input r' \<and> St term_backend sval demo_input 394 demo_regs (demo_vals(14 := V32 0 0)) r' s' m')"
  using gen_setcond_sound [OF tb.sym_backend_axioms demo_St _, of TCG_COND_LTU 6 2 5 9 4 3 3 14 10 5 9 12 3 3 demo_env tci_host]
    gen_setcond_sound [OF tb.sym_backend_axioms demo_St _, of TCG_COND_EQ 6 2 5 9 4 3 3 14 10 5 9 12 3 3 demo_env tci_host]
  by (simp add: demo_simps follows_demo cond_eval_demo)

text \<open>C2: Conditional branches: control goes to the label exactly when the comparison of the concrete operands
  holds, the temporaries are kept, and an input satisfies the path constraints afterwards if and only if it satisfied
  them before and would take the same side of the branch. So the recorded path constraints describe exactly the
  inputs that follow the executed path.\<close>

theorem gen_brcond_sound:
  assumes "sym_backend B ev evb" and "St B ev \<sigma> b L A r s m" and "8 \<le> b" and "is_cond k"
    and "A a1 = V64 c x" "A a2 = V64 d y" and "A a1' = V32 c' x'" "A a2' = V32 d' y'"
  shows "list_all (\<lambda>(gen, cc, cx). runs B env (if cc then Jump (of_nat l) else Next) s m gen
        (\<lambda>s' m'. \<exists>r'. (follows evb \<sigma> r' \<longleftrightarrow> follows evb \<sigma> r \<and> cc = cx) \<and> St B ev \<sigma> (b - 8) L A r' s' m'))
      [(tcg_gen_brcond_i64 k a1 a2 l s, cond_eval k c d, cond_eval k x y),
       (tcg_gen_brcondi_i64 k a1 v l s, cond_eval k c v, cond_eval k x v),
       (tcg_gen_brcond_i32 k a1' a2' l s, cond_eval k c' d', cond_eval k x' y'),
       (tcg_gen_brcondi_i32 k a1' v' l s, cond_eval k c' v', cond_eval k x' v')]"
proof -
  note br = sym_backend.tcg_gen_brcond_i64 [OF assms(1,2,5,6,4)] sym_backend.tcg_gen_brcondi_i64 [OF assms(1,2,5,4)]
    sym_backend.tcg_gen_brcond_i32 [OF assms(1,2,7,8,4)] sym_backend.tcg_gen_brcondi_i32 [OF assms(1,2,7,4)]
  show ?thesis
    using assms(3) by (simp only: list.pred_inject prod.case simp_thms)
      (intro conjI; rule br; (intro exI conjI, erule follows_branched, erule St_less)?; simp)
qed

theorem gen_brcond_witness:
  "runs term_backend demo_env (Jump 7) demo_ctx demo_machine (tcg_gen_brcond_i64 TCG_COND_GTU 2 4 7 demo_ctx) (\<lambda>s' m'. \<exists>r'.
     follows strue demo_input r' \<and> St term_backend sval demo_input 392 demo_regs demo_vals r' s' m')
   \<and> runs term_backend demo_env Next demo_ctx demo_machine (tcg_gen_brcondi_i32 TCG_COND_GTU 10 6 7 demo_ctx) (\<lambda>s' m'. \<exists>r'.
     \<not> follows strue demo_input r' \<and> St term_backend sval demo_input 392 demo_regs demo_vals r' s' m')"
  using gen_brcond_sound [OF tb.sym_backend_axioms demo_St _, of TCG_COND_GTU 2 5 9 4 3 3 10 5 9 12 3 3 demo_env 7 6 6]
  by (simp add: demo_simps follows_demo cond_eval_demo)

text \<open>C20: The compound logical operations (AND and OR with complement, equivalence, NAND, NOR), native or
  composed, update number and expression in lockstep when the target is none of the operands.\<close>

theorem gen_logic_lockstep:
  assumes "sym_backend B ev evb" and "St B ev \<sigma> b L A r s m" and "8 \<le> b"
    and "lty L t = Some I64" "A a1 = V64 c x" "A a2 = V64 d y" "t \<noteq> a1" "t \<noteq> a2"
    and "lty L t' = Some I32" "A a1' = V32 c' x'" "A a2' = V32 d' y'" "t' \<noteq> a1'" "t' \<noteq> a2'"
  shows "list_all (\<lambda>(gen, f). runs B env Next s m (gen t a1 a2 s) (St B ev \<sigma> (b - 8) L (A(t := V64 (f c d) (f x y))) r))
      [(tcg_gen_andc_i64 H, \<lambda>c d. c AND NOT d), (tcg_gen_orc_i64 H, \<lambda>c d. c OR NOT d), (tcg_gen_eqv_i64 H, \<lambda>c d. NOT (c XOR d)),
       (tcg_gen_nand_i64 H, \<lambda>c d. NOT (c AND d)), (tcg_gen_nor_i64 H, \<lambda>c d. NOT (c OR d))]
    \<and> list_all (\<lambda>(gen, f). runs B env Next s m (gen t' a1' a2' s) (St B ev \<sigma> (b - 8) L (A(t' := V32 (f c' d') (f x' y'))) r))
      [(tcg_gen_andc_i32 H, \<lambda>c d. c AND NOT d), (tcg_gen_orc_i32 H, \<lambda>c d. c OR NOT d), (tcg_gen_eqv_i32 H, \<lambda>c d. NOT (c XOR d)),
       (tcg_gen_nand_i32 H, \<lambda>c d. NOT (c AND d)), (tcg_gen_nor_i32 H, \<lambda>c d. NOT (c OR d))]"
proof -
  note r64 = sym_backend.tcg_gen_logic_i64 [OF assms(1,2,4-8)]
  note r32 = sym_backend.tcg_gen_logic_i32 [OF assms(1,2,9-13)]
  show ?thesis
    using assms(3) by (simp only: list.pred_inject prod.case simp_thms) (intro conjI; rule r64 r32; (erule St_less)?; simp)
qed

theorem gen_logic_witness:
  "runs term_backend demo_env Next demo_ctx demo_machine (tcg_gen_andc_i64 tci_host 6 2 4 demo_ctx)
     (St term_backend sval demo_input 392 demo_regs (demo_vals(6 := V64 4 8)) demo_rt)
   \<and> runs term_backend demo_env Next demo_ctx demo_machine (tcg_gen_nor_i32 tci_host 14 10 12 demo_ctx)
     (St term_backend sval demo_input 392 demo_regs (demo_vals(14 := V32 (- 8) (- 12))) demo_rt)"
  using gen_logic_lockstep [OF tb.sym_backend_axioms demo_St _, of 6 2 5 9 4 3 3 14 10 5 9 12 3 3 demo_env tci_host]
  by (simp add: demo_simps not_eq_complement)

lemma c_div_total:
  assumes "c_sdiv c d \<noteq> None"
  shows "c_sdiv c d = Some (sym_helper_sem sym_div c d)" "c_smod c d = Some (sym_helper_sem sym_rem c d)"
    "c_udiv c d = Some (sym_helper_sem sym_divu c d)" "c_umod c d = Some (sym_helper_sem sym_remu c d)"
  using assms by (auto simp: c_sdiv_def c_smod_def c_udiv_def c_umod_def split: if_splits)

text \<open>C21: Division and remainder on hosts that have both or that call the helper for both, when the target is
  none of the operands and the C division is defined: number and expression are the quotient or the remainder. The
  unsigned remainder of 64 bits is not among them: its generator builds the expression of the signed one.\<close>

theorem gen_div_lockstep:
  assumes "sym_backend B ev evb" and "St B ev \<sigma> b L A r s m" and "2 \<le> b"
    and "\<not> HAS_div2 H I64" "HAS_rem H I64 = HAS_div H I64" "\<not> HAS_div2 H I32" "HAS_rem H I32 = HAS_div H I32"
    and "lty L t = Some I64" "A a1 = V64 c x" "A a2 = V64 d y" "t \<noteq> a1" "t \<noteq> a2" "c_sdiv c d \<noteq> None" "y \<noteq> 0"
    and "lty L t' = Some I32" "A a1' = V32 c' x'" "A a2' = V32 d' y'" "t' \<noteq> a1'" "t' \<noteq> a2'" "c_sdiv c' d' \<noteq> None" "y' \<noteq> 0"
  shows "list_all (\<lambda>(gen, k). runs B env Next s m (gen t a1 a2 s)
        (St B ev \<sigma> (b - 2) L (A(t := V64 (sym_helper_sem k c d) (sym_helper_sem k x y))) r))
      [(tcg_gen_div_i64 H, sym_div), (tcg_gen_rem_i64 H, sym_rem), (tcg_gen_divu_i64 H, sym_divu)]
    \<and> list_all (\<lambda>(gen, k). runs B env Next s m (gen t' a1' a2' s)
        (St B ev \<sigma> (b - 2) L (A(t' := V32 (sym_helper_sem k c' d') (sym_helper_sem k x' y'))) r))
      [(tcg_gen_div_i32 H, sym_div), (tcg_gen_rem_i32 H, sym_rem), (tcg_gen_divu_i32 H, sym_divu), (tcg_gen_remu_i32 H, sym_remu)]"
proof -
  note d64 = c_div_total [OF assms(13)] and d32 = c_div_total [OF assms(20)]
  note r64 = sym_backend.tcg_gen_div_i64 [OF assms(1,2,8-12) d64(1) assms(14)] sym_backend.tcg_gen_rem_i64 [OF assms(1,2,8-12) d64(2) assms(14)]
    sym_backend.tcg_gen_divu_i64 [OF assms(1,2,8-12) d64(3) assms(14)]
  note r32 = sym_backend.tcg_gen_div_i32 [OF assms(1,2,15-19) d32(1) assms(21)] sym_backend.tcg_gen_rem_i32 [OF assms(1,2,15-19) d32(2) assms(21)]
    sym_backend.tcg_gen_divu_i32 [OF assms(1,2,15-19) d32(3) assms(21)] sym_backend.tcg_gen_remu_i32 [OF assms(1,2,15-19) d32(4) assms(21)]
  show ?thesis
    using assms(3-7) by (simp only: list.pred_inject prod.case simp_thms) (intro conjI; rule r64 r32; (erule St_less)?; auto)
qed

theorem gen_div_witness:
  "runs term_backend demo_env Next demo_ctx demo_machine (tcg_gen_div_i64 tci_host 6 2 4 demo_ctx)
     (St term_backend sval demo_input 398 demo_regs (demo_vals(6 := V64 1 3)) demo_rt)
   \<and> runs term_backend demo_env Next demo_ctx demo_machine (tcg_gen_remu_i32 tci_host 14 10 12 demo_ctx)
     (St term_backend sval demo_input 398 demo_regs (demo_vals(14 := V32 2 0)) demo_rt)"
  using gen_div_lockstep [OF tb.sym_backend_axioms demo_St _, of tci_host 6 2 5 9 4 3 3 14 10 5 9 12 3 3 demo_env]
  by (simp add: demo_simps c_sdiv_def tci_host_def)

definition plain_host :: tcg_host where
  "plain_host = tci_host\<lparr>HAS_clz := \<lambda>_. False, HAS_ctz := \<lambda>_. False, HAS_ctpop := \<lambda>_. False\<rparr>"

lemma ctpop64_5: "ctpop64 5 = 2"
  by code_simp

text \<open>C27: Bit counts of 64 bits concretise where they go through a helper that computes a number only: \<open>clz\<close> on a host
  without \<open>clz\<close>, \<open>ctz\<close> on a host with none of \<open>ctz\<close>, \<open>clz\<close> and \<open>ctpop\<close>, \<open>ctpop\<close> on a host without \<open>ctpop\<close>, \<open>clrsb\<close> on a host
  without \<open>clz\<close> of 64 and of 32 bits. The number is right, and the result is a constant: its expression stands for
  the value of this run, whatever the input. The unsigned double-word product of 64 bits, on every host, has the right
  low half in lockstep; for the high half the generator calls \<open>sym_muluh_i64\<close>, but the call of the number helper that
  follows clears the expression again, so the high half is a constant of this run, too. Targets may be operands, and
  where both targets are the same the low half stays.\<close>

theorem gen_number_concretises:
  assumes "sym_backend B ev evb" and "St B ev \<sigma> b L A r s m" and "4 \<le> b"
    and "lty L t = Some I64" "A a1 = V64 c x" "A a2 = V64 d y" "lty L rl = Some I64"
  shows "list_all (\<lambda>(absent, gen, v). absent \<longrightarrow> runs B env Next s m gen (St B ev \<sigma> (b - 4) L (A(t := V64 v v)) r))
      [(\<not> HAS_clz H I64, tcg_gen_clz_i64 H t a1 a2 s, if c \<noteq> 0 then of_nat (clz64 c) else d),
       (\<not> HAS_ctz H I64 \<and> \<not> HAS_clz H I64 \<and> \<not> HAS_ctpop H I64, tcg_gen_ctz_i64 H t a1 a2 s, if c \<noteq> 0 then of_nat (ctz64 c) else d),
       (\<not> HAS_ctpop H I64, tcg_gen_ctpop_i64 H t a1 s, of_nat (ctpop64 c)),
       (\<not> HAS_clz H I64 \<and> \<not> HAS_clz H I32, tcg_gen_clrsb_i64 H t a1 s, of_int (clrsb64 c))]
    \<and> runs B env Next s m (tcg_gen_mulu2_i64 rl t a1 a2 s)
        (St B ev \<sigma> (b - 4) L (A(t := V64 (snd (mulu64 c d)) (snd (mulu64 c d)), rl := V64 (c * d) (x * y))) r)"
proof -
  have b: "2 \<le> b" using assms(3) by simp
  note count = sym_backend.tcg_gen_count_i64 [OF assms(1,2,4,5) b]
  note n = count(1,2) [OF assms(6)] count(3,4) sym_backend.tcg_gen_mulu2_i64 [OF assms(1,2,7,4-6,3)]
  show ?thesis
    by (simp only: list.pred_inject prod.case simp_thms) (intro conjI impI; (elim conjE)?; rule n; (assumption | (erule St_less, simp)))
qed

theorem gen_number_witness:
  "runs term_backend demo_env Next demo_ctx demo_machine (tcg_gen_ctpop_i64 plain_host 6 2 demo_ctx)
     (St term_backend sval demo_input 396 demo_regs (demo_vals(6 := V64 2 2)) demo_rt)
   \<and> runs term_backend demo_env Next demo_ctx demo_machine (tcg_gen_mulu2_i64 8 6 2 4 demo_ctx)
     (St term_backend sval demo_input 396 demo_regs (demo_vals(6 := V64 0 0, 8 := V64 15 27)) demo_rt)"
  using gen_number_concretises [OF tb.sym_backend_axioms demo_St _, of 6 2 5 9 4 3 3 8 demo_env plain_host]
  by (simp add: demo_simps plain_host_def tci_host_def ctpop64_5 mulu64_def)

text \<open>C1: A block is a sequence of generator calls and a conditional branch. \<open>ref_insn\<close> is what an instruction
  means on registers, \<open>block_conds\<close> lists the outcomes of the conditions. When the registers of \<open>D\<close> hold \<open>C\<close> and
  their expressions evaluate to \<open>X\<close> at \<open>\<sigma>\<close>, the code that the block generates runs to its end, branches as the
  meaning of the block on \<open>C\<close> says, leaves the registers of the meaning on \<open>C\<close> with expressions that evaluate to the
  registers of the meaning on \<open>X\<close>, and \<open>\<sigma>\<close> satisfies the new path constraints if and only if it satisfied the old
  ones and all conditions of the block come out for \<open>X\<close> as they did for \<open>C\<close>: the instrumented code refines the
  meaning of the block on the concrete input and on every other input that follows the same path. This is for
  instructions that satisfy \<open>insn_ok\<close>: shift counts are below 64, bit fields lie inside the word, the condition of a
  set-on-condition is a valid code, and the target of a set-on-condition or an and-with-complement is none of its
  operands (their helpers run after the operation and would read the overwritten operand).\<close>

theorem gen_block_refines:
  assumes "sym_backend B ev evb" and "St B ev \<sigma> b L (lockstep D C X) r s m" and "\<forall>t \<in> D. lty L t = Some I64"
    and "\<forall>i \<in> set is. set (insn_regs i) \<subseteq> D \<and> insn_ok i" and "is_cond k" "a \<in> D" "c \<in> D"
    and "sum_list (map insn_temps is) + 4 \<le> b"
  shows "runs B env (if last (block_conds is k a c C) then Jump (of_nat l) else Next) s m (gen_block H is k a c l s)
    (\<lambda>s' m'. \<exists>r'. (follows evb \<sigma> r' \<longleftrightarrow> follows evb \<sigma> r \<and> block_conds is k a c C = block_conds is k a c X) \<and>
      St B ev \<sigma> (b - (sum_list (map insn_temps is) + 4)) L (lockstep D (fold ref_insn is C) (fold ref_insn is X)) r' s' m')"
  by (rule sym_backend.runs_block [OF assms])

definition demo_block :: "insn list" where
  "demo_block = [Addi 6 2 1, Shli 8 6 2, Setcond TCG_COND_GTU 6 8 4]"

lemma demo_lockstep:
  "St term_backend sval demo_input 400 demo_regs (lockstep {2, 4, 6, 8} ((\<lambda>_. 0)(2 := 5, 4 := 3)) ((\<lambda>_. 0)(2 := 9, 4 := 3))) demo_rt demo_ctx demo_machine"
  by (rule St_weaken [OF demo_St]) (auto simp: lockstep_def demo_vals_def)

theorem gen_block_witness:
  "runs term_backend demo_env Next demo_ctx demo_machine (gen_block tci_host demo_block TCG_COND_EQ 6 4 1 demo_ctx)
    (\<lambda>s' m'. \<exists>r'. follows strue demo_input r' \<and> St term_backend sval demo_input 390 demo_regs
       (lockstep {2, 4, 6, 8} ((\<lambda>_. 0)(2 := 5, 4 := 3, 6 := 1, 8 := 24)) ((\<lambda>_. 0)(2 := 9, 4 := 3, 6 := 1, 8 := 40))) r' s' m')"
proof -
  let ?C = "(\<lambda>_. 0)(2 := 5, 4 := 3)" and ?X = "(\<lambda>_. 0)(2 := 9, 4 := 3)"
  have "fold ref_insn demo_block ?C = ?C(6 := 1, 8 := 24)" "fold ref_insn demo_block ?X = ?X(6 := 1, 8 := 40)"
    by (rule ext, simp add: demo_block_def push_bit_eq_mult cond_eval_demo)+
  moreover have "block_conds demo_block TCG_COND_EQ 6 4 ?C = [True, False]" "block_conds demo_block TCG_COND_EQ 6 4 ?X = [True, False]"
    by (simp_all add: block_conds_def demo_block_def push_bit_eq_mult cond_eval_demo)
  moreover have "sum_list (map insn_temps demo_block) = 6" "\<forall>i \<in> set demo_block. set (insn_regs i) \<subseteq> {2, 4, 6, 8} \<and> insn_ok i"
    by (simp_all add: demo_block_def cond_eval_demo)
  ultimately show ?thesis
    using gen_block_refines [OF tb.sym_backend_axioms demo_lockstep, of demo_block TCG_COND_EQ 6 4 demo_env 1 tci_host]
    by (simp add: demo_simps cond_eval_demo follows_demo)
qed

text \<open>A machine in which every temporary is zero and has no expression.\<close>

definition blank_machine :: "(sexpr, smem) machine" where
  "blank_machine = \<lparr>slots = \<lambda>_. Num 0, mrt = demo_rt\<rparr>"

lemma St_blank:
  assumes "wf_temps s" and "nb_temps s + b \<le> TCG_MAX_TEMPS"
    and "\<And>t. t \<in> D \<Longrightarrow> writable s t (I64, False)" and "\<And>t. t \<in> E \<Longrightarrow> writable s t (I32, False)"
  shows "St term_backend sval \<sigma> b (\<lambda>t. if t \<in> D then Some (I64, False) else if t \<in> E then Some (I32, False) else None)
    (\<lambda>t. if t \<in> D then V64 0 0 else if t \<in> E then V32 0 0 else Unk) demo_rt s blank_machine"
proof -
  have "stands term_backend sval \<sigma> s blank_machine t v" if w: "writable s t (vty v, False)" and "v = V64 0 0 \<or> v = V32 0 0" for t v
  proof (rule standsI [where w = 0 and e = None])
    show "temp_live s t (vty v)" using w by (simp add: writable_def)
    show "tnum s blank_machine t = Some 0" "texpr s blank_machine t = Some None"
      using writable_arg [OF w] by (simp_all add: tnum_def texpr_def blank_machine_def arg64_def argp_def)
    show "result term_backend sval \<sigma> 0 None v" using that(2) by auto
  qed
  then have "stands term_backend sval \<sigma> s blank_machine t (if t \<in> D then V64 0 0 else if t \<in> E then V32 0 0 else Unk)" for t
    using assms(3,4) [of t] by (simp add: stands_def [of _ _ _ _ _ _ Unk])
  then show ?thesis
    using assms by (simp add: St_def blank_machine_def)
qed

text \<open>A generator that runs from a state with room for its temporaries returns a context with the same writable temporaries.\<close>

definition gen_returns :: "nat \<Rightarrow> TCGv set \<Rightarrow> TCGv set \<Rightarrow> ctx \<Rightarrow> ctx option \<Rightarrow> bool" where
  "gen_returns n D E s x \<longleftrightarrow> (\<exists>s'. x = Some s' \<and> wf_temps s' \<and> nb_temps s' \<le> nb_temps s + n \<and>
     (\<exists>new. tcg_ops s' = tcg_ops s @ new) \<and> (\<forall>t \<in> D. writable s' t (I64, False)) \<and> (\<forall>t \<in> E. writable s' t (I32, False)))"

lemma gen_returnsI:
  assumes "runs B env fl s m x (\<lambda>s' m'. \<exists>A' r'. St B ev \<sigma> b' L A' r' s' m')"
    and "TCG_MAX_TEMPS \<le> nb_temps s + n + b'"
    and "\<And>t. t \<in> D \<Longrightarrow> L t = Some (I64, False)" "\<And>t. t \<in> E \<Longrightarrow> L t = Some (I32, False)"
  shows "gen_returns n D E s x"
  proof -
  obtain s' m' A' r' new where "x = Some s'" "tcg_ops s' = tcg_ops s @ new" "St B ev \<sigma> b' L A' r' s' m'"
    using assms(1) unfolding runs_def by blast
  then show ?thesis
    using assms(2) unfolding gen_returns_def St_def by (intro exI [of _ s'] conjI ballI) (simp_all add: assms(3,4))
qed

lemma fields_keep_types:
  assumes "sym_backend B ev evb" and "St B ev \<sigma> b L A r s m" and "30 \<le> b"
    and "lty L t = Some I64" "A a1 = V64 c x" "A a2 = V64 d y" "0 < unat len" "unat ofs + unat len \<le> 64"
    and "lty L t' = Some I32" "A a1' = V32 c' x'" "A a2' = V32 d' y'" "0 < unat len'" "unat ofs' + unat len' \<le> 32"
  shows "list_all (\<lambda>gen. runs B env Next s m gen (\<lambda>s' m'. \<exists>A' r'. St B ev \<sigma> (b - 30) L A' r' s' m'))
      [tcg_gen_deposit_i64 H t a1 a2 ofs len s, tcg_gen_extract2_i64 H t a1 a2 ofs s, tcg_gen_deposit_z_i64 H t a1 ofs len s,
       tcg_gen_extract_i64 H t a1 ofs len s, tcg_gen_sextract_i64 H t a1 ofs len s, tcg_gen_andi_i64 H t a1 k s,
       tcg_gen_ext8u_i64 H t a1 s, tcg_gen_ext16u_i64 H t a1 s, tcg_gen_ext32u_i64 H t a1 s,
       tcg_gen_deposit_i32 H t' a1' a2' ofs' len' s, tcg_gen_extract2_i32 H t' a1' a2' ofs' s, tcg_gen_deposit_z_i32 H t' a1' ofs' len' s,
       tcg_gen_extract_i32 H t' a1' ofs' len' s, tcg_gen_sextract_i32 H t' a1' ofs' len' s, tcg_gen_andi_i32 H t' a1' k' s,
       tcg_gen_ext8u_i32 H t' a1' s, tcg_gen_ext16u_i32 H t' a1' s]"
proof -
  note r64 = sym_backend.tcg_gen_extract_i64 [OF assms(1,2,4,5,7,8)] sym_backend.tcg_gen_sextract_i64 [OF assms(1,2,4,5,7,8)]
    sym_backend.tcg_gen_deposit_i64 [OF assms(1,2,4-6,7,8)] sym_backend.tcg_gen_deposit_z_i64 [OF assms(1,2,4,5,7,8)]
    sym_backend.tcg_gen_extract2_i64 [OF assms(1,2,4-6)] sym_backend.tcg_gen_andi_i64 [OF assms(1,2,4,5)]
    sym_backend.tcg_gen_extu_i64 [OF assms(1,2,4,5)]
  note r32 = sym_backend.tcg_gen_extract_i32 [OF assms(1,2,9,10,12,13)] sym_backend.tcg_gen_sextract_i32 [OF assms(1,2,9,10,12,13)]
    sym_backend.tcg_gen_deposit_i32 [OF assms(1,2,9-11,12,13)] sym_backend.tcg_gen_deposit_z_i32 [OF assms(1,2,9,10,12,13)]
    sym_backend.tcg_gen_extract2_i32 [OF assms(1,2,9-11)] sym_backend.tcg_gen_andi_i32 [OF assms(1,2,9,10)]
    sym_backend.tcg_gen_extu_i32 [OF assms(1,2,9,10)]
  show ?thesis
    using assms(3,8,13) by (simp only: list.pred_inject simp_thms) (intro conjI; rule r64 r32; (intro exI, erule St_less)?; simp)
qed

lemma list_all_returnsI:
  assumes "wf_temps s" and "nb_temps s + n \<le> TCG_MAX_TEMPS"
    and w: "\<And>t. t \<in> D \<Longrightarrow> writable s t (I64, False)" "\<And>t. t \<in> E \<Longrightarrow> writable s t (I32, False)"
    and run: "\<And>b L A. n \<le> b \<Longrightarrow> (\<And>t. t \<in> D \<Longrightarrow> lty L t = Some I64 \<and> A t = V64 0 0) \<Longrightarrow>
      (\<And>t. t \<in> E \<Longrightarrow> lty L t = Some I32 \<and> A t = V32 0 0) \<Longrightarrow>
      St term_backend sval (\<lambda>_. 0) b L A demo_rt s blank_machine \<Longrightarrow>
      list_all (\<lambda>gen. \<exists>fl. runs term_backend demo_env fl s blank_machine gen
        (\<lambda>s' m'. \<exists>A' r'. St term_backend sval (\<lambda>_. 0) (b - n) L A' r' s' m')) xs"
  shows "list_all (gen_returns n D E s) xs"
proof -
  let ?L = "\<lambda>t. if t \<in> D then Some (I64, False) else if t \<in> E then Some (I32, False) else None"
  let ?b = "TCG_MAX_TEMPS - nb_temps s"
  have disj: "t \<notin> D" if "t \<in> E" for t
    using w(1) [of t] w(2) [OF that] by (auto simp: writable_def temp_live_def)
  have L: "?L t = Some (I64, False)" if "t \<in> D" for t using that by simp
  have L': "?L t = Some (I32, False)" if "t \<in> E" for t using that disj by simp
  have "list_all (\<lambda>gen. \<exists>fl. runs term_backend demo_env fl s blank_machine gen
      (\<lambda>s' m'. \<exists>A' r'. St term_backend sval (\<lambda>_. 0) (?b - n) ?L A' r' s' m')) xs"
    by (rule run [OF _ _ _ St_blank [OF assms(1) _ w]]) (use assms(2) disj in \<open>auto simp: lty_def\<close>)
  then show ?thesis
    by (rule list.pred_mono_strong) (elim exE, rule gen_returnsI [OF _ _ L L'], assumption, use assms(2) in simp)
qed

text \<open>C22: The generators of bit fields, masks and zero extensions call one another, with fallbacks that depend
  on the host. On every host they return, without reaching an assertion or the limit on temporaries: from
  well-formed temporaries with room for 30 more they reach well-formed temporaries, use at most 30 new ones, only
  append operations, and leave the types of the registers unchanged.\<close>

theorem gen_fields_return:
  assumes "wf_temps s" and "nb_temps s + 30 \<le> TCG_MAX_TEMPS"
    and "\<forall>u \<in> {t, a1, a2}. writable s u (I64, False)" and "\<forall>u \<in> {t', a1', a2'}. writable s u (I32, False)"
    and "0 < unat len" "unat ofs + unat len \<le> 64" and "0 < unat len'" "unat ofs' + unat len' \<le> 32"
  shows "list_all (gen_returns 30 {t, a1, a2} {t', a1', a2'} s)
      [tcg_gen_deposit_i64 H t a1 a2 ofs len s, tcg_gen_extract2_i64 H t a1 a2 ofs s, tcg_gen_deposit_z_i64 H t a1 ofs len s,
       tcg_gen_extract_i64 H t a1 ofs len s, tcg_gen_sextract_i64 H t a1 ofs len s, tcg_gen_andi_i64 H t a1 k s,
       tcg_gen_ext8u_i64 H t a1 s, tcg_gen_ext16u_i64 H t a1 s, tcg_gen_ext32u_i64 H t a1 s,
       tcg_gen_deposit_i32 H t' a1' a2' ofs' len' s, tcg_gen_extract2_i32 H t' a1' a2' ofs' s, tcg_gen_deposit_z_i32 H t' a1' ofs' len' s,
       tcg_gen_extract_i32 H t' a1' ofs' len' s, tcg_gen_sextract_i32 H t' a1' ofs' len' s, tcg_gen_andi_i32 H t' a1' k' s,
       tcg_gen_ext8u_i32 H t' a1' s, tcg_gen_ext16u_i32 H t' a1' s]"
proof (rule list_all_returnsI [OF assms(1,2)])
  fix b L A
  assume b: "30 \<le> b" and D: "\<And>u. u \<in> {t, a1, a2} \<Longrightarrow> lty L u = Some I64 \<and> A u = V64 0 0"
    and E: "\<And>u. u \<in> {t', a1', a2'} \<Longrightarrow> lty L u = Some I32 \<and> A u = V32 0 0"
    and st: "St term_backend sval (\<lambda>_. 0) b L A demo_rt s blank_machine"
  have "lty L t = Some I64" "A a1 = V64 0 0" "A a2 = V64 0 0" "lty L t' = Some I32" "A a1' = V32 0 0" "A a2' = V32 0 0"
    using D [of t] D [of a1] D [of a2] E [of t'] E [of a1'] E [of a2'] by simp_all
  note f = fields_keep_types [OF tb.sym_backend_axioms st b this(1-3) assms(5,6) this(4-6) assms(7,8)]
  show "list_all (\<lambda>gen. \<exists>fl. runs term_backend demo_env fl s blank_machine gen
      (\<lambda>s' m'. \<exists>A' r'. St term_backend sval (\<lambda>_. 0) (b - 30) L A' r' s' m'))
      [tcg_gen_deposit_i64 H t a1 a2 ofs len s, tcg_gen_extract2_i64 H t a1 a2 ofs s, tcg_gen_deposit_z_i64 H t a1 ofs len s,
       tcg_gen_extract_i64 H t a1 ofs len s, tcg_gen_sextract_i64 H t a1 ofs len s, tcg_gen_andi_i64 H t a1 k s,
       tcg_gen_ext8u_i64 H t a1 s, tcg_gen_ext16u_i64 H t a1 s, tcg_gen_ext32u_i64 H t a1 s,
       tcg_gen_deposit_i32 H t' a1' a2' ofs' len' s, tcg_gen_extract2_i32 H t' a1' a2' ofs' s, tcg_gen_deposit_z_i32 H t' a1' ofs' len' s,
       tcg_gen_extract_i32 H t' a1' ofs' len' s, tcg_gen_sextract_i32 H t' a1' ofs' len' s, tcg_gen_andi_i32 H t' a1' k' s,
       tcg_gen_ext8u_i32 H t' a1' s, tcg_gen_ext16u_i32 H t' a1' s]"
    by (rule list.pred_mono_strong [OF f]) (rule exI)
qed (use assms(3,4) in auto)

theorem gen_fields_return_witness:
  "list_all (gen_returns 30 {6, 2, 4} {14, 10, 12} demo_ctx)
     [tcg_gen_deposit_i64 plain_host 6 2 4 8 16 demo_ctx, tcg_gen_sextract_i32 plain_host 14 10 3 9 demo_ctx]"
proof -
  have "\<forall>u \<in> {6, 2, 4}. writable demo_ctx u (I64, False)" "\<forall>u \<in> {14, 10, 12}. writable demo_ctx u (I32, False)"
    using demo_writable [of 1] demo_writable [of 2] demo_writable [of 3] demo_writable [of 5] demo_writable [of 6] demo_writable [of 7]
    by (simp_all add: writable_def)
  then show ?thesis
    using gen_fields_return [OF demo_wf, of 6 2 4 14 10 12 16 8 9 3 plain_host 0 0]
    by (simp add: demo_temps(1) TCG_MAX_TEMPS_def)
qed

text \<open>C23: Generating a block from well-formed temporaries returns, keeps the temporaries well formed and the
  registers at their type, and allocates at most as many temporaries as \<open>insn_temps\<close> says of its instructions and
  4 for the branch, provided that so many temporaries are left below the limit (past it the code raises the overflow
  of the translation block) and that the instructions satisfy \<open>insn_ok\<close>: shift counts below 64, bit fields inside the
  word, valid condition codes, and for set-on-condition and and-with-complement a target that is none of the
  operands.\<close>

theorem gen_block_bounded:
  assumes "wf_temps s" and "nb_temps s + (sum_list (map insn_temps is) + 4) \<le> TCG_MAX_TEMPS"
    and "\<forall>u \<in> D. writable s u (I64, False)"
    and "\<forall>i \<in> set is. set (insn_regs i) \<subseteq> D \<and> insn_ok i" and "is_cond k" "a \<in> D" "c \<in> D"
  shows "gen_returns (sum_list (map insn_temps is) + 4) D {} s (gen_block H is k a c l s)"
proof -
  have "list_all (gen_returns (sum_list (map insn_temps is) + 4) D {} s) [gen_block H is k a c l s]"
  proof (rule list_all_returnsI [OF assms(1,2)])
    fix b L A
    assume b: "sum_list (map insn_temps is) + 4 \<le> b" and D: "\<And>u. u \<in> D \<Longrightarrow> lty L u = Some I64 \<and> A u = V64 0 0"
      and "St term_backend sval (\<lambda>_. 0) b L A demo_rt s blank_machine"
    then have st: "St term_backend sval (\<lambda>_. 0) b L (lockstep D (\<lambda>_. 0) (\<lambda>_. 0)) demo_rt s blank_machine"
      by (elim St_weaken) (simp_all add: lockstep_def split: if_splits)
    have ty: "\<forall>u \<in> D. lty L u = Some I64" using D by blast
    show "list_all (\<lambda>gen. \<exists>fl. runs term_backend demo_env fl s blank_machine gen
        (\<lambda>s' m'. \<exists>A' r'. St term_backend sval (\<lambda>_. 0) (b - (sum_list (map insn_temps is) + 4)) L A' r' s' m')) [gen_block H is k a c l s]"
      unfolding list.pred_inject
    proof (intro conjI exI)
      show "runs term_backend demo_env (if last (block_conds is k a c (\<lambda>_. 0)) then Jump (of_nat l) else Next) s blank_machine (gen_block H is k a c l s)
        (\<lambda>s' m'. \<exists>A' r'. St term_backend sval (\<lambda>_. 0) (b - (sum_list (map insn_temps is) + 4)) L A' r' s' m')"
        by (rule runs_mono [OF tb.runs_block [OF st ty assms(4-7) b]]) blast
    qed simp
  qed (use assms(3) in auto)
  then show ?thesis by simp
qed

theorem gen_block_bounded_witness:
  "gen_returns 10 {2, 4, 6, 8} {} demo_ctx (gen_block plain_host demo_block TCG_COND_EQ 6 4 1 demo_ctx)"
proof -
  have "\<forall>u \<in> {2, 4, 6, 8}. writable demo_ctx u (I64, False)"
    using demo_writable [of 1] demo_writable [of 2] demo_writable [of 3] demo_writable [of 4] by (simp add: writable_def)
  moreover have "sum_list (map insn_temps demo_block) = 6" "\<forall>i \<in> set demo_block. set (insn_regs i) \<subseteq> {2, 4, 6, 8} \<and> insn_ok i"
    by (simp_all add: demo_block_def cond_eval_demo)
  ultimately show ?thesis
    using gen_block_bounded [OF demo_wf, of demo_block "{2, 4, 6, 8}" TCG_COND_EQ 6 4 plain_host 1]
    by (simp add: demo_temps(1) TCG_MAX_TEMPS_def cond_eval_demo)
qed

text \<open>C31: \<open>tcg_gen_setcond_i64\<close> emits the call of the symbolic helper after the operation. This is its exact effect
  for every choice of the target, for the conditions that compare, when at least one operand has an expression: the
  helper compares the operands as they are after the operation, and an operand that is the target and has no
  expression counts as the outcome 0 or 1 that was just written over it. The target's expression and the recorded path
  constraint are about this other comparison. So an input satisfies the path constraint if and only if the wrong
  comparison gives it the outcome of this run; the instance shows an input that takes the other side of the
  comparison and satisfies the constraint.\<close>

theorem setcond_alias_defect:
  assumes "sym_backend B ev evb" and "St B ev \<sigma> b L A r s m" and "2 \<le> b" and "is_compare k"
    and "lty L t = Some I64" "A a1 = V64 c x" "A a2 = V64 d y"
    and "texpr s m a1 \<noteq> Some None \<or> texpr s m a2 \<noteq> Some None"
    and "cd = cond_eval k c d"
    and "xd = cond_eval k (overwritten s m t (of_bool cd) a1 x) (overwritten s m t (of_bool cd) a2 y)"
  shows "runs B env Next s m (tcg_gen_setcond_i64 k t a1 a2 s) (\<lambda>s' m'. \<exists>r'.
    (follows evb \<sigma> r' \<longleftrightarrow> follows evb \<sigma> r \<and> xd = cd) \<and>
    St B ev \<sigma> (b - 2) L (A(t := V64 (of_bool cd) (of_bool xd))) r' s' m')"
  by (rule sym_backend.runs_setcond_alias [OF assms(1,2,5-7,4,3,8-10)]) (intro exI conjI; (rule branched_follows)?; assumption)

theorem setcond_alias_witness:
  "runs term_backend demo_env Next demo_ctx (set_slot 4 (Num 9) demo_machine) (tcg_gen_setcond_i64 TCG_COND_EQ 4 4 2 demo_ctx)
     (\<lambda>s' m'. \<exists>r'. follows strue demo_input r' \<and> St term_backend sval demo_input 398 demo_regs (demo_vals(4 := V64 0 0)) r' s' m')
   \<and> cond_eval TCG_COND_EQ (9 :: u64) 5 \<noteq> cond_eval TCG_COND_EQ (9 :: u64) 9"
  using setcond_alias_defect [OF tb.sym_backend_axioms demo_set [of 9] _ _ _ _ _ _ refl refl, of TCG_COND_EQ 4 4 9 9 2 5 9 demo_env]
  by (simp add: demo_texpr overwritten_def is_compare_def demo_simps cond_eval_demo follows_demo)

lemma sint_nonneg_uint: "0 \<le> sint w \<Longrightarrow> sint w = uint (w :: 'a::len word)"
proof -
    assume that: "0 \<le> sint w"
    have "sint w < 2 ^ (LENGTH('a) - 1)" by (rule sint_lt)
    also have "(2::int) ^ (LENGTH('a) - 1) \<le> 2 ^ LENGTH('a)" by (rule power_increasing) simp_all
    finally have "take_bit LENGTH('a) (sint w) = sint w" using that by (simp only: take_bit_int_eq_self)
    then show ?thesis by (simp only: uint_sint)
qed
lemma rem_unsigned:
  fixes x y :: "'a::len word"
  assumes "0 \<le> sint x" "0 \<le> sint y"
  shows "sym_helper_sem sym_rem x y = sym_helper_sem sym_remu x y"
proof -
  have "word_of_int (uint x smod uint y) = word_of_int (uint x mod uint y)" by (simp add: signed_modulo_int_def)
  then show ?thesis using sint_nonneg_uint [OF assms(1)] sint_nonneg_uint [OF assms(2)] by (simp add: word_mod_def)
qed

text \<open>C32: \<open>tcg_gen_remu_i64\<close> on a host with a remainder instruction, when the target is none of the operands, no
  divisor is zero and one of the operands has an expression: the number is the unsigned remainder, and the
  expression evaluates to the signed remainder of the operands' values, also on the very input of the run. The two agree
  when both operands are nonnegative as signed numbers; the instance shows that they differ otherwise.\<close>

theorem remu_i64_defect:
  assumes "sym_backend B ev evb" and "St B ev \<sigma> b L A r s m" and "HAS_rem H I64"
    and "lty L t = Some I64" "A a1 = V64 c x" "A a2 = V64 d y" "t \<noteq> a1" "t \<noteq> a2" "d \<noteq> 0" "y \<noteq> 0"
    and "texpr s m a1 \<noteq> Some None \<or> texpr s m a2 \<noteq> Some None"
  shows "runs B env Next s m (tcg_gen_remu_i64 H t a1 a2 s) (St B ev \<sigma> b L (A(t := V64 (c mod d) (word_of_int (sint x smod sint y)))) r)
    \<and> (0 \<le> sint x \<and> 0 \<le> sint y \<longrightarrow> word_of_int (sint x smod sint y) = x mod y)"
  using rem_unsigned [of x y] sym_backend.runs_remu_i64 [OF assms(1,2,4-10,3,11), where Q = "St B ev \<sigma> b L (A(t := V64 (c mod d) (word_of_int (sint x smod sint y)))) r" and env = env]
  by simp

theorem remu_i64_witness:
  "runs term_backend demo_env Next demo_ctx (set_slot 4 (Num (- 2)) demo_machine) (tcg_gen_remu_i64 tci_host 6 2 4 demo_ctx)
     (St term_backend sval demo_input 400 demo_regs (demo_vals(4 := V64 (- 2) (- 2), 6 := V64 5 1)) demo_rt)
   \<and> (9 :: u64) mod - 2 = 9"
  using remu_i64_defect [OF tb.sym_backend_axioms demo_set [of "- 2"], of tci_host 6 2 5 9 4 "- 2" "- 2" demo_env]
  by (simp add: demo_simps demo_texpr tci_host_def)

end
