(* ===== verification/Sym_Vec.thy ===== *)
theory Sym_Vec
  imports Sym_Runtime
begin

unbundle bit_operations_syntax

section \<open>The symbolic runtime of vectors\<close>

text \<open>
  The helpers of \<open>accel/tcg/tcg-runtime-sym-vec.c\<close>. A vector operand is the address of a buffer in host memory with
  its concrete value and an expression over all its bits, NULL (\<open>None\<close>) when it is concrete. The element size is
  \<open>8 * 2 ^ vece\<close> bits. The static arrays that the C functions keep between calls only hold the elements of the
  current call; they are lists here.
\<close>

text \<open>\<open>8 << vece\<close> is a shift of a signed \<open>int\<close>, undefined when the result does not fit.\<close>

definition vece_element_size :: "u64 \<Rightarrow> u64 option" where
  "vece_element_size vece = (if unat vece < 28 then Some (push_bit (unat vece) 8) else None)"

definition split_expression :: "('e, 'm) backend \<Rightarrow> 'e \<Rightarrow> u64 \<Rightarrow> u64 \<Rightarrow> 'e list option" where
  "split_expression B expression element_count element_size = do {
     c_assert (sym_bits_helper B expression mod element_count = 0);
     Some (map (\<lambda>i. sym_extract_helper B expression ((i + 1) * element_size - 1) (i * element_size))
       (map of_nat [0..<unat element_count])) }"

fun merge_elements :: "('e, 'm) backend \<Rightarrow> ('e \<Rightarrow> 'e \<Rightarrow> 'e) \<Rightarrow> 'e \<Rightarrow> ('e \<times> 'e) list \<Rightarrow> 'e \<Rightarrow> 'e option" where
  "merge_elements B symbolic_operation first [] merged_result = Some merged_result"
| "merge_elements B symbolic_operation first ((x, y) # es) merged_result = do {
     c_assert (sym_bits_helper B first = sym_bits_helper B x);
     merge_elements B symbolic_operation first es (sym_concat_helper B (symbolic_operation x y) merged_result) }"

definition apply_op_and_merge :: "('e, 'm) backend \<Rightarrow> ('e \<Rightarrow> 'e \<Rightarrow> 'e) \<Rightarrow> 'e list \<Rightarrow> 'e list \<Rightarrow> 'e option" where
  "apply_op_and_merge B symbolic_operation args1 args2 = (case zip args1 args2 of
     [] \<Rightarrow> None
   | (x, y) # es \<Rightarrow> merge_elements B symbolic_operation x es (symbolic_operation x y))"

definition read_buffer :: "(u64 \<Rightarrow> u8) \<Rightarrow> u64 \<Rightarrow> u64 \<Rightarrow> u8 list" where
  "read_buffer mem addr bits = map (\<lambda>i. mem (addr + of_nat i)) [0..<unat bits div 8]"

definition vec_operand :: "('e, 'm) backend \<Rightarrow> (u64 \<Rightarrow> u8) \<Rightarrow> u64 \<Rightarrow> 'e option \<Rightarrow> u64 \<Rightarrow> 'e" where
  "vec_operand B mem concrete symbolic vector_size = (case symbolic of
     None \<Rightarrow> sym_build_integer_from_buffer B (read_buffer mem concrete vector_size) vector_size
   | Some e \<Rightarrow> e)"

definition build_expression_for_vector_vector_op ::
  "('e, 'm) backend \<Rightarrow> (u64 \<Rightarrow> u8) \<Rightarrow> u64 \<Rightarrow> 'e option \<Rightarrow> u64 \<Rightarrow> 'e option \<Rightarrow> u64 \<Rightarrow> u64 \<Rightarrow> ('e \<Rightarrow> 'e \<Rightarrow> 'e) \<Rightarrow>
   'e option option" where
  "build_expression_for_vector_vector_op B mem arg1_concrete arg1_symbolic arg2_concrete arg2_symbolic
     vector_size vece symbolic_operation = do {
     element_size \<leftarrow> vece_element_size vece;
     c_assert (vector_size mod element_size = 0);
     let element_count = vector_size div element_size;
     c_assert (vector_size = 64 \<or> vector_size = 128 \<or> vector_size = 256);
     c_assert (element_size \<le> vector_size);
     (if arg1_symbolic = None \<and> arg2_symbolic = None then Some None
      else do {
        let arg1 = vec_operand B mem arg1_concrete arg1_symbolic vector_size;
        let arg2 = vec_operand B mem arg2_concrete arg2_symbolic vector_size;
        c_assert (sym_bits_helper B arg1 = sym_bits_helper B arg2 \<and> sym_bits_helper B arg1 = vector_size);
        arg1_elts \<leftarrow> split_expression B arg1 element_count element_size;
        arg2_elts \<leftarrow> split_expression B arg2 element_count element_size;
        result \<leftarrow> apply_op_and_merge B symbolic_operation arg1_elts arg2_elts;
        c_assert (sym_bits_helper B result = vector_size);
        Some (Some result) }) }"

definition build_expression_for_vector_int32_op ::
  "('e, 'm) backend \<Rightarrow> (u64 \<Rightarrow> u8) \<Rightarrow> u64 \<Rightarrow> 'e option \<Rightarrow> u32 \<Rightarrow> 'e option \<Rightarrow> u64 \<Rightarrow> u64 \<Rightarrow> ('e \<Rightarrow> 'e \<Rightarrow> 'e) \<Rightarrow>
   'e option option" where
  "build_expression_for_vector_int32_op B mem arg1_concrete arg1_symbolic arg2_concrete arg2_symbolic
     vector_size vece symbolic_operation = do {
     element_size \<leftarrow> vece_element_size vece;
     c_assert (vector_size mod element_size = 0);
     let element_count = vector_size div element_size;
     c_assert (vector_size = 64 \<or> vector_size = 128 \<or> vector_size = 256);
     c_assert (element_size \<le> vector_size);
     (if arg1_symbolic = None \<and> arg2_symbolic = None then Some None
      else do {
        let arg1 = vec_operand B mem arg1_concrete arg1_symbolic vector_size;
        let arg2 = (case arg2_symbolic of None \<Rightarrow> sym_build_integer B (ucast arg2_concrete) 32 | Some e \<Rightarrow> e);
        c_assert (sym_bits_helper B arg1 = vector_size);
        c_assert (sym_bits_helper B arg2 = 32);
        let arg2 = (if element_size \<noteq> 32 then sym_build_zext B arg2 (element_size - 32) else arg2);
        arg1_elts \<leftarrow> split_expression B arg1 element_count element_size;
        result \<leftarrow> apply_op_and_merge B symbolic_operation arg1_elts (replicate (unat element_count) arg2);
        c_assert (sym_bits_helper B result = vector_size);
        Some (Some result) }) }"

text \<open>The helpers \<open>helper_sym_<name>_vec\<close> and \<open>helper_sym_<name>_vec_int32\<close>, by the operation on elements.\<close>

datatype vec_helper =
    sym_and_vec | sym_or_vec | sym_xor_vec | sym_add_vec | sym_sub_vec | sym_mul_vec
  | sym_signed_saturating_add_vec | sym_signed_saturating_sub_vec
  | sym_unsigned_saturating_add_vec | sym_unsigned_saturating_sub_vec
  | sym_shift_left_vec | sym_logical_shift_right_vec | sym_arithmetic_shift_right_vec
  | sym_rotate_left_vec | sym_rotate_right_vec

fun vec_helper_expr :: "('e, 'm) backend \<Rightarrow> vec_helper \<Rightarrow> 'e \<Rightarrow> 'e \<Rightarrow> 'e" where
  "vec_helper_expr B sym_and_vec = sym_build B build_and"
| "vec_helper_expr B sym_or_vec = sym_build B build_or"
| "vec_helper_expr B sym_xor_vec = sym_build B build_xor"
| "vec_helper_expr B sym_add_vec = sym_build B build_add"
| "vec_helper_expr B sym_sub_vec = sym_build B build_sub"
| "vec_helper_expr B sym_mul_vec = sym_build B build_mul"
| "vec_helper_expr B sym_signed_saturating_add_vec = sym_build B build_sadd_sat"
| "vec_helper_expr B sym_signed_saturating_sub_vec = sym_build B build_ssub_sat"
| "vec_helper_expr B sym_unsigned_saturating_add_vec = sym_build B build_uadd_sat"
| "vec_helper_expr B sym_unsigned_saturating_sub_vec = sym_build B build_usub_sat"
| "vec_helper_expr B sym_shift_left_vec = sym_build B build_shift_left"
| "vec_helper_expr B sym_logical_shift_right_vec = sym_build B build_logical_shift_right"
| "vec_helper_expr B sym_arithmetic_shift_right_vec = sym_build B build_arithmetic_shift_right"
| "vec_helper_expr B sym_rotate_left_vec = sym_rotate_left_expr B"
| "vec_helper_expr B sym_rotate_right_vec = sym_rotate_right_expr B"

definition sym_binary_vec ::
  "('e, 'm) backend \<Rightarrow> vec_helper \<Rightarrow> (u64 \<Rightarrow> u8) \<Rightarrow> u64 \<Rightarrow> 'e option \<Rightarrow> u64 \<Rightarrow> 'e option \<Rightarrow> u64 \<Rightarrow> u64 \<Rightarrow> 'e option option" where
  "sym_binary_vec B h mem arg1 arg1_expr arg2 arg2_expr vsize vece =
     build_expression_for_vector_vector_op B mem arg1 arg1_expr arg2 arg2_expr vsize vece (vec_helper_expr B h)"

text \<open>The source has this variant for the shifts and the rotations.\<close>

definition sym_binary_vec_int32 ::
  "('e, 'm) backend \<Rightarrow> vec_helper \<Rightarrow> (u64 \<Rightarrow> u8) \<Rightarrow> u64 \<Rightarrow> 'e option \<Rightarrow> u32 \<Rightarrow> 'e option \<Rightarrow> u64 \<Rightarrow> u64 \<Rightarrow> 'e option option" where
  "sym_binary_vec_int32 B h mem arg1 arg1_expr arg2 arg2_expr vsize vece =
     build_expression_for_vector_int32_op B mem arg1 arg1_expr arg2 arg2_expr vsize vece (vec_helper_expr B h)"

definition sym_duplicate_value_into_vec :: "('e, 'm) backend \<Rightarrow> 'e option \<Rightarrow> u64 \<Rightarrow> u64 \<Rightarrow> 'e option option" where
  "sym_duplicate_value_into_vec B value_expression vector_size vece = do {
     c_assert (vector_size = 64 \<or> vector_size = 128 \<or> vector_size = 256);
     element_size \<leftarrow> vece_element_size vece;
     c_assert (element_size \<le> vector_size);
     c_assert (vector_size mod element_size = 0);
     (case value_expression of
       None \<Rightarrow> Some None
     | Some value \<Rightarrow> do {
         c_assert (sym_bits_helper B value = 32 \<or> sym_bits_helper B value = 64);
         let resized_value_expr =
           (if sym_bits_helper B value = element_size then value
            else if sym_bits_helper B value < element_size then sym_build_zext B value element_size
            else sym_extract_helper B value (element_size - 1) 0);
         let element_count = vector_size div element_size;
         let result_expression = (sym_concat_helper B resized_value_expr ^^ (unat element_count - 1)) resized_value_expr;
         c_assert (sym_bits_helper B result_expression = vector_size);
         Some (Some result_expression) }) }"

definition sym_load_and_duplicate_into_vec ::
  "('e, 'm) backend \<Rightarrow> u64 \<Rightarrow> u64 \<Rightarrow> u64 \<Rightarrow> u64 \<Rightarrow> ('e, 'm) rt \<Rightarrow> 'e option option" where
  "sym_load_and_duplicate_into_vec B load_address address_offset vector_size vece rt = do {
     c_assert (vector_size = 64 \<or> vector_size = 128 \<or> vector_size = 256);
     element_size \<leftarrow> vece_element_size vece;
     c_assert (element_size \<le> vector_size);
     c_assert (vector_size mod element_size = 0);
     let value_expr = sym_load_host_vec B load_address address_offset (element_size div 8) rt;
     c_assert (case value_expr of None \<Rightarrow> True | Some e \<Rightarrow> sym_bits_helper B e = element_size);
     sym_duplicate_value_into_vec B value_expr vector_size vece }"

text \<open>The assertion compares a byte address with sizes in bits, as in the source.\<close>

definition element_address :: "u64 \<Rightarrow> u64 \<Rightarrow> u64 \<Rightarrow> u64 \<Rightarrow> u64 option" where
  "element_address concrete_vector element_index element_size vector_size = do {
     let result = concrete_vector + element_index * element_size div 8;
     c_assert (result + element_size \<le> concrete_vector + vector_size);
     Some result }"

fun push_constraints ::
  "('e, 'm) backend \<Rightarrow> CPUArchState \<Rightarrow> u32 \<Rightarrow> ('e \<times> 'e \<times> u8) list \<Rightarrow> ('e, 'm) rt \<Rightarrow> ('e, 'm) rt option" where
  "push_constraints B env comparison_operator [] rt = Some rt"
| "push_constraints B env comparison_operator ((x, y, is_taken) # es) rt = do {
     (_, rt) \<leftarrow> build_and_push_path_constraint B env x y comparison_operator is_taken rt;
     push_constraints B env comparison_operator es rt }"

text \<open>In \<open>sym_cmp_vec\<close> one loop reads the outcome of an element and pushes its constraint; reading does not depend on
  what was pushed, so the outcomes are collected first.\<close>

definition sym_cmp_vec ::
  "('e, 'm) backend \<Rightarrow> CPUArchState \<Rightarrow> u64 \<Rightarrow> 'e option \<Rightarrow> u64 \<Rightarrow> 'e option \<Rightarrow> u32 \<Rightarrow> u64 \<Rightarrow> u64 \<Rightarrow> u64 \<Rightarrow> ('e, 'm) rt \<Rightarrow>
   ('e option \<times> ('e, 'm) rt) option" where
  "sym_cmp_vec B env arg1_concrete arg1_symbolic arg2_concrete arg2_symbolic comparison_operator result_concrete
     vector_size vece rt = do {
     element_size \<leftarrow> vece_element_size vece;
     c_assert (vector_size mod element_size = 0);
     let element_count = vector_size div element_size;
     c_assert (vector_size = 64 \<or> vector_size = 128 \<or> vector_size = 256);
     c_assert (element_size \<le> vector_size);
     (if arg1_symbolic = None \<and> arg2_symbolic = None then Some (None, rt)
      else do {
        let arg1 = vec_operand B (rt_mem rt) arg1_concrete arg1_symbolic vector_size;
        let arg2 = vec_operand B (rt_mem rt) arg2_concrete arg2_symbolic vector_size;
        c_assert (sym_bits_helper B arg1 = sym_bits_helper B arg2 \<and> sym_bits_helper B arg1 = vector_size);
        arg1_elts \<leftarrow> split_expression B arg1 element_count element_size;
        arg2_elts \<leftarrow> split_expression B arg2 element_count element_size;
        addrs \<leftarrow> those (map (\<lambda>i. element_address result_concrete (of_nat i) element_size vector_size) [0..<unat element_count]);
        rt \<leftarrow> push_constraints B env comparison_operator (zip arg1_elts (zip arg2_elts (map (rt_mem rt) addrs))) rt;
        Some (None, rt) }) }"

definition sym_ternary_vec ::
  "('e, 'm) backend \<Rightarrow> CPUArchState \<Rightarrow> u64 \<Rightarrow> 'e option \<Rightarrow> u64 \<Rightarrow> 'e option \<Rightarrow> u32 \<Rightarrow> u64 \<Rightarrow> u64 \<Rightarrow> u64 \<Rightarrow> ('e, 'm) rt \<Rightarrow>
   ('e option \<times> ('e, 'm) rt) option" where
  "sym_ternary_vec B env arg1_concrete arg1_symbolic arg2_concrete arg2_symbolic comparison_operator concrete_result
     vector_size vece rt = do {
     element_size \<leftarrow> vece_element_size vece;
     c_assert (vector_size mod element_size = 0);
     let element_count = vector_size div element_size;
     c_assert (vector_size = 64 \<or> vector_size = 128 \<or> vector_size = 256);
     c_assert (element_size \<le> vector_size);
     (if arg1_symbolic = None \<and> arg2_symbolic = None then Some (None, rt)
      else do {
        let arg1 = vec_operand B (rt_mem rt) arg1_concrete arg1_symbolic vector_size;
        let arg2 = vec_operand B (rt_mem rt) arg2_concrete arg2_symbolic vector_size;
        c_assert (sym_bits_helper B arg1 = sym_bits_helper B arg2 \<and> sym_bits_helper B arg1 = vector_size);
        arg1_elts \<leftarrow> split_expression B arg1 element_count element_size;
        arg2_elts \<leftarrow> split_expression B arg2 element_count element_size;
        result_ptrs \<leftarrow> those (map (\<lambda>i. element_address concrete_result (of_nat i) element_size vector_size) [0..<unat element_count]);
        arg1_ptrs \<leftarrow> those (map (\<lambda>i. element_address arg1_concrete (of_nat i) element_size vector_size) [0..<unat element_count]);
        let was_true = map2 (\<lambda>p q. read_buffer (rt_mem rt) p element_size = read_buffer (rt_mem rt) q element_size) result_ptrs arg1_ptrs;
        rt \<leftarrow> push_constraints B env comparison_operator (zip arg1_elts (zip arg2_elts (map of_bool was_true))) rt;
        let chosen = map2 (\<lambda>t (x, y). if t then x else y) was_true (zip arg1_elts arg2_elts);
        c_assert (chosen \<noteq> []);
        let result_expression = fold (sym_concat_helper B) (tl chosen) (hd chosen);
        c_assert (sym_bits_helper B result_expression = vector_size);
        Some (Some result_expression, rt) }) }"

end
