(* ===== verification/Sym_Vec_Correct.thy ===== *)
theory Sym_Vec_Correct
  imports Sym_Vec Gen_Logic
begin

unbundle bit_operations_syntax

section \<open>The symbolic runtime of vectors: correctness\<close>

text \<open>
  A vector of \<open>n\<close>-bit elements is an integer; \<open>lane n i\<close> is its \<open>i\<close>-th element. Splitting an expression gives
  expressions for its elements, and concatenating expressions gives a vector of their values. \<open>vec_shape\<close> holds of the
  sizes that the helpers accept, \<open>vec_elt\<close> and \<open>vec_count\<close> are the size and the number of the elements.
\<close>

definition lane :: "nat \<Rightarrow> nat \<Rightarrow> int \<Rightarrow> int" where
  "lane n i v = take_bit n (drop_bit (n * i) v)"

primrec lanes_val :: "nat \<Rightarrow> int list \<Rightarrow> int" where
  "lanes_val n [] = 0"
| "lanes_val n (v # vs) = v + push_bit n (lanes_val n vs)"

lemma lane_lanes_val:
  assumes "\<forall>v \<in> set vs. 0 \<le> v \<and> v < 2 ^ n" and "i < length vs"
  shows "lane n i (lanes_val n vs) = vs ! i"
  using assms
proof (induction vs arbitrary: i)
  case (Cons v vs)
  have d: "drop_bit n (v + push_bit n w) = w" for w
    using Cons.prems(1) by (simp add: drop_bit_eq_div push_bit_eq_mult)
  show ?case
  proof (cases i)
    case 0
    then show ?thesis
      using Cons.prems(1) by (simp add: lane_def take_bit_eq_mod push_bit_eq_mult)
  next
    case (Suc j)
    have "drop_bit (n + n * j) (v + push_bit n (lanes_val n vs)) = drop_bit (n * j) (lanes_val n vs)"
      by (simp add: drop_bit_drop_bit [symmetric] add.commute [of n] d)
    then show ?thesis
      using Cons Suc by (simp add: lane_def)
  qed
qed simp

text \<open>The sizes that the helpers accept.\<close>

definition vec_shape :: "u64 \<Rightarrow> u64 \<Rightarrow> bool" where
  "vec_shape vsize vece \<longleftrightarrow> vece \<in> {0, 1, 2, 3} \<and> vsize \<in> {64, 128, 256}"

definition vec_elt :: "u64 \<Rightarrow> nat" where
  "vec_elt vece = 8 * 2 ^ unat vece"

definition vec_count :: "u64 \<Rightarrow> u64 \<Rightarrow> nat" where
  "vec_count vsize vece = unat vsize div vec_elt vece"

lemma vec_shapeE:
  assumes "vec_shape vsize vece"
  obtains es where "vece_element_size vece = Some es" "unat es = vec_elt vece" "vsize mod es = 0" "es \<le> vsize"
    "unat (vsize div es) = vec_count vsize vece" "unat vsize = vec_elt vece * vec_count vsize vece" "0 < vec_count vsize vece"
    "vec_elt vece \<in> {8, 16, 32, 64}" "unat vsize \<le> 256" "es = of_nat (vec_elt vece)"
proof -
  let ?es = "push_bit (unat vece) 8 :: u64"
  have e: "unat vece < 28" "vec_elt vece \<in> {8, 16, 32, 64}" "?es = of_nat (vec_elt vece)"
    using assms by (auto simp: vec_shape_def vec_elt_def push_bit_eq_mult)
  have es: "unat ?es = vec_elt vece"
    using e(2) unfolding e(3) by (auto simp: unat_of_nat take_bit_nat_eq_self)
  have v: "unat vsize \<in> {64, 128, 256}" "vsize = of_nat (unat vsize)"
    using assms by (auto simp: vec_shape_def)
  have "vec_elt vece dvd unat vsize" "vec_elt vece \<le> unat vsize"
    using e(2) v(1) by auto
  then show thesis
    using e es v(1) by (intro that [of ?es])
      (auto simp: vece_element_size_def vec_count_def word_unat_eq_iff unat_mod unat_div word_le_nat_alt div_greater_zero_iff)
qed

text \<open>An operation on elements: on expressions of \<open>n\<close> bits it gives one of \<open>n\<close> bits, which evaluates to \<open>g\<close> where the
  second operand satisfies \<open>P\<close>.\<close>

definition elt_op ::
  "('e, 'm) backend \<Rightarrow> ('i \<Rightarrow> 'e \<Rightarrow> int) \<Rightarrow> nat \<Rightarrow> ('e \<Rightarrow> 'e \<Rightarrow> 'e) \<Rightarrow> (int \<Rightarrow> bool) \<Rightarrow> (int \<Rightarrow> int \<Rightarrow> int) \<Rightarrow> bool" where
  "elt_op B ev n f P g \<longleftrightarrow> (\<forall>a b. sym_width B a = n \<and> sym_width B b = n \<longrightarrow>
     sym_width B (f a b) = n \<and> (\<forall>\<sigma>. P (ev \<sigma> b) \<longrightarrow> ev \<sigma> (f a b) = g (ev \<sigma> a) (ev \<sigma> b)))"

definition vec_typed :: "('e, 'm) backend \<Rightarrow> u64 \<Rightarrow> 'e option \<Rightarrow> bool" where
  "vec_typed B vsize e \<longleftrightarrow> (case e of None \<Rightarrow> True | Some e \<Rightarrow> sym_width B e = unat vsize)"

text \<open>What a vector operand is at the input \<open>\<sigma>\<close>: its expression's value, or the bytes of its buffer.\<close>

definition vec_shadow :: "('i \<Rightarrow> 'e \<Rightarrow> int) \<Rightarrow> 'i \<Rightarrow> (u64 \<Rightarrow> u8) \<Rightarrow> u64 \<Rightarrow> u64 \<Rightarrow> 'e option \<Rightarrow> int" where
  "vec_shadow ev \<sigma> mem addr vsize e = (case e of None \<Rightarrow> bytes_val (read_buffer mem addr vsize) | Some e \<Rightarrow> ev \<sigma> e)"

lemma unat_small: "k < 2 ^ 32 \<Longrightarrow> unat (of_nat k :: u64) = k"
  by (simp add: unat_of_nat take_bit_nat_eq_self)

context sym_backend
begin

lemma split_ok:
  assumes "sym_width B e = n * c" "0 < n" "0 < c" "n * c \<le> 256" "unat ec = c" "unat es = n"
  shows "\<exists>xs. split_expression B e ec es = Some xs \<and> length xs = c \<and>
    (\<forall>i < c. sym_width B (xs ! i) = n \<and> (\<forall>\<sigma>. ev \<sigma> (xs ! i) = lane n i (ev \<sigma> e)))"
proof -
  let ?xs = "map (\<lambda>i. sym_extract_helper B e ((i + 1) * es - 1) (i * es)) (map of_nat [0..<c])"
  have m: "sym_bits_helper B e mod ec = 0"
    using assms(1,5) by (simp add: sym_width_def word_unat_eq_iff unat_mod)
  have "sym_width B (?xs ! i) = n \<and> (\<forall>\<sigma>. ev \<sigma> (?xs ! i) = lane n i (ev \<sigma> e))" if i: "i < c" for i
  proof -
    have b: "i * n + n \<le> c * n" using i by (metis add.commute mult_Suc Suc_leI mult_le_mono1)
    have es: "es = of_nat n" using assms(6) by auto
    have "(of_nat i + 1) * es - 1 = of_nat (i * n + n - 1)"
      using assms(2) by (simp add: es of_nat_diff algebra_simps)
    then have hi: "unat ((of_nat i + 1) * es - 1) = i * n + n - 1"
      using b assms(4) by (simp add: unat_small mult.commute)
    have lo: "unat (of_nat i * es) = i * n"
      using b assms(4) by (simp add: es unat_small mult.commute flip: of_nat_mult)
    have "i * n \<le> i * n + n - 1" "i * n + n - 1 < sym_width B e" "i * n + n - 1 - i * n + 1 = n"
      using assms(1,2) b by (simp_all add: mult.commute)
    with extract_width [of "of_nat i * es" "(of_nat i + 1) * es - 1" e] extract_ev [of "of_nat i * es" "(of_nat i + 1) * es - 1" e]
    show ?thesis
      using i unfolding hi lo by (simp add: lane_def mult.commute)
  qed
  then show ?thesis
    using m assms(5) by (intro exI [of _ ?xs]) (simp add: split_expression_def)
qed

lemma fold_concat_ok:
  assumes "\<And>x. x \<in> set es \<Longrightarrow> sym_width B x = n" "sym_width B acc = n * k" "n * (k + length es) < 2 ^ 32"
  shows "sym_width B (fold (sym_concat_helper B) es acc) = n * (k + length es) \<and>
    ev \<sigma> (fold (sym_concat_helper B) es acc) = ev \<sigma> acc + push_bit (n * k) (lanes_val n (map (ev \<sigma>) es))"
  using assms
proof (induction es arbitrary: acc k)
  case (Cons x es)
  let ?acc = "sym_concat_helper B x acc"
  have x: "sym_width B x = n" using Cons.prems(1) by simp
  have w: "sym_width B x + sym_width B acc < 2 ^ 32"
    using x Cons.prems(2,3) by (simp add: algebra_simps)
  have "sym_width B ?acc = n * (k + 1)" "n * (k + 1 + length es) < 2 ^ 32"
    using concat_width [OF w] x Cons.prems(2,3) by (simp_all add: algebra_simps)
  from Cons.IH [OF _ this] Cons.prems(1)
  have r: "sym_width B (fold (sym_concat_helper B) es ?acc) = n * (k + 1 + length es)"
    "ev \<sigma> (fold (sym_concat_helper B) es ?acc) = ev \<sigma> ?acc + push_bit (n * (k + 1)) (lanes_val n (map (ev \<sigma>) es))"
    by auto
  have "ev \<sigma> (fold (sym_concat_helper B) es ?acc) = ev \<sigma> acc + push_bit (n * k) (lanes_val n (map (ev \<sigma>) (x # es)))"
    unfolding r(2) concat_ev [OF w]
    by (simp add: Cons.prems(2) push_bit_add distrib_left add.commute [of n])
  then show ?case
    using r(1) by simp
qed simp

lemma merge_fold:
  "list_all (\<lambda>(x, y). sym_bits_helper B x = sym_bits_helper B first) es \<Longrightarrow>
    merge_elements B f first es acc = Some (fold (sym_concat_helper B) (map (\<lambda>(x, y). f x y) es) acc)"
  by (induction es arbitrary: acc) auto

lemma concat_lanes:
  assumes "length zs = c" "0 < c" "n * c < 2 ^ 32" "\<And>z. z \<in> set zs \<Longrightarrow> sym_width B z = n"
  shows "sym_width B (fold (sym_concat_helper B) (tl zs) (hd zs)) = n * c"
    and "i < c \<Longrightarrow> lane n i (ev \<sigma> (fold (sym_concat_helper B) (tl zs) (hd zs))) = ev \<sigma> (zs ! i)"
proof -
  obtain z zs' where z: "zs = z # zs'" using assms(1,2) by (cases zs) auto
  note f = fold_concat_ok [of zs' n z 1 \<sigma>]
  show "sym_width B (fold (sym_concat_helper B) (tl zs) (hd zs)) = n * c"
    using f assms by (auto simp: z)
  have "ev \<sigma> (fold (sym_concat_helper B) (tl zs) (hd zs)) = lanes_val n (map (ev \<sigma>) zs)"
    using f assms by (auto simp: z)
  moreover have "0 \<le> ev \<sigma> v \<and> ev \<sigma> v < 2 ^ n" if "v \<in> set zs" for v
    using ev_range [of \<sigma> v] assms(4) [OF that] by simp
  ultimately show "i < c \<Longrightarrow> lane n i (ev \<sigma> (fold (sym_concat_helper B) (tl zs) (hd zs))) = ev \<sigma> (zs ! i)"
    using assms(1) by (simp add: lane_lanes_val)
qed

lemma apply_ok:
  assumes "length xs = c" "length ys = c" "0 < c" "n * c < 2 ^ 32"
    and "\<And>i. i < c \<Longrightarrow> sym_width B (xs ! i) = n \<and> sym_width B (f (xs ! i) (ys ! i)) = n"
  shows "\<exists>r. apply_op_and_merge B f xs ys = Some r \<and> sym_width B r = n * c \<and>
    (\<forall>\<sigma> i. i < c \<longrightarrow> lane n i (ev \<sigma> r) = ev \<sigma> (f (xs ! i) (ys ! i)))"
proof -
  let ?zs = "map (\<lambda>(x, y). f x y) (zip xs ys)"
  have "sym_width B z = n" if "z \<in> set ?zs" for z
    using that assms(1,2,5) by (auto simp: set_zip)
  note r = concat_lanes [of ?zs c n, OF _ assms(3,4) this]
  obtain x y es where c: "zip xs ys = (x, y) # es"
    using assms(1-3) by (cases xs; cases ys) auto
  have "list_all (\<lambda>(u, v). sym_width B u = n) (zip xs ys)"
    using assms(1,2,5) by (auto simp: list_all_length)
  then have "list_all (\<lambda>(u, v). sym_bits_helper B u = sym_bits_helper B x) es"
    by (auto simp: c list_all_iff bits_of_width)
  then have "apply_op_and_merge B f xs ys = Some (fold (sym_concat_helper B) (tl ?zs) (hd ?zs))"
    by (simp add: apply_op_and_merge_def c merge_fold)
  then show ?thesis using r assms(1,2) by simp
qed

end

fun vec_ok :: "nat \<Rightarrow> vec_helper \<Rightarrow> int \<Rightarrow> bool" where
  "vec_ok n sym_rotate_left_vec b = (b < int n)"
| "vec_ok n sym_rotate_right_vec b = (b < int n)"
| "vec_ok n _ b = True"

fun vec_sem :: "nat \<Rightarrow> vec_helper \<Rightarrow> int \<Rightarrow> int \<Rightarrow> int" where
  "vec_sem n sym_and_vec a b = a AND b"
| "vec_sem n sym_or_vec a b = a OR b"
| "vec_sem n sym_xor_vec a b = a XOR b"
| "vec_sem n sym_add_vec a b = (a + b) mod 2 ^ n"
| "vec_sem n sym_sub_vec a b = (a - b) mod 2 ^ n"
| "vec_sem n sym_mul_vec a b = (a * b) mod 2 ^ n"
| "vec_sem n sym_signed_saturating_add_vec a b = clamp (- (2 ^ (n - 1))) (2 ^ (n - 1) - 1) (bv_signed n a + bv_signed n b) mod 2 ^ n"
| "vec_sem n sym_signed_saturating_sub_vec a b = clamp (- (2 ^ (n - 1))) (2 ^ (n - 1) - 1) (bv_signed n a - bv_signed n b) mod 2 ^ n"
| "vec_sem n sym_unsigned_saturating_add_vec a b = min (2 ^ n - 1) (a + b)"
| "vec_sem n sym_unsigned_saturating_sub_vec a b = max 0 (a - b)"
| "vec_sem n sym_shift_left_vec a b = (a * 2 ^ nat b) mod 2 ^ n"
| "vec_sem n sym_logical_shift_right_vec a b = a div 2 ^ nat b"
| "vec_sem n sym_arithmetic_shift_right_vec a b = (bv_signed n a div 2 ^ nat b) mod 2 ^ n"
| "vec_sem n sym_rotate_left_vec a b = (a * 2 ^ nat b) mod 2 ^ n OR a div 2 ^ (n - nat b)"
| "vec_sem n sym_rotate_right_vec a b = a div 2 ^ nat b OR (a * 2 ^ (n - nat b)) mod 2 ^ n"

context sym_backend
begin

lemma elt_op_build: "(\<And>b. bv_defined op b) \<Longrightarrow> elt_op B ev n (sym_build B op) (\<lambda>_. True) (bv_binop n op)"
  by (simp add: elt_op_def binop_width binop_ev)

lemma rotate_count:
  assumes "sym_width B b = n" "n \<in> {8, 16, 32, 64}" "sym_width B a = n"
  shows "sym_width B (sym_build B build_sub (sym_build_integer B (ucast (ucast (sym_bits_helper B a) :: u8)) (ucast (ucast (sym_bits_helper B a) :: u8))) b) = n"
    and "ev \<sigma> b < int n \<Longrightarrow> ev \<sigma> (sym_build B build_sub (sym_build_integer B (ucast (ucast (sym_bits_helper B a) :: u8)) (ucast (ucast (sym_bits_helper B a) :: u8))) b) = int n - ev \<sigma> b"
proof -
  have c: "ucast (ucast (sym_bits_helper B a) :: u8) = (of_nat n :: u64)" (is "?c = _")
    using assms(2) bits_of_width [OF assms(3)] by auto
  have u: "unat (of_nat n :: u64) = n" "0 < n" "n \<le> 64" using assms(2) by auto
  have w: "sym_width B (sym_build_integer B ?c ?c) = n"
    unfolding c using integer_width [of "of_nat n"] u by simp
  with assms(1) show "sym_width B (sym_build B build_sub (sym_build_integer B ?c ?c) b) = n"
    by (simp add: binop_width)
  assume lt: "ev \<sigma> b < int n"
  have "int n < 2 ^ n" by simp
  with lt ev_range [of \<sigma> b] have "take_bit n (int n - ev \<sigma> b) = int n - ev \<sigma> b"
    by (intro take_bit_int_eq_self) linarith+
  moreover have "ev \<sigma> (sym_build_integer B ?c ?c) = int n"
    unfolding c using integer_ev [of "of_nat n" \<sigma> "of_nat n"] u assms(2) by (auto simp: uint_nat)
  ultimately show "ev \<sigma> (sym_build B build_sub (sym_build_integer B ?c ?c) b) = int n - ev \<sigma> b"
    using w assms(1) by (simp add: binop_ev)
qed

lemma elt_op_helper:
  assumes "n \<in> {8, 16, 32, 64}"
  shows "elt_op B ev n (vec_helper_expr B h) (vec_ok n h) (vec_sem n h)"
proof -
  have n: "sym_width B (sym_rotate_left_expr B a b) = n" "sym_width B (sym_rotate_right_expr B a b) = n"
    "ev \<sigma> b < int n \<Longrightarrow> ev \<sigma> (sym_rotate_left_expr B a b) = vec_sem n sym_rotate_left_vec (ev \<sigma> a) (ev \<sigma> b)"
    "ev \<sigma> b < int n \<Longrightarrow> ev \<sigma> (sym_rotate_right_expr B a b) = vec_sem n sym_rotate_right_vec (ev \<sigma> a) (ev \<sigma> b)"
    if "sym_width B a = n" "sym_width B b = n" for a b \<sigma>
    using that rotate_count [OF that(2) assms that(1)] ev_range [of \<sigma> b]
    by (simp_all add: sym_rotate_left_expr_def sym_rotate_right_expr_def Let_def binop_width binop_ev
        take_bit_eq_mod push_bit_eq_mult drop_bit_eq_div nat_diff_distrib)
  show ?thesis
    by (cases h) (simp_all add: elt_op_def n binop_width binop_ev take_bit_eq_mod push_bit_eq_mult drop_bit_eq_div)
qed

lemma vec_operand_ok:
  assumes "vec_shape vsize vece" "vec_typed B vsize e"
  shows "sym_bits_helper B (vec_operand B mem a e vsize) = vsize"
    and "ev \<sigma> (vec_operand B mem a e vsize) = vec_shadow ev \<sigma> mem a vsize e"
proof -
  have l: "unat vsize = 8 * length (read_buffer mem a vsize)"
    using assms(1) by (auto simp: vec_shape_def read_buffer_def)
  have "sym_width B (vec_operand B mem a e vsize) = unat vsize"
    using assms(2) buffer_width [OF l] by (cases e) (simp_all add: vec_operand_def vec_typed_def)
  then show "sym_bits_helper B (vec_operand B mem a e vsize) = vsize"
    by (simp add: bits_of_width)
  show "ev \<sigma> (vec_operand B mem a e vsize) = vec_shadow ev \<sigma> mem a vsize e"
    using buffer_ev [OF l] by (cases e) (simp_all add: vec_operand_def vec_shadow_def)
qed

lemma elements_ok:
  assumes "vec_shape vsize vece" "sym_bits_helper B e = vsize" "vece_element_size vece = Some es"
  shows "\<exists>xs. split_expression B e (vsize div es) es = Some xs \<and> length xs = vec_count vsize vece \<and>
    (\<forall>i < vec_count vsize vece. sym_width B (xs ! i) = vec_elt vece \<and>
      (\<forall>\<sigma>. ev \<sigma> (xs ! i) = lane (vec_elt vece) i (ev \<sigma> e)))"
proof -
  obtain es' where "vece_element_size vece = Some es'" "unat es' = vec_elt vece"
    "unat (vsize div es') = vec_count vsize vece" "unat vsize = vec_elt vece * vec_count vsize vece" "0 < vec_count vsize vece"
    "vec_elt vece \<in> {8, 16, 32, 64}" "unat vsize \<le> 256"
    using vec_shapeE [OF assms(1)] by metis
  with assms(2,3) show ?thesis
    by (intro split_ok) (auto simp: sym_width_def)
qed

lemma merged_lanes:
  assumes "vec_shape vsize vece" "vece_element_size vece = Some es" "elt_op B ev (vec_elt vece) f P g"
    and "length xs = vec_count vsize vece" "length ys = vec_count vsize vece"
    and xs: "\<And>i. i < vec_count vsize vece \<Longrightarrow> sym_width B (xs ! i) = vec_elt vece"
    and ys: "\<And>i. i < vec_count vsize vece \<Longrightarrow> sym_width B (ys ! i) = vec_elt vece"
  shows "\<exists>r. apply_op_and_merge B f xs ys = Some r \<and> sym_bits_helper B r = vsize \<and>
    (\<forall>\<sigma> i. i < vec_count vsize vece \<and> P (ev \<sigma> (ys ! i)) \<longrightarrow>
      lane (vec_elt vece) i (ev \<sigma> r) = g (ev \<sigma> (xs ! i)) (ev \<sigma> (ys ! i)))"
proof -
  let ?n = "vec_elt vece" and ?c = "vec_count vsize vece"
  have s: "unat vsize = ?n * ?c" "0 < ?c" "unat vsize \<le> 256"
    using vec_shapeE [OF assms(1)] by metis+
  have f: "sym_width B (f (xs ! i) (ys ! i)) = ?n" "P (ev \<sigma> (ys ! i)) \<Longrightarrow> ev \<sigma> (f (xs ! i) (ys ! i)) = g (ev \<sigma> (xs ! i)) (ev \<sigma> (ys ! i))"
    if "i < ?c" for i \<sigma>
    using assms(3) xs [OF that] ys [OF that] by (simp_all add: elt_op_def)
  obtain r where r: "apply_op_and_merge B f xs ys = Some r" "sym_width B r = ?n * ?c"
    "\<And>\<sigma> i. i < ?c \<Longrightarrow> lane ?n i (ev \<sigma> r) = ev \<sigma> (f (xs ! i) (ys ! i))"
    using apply_ok [OF assms(4,5) s(2), of ?n f] s xs f(1) by auto
  moreover have "sym_bits_helper B r = vsize"
    using r(2) s(1) by (simp add: sym_width_def word_unat_eq_iff)
  ultimately show ?thesis
    using f(2) by auto
qed

lemma vec_vec_ok:
  assumes "vec_shape vsize vece" "vec_typed B vsize e1" "vec_typed B vsize e2" "e1 \<noteq> None \<or> e2 \<noteq> None"
    and "elt_op B ev (vec_elt vece) f P g"
  shows "\<exists>r. build_expression_for_vector_vector_op B mem a1 e1 a2 e2 vsize vece f = Some (Some r) \<and> sym_bits_helper B r = vsize \<and>
    (\<forall>\<sigma> i. let x = lane (vec_elt vece) i (vec_shadow ev \<sigma> mem a1 vsize e1); y = lane (vec_elt vece) i (vec_shadow ev \<sigma> mem a2 vsize e2)
      in i < vec_count vsize vece \<and> P y \<longrightarrow> lane (vec_elt vece) i (ev \<sigma> r) = g x y)"
proof -
  let ?x = "vec_operand B mem a1 e1 vsize" and ?y = "vec_operand B mem a2 e2 vsize"
  obtain es where es: "vece_element_size vece = Some es" "vsize mod es = 0" "es \<le> vsize"
    using vec_shapeE [OF assms(1)] by metis
  note x = vec_operand_ok [OF assms(1,2), where mem = mem and a = a1] and y = vec_operand_ok [OF assms(1,3), where mem = mem and a = a2]
  obtain xs where xs: "split_expression B ?x (vsize div es) es = Some xs" "length xs = vec_count vsize vece"
    "\<And>i. i < vec_count vsize vece \<Longrightarrow> sym_width B (xs ! i) = vec_elt vece"
    "\<And>i \<sigma>. i < vec_count vsize vece \<Longrightarrow> ev \<sigma> (xs ! i) = lane (vec_elt vece) i (vec_shadow ev \<sigma> mem a1 vsize e1)"
    using elements_ok [OF assms(1) x(1) es(1)] x(2) by auto
  obtain ys where ys: "split_expression B ?y (vsize div es) es = Some ys" "length ys = vec_count vsize vece"
    "\<And>i. i < vec_count vsize vece \<Longrightarrow> sym_width B (ys ! i) = vec_elt vece"
    "\<And>i \<sigma>. i < vec_count vsize vece \<Longrightarrow> ev \<sigma> (ys ! i) = lane (vec_elt vece) i (vec_shadow ev \<sigma> mem a2 vsize e2)"
    using elements_ok [OF assms(1) y(1) es(1)] y(2) by auto
  obtain r where r: "apply_op_and_merge B f xs ys = Some r" "sym_bits_helper B r = vsize"
    "\<And>\<sigma> i. i < vec_count vsize vece \<Longrightarrow> P (ev \<sigma> (ys ! i)) \<Longrightarrow>
      lane (vec_elt vece) i (ev \<sigma> r) = g (ev \<sigma> (xs ! i)) (ev \<sigma> (ys ! i))"
    using merged_lanes [OF assms(1) es(1) assms(5) xs(2) ys(2) xs(3) ys(3)] by auto
  have "vsize = 64 \<or> vsize = 128 \<or> vsize = 256" using assms(1) by (simp add: vec_shape_def)
  then have "build_expression_for_vector_vector_op B mem a1 e1 a2 e2 vsize vece f = Some (Some r)"
    using es x(1) y(1) xs(1) ys(1) r(1,2) assms(4) by (auto simp: build_expression_for_vector_vector_op_def Let_def)
  then show ?thesis
    using r(2,3) xs(4) ys(4) by (auto simp: Let_def)
qed

end

definition bv_cond :: "nat \<Rightarrow> TCGCond \<Rightarrow> int \<Rightarrow> int \<Rightarrow> bool" where
  "bv_cond n c a b =
     (if c = TCG_COND_EQ then a = b else if c = TCG_COND_NE then a \<noteq> b
      else if c = TCG_COND_TSTEQ then a AND b = 0 else if c = TCG_COND_TSTNE then a AND b \<noteq> 0
      else if c = TCG_COND_LT then bv_signed n a < bv_signed n b else if c = TCG_COND_GE then bv_signed n b \<le> bv_signed n a
      else if c = TCG_COND_GT then bv_signed n b < bv_signed n a else if c = TCG_COND_LE then bv_signed n a \<le> bv_signed n b
      else if c = TCG_COND_LTU then a < b else if c = TCG_COND_GEU then b \<le> a
      else if c = TCG_COND_GTU then b < a else a \<le> b)"

context sym_backend
begin

lemma vec_int32_ok:
  assumes "vec_shape vsize vece" "vece \<in> {2, 3}" "vec_typed B vsize e1" "vec_typed B 32 e2" "e1 \<noteq> None \<or> e2 \<noteq> None"
    and "elt_op B ev (vec_elt vece) f P g"
  shows "\<exists>r. build_expression_for_vector_int32_op B mem a1 e1 c2 e2 vsize vece f = Some (Some r) \<and> sym_bits_helper B r = vsize \<and>
    (\<forall>\<sigma> i. let x = lane (vec_elt vece) i (vec_shadow ev \<sigma> mem a1 vsize e1); y = (case e2 of None \<Rightarrow> uint c2 | Some e \<Rightarrow> ev \<sigma> e)
      in i < vec_count vsize vece \<and> P y \<longrightarrow> lane (vec_elt vece) i (ev \<sigma> r) = g x y)"
proof -
  let ?x = "vec_operand B mem a1 e1 vsize" and ?v = "\<lambda>\<sigma>. case e2 of None \<Rightarrow> uint c2 | Some e \<Rightarrow> ev \<sigma> e"
  define y where "y = (case e2 of None \<Rightarrow> sym_build_integer B (ucast c2) 32 | Some e \<Rightarrow> e)"
  obtain es where es: "vece_element_size vece = Some es" "vsize mod es = 0" "es \<le> vsize" "unat es = vec_elt vece"
    "unat (vsize div es) = vec_count vsize vece"
    using vec_shapeE [OF assms(1)] by metis
  have e: "es = 32 \<or> es = 64"
    using assms(2) es(1) by (auto simp: vece_element_size_def push_bit_eq_mult)
  define z where "z = (if es \<noteq> 32 then sym_build_zext B y (es - 32) else y)"
  note x = vec_operand_ok [OF assms(1,3), where mem = mem and a = a1]
  have "represents B ev \<sigma> (sym_build_integer B (ucast c2) 32) c2" for \<sigma>
    by (rule rep_const) (simp_all add: ucast_up_down)
  then have y: "sym_width B y = 32" "ev \<sigma> y = ?v \<sigma>" for \<sigma>
    using assms(4) by (cases e2; simp add: y_def vec_typed_def represents_def)+
  have z: "sym_width B z = vec_elt vece" "ev \<sigma> z = ?v \<sigma>" for \<sigma>
    using e es(4) y zext_width [of 32 y] zext_ev [of 32 y \<sigma>] by (elim disjE; simp add: z_def)+
  obtain xs where xs: "split_expression B ?x (vsize div es) es = Some xs" "length xs = vec_count vsize vece"
    "\<And>i. i < vec_count vsize vece \<Longrightarrow> sym_width B (xs ! i) = vec_elt vece"
    "\<And>i \<sigma>. i < vec_count vsize vece \<Longrightarrow> ev \<sigma> (xs ! i) = lane (vec_elt vece) i (vec_shadow ev \<sigma> mem a1 vsize e1)"
    using elements_ok [OF assms(1) x(1) es(1)] x(2) by auto
  have zs: "sym_width B (replicate (vec_count vsize vece) z ! i) = vec_elt vece" if "i < vec_count vsize vece" for i
    using that z(1) by simp
  obtain r where r: "apply_op_and_merge B f xs (replicate (vec_count vsize vece) z) = Some r" "sym_bits_helper B r = vsize"
    and lanes: "\<And>\<sigma> i. i < vec_count vsize vece \<and> P (ev \<sigma> (replicate (vec_count vsize vece) z ! i)) \<longrightarrow>
      lane (vec_elt vece) i (ev \<sigma> r) = g (ev \<sigma> (xs ! i)) (ev \<sigma> (replicate (vec_count vsize vece) z ! i))"
    using merged_lanes [OF assms(1) es(1) assms(6) xs(2) length_replicate xs(3) zs] by blast
  have "vsize = 64 \<or> vsize = 128 \<or> vsize = 256" using assms(1) by (simp add: vec_shape_def)
  then have "build_expression_for_vector_int32_op B mem a1 e1 c2 e2 vsize vece f = Some (Some r)"
    using es x(1) xs(1) r assms(5) bits_of_width [OF y(1)]
    by (auto simp: build_expression_for_vector_int32_op_def Let_def y_def [symmetric] z_def [symmetric])
  then show ?thesis
    using r(2) lanes xs(4) z(2) by (intro exI [of _ r]) (simp add: Let_def)
qed

lemma repeat_ok:
  assumes "sym_width B v = n" "n * Suc k < 2 ^ 32"
  shows "sym_width B ((sym_concat_helper B v ^^ k) v) = n * Suc k"
    and "i < Suc k \<Longrightarrow> lane n i (ev \<sigma> ((sym_concat_helper B v ^^ k) v)) = ev \<sigma> v"
  using concat_lanes(1) [of "replicate (Suc k) v" "Suc k" n] concat_lanes(2) [of "replicate (Suc k) v" "Suc k" n i \<sigma>] assms
  by (auto simp: fold_replicate nth_Cons' simp flip: replicate_Suc)

lemma duplicate_ok:
  assumes "vec_shape vsize vece" "sym_width B v = w" "w = 32 \<or> w = 64" "vec_elt vece \<le> w"
  shows "\<exists>r. sym_duplicate_value_into_vec B (Some v) vsize vece = Some (Some r) \<and> sym_bits_helper B r = vsize \<and>
    (\<forall>\<sigma> i. i < vec_count vsize vece \<longrightarrow> lane (vec_elt vece) i (ev \<sigma> r) = ev \<sigma> v mod 2 ^ vec_elt vece)"
proof -
  obtain es where es: "vece_element_size vece = Some es" "vsize mod es = 0" "es \<le> vsize" "unat es = vec_elt vece"
    "unat (vsize div es) = vec_count vsize vece" "unat vsize = vec_elt vece * vec_count vsize vece" "0 < vec_count vsize vece"
    "vec_elt vece \<in> {8, 16, 32, 64}" "unat vsize \<le> 256" "es = of_nat (vec_elt vece)"
    by (rule vec_shapeE [OF assms(1)])
  let ?v = "if sym_bits_helper B v = es then v else sym_extract_helper B v (es - 1) 0"
  have b: "\<not> sym_bits_helper B v < es" "unat (es - 1) = vec_elt vece - 1" "sym_bits_helper B v = 32 \<or> sym_bits_helper B v = 64"
    unfolding bits_of_width [OF assms(2)] es(10) using assms(3,4) es(8) by auto
  have x: "sym_width B (sym_extract_helper B v (es - 1) 0) = vec_elt vece"
    "ev \<sigma> (sym_extract_helper B v (es - 1) 0) = take_bit (vec_elt vece) (ev \<sigma> v)" for \<sigma>
    using extract_width [of 0 "es - 1" v] extract_ev [of 0 "es - 1" v \<sigma>] b(2) es(8) assms(2,4) by (auto simp: Suc_diff_Suc)
  have "take_bit (vec_elt vece) (ev \<sigma> v) = ev \<sigma> v" if "sym_bits_helper B v = es" for \<sigma>
    using ev_range [of \<sigma> v] that es(4) by (simp add: sym_width_def take_bit_int_eq_self)
  then have v: "sym_width B ?v = vec_elt vece" "ev \<sigma> ?v = take_bit (vec_elt vece) (ev \<sigma> v)" for \<sigma>
    using x es(4) by (auto simp: sym_width_def)
  define v' r where "v' = ?v" and "r = (sym_concat_helper B v' ^^ (vec_count vsize vece - 1)) v'"
  have r: "sym_width B r = unat vsize" "i < vec_count vsize vece \<Longrightarrow> lane (vec_elt vece) i (ev \<sigma> r) = ev \<sigma> v'" for i \<sigma>
    using repeat_ok [OF v(1), of "vec_count vsize vece - 1"] es(6,7,9) by (simp_all add: r_def v'_def)
  have "lane (vec_elt vece) i (ev \<sigma> r) = ev \<sigma> v mod 2 ^ vec_elt vece" if "i < vec_count vsize vece" for i \<sigma>
    using r(2) [OF that] v(2) by (simp add: take_bit_eq_mod v'_def)
  moreover have "sym_bits_helper B r = vsize" using r(1) by (simp add: sym_width_def word_unat_eq_iff)
  moreover have "(if sym_bits_helper B v = es then v else if sym_bits_helper B v < es then sym_build_zext B v es
      else sym_extract_helper B v (es - 1) 0) = v'"
    using b(1) by (simp add: v'_def)
  then have "sym_duplicate_value_into_vec B (Some v) vsize vece = Some (Some r)"
    using assms(1) es(1-5) b(3) calculation(2)
    by (auto simp: sym_duplicate_value_into_vec_def Let_def vec_shape_def r_def simp del: if_split)
  ultimately show ?thesis by blast
qed

lemma duplicate_fails:
  assumes "vec_shape vsize 3" "sym_width B v = 32"
  shows "sym_duplicate_value_into_vec B (Some v) vsize 3 = None"
proof -
  let ?v = "sym_build_zext B v 64"
  have v: "sym_width B ?v = 96" using zext_width [of 64 v] assms(2) by simp
  have s: "unat (vsize div 64) \<in> {1, 2, 4}" "unat vsize = 64 * unat (vsize div 64)" "vsize \<in> {64, 128, 256}"
    using assms(1) by (auto simp: vec_shape_def)
  define c where "c = unat (vsize div 64) - 1"
  have c: "unat (vsize div 64) = Suc c" "c < 4"
    using s(1) by (auto simp: c_def)
  have "sym_width B ((sym_concat_helper B ?v ^^ c) ?v) = 96 * Suc c"
    using repeat_ok(1) [OF v, of c] c(2) by simp
  then have "sym_bits_helper B ((sym_concat_helper B ?v ^^ c) ?v) \<noteq> vsize"
    using s(2) c(1) unfolding sym_width_def by (metis mult_cancel2 nat.distinct(1) numeral_eq_iff num.distinct(5) num.inject(1))
  moreover have "sym_bits_helper B v = 32" using bits_of_width [OF assms(2)] by simp
  ultimately show ?thesis
    unfolding sym_duplicate_value_into_vec_def vece_element_size_def using c(1) s(3)
    by (auto simp: push_bit_eq_mult Let_def)
qed

end

lemma those_map_Some: "(\<And>i. i \<in> set xs \<Longrightarrow> f i = Some (g i)) \<Longrightarrow> those (map f xs) = Some (map g xs)"
  by (induction xs) simp_all

lemma element_addresses:
  assumes "vec_shape vsize vece" "vece_element_size vece = Some es" "unat a + 256 < 2 ^ 64"
  shows "those (map (\<lambda>i. element_address a (of_nat i) es vsize) [0..<unat (vsize div es)]) =
    Some (map (\<lambda>i. a + of_nat (i * (vec_elt vece div 8))) [0..<vec_count vsize vece])"
proof -
  let ?n = "vec_elt vece"
  obtain es' where e: "vece_element_size vece = Some es'" "unat es' = ?n" "unat (vsize div es') = vec_count vsize vece"
    "unat vsize = ?n * vec_count vsize vece" "?n \<in> {8, 16, 32, 64}" "unat vsize \<le> 256" "es' = of_nat ?n"
    using vec_shapeE [OF assms(1)] by metis
  have addr: "element_address a (of_nat i) es vsize = Some (a + of_nat (i * (?n div 8)))" if "i < vec_count vsize vece" for i
  proof -
    let ?q = "i * (?n div 8)"
    have n: "?n = 8 * (?n div 8)" using e(5) by auto
    have b: "?q * 8 + ?n \<le> unat vsize"
    proof -
      have "Suc i * ?n \<le> vec_count vsize vece * ?n" using that by (intro mult_le_mono1) simp
      then show ?thesis using n unfolding e(4) by (simp add: algebra_simps)
    qed
    have es: "es = of_nat (8 * (?n div 8))" using assms(2) e(1,7) n by simp
    have q: "unat (of_nat (?q * 8) :: u64) = ?q * 8" "unat (of_nat ?q :: u64) = ?q" "unat (of_nat ?n :: u64) = ?n"
      by (rule unat_small, use b e(6) in simp)+
    have "of_nat i * es = of_nat (?q * 8)" by (simp add: es)
    then have "of_nat i * es div 8 = of_nat ?q"
      unfolding word_unat_eq_iff unat_div using q(1,2) by simp
    moreover have "unat (a + of_nat ?q + es) \<le> unat (a + vsize)"
      using assms(3) b e(6) q(2,3) n es by (simp add: unat_plus_if_size word_size del: of_nat_mult)
    then have "a + of_nat ?q + es \<le> a + vsize" by (simp add: word_le_nat_alt)
    ultimately show ?thesis by (simp add: element_address_def Let_def)
  qed
  have count: "unat (vsize div es) = vec_count vsize vece" using assms(2) e(1,3) by simp
  show ?thesis unfolding count by (rule those_map_Some, rule addr) simp
qed

text \<open>The path constraints that a helper pushes for \<open>n\<close> elements, in their order: constraint \<open>i\<close> carries the outcome
  \<open>took i\<close> and the program counter, and is true of an input if and only if \<open>cond i\<close> is.\<close>

definition constraints_for ::
  "('i \<Rightarrow> 'e \<Rightarrow> bool) \<Rightarrow> nat \<Rightarrow> (nat \<Rightarrow> 'i \<Rightarrow> bool) \<Rightarrow> (nat \<Rightarrow> bool) \<Rightarrow> u64 \<Rightarrow> ('e \<times> bool \<times> u64) list \<Rightarrow> bool" where
  "constraints_for evb n cond took pc new \<longleftrightarrow> length new = n \<and>
     (\<forall>i < n. \<exists>k. new ! i = (k, took i, pc) \<and> (\<forall>\<sigma>. evb \<sigma> k \<longleftrightarrow> cond i \<sigma>))"

lemma constraints_for_all:
  "constraints_for evb n cond took pc new \<Longrightarrow>
    list_all (\<lambda>(e, taken, loc). evb \<sigma> e = taken) new \<longleftrightarrow> (\<forall>i < n. cond i \<sigma> = took i)"
  by (fastforce simp: constraints_for_def list_all_length)

lemma constraints_for_cong:
  assumes "constraints_for evb n cond took pc new" "\<And>i. i < n \<Longrightarrow> cond i = cond' i" "\<And>i. i < n \<Longrightarrow> took i = took' i"
  shows "constraints_for evb n cond' took' pc new"
  using assms by (simp add: constraints_for_def)

context sym_backend
begin

lemma condition_ok:
  assumes "is_compare c" "sym_width B a = n" "sym_width B b = n" "0 < n" "n \<le> 64"
  shows "\<exists>k. condition_handler B c a b = Some k \<and> (\<forall>\<sigma>. evb \<sigma> k = bv_cond n c (ev \<sigma> a) (ev \<sigma> b))"
proof -
  have "sym_width B (sym_build_integer B 0 (sym_bits_helper B a)) = n" "ev \<sigma> (sym_build_integer B 0 (sym_bits_helper B a)) = 0" for \<sigma>
    using integer_width [of "sym_bits_helper B a" 0] integer_ev [of "sym_bits_helper B a" \<sigma> 0] assms(2,4,5)
    by (simp_all add: sym_width_def)
  with assms(1) show ?thesis
    by (cases rule: is_compare_cases) (use assms(2,3) in \<open>simp_all add: condition_handler_def sym_build_tsteq_def
      sym_build_tstne_def cmp_evb binop_width binop_ev bv_cond_def\<close>)
qed

lemma push_ok:
  assumes "is_compare c" "0 < n" "n \<le> 64" and "\<And>x y t. (x, y, t) \<in> set es \<Longrightarrow> sym_width B x = n \<and> sym_width B y = n"
  shows "\<exists>new. push_constraints B env c es rt = Some (rt\<lparr>rt_path := rt_path rt @ new\<rparr>) \<and>
    constraints_for evb (length es) (\<lambda>i \<sigma>. bv_cond n c (ev \<sigma> (fst (es ! i))) (ev \<sigma> (fst (snd (es ! i)))))
      (\<lambda>i. snd (snd (es ! i)) \<noteq> 0) (get_pc env) new"
  using assms(4)
proof (induction es arbitrary: rt)
  case (Cons p es)
  obtain x y t where p: "p = (x, y, t)" by (cases p)
  obtain k where k: "condition_handler B c x y = Some k" "\<And>\<sigma>. evb \<sigma> k = bv_cond n c (ev \<sigma> x) (ev \<sigma> y)"
    using condition_ok [OF assms(1) _ _ assms(2,3), of x y] Cons.prems [of x y t] p by auto
  let ?rt = "sym_push_path_constraint k (t \<noteq> 0) (get_pc env) rt"
  obtain new where new: "push_constraints B env c es ?rt = Some (?rt\<lparr>rt_path := rt_path ?rt @ new\<rparr>)"
    "constraints_for evb (length es) (\<lambda>i \<sigma>. bv_cond n c (ev \<sigma> (fst (es ! i))) (ev \<sigma> (fst (snd (es ! i)))))
      (\<lambda>i. snd (snd (es ! i)) \<noteq> 0) (get_pc env) new"
    using Cons.IH [of ?rt] Cons.prems by auto
  have "constraints_for evb (length (p # es)) (\<lambda>i \<sigma>. bv_cond n c (ev \<sigma> (fst ((p # es) ! i))) (ev \<sigma> (fst (snd ((p # es) ! i)))))
      (\<lambda>i. snd (snd ((p # es) ! i)) \<noteq> 0) (get_pc env) ((k, t \<noteq> 0, get_pc env) # new)"
    using new(2) k(2) by (auto simp: p constraints_for_def less_Suc_eq_0_disj)
  then show ?case
    using new(1) k(1) by (intro exI [of _ "(k, t \<noteq> 0, get_pc env) # new"])
      (simp add: p build_and_push_path_constraint_def sym_push_path_constraint_def)
qed (auto simp: constraints_for_def intro!: exI [of _ "[]"])

lemma operands_ok:
  assumes "vec_shape vsize vece" "vec_typed B vsize e1" "vec_typed B vsize e2" "vece_element_size vece = Some es"
  shows "\<exists>xs ys. split_expression B (vec_operand B mem a1 e1 vsize) (vsize div es) es = Some xs \<and>
    split_expression B (vec_operand B mem a2 e2 vsize) (vsize div es) es = Some ys \<and>
    length xs = vec_count vsize vece \<and> length ys = vec_count vsize vece \<and>
    (\<forall>i < vec_count vsize vece. sym_width B (xs ! i) = vec_elt vece \<and> sym_width B (ys ! i) = vec_elt vece \<and>
      (\<forall>\<sigma>. ev \<sigma> (xs ! i) = lane (vec_elt vece) i (vec_shadow ev \<sigma> mem a1 vsize e1) \<and>
        ev \<sigma> (ys ! i) = lane (vec_elt vece) i (vec_shadow ev \<sigma> mem a2 vsize e2)))"
  using elements_ok [OF assms(1) vec_operand_ok(1) [OF assms(1,2)] assms(4), of mem a1]
    elements_ok [OF assms(1) vec_operand_ok(1) [OF assms(1,3)] assms(4), of mem a2]
  unfolding vec_operand_ok(2) [OF assms(1,2)] vec_operand_ok(2) [OF assms(1,3)] by blast

lemma push_lanes:
  assumes "vec_shape vsize vece" "is_compare c" "length xs = vec_count vsize vece" "length ys = vec_count vsize vece" "length ts = vec_count vsize vece"
    and "\<And>i. i < vec_count vsize vece \<Longrightarrow> sym_width B (xs ! i) = vec_elt vece \<and> sym_width B (ys ! i) = vec_elt vece"
  shows "\<exists>new. push_constraints B env c (zip xs (zip ys ts)) rt = Some (rt\<lparr>rt_path := rt_path rt @ new\<rparr>) \<and>
    constraints_for evb (vec_count vsize vece) (\<lambda>i \<sigma>. bv_cond (vec_elt vece) c (ev \<sigma> (xs ! i)) (ev \<sigma> (ys ! i)))
      (\<lambda>i. ts ! i \<noteq> 0) (get_pc env) new"
proof -
  have "vec_elt vece \<in> {8, 16, 32, 64}" by (rule vec_shapeE [OF assms(1)])
  then have n: "0 < vec_elt vece" "vec_elt vece \<le> 64" by auto
  have "sym_width B x = vec_elt vece \<and> sym_width B y = vec_elt vece" if "(x, y, t) \<in> set (zip xs (zip ys ts))" for x y t
    using that assms(3-6) by (auto simp: set_zip)
  then obtain new where "push_constraints B env c (zip xs (zip ys ts)) rt = Some (rt\<lparr>rt_path := rt_path rt @ new\<rparr>)"
    and new: "constraints_for evb (vec_count vsize vece)
      (\<lambda>i \<sigma>. bv_cond (vec_elt vece) c (ev \<sigma> (fst (zip xs (zip ys ts) ! i))) (ev \<sigma> (fst (snd (zip xs (zip ys ts) ! i)))))
      (\<lambda>i. snd (snd (zip xs (zip ys ts) ! i)) \<noteq> 0) (get_pc env) new"
    using push_ok [OF assms(2) n, of "zip xs (zip ys ts)" env rt] assms(3-5) by auto
  moreover have "constraints_for evb (vec_count vsize vece) (\<lambda>i \<sigma>. bv_cond (vec_elt vece) c (ev \<sigma> (xs ! i)) (ev \<sigma> (ys ! i)))
      (\<lambda>i. ts ! i \<noteq> 0) (get_pc env) new"
    by (rule constraints_for_cong [OF new]) (use assms(3-5) in simp_all)
  ultimately show ?thesis by blast
qed

lemma cmp_vec_ok:
  assumes "vec_shape vsize vece" "vec_typed B vsize e1" "vec_typed B vsize e2" "e1 \<noteq> None \<or> e2 \<noteq> None" "is_compare c"
    "unat ra + 256 < 2 ^ 64"
  shows "\<exists>new. sym_cmp_vec B env a1 e1 a2 e2 c ra vsize vece rt = Some (None, rt\<lparr>rt_path := rt_path rt @ new\<rparr>) \<and>
    constraints_for evb (vec_count vsize vece)
      (\<lambda>i \<sigma>. bv_cond (vec_elt vece) c (lane (vec_elt vece) i (vec_shadow ev \<sigma> (rt_mem rt) a1 vsize e1))
        (lane (vec_elt vece) i (vec_shadow ev \<sigma> (rt_mem rt) a2 vsize e2)))
      (\<lambda>i. rt_mem rt (ra + of_nat (i * (vec_elt vece div 8))) \<noteq> 0) (get_pc env) new"
proof -
  obtain es where es: "vece_element_size vece = Some es" "vsize mod es = 0" "es \<le> vsize"
    using vec_shapeE [OF assms(1)] by metis
  let ?c = "vec_count vsize vece" and ?n = "vec_elt vece"
  obtain xs ys where split: "split_expression B (vec_operand B (rt_mem rt) a1 e1 vsize) (vsize div es) es = Some xs"
    "split_expression B (vec_operand B (rt_mem rt) a2 e2 vsize) (vsize div es) es = Some ys" "length xs = ?c" "length ys = ?c"
    and w: "\<And>i. i < ?c \<Longrightarrow> sym_width B (xs ! i) = ?n \<and> sym_width B (ys ! i) = ?n"
    and v: "\<And>i \<sigma>. i < ?c \<Longrightarrow> ev \<sigma> (xs ! i) = lane ?n i (vec_shadow ev \<sigma> (rt_mem rt) a1 vsize e1) \<and>
        ev \<sigma> (ys ! i) = lane ?n i (vec_shadow ev \<sigma> (rt_mem rt) a2 vsize e2)"
    using operands_ok [OF assms(1-3) es(1), of "rt_mem rt" a1 a2] by blast
  let ?as = "map (\<lambda>i. ra + of_nat (i * (?n div 8))) [0..<?c]"
  obtain new where new: "push_constraints B env c (zip xs (zip ys (map (rt_mem rt) ?as))) rt = Some (rt\<lparr>rt_path := rt_path rt @ new\<rparr>)"
    "constraints_for evb ?c (\<lambda>i \<sigma>. bv_cond ?n c (ev \<sigma> (xs ! i)) (ev \<sigma> (ys ! i))) (\<lambda>i. map (rt_mem rt) ?as ! i \<noteq> 0) (get_pc env) new"
    using push_lanes [OF assms(1,5) split(3,4) _ w, of "map (rt_mem rt) ?as" env rt] by auto
  have "vsize = 64 \<or> vsize = 128 \<or> vsize = 256" using assms(1) by (simp add: vec_shape_def)
  moreover have "(e1 = None \<and> e2 = None) = False" using assms(4) by simp
  ultimately have "sym_cmp_vec B env a1 e1 a2 e2 c ra vsize vece rt = Some (None, rt\<lparr>rt_path := rt_path rt @ new\<rparr>)"
    using es split(1,2) new(1) element_addresses [OF assms(1) es(1) assms(6)]
      vec_operand_ok(1) [OF assms(1,2)] vec_operand_ok(1) [OF assms(1,3)]
    by (auto simp: sym_cmp_vec_def Let_def simp del: of_nat_mult)
  moreover note constraints_for_cong [OF new(2)]
  ultimately show ?thesis using v by (intro exI [of _ new]) simp
qed

lemma ternary_vec_ok:
  fixes rt :: "('e, 'm) rt"
  assumes "vec_shape vsize vece" "vec_typed B vsize e1" "vec_typed B vsize e2" "e1 \<noteq> None \<or> e2 \<noteq> None" "is_compare c"
    "unat ra + 256 < 2 ^ 64" "unat a1 + 256 < 2 ^ 64" "vece_element_size vece = Some es"
  defines "chosen i \<equiv> read_buffer (rt_mem rt) (ra + of_nat (i * (vec_elt vece div 8))) es =
    read_buffer (rt_mem rt) (a1 + of_nat (i * (vec_elt vece div 8))) es"
  shows "\<exists>new r. sym_ternary_vec B env a1 e1 a2 e2 c ra vsize vece rt = Some (Some r, rt\<lparr>rt_path := rt_path rt @ new\<rparr>) \<and>
    sym_bits_helper B r = vsize \<and>
    constraints_for evb (vec_count vsize vece)
      (\<lambda>i \<sigma>. bv_cond (vec_elt vece) c (lane (vec_elt vece) i (vec_shadow ev \<sigma> (rt_mem rt) a1 vsize e1))
        (lane (vec_elt vece) i (vec_shadow ev \<sigma> (rt_mem rt) a2 vsize e2))) chosen (get_pc env) new \<and>
    (\<forall>\<sigma>. \<forall>i < vec_count vsize vece. lane (vec_elt vece) i (ev \<sigma> r) =
      (if chosen i then lane (vec_elt vece) i (vec_shadow ev \<sigma> (rt_mem rt) a1 vsize e1)
       else lane (vec_elt vece) i (vec_shadow ev \<sigma> (rt_mem rt) a2 vsize e2)))"
proof -
  let ?c = "vec_count vsize vece" and ?n = "vec_elt vece"
  obtain es' where "vece_element_size vece = Some es'" "vsize mod es' = 0" "es' \<le> vsize"
    and s: "unat vsize = ?n * ?c" "0 < ?c" "unat vsize \<le> 256"
    by (rule vec_shapeE [OF assms(1)])
  then have es: "vsize mod es = 0" "es \<le> vsize" using assms(8) by simp_all
  obtain xs ys where split: "split_expression B (vec_operand B (rt_mem rt) a1 e1 vsize) (vsize div es) es = Some xs"
    "split_expression B (vec_operand B (rt_mem rt) a2 e2 vsize) (vsize div es) es = Some ys" "length xs = ?c" "length ys = ?c"
    and w: "\<And>i. i < ?c \<Longrightarrow> sym_width B (xs ! i) = ?n \<and> sym_width B (ys ! i) = ?n"
    and v: "\<And>i \<sigma>. i < ?c \<Longrightarrow> ev \<sigma> (xs ! i) = lane ?n i (vec_shadow ev \<sigma> (rt_mem rt) a1 vsize e1) \<and>
        ev \<sigma> (ys ! i) = lane ?n i (vec_shadow ev \<sigma> (rt_mem rt) a2 vsize e2)"
    using operands_ok [OF assms(1-3,8), of "rt_mem rt" a1 a2] by blast
  let ?as = "\<lambda>a. map (\<lambda>i. a + of_nat (i * (?n div 8))) [0..<?c]"
  define ts where "ts = map2 (\<lambda>p q. read_buffer (rt_mem rt) p es = read_buffer (rt_mem rt) q es) (?as ra) (?as a1)"
  have ts: "length ts = ?c" "\<And>i. i < ?c \<Longrightarrow> ts ! i = chosen i" by (simp_all add: ts_def chosen_def)
  obtain new where new: "push_constraints B env c (zip xs (zip ys (map of_bool ts))) rt = Some (rt\<lparr>rt_path := rt_path rt @ new\<rparr>)"
    "constraints_for evb ?c (\<lambda>i \<sigma>. bv_cond ?n c (ev \<sigma> (xs ! i)) (ev \<sigma> (ys ! i)))
      (\<lambda>i. (map of_bool ts :: u8 list) ! i \<noteq> 0) (get_pc env) new"
    using push_lanes [OF assms(1,5) split(3,4) _ w, of "map of_bool ts" env rt] ts(1) by auto
  define zs where "zs = map2 (\<lambda>t (x, y). if t then x else y) ts (zip xs ys)"
  have zs: "length zs = ?c" "\<And>i. i < ?c \<Longrightarrow> zs ! i = (if chosen i then xs ! i else ys ! i)"
    using split(3,4) ts by (simp_all add: zs_def)
  have "sym_width B z = ?n" if "z \<in> set zs" for z
    using that zs w by (auto simp: in_set_conv_nth)
  note r = concat_lanes [OF zs(1) s(2) _ this]
  define r where "r = fold (sym_concat_helper B) (tl zs) (hd zs)"
  have r: "sym_bits_helper B r = vsize" "\<And>i \<sigma>. i < ?c \<Longrightarrow> lane ?n i (ev \<sigma> r) = ev \<sigma> (zs ! i)"
    using r s by (simp_all add: r_def sym_width_def word_unat_eq_iff)
  have "vsize = 64 \<or> vsize = 128 \<or> vsize = 256" using assms(1) by (simp add: vec_shape_def)
  moreover have "(e1 = None \<and> e2 = None) = False" "zs \<noteq> []" using assms(4) s(2) zs(1) by auto
  ultimately have "sym_ternary_vec B env a1 e1 a2 e2 c ra vsize vece rt = Some (Some r, rt\<lparr>rt_path := rt_path rt @ new\<rparr>)"
    using es split(1,2) new(1) assms(8) r(1) element_addresses [OF assms(1,8,6)] element_addresses [OF assms(1,8,7)]
      vec_operand_ok(1) [OF assms(1,2)] vec_operand_ok(1) [OF assms(1,3)]
    unfolding r_def zs_def ts_def by (auto simp: sym_ternary_vec_def Let_def simp del: of_nat_mult)
  moreover have "constraints_for evb ?c (\<lambda>i \<sigma>. bv_cond ?n c (lane ?n i (vec_shadow ev \<sigma> (rt_mem rt) a1 vsize e1))
      (lane ?n i (vec_shadow ev \<sigma> (rt_mem rt) a2 vsize e2))) chosen (get_pc env) new"
    by (rule constraints_for_cong [OF new(2)]) (use v ts in simp_all)
  ultimately show ?thesis
    using r v zs(2) by (intro exI [of _ new] exI [of _ r]) auto
qed

end

context sym_memory
begin

lemma load_duplicate_fails:
  assumes "vec_shape vsize vece" "vece \<in> {0, 1}" "i < vec_elt vece div 8" "msym (rt_shadow rt) (a + ofs + of_nat i)"
  shows "sym_load_and_duplicate_into_vec B a ofs vsize vece rt = None"
proof -
  obtain es where es: "vece_element_size vece = Some es" "unat es = vec_elt vece" "vsize mod es = 0" "es \<le> vsize"
    by (rule vec_shapeE [OF assms(1)])
  have n: "vec_elt vece = 8 \<or> vec_elt vece = 16" using assms(2) by (auto simp: vec_elt_def)
  have l: "unat (es div 8) = vec_elt vece div 8" by (simp add: unat_div es(2))
  obtain e where e: "sym_read_memory B (rt_shadow rt) (rt_mem rt) (a + ofs) (es div 8) True = Some e" "sym_width B e = vec_elt vece"
    using read_symbolic [of "es div 8" i "rt_shadow rt" "a + ofs" "rt_mem rt"] assms(3,4) n l by auto
  have "\<not> (sym_bits_helper B e = 32 \<or> sym_bits_helper B e = 64)"
    using n bits_of_width [OF e(2)] by auto
  then have "sym_duplicate_value_into_vec B (Some e) vsize vece = None"
    by (auto simp: sym_duplicate_value_into_vec_def Let_def Option.bind_eq_None_conv)
  then show ?thesis
    by (auto simp: sym_load_and_duplicate_into_vec_def sym_load_host_vec_def sym_load_host_internal_def Let_def es(1) e(1) Option.bind_eq_None_conv)
qed

end

text \<open>C10: Every binary helper on vectors works element by element: for every vector size (64, 128, 256 bits) and element
  size, when an operand is symbolic the helper returns an expression of the size of the vector whose \<open>i\<close>-th element
  evaluates, at every input, to the operation on the \<open>i\<close>-th elements of the operands, where a concrete operand is the
  content of its buffer. The rotations need a count below the element size. The variants with a 32-bit integer operand
  apply it to every element, for elements of 32 and 64 bits (smaller elements make the helper extend by a negative
  number of bits).\<close>

theorem sym_vec_correct:
  assumes "sym_backend B ev evb" and "vec_shape vsize vece" "vec_typed B vsize e1" "e1 \<noteq> None \<or> e2 \<noteq> None"
  shows "(vec_typed B vsize e2 \<longrightarrow> (\<exists>r. sym_binary_vec B h mem a1 e1 a2 e2 vsize vece = Some (Some r) \<and> sym_bits_helper B r = vsize \<and>
      (\<forall>\<sigma> i. let x = lane (vec_elt vece) i (vec_shadow ev \<sigma> mem a1 vsize e1); y = lane (vec_elt vece) i (vec_shadow ev \<sigma> mem a2 vsize e2)
        in i < vec_count vsize vece \<and> vec_ok (vec_elt vece) h y \<longrightarrow> lane (vec_elt vece) i (ev \<sigma> r) = vec_sem (vec_elt vece) h x y)))
   \<and> (vec_typed B 32 e2 \<and> vece \<in> {2, 3} \<longrightarrow> (\<exists>r. sym_binary_vec_int32 B h mem a1 e1 c2 e2 vsize vece = Some (Some r) \<and> sym_bits_helper B r = vsize \<and>
      (\<forall>\<sigma> i. let x = lane (vec_elt vece) i (vec_shadow ev \<sigma> mem a1 vsize e1); y = (case e2 of None \<Rightarrow> uint c2 | Some e \<Rightarrow> ev \<sigma> e)
        in i < vec_count vsize vece \<and> vec_ok (vec_elt vece) h y \<longrightarrow> lane (vec_elt vece) i (ev \<sigma> r) = vec_sem (vec_elt vece) h x y)))"
proof -
  have "vec_elt vece \<in> {8, 16, 32, 64}" by (rule vec_shapeE [OF assms(2)])
  then have h: "elt_op B ev (vec_elt vece) (vec_helper_expr B h) (vec_ok (vec_elt vece) h) (vec_sem (vec_elt vece) h)"
    by (rule sym_backend.elt_op_helper [OF assms(1)])
  show ?thesis
    unfolding sym_binary_vec_def sym_binary_vec_int32_def
    using sym_backend.vec_vec_ok [OF assms(1,2,3) _ assms(4) h] sym_backend.vec_int32_ok [OF assms(1,2) _ assms(3) _ assms(4) h] by blast
qed

text \<open>Element \<open>i\<close> of a vector operand at the input \<open>\<sigma>\<close>, and the address of its first byte.\<close>

definition vec_lane :: "('i \<Rightarrow> 'e \<Rightarrow> int) \<Rightarrow> 'i \<Rightarrow> (u64 \<Rightarrow> u8) \<Rightarrow> u64 \<Rightarrow> u64 \<Rightarrow> 'e option \<Rightarrow> u64 \<Rightarrow> nat \<Rightarrow> int" where
  "vec_lane ev \<sigma> mem a vsize e vece i = lane (vec_elt vece) i (vec_shadow ev \<sigma> mem a vsize e)"

definition elt_addr :: "u64 \<Rightarrow> u64 \<Rightarrow> nat \<Rightarrow> u64" where
  "elt_addr a vece i = a + of_nat (i * (vec_elt vece div 8))"

lemma constraints_for_follows:
  "constraints_for evb n cond took pc new \<Longrightarrow>
    follows evb \<sigma> (rt\<lparr>rt_path := rt_path rt @ new\<rparr>) \<longleftrightarrow> follows evb \<sigma> rt \<and> (\<forall>i < n. cond i \<sigma> = took i)"
  by (simp add: follows_def constraints_for_all)

lemma cond_helpers_concrete:
  assumes "vec_shape vsize vece"
  shows "sym_cmp_vec B env a1 None a2 None c ra vsize vece rt = Some (None, rt)"
    "sym_ternary_vec B env a1 None a2 None c ra vsize vece rt = Some (None, rt)"
  by (rule vec_shapeE [OF assms], use assms in \<open>auto simp: sym_cmp_vec_def sym_ternary_vec_def vec_shape_def\<close>)+

text \<open>C11: When an operand is symbolic, the helper of vector comparisons returns NULL and pushes exactly one path constraint
  per element, in the order of the elements: constraint \<open>i\<close> is true of an input if and only if the comparison of the
  \<open>i\<close>-th elements is, and its outcome is whether the first byte of element \<open>i\<close> of the concrete result is not zero. So an input
  satisfies the new path constraints if and only if it satisfied the old ones and gives all comparisons these outcomes.
  The helper of minimum and maximum does the same with the outcome that it infers from comparing the result with the
  first operand, and returns the vector of the elements that it took to be chosen. When both operands are concrete, both
  helpers return NULL and push nothing. The buffers of the result and of the first operand do not wrap around the end of
  the address space.\<close>

theorem sym_vec_conditions_correct:
  assumes "sym_backend B ev evb" and "vec_shape vsize vece" "vec_typed B vsize e1" "vec_typed B vsize e2"
    and "is_compare c" "unat ra + 256 < 2 ^ 64" "unat a1 + 256 < 2 ^ 64" "vece_element_size vece = Some es"
  shows "let n = vec_count vsize vece;
      x = (\<lambda>\<sigma>. vec_lane ev \<sigma> (rt_mem rt) a1 vsize e1 vece); y = (\<lambda>\<sigma>. vec_lane ev \<sigma> (rt_mem rt) a2 vsize e2 vece);
      cond = (\<lambda>i \<sigma>. bv_cond (vec_elt vece) c (x \<sigma> i) (y \<sigma> i));
      took = (\<lambda>i. rt_mem rt (elt_addr ra vece i) \<noteq> 0);
      chosen = (\<lambda>i. read_buffer (rt_mem rt) (elt_addr ra vece i) es = read_buffer (rt_mem rt) (elt_addr a1 vece i) es) in
    if e1 = None \<and> e2 = None then
      sym_cmp_vec B env a1 e1 a2 e2 c ra vsize vece rt = Some (None, rt) \<and>
      sym_ternary_vec B env a1 e1 a2 e2 c ra vsize vece rt = Some (None, rt)
    else
      (\<exists>new. sym_cmp_vec B env a1 e1 a2 e2 c ra vsize vece rt = Some (None, rt\<lparr>rt_path := rt_path rt @ new\<rparr>) \<and>
        constraints_for evb n cond took (get_pc env) new \<and>
        (\<forall>\<sigma>. follows evb \<sigma> (rt\<lparr>rt_path := rt_path rt @ new\<rparr>) \<longleftrightarrow> follows evb \<sigma> rt \<and> (\<forall>i < n. cond i \<sigma> = took i)))
    \<and> (\<exists>new r. sym_ternary_vec B env a1 e1 a2 e2 c ra vsize vece rt = Some (Some r, rt\<lparr>rt_path := rt_path rt @ new\<rparr>) \<and>
        sym_bits_helper B r = vsize \<and> constraints_for evb n cond chosen (get_pc env) new \<and>
        (\<forall>\<sigma>. (follows evb \<sigma> (rt\<lparr>rt_path := rt_path rt @ new\<rparr>) \<longleftrightarrow> follows evb \<sigma> rt \<and> (\<forall>i < n. cond i \<sigma> = chosen i)) \<and>
          (\<forall>i < n. lane (vec_elt vece) i (ev \<sigma> r) = (if chosen i then x \<sigma> i else y \<sigma> i))))"
proof (cases "e1 = None \<and> e2 = None")
  case True
  then show ?thesis by (simp add: cond_helpers_concrete [OF assms(2)])
next
  case False
  then have e: "e1 \<noteq> None \<or> e2 \<noteq> None" by auto
  note cmp = sym_backend.cmp_vec_ok [OF assms(1-4) e assms(5,6), of env a1 a2 rt, folded vec_lane_def elt_addr_def]
  note ter = sym_backend.ternary_vec_ok [OF assms(1-4) e assms(5-8), of env a2 rt, folded vec_lane_def elt_addr_def]
  let ?n = "vec_count vsize vece" and ?x = "\<lambda>\<sigma>. vec_lane ev \<sigma> (rt_mem rt) a1 vsize e1 vece"
    and ?y = "\<lambda>\<sigma>. vec_lane ev \<sigma> (rt_mem rt) a2 vsize e2 vece"
  let ?cond = "\<lambda>i \<sigma>. bv_cond (vec_elt vece) c (?x \<sigma> i) (?y \<sigma> i)"
    and ?chosen = "\<lambda>i. read_buffer (rt_mem rt) (elt_addr ra vece i) es = read_buffer (rt_mem rt) (elt_addr a1 vece i) es"
  obtain new1 where 1: "sym_cmp_vec B env a1 e1 a2 e2 c ra vsize vece rt = Some (None, rt\<lparr>rt_path := rt_path rt @ new1\<rparr>)"
    "constraints_for evb ?n ?cond (\<lambda>i. rt_mem rt (elt_addr ra vece i) \<noteq> 0) (get_pc env) new1"
    using cmp by blast
  obtain new2 r where 2: "sym_ternary_vec B env a1 e1 a2 e2 c ra vsize vece rt = Some (Some r, rt\<lparr>rt_path := rt_path rt @ new2\<rparr>)"
    "sym_bits_helper B r = vsize" "constraints_for evb ?n ?cond ?chosen (get_pc env) new2"
    "\<forall>\<sigma>. \<forall>i < ?n. lane (vec_elt vece) i (ev \<sigma> r) = (if ?chosen i then ?x \<sigma> i else ?y \<sigma> i)"
    using ter by blast
  show ?thesis
    unfolding Let_def if_not_P [OF False]
    by (intro conjI exI [of _ new1] exI [of _ new2] exI [of _ r] allI)
      (use 1 2 constraints_for_follows [OF 1(2)] constraints_for_follows [OF 2(3)] in simp_all)
qed

text \<open>C29: Duplicating a value into a vector puts its low bits into every element. It aborts when a symbolic 32-bit
  value is duplicated into 64-bit elements, because it extends by the element size instead of up to it; and loading an
  element of 8 or 16 bits with a symbolic byte and duplicating it always aborts, because the width is asserted to be 32
  or 64.\<close>

theorem sym_duplicate_correct:
  assumes "sym_memory B ev evb msym mev" and "vec_shape vsize vece" "sym_width B v = w" "w = 32 \<or> w = 64"
  shows "(vec_elt vece \<le> w \<longrightarrow> (\<exists>r. sym_duplicate_value_into_vec B (Some v) vsize vece = Some (Some r) \<and> sym_bits_helper B r = vsize \<and>
      (\<forall>\<sigma> i. i < vec_count vsize vece \<longrightarrow> lane (vec_elt vece) i (ev \<sigma> r) = ev \<sigma> v mod 2 ^ vec_elt vece)))
   \<and> (w < vec_elt vece \<longrightarrow> sym_duplicate_value_into_vec B (Some v) vsize vece = None)
   \<and> (vec_elt vece < 32 \<and> (\<exists>i < vec_elt vece div 8. msym (rt_shadow rt) (a + ofs + of_nat i)) \<longrightarrow>
      sym_load_and_duplicate_into_vec B a ofs vsize vece rt = None)"
proof -
  have b: "sym_backend B ev evb" using assms(1) by (simp add: sym_memory_def)
  have "vece = 3" if "w < vec_elt vece" using that assms(2,4) by (auto simp: vec_shape_def vec_elt_def)
  moreover have "vece \<in> {0, 1}" if "vec_elt vece < 32" using that assms(2) by (auto simp: vec_shape_def vec_elt_def)
  moreover have "w = 32" if "w < vec_elt vece" using that assms(2,4) by (auto simp: vec_shape_def vec_elt_def)
  ultimately show ?thesis
    using sym_backend.duplicate_ok [OF b assms(2-4)] sym_backend.duplicate_fails [OF b, of vsize v]
      sym_memory.load_duplicate_fails [OF assms(1,2)] assms(2,3) by auto
qed

definition vec_rt :: "(sexpr, smem) rt" where
  "vec_rt = \<lparr>rt_path = [], rt_shadow = (\<lambda>_. None)(0x4000 := Some (SInput 0 8)), rt_mem = (\<lambda>_. 0), rt_events = []\<rparr>"

definition vec_env :: CPUArchState where
  "vec_env = \<lparr>cpu_get_tb_cpu_state = (0x400000, 0, 0), tlb_vaddr_to_host = (\<lambda>a _ _. a)\<rparr>"

lemma vec_shape_demo: "vec_shape 64 2" "vec_elt 2 = 32" "vec_count 64 2 = 2" "vec_elt 3 = 64" "vec_count 64 3 = 1" "vec_shape 64 3" "vec_elt 0 = 8" "vec_count 64 0 = 8" "vec_shape 64 0"
  by (simp_all add: vec_shape_def vec_elt_def vec_count_def)

lemma read_buffer_demo: "read_buffer (\<lambda>_. v) a b = replicate (unat b div 8) v"
  by (simp add: read_buffer_def map_replicate_const)

lemma bytes_val_demo: "bytes_val (replicate 8 1) = 0x0101010101010101" "bytes_val (replicate k 0) = 0"
proof -
  show "bytes_val (replicate 8 1) = 0x0101010101010101" by code_simp
  show "bytes_val (replicate k 0) = 0" by (induction k) simp_all
qed

theorem sym_vec_witness:
  "\<exists>r. sym_binary_vec term_backend sym_add_vec (\<lambda>_. 1) 0x1000 (Some (SInput 0 64)) 0x2000 None 64 2 = Some (Some r) \<and>
     lane 32 0 (sval (\<lambda>_. 0x7FFFFFFFF) r) = 0x01010100 \<and> lane 32 1 (sval (\<lambda>_. 0x7FFFFFFFF) r) = 0x01010108"
proof -
  obtain r where r: "sym_binary_vec term_backend sym_add_vec (\<lambda>_. 1) 0x1000 (Some (SInput 0 64)) 0x2000 None 64 2 = Some (Some r)"
    "\<And>\<sigma> i. let x = lane 32 i (vec_shadow sval \<sigma> (\<lambda>_. 1) 0x1000 64 (Some (SInput 0 64))); y = lane 32 i (vec_shadow sval \<sigma> (\<lambda>_. 1) 0x2000 64 None)
       in i < 2 \<longrightarrow> lane 32 i (sval \<sigma> r) = vec_sem 32 sym_add_vec x y"
    using sym_vec_correct [OF tb.sym_backend_axioms vec_shape_demo(1), of "Some (SInput 0 64)" None sym_add_vec "\<lambda>_. 1" "0x1000" "0x2000" 0]
    by (auto simp: vec_typed_def vec_shape_demo sym_width_def)
  show ?thesis
    using r(1) r(2) [of 0 "\<lambda>_. 0x7FFFFFFFF"] r(2) [of 1 "\<lambda>_. 0x7FFFFFFFF"]
    by (simp add: vec_shadow_def read_buffer_demo bytes_val_demo lane_def take_bit_eq_mod drop_bit_eq_div)
qed

lemma vec_rt_simps: "rt_mem vec_rt = (\<lambda>_. 0)" "rt_path vec_rt = []" "follows evb \<sigma> vec_rt"
  by (simp_all add: vec_rt_def follows_def)

lemma lane_0: "lane n i 0 = 0"
  by (simp add: lane_def)

theorem sym_vec_conditions_witness:
  "\<exists>new. sym_cmp_vec term_backend vec_env 0x1000 (Some (SInput 0 64)) 0x2000 None TCG_COND_EQ 0x3000 64 2 vec_rt =
       Some (None, vec_rt\<lparr>rt_path := new\<rparr>) \<and> length new = 2 \<and>
     (\<forall>\<sigma>. follows strue \<sigma> (vec_rt\<lparr>rt_path := new\<rparr>) \<longleftrightarrow> (\<forall>i < 2. lane 32 i (take_bit 64 (\<sigma> 0)) \<noteq> 0))"
proof -
  have "vec_typed term_backend 64 (Some (SInput 0 64))" "vec_typed term_backend 64 None" "is_compare TCG_COND_EQ"
    "vece_element_size 2 = Some 32"
    by (simp_all add: vec_typed_def sym_width_def is_compare_def is_cond_def tcg_conds_def vece_element_size_def push_bit_eq_mult)
  from sym_vec_conditions_correct [OF tb.sym_backend_axioms vec_shape_demo(1) this(1,2,3) _ _ this(4), of "0x3000" "0x1000" vec_rt "0x2000" vec_env]
  show ?thesis
    by (auto simp: constraints_for_def vec_rt_simps vec_shape_demo vec_lane_def vec_shadow_def read_buffer_demo bytes_val_demo
        lane_0 bv_cond_def)
qed

theorem sym_duplicate_witness:
  "\<exists>r. sym_duplicate_value_into_vec term_backend (Some (SInput 0 32)) 64 0 = Some (Some r) \<and> lane 8 3 (sval (\<lambda>_. 0x1234) r) = 0x34
   \<and> sym_duplicate_value_into_vec term_backend (Some (SInput 0 32)) 64 3 = None
   \<and> sym_load_and_duplicate_into_vec term_backend 0x4000 0 64 0 vec_rt = None"
  using sym_duplicate_correct [OF tm.sym_memory_axioms vec_shape_demo(9), of "SInput 0 32" 32 vec_rt "0x4000" 0]
    sym_duplicate_correct [OF tm.sym_memory_axioms vec_shape_demo(6), of "SInput 0 32" 32]
  by (auto simp: vec_shape_demo sym_width_def vec_rt_def term_msym_def)



end
