(* ===== verification/Spec2Isabelle.thy ===== *)
theory Spec2Isabelle
  imports Gen_Props Sym_Vec_Correct
begin

text \<open>
  Verification of the symbolic execution of SymQEMU.

  \<^bold>\<open>The program.\<close> QEMU translates guest code into blocks of TCG operations, which a back end compiles or
  interprets. SymQEMU executes guest programs concretely and symbolically at once: every temporary of a block
  has a second temporary that holds a pointer to a symbolic expression (NULL when the value does not depend on the
  input); each generator \<open>tcg_gen_\<dots>\<close> (\<open>tcg/tcg-op.c\<close>) emits, beside the operation, a call of a helper that
  builds the expression of the result; the helpers (\<open>accel/tcg/tcg-runtime-sym.c\<close>, \<open>tcg-runtime-sym-common.c\<close>,
  \<open>tcg-runtime-sym-vec.c\<close>) turn operands into expressions, call the expression backend, and push a path constraint
  for each comparison. The backend (SymCC's runtime) is a submodule outside the repository.

  \<^bold>\<open>Theories and sources.\<close>
    \<^item> \<open>Prelude\<close>: machine integers as words, assertions and undefined shifts as \<open>None\<close>, shared lemmas.
    \<^item> \<open>TCG_Cond\<close>: condition codes (\<open>include/tcg/tcg-cond.h\<close>) and the comparison of \<open>tcg/tci.c\<close>. \<open>Bitops\<close>: bit
      fields, rotations, swaps and counts (\<open>include/qemu/bitops.h\<close>, \<open>host-utils.h\<close>, \<open>bswap.h\<close>).
    \<^item> \<open>Backend\<close>: the functions of the submodule as the record \<open>backend\<close>, and what the callers rely on as the locale
      \<open>sym_backend\<close> (widths and values of the built expressions, over an arbitrary evaluation \<open>ev\<close> of expressions at an
      input) and its extension \<open>sym_memory\<close> (shadow memory). \<open>Term_Backend\<close> interprets both on terms.
    \<^item> \<open>Sym_Runtime\<close>, \<open>Sym_Vec\<close>: the helpers, one definition per C function. The state \<open>rt\<close> holds the path
      constraints, the shadow memory, the host memory and the notifications.
    \<^item> \<open>Temps\<close>: temporaries, globals, constants and their expression temporaries (\<open>tcg/tcg.c\<close>,
      \<open>include/tcg/tcg.h\<close>). The context \<open>TCGContext\<close> has the array of temporaries, the free lists, the table of
      constants, the labels and the emitted operations.
    \<^item> \<open>TCG_Ops\<close>: the operations and the helpers they call, executed on a machine of slots with the semantics of the
      interpreter (\<open>tcg/tci.c\<close>, \<open>accel/tcg/tcg-runtime.c\<close>).
    \<^item> \<open>Gen\<close>, \<open>Gen32\<close>, \<open>Gen64\<close>: the generators, with the host's capabilities \<open>TCG_TARGET_HAS_\<dots>\<close> as the record
      \<open>tcg_host\<close>, an argument of the generators that test them.

  \<^bold>\<open>What is shown.\<close>
    \<^item> \<open>Runtime_Correct\<close>: on every backend that meets the contract, each scalar helper returns NULL exactly for
      concrete operands and otherwise an expression that evaluates, at every input, to the operation on what the
      operands stand for; byte swaps, fields and extensions at their full range of widths, and where they end
      abnormally; the path constraint of a comparison; loads and stores of guest memory with symbolic addresses and
      their round trip. Where the code does something else (the conditional move), the theorem states that.
    \<^item> \<open>Sym_Vec_Correct\<close>: the vector helpers act on every element; comparisons push one constraint per element that
      holds for an input exactly if the comparison of that element comes out as in the run; the cases in which
      minimum and maximum push a constraint that the run itself violates; which duplications fail.
    \<^item> \<open>Temps\<close>: the invariant \<open>wf_temps\<close> (each temporary is followed by its expression, the free lists hold free
      temporaries, constants are interned) is kept by every operation; a temporary that is freed is allocated
      again before the array grows; expression slots of globals are disjoint.
    \<^item> \<open>Gen_Logic\<close> relates generators to the code they emit: \<open>runs B env fl s m gen Q\<close> says that the generator
      returns, and that the emitted operations, executed on machine \<open>m\<close>, end with control \<open>fl\<close> in a state that
      satisfies \<open>Q\<close>; \<open>St B ev \<sigma> b L A r s m\<close> that at least \<open>b\<close> more temporaries fit, the temporaries of \<open>L\<close> are
      writable, and a temporary \<open>t\<close> with \<open>A t = V64 c x\<close> holds \<open>c\<close> and its expression evaluates to \<open>x\<close> at the input
      \<open>\<sigma>\<close>. \<open>Gen_Words\<close> has the equations between words.
    \<^item> \<open>Gen_Correct64\<close>, \<open>Gen_Cond64\<close>, \<open>Gen_Correct32\<close>, \<open>Gen_Cond32\<close>: one rule per generator: number and expression are the
      same function of the operands (\<open>lockstep\<close>), on every host, whichever sequence the generator chooses. \<open>Gen_Block\<close>
      composes them to sequences of instructions with a branch, refined against the meaning of the instructions on
      registers. \<open>Gen_Demo\<close> is a sample context for instances. \<open>Gen_Props\<close> has the theorems: lockstep of all groups of
      generators, soundness and precision of the path constraints, bounds on temporaries, and the exact effect of the
      generators that are not in lockstep (set on condition onto its own operand, unsigned remainder of 64 bits, bit
      counts through number helpers, high halves of products).

  \<^bold>\<open>Conventions.\<close> A failed assertion, \<open>abort\<close>, an undefined shift or division, and the overflow of a translation
  block are \<open>None\<close>; theorems state that the functions return. All recursion is structural or has a termination
  proof, so there is no fuel. The number \<open>b\<close> in \<open>St\<close> is the room for temporaries: \<open>TCG_MAX_TEMPS\<close> is 512, and each rule
  names the temporaries that its generator may allocate, two slots for each.
  An operand that is itself a target is allowed except where a statement says otherwise: generators that emit the
  helper call after the operation need distinct targets.

  \<^bold>\<open>Not modelled.\<close> The expression backend itself (a parameter); the vector generators (\<open>tcg/tcg-op-vec.c\<close>,
  \<open>tcg-op-gvec.c\<close>) and the generators of guest memory accesses (\<open>tcg/tcg-op-ldst.c\<close>), whose helpers are modelled; the
  passes over the operation list after generation (\<open>tcg/optimize.c\<close>, liveness, register allocation) and host code
  generation; the guest translators, the translation and execution loops and user-mode emulation, which are clients of
  the modelled parts or input and output. Pointers are 64-bit words, the host is little-endian and of 64 bits, and
  garbage collection of expressions has no effect on values. Host vector sizes and element sizes are those that the
  helpers assert.
\<close>

end
